(* ===== verification/Prelude.thy ===== *)
theory Prelude
  imports Main "HOL-Library.Sublist" "HOL-Library.Multiset"
begin

text \<open>
  Shared ground of the development.
  \<^item> Asynchronous handlers that read and write shared state and may throw are programs
    \<open>'s \<Rightarrow> ('e + 'a) \<times> 's\<close>: an exception keeps the writes made before it, as it does in the
    source, where only an explicit transaction rolls back.
  \<^item> A database table is a list of rows in insertion order; \<open>row_store\<close> is the contract
    that the clients of a table use (look up, insert, update and delete by key).
  \<^item> The JavaScript string functions the sources use, over \<open>string\<close>. A string is a list of
    one-unit characters; literals outside ASCII are the UTF-8 bytes of the source file and are
    only ever concatenated.
\<close>

named_theorems keeps_rules \<comment> \<open>programs that keep an invariant\<close>
named_theorems prog_simps \<comment> \<open>the programming constructs, applied to a state\<close>

section \<open>Programs with state and exceptions\<close>

type_synonym ('s, 'e, 'a) prog = "'s \<Rightarrow> ('e + 'a) \<times> 's"

definition ret :: "'a \<Rightarrow> ('s, 'e, 'a) prog" where
  "ret a = (\<lambda>s. (Inr a, s))"

definition throw :: "'e \<Rightarrow> ('s, 'e, 'a) prog" where
  "throw e = (\<lambda>s. (Inl e, s))"

definition bindE :: "('s, 'e, 'a) prog \<Rightarrow> ('a \<Rightarrow> ('s, 'e, 'b) prog) \<Rightarrow> ('s, 'e, 'b) prog" where
  "bindE m f = (\<lambda>s. case m s of (Inl e, s') \<Rightarrow> (Inl e, s') | (Inr a, s') \<Rightarrow> f a s')"

definition thenE :: "('s, 'e, 'a) prog \<Rightarrow> ('s, 'e, 'b) prog \<Rightarrow> ('s, 'e, 'b) prog" where
  "thenE m n = bindE m (\<lambda>_. n)"

definition catchE :: "('s, 'e, 'a) prog \<Rightarrow> ('e \<Rightarrow> ('s, 'e, 'a) prog) \<Rightarrow> ('s, 'e, 'a) prog" where
  "catchE m h = (\<lambda>s. case m s of (Inl e, s') \<Rightarrow> h e s' | (Inr a, s') \<Rightarrow> (Inr a, s'))"

definition getS :: "('s \<Rightarrow> 'a) \<Rightarrow> ('s, 'e, 'a) prog" where
  "getS f = (\<lambda>s. (Inr (f s), s))"

definition modS :: "('s \<Rightarrow> 's) \<Rightarrow> ('s, 'e, unit) prog" where
  "modS f = (\<lambda>s. (Inr (), f s))"

definition liftE :: "'e + 'a \<Rightarrow> ('s, 'e, 'a) prog" where
  "liftE r = (\<lambda>s. (r, s))"

definition guardE :: "bool \<Rightarrow> 'e \<Rightarrow> ('s, 'e, unit) prog" where
  "guardE b e = (if b then ret () else throw e)"

definition someE :: "'e \<Rightarrow> 'a option \<Rightarrow> ('s, 'e, 'a) prog" where
  "someE e v = (case v of None \<Rightarrow> throw e | Some a \<Rightarrow> ret a)"

fun forE :: "('x \<Rightarrow> ('s, 'e, unit) prog) \<Rightarrow> 'x list \<Rightarrow> ('s, 'e, unit) prog" where
  "forE f [] = ret ()"
| "forE f (x # xs) = thenE (f x) (forE f xs)"

lemma ret_apply [prog_simps]: "ret a s = (Inr a, s)"
  by (simp add: ret_def)

lemma throw_apply [prog_simps]: "throw e s = (Inl e, s)"
  by (simp add: throw_def)

lemma bindE_apply [prog_simps]:
  "bindE m f s = (case m s of (Inl e, s') \<Rightarrow> (Inl e, s') | (Inr a, s') \<Rightarrow> f a s')"
  by (simp add: bindE_def)

lemma thenE_apply [prog_simps]:
  "thenE m n s = (case m s of (Inl e, s') \<Rightarrow> (Inl e, s') | (Inr a, s') \<Rightarrow> n s')"
  by (simp add: thenE_def bindE_def)

lemma catchE_apply [prog_simps]:
  "catchE m h s = (case m s of (Inl e, s') \<Rightarrow> h e s' | (Inr a, s') \<Rightarrow> (Inr a, s'))"
  by (simp add: catchE_def)

lemma getS_apply [prog_simps]: "getS f s = (Inr (f s), s)"
  by (simp add: getS_def)

lemma modS_apply [prog_simps]: "modS f s = (Inr (), f s)"
  by (simp add: modS_def)

lemma liftE_apply [prog_simps]: "liftE r s = (r, s)"
  by (simp add: liftE_def)

lemma guardE_apply [prog_simps]: "guardE b e s = (if b then Inr () else Inl e, s)"
  by (simp add: guardE_def ret_def throw_def)

lemma someE_apply [prog_simps]:
  "someE e v s = (case v of None \<Rightarrow> Inl e | Some a \<Rightarrow> Inr a, s)"
  by (cases v) (simp_all add: someE_def ret_def throw_def)

text \<open>Sequencing is associative, and \<open>ret\<close> is its unit.\<close>

lemma bindE_ret_left [simp]: "bindE (ret a) f = f a"
  by (simp add: bindE_def ret_def)

lemma bindE_ret_right [simp]: "bindE m ret = m"
  by (rule ext) (auto simp: bindE_def ret_def split: prod.splits sum.splits)

lemma bindE_assoc: "bindE (bindE m f) g = bindE m (\<lambda>a. bindE (f a) g)"
  by (rule ext) (auto simp: bindE_def split: prod.splits sum.splits)

subsection \<open>Invariants of programs\<close>

definition keeps :: "('s \<Rightarrow> bool) \<Rightarrow> ('s, 'e, 'a) prog \<Rightarrow> bool" where
  "keeps I m \<longleftrightarrow> (\<forall>s. I s \<longrightarrow> I (snd (m s)))"

lemma keepsI: "(\<And>s. I s \<Longrightarrow> I (snd (m s))) \<Longrightarrow> keeps I m"
  by (simp add: keeps_def)

lemma keepsD: "keeps I m \<Longrightarrow> I s \<Longrightarrow> I (snd (m s))"
  by (simp add: keeps_def)

lemma keeps_ret [keeps_rules]: "keeps I (ret a)"
  by (simp add: keeps_def prog_simps)

lemma keeps_throw [keeps_rules]: "keeps I (throw e)"
  by (simp add: keeps_def prog_simps)

lemma keeps_getS [keeps_rules]: "keeps I (getS f)"
  by (simp add: keeps_def prog_simps)

lemma keeps_liftE [keeps_rules]: "keeps I (liftE r)"
  by (simp add: keeps_def prog_simps)

lemma keeps_guardE [keeps_rules]: "keeps I (guardE b e)"
  by (simp add: keeps_def prog_simps)

lemma keeps_someE [keeps_rules]: "keeps I (someE e v)"
  by (simp add: keeps_def prog_simps)

lemma keeps_bindE [keeps_rules]:
  assumes "keeps I m" and "\<And>a. keeps I (f a)"
  shows "keeps I (bindE m f)"
  using assms by (fastforce simp: keeps_def bindE_apply split: prod.splits sum.splits)

lemma keeps_thenE [keeps_rules]:
  assumes "keeps I m" and "keeps I n"
  shows "keeps I (thenE m n)"
  using assms by (simp add: thenE_def keeps_bindE)

lemma keeps_catchE [keeps_rules]:
  assumes "keeps I m" and "\<And>e. keeps I (h e)"
  shows "keeps I (catchE m h)"
  using assms by (fastforce simp: keeps_def catchE_apply split: prod.splits sum.splits)

lemma keeps_if [keeps_rules]: "keeps I m \<Longrightarrow> keeps I n \<Longrightarrow> keeps I (if b then m else n)"
  by simp

lemma keeps_option [keeps_rules]:
  assumes "keeps I m" and "\<And>a. keeps I (f a)"
  shows "keeps I (case v of None \<Rightarrow> m | Some a \<Rightarrow> f a)"
  using assms by (cases v) simp_all

lemma keeps_forE [keeps_rules]:
  assumes "\<And>x. keeps I (f x)"
  shows "keeps I (forE f xs)"
  by (induction xs) (simp_all only: forE.simps keeps_ret keeps_thenE assms)

section \<open>Sorting with a comparator\<close>

text \<open>
  \<^verbatim>\<open>Array.prototype.sort\<close> with a comparison function, and a query's \<^verbatim>\<open>orderBy\<close>: elements are taken
  from the left and each is put before the first element it compares below. With a consistent
  comparator (the locale) every stable sort gives this list; a query's order among equal keys is
  not specified by the database, and here it is the insertion order of the rows.
\<close>

fun js_insert :: "('a \<Rightarrow> 'a \<Rightarrow> int) \<Rightarrow> 'a \<Rightarrow> 'a list \<Rightarrow> 'a list" where
  "js_insert cmp x [] = [x]"
| "js_insert cmp x (y # ys) = (if cmp x y < 0 then x # y # ys else y # js_insert cmp x ys)"

definition js_sort :: "('a \<Rightarrow> 'a \<Rightarrow> int) \<Rightarrow> 'a list \<Rightarrow> 'a list" where
  "js_sort cmp xs = foldl (\<lambda>acc x. js_insert cmp x acc) [] xs"

lemma js_sort_Nil [simp]: "js_sort cmp [] = []"
  by (simp add: js_sort_def)

lemma js_sort_snoc [simp]: "js_sort cmp (xs @ [x]) = js_insert cmp x (js_sort cmp xs)"
  by (simp add: js_sort_def)

lemma js_sort_single [simp]: "js_sort cmp [a] = [a]"
  by (simp add: js_sort_def)

lemma mset_js_insert [simp]: "mset (js_insert cmp x xs) = add_mset x (mset xs)"
  by (induction xs) auto

lemma mset_js_sort [simp]: "mset (js_sort cmp xs) = mset xs"
  by (induction xs rule: rev_induct) simp_all

lemma set_js_insert [simp]: "set (js_insert cmp x xs) = insert x (set xs)"
  by (induction xs) auto

lemma set_js_sort [simp]: "set (js_sort cmp xs) = set xs"
  by (metis mset_js_sort set_mset_mset)

lemma length_js_sort [simp]: "length (js_sort cmp xs) = length xs"
  by (metis mset_js_sort size_mset)

lemma js_sort_eq_Nil [simp]: "js_sort cmp xs = [] \<longleftrightarrow> xs = []"
  by (metis length_0_conv length_js_sort)

locale js_comparator =
  fixes cmp :: "'a \<Rightarrow> 'a \<Rightarrow> int"
  assumes cmp_anti: "cmp a b < 0 \<longleftrightarrow> 0 < cmp b a"
    and cmp_trans: "cmp a b \<le> 0 \<Longrightarrow> cmp b c \<le> 0 \<Longrightarrow> cmp a c \<le> 0"
begin

lemma sorted_insert:
  assumes "sorted_wrt (\<lambda>a b. cmp a b \<le> 0) ys"
  shows "sorted_wrt (\<lambda>a b. cmp a b \<le> 0) (js_insert cmp x ys)"
  using assms
proof (induction ys)
  case (Cons y ys)
  have "cmp y x \<le> 0" if "\<not> cmp x y < 0"
    using that cmp_anti [of x y] by simp
  with Cons show ?case by (auto intro: cmp_trans [of x y])
qed simp

lemma sorted_js_sort: "sorted_wrt (\<lambda>a b. cmp a b \<le> 0) (js_sort cmp xs)"
  by (induction xs rule: rev_induct) (simp_all add: sorted_insert)

lemma hd_js_sort:
  assumes "x \<in> set xs"
  shows "cmp (hd (js_sort cmp xs)) x \<le> 0"
proof -
  from assms have "x \<in> set (js_sort cmp xs)" by simp
  then show ?thesis using sorted_js_sort [of xs] cmp_anti [of x x]
    by (cases "js_sort cmp xs") auto
qed

end

text \<open>The comparators by an integer key, ascending and descending.\<close>

lemma js_comparator_asc: "js_comparator (\<lambda>a b. f a - f b)"
  by unfold_locales simp_all

lemma js_comparator_desc: "js_comparator (\<lambda>a b. f b - f a)"
  by unfold_locales simp_all

section \<open>Tables of rows\<close>

definition find_row :: "('r \<Rightarrow> 'k) \<Rightarrow> 'k \<Rightarrow> 'r list \<Rightarrow> 'r option" where
  "find_row key k t = find (\<lambda>r. key r = k) t"

definition insert_row :: "'r \<Rightarrow> 'r list \<Rightarrow> 'r list" where
  "insert_row r t = t @ [r]"

definition update_row :: "('r \<Rightarrow> 'k) \<Rightarrow> 'k \<Rightarrow> ('r \<Rightarrow> 'r) \<Rightarrow> 'r list \<Rightarrow> 'r list" where
  "update_row key k f t = map (\<lambda>r. if key r = k then f r else r) t"

definition delete_row :: "('r \<Rightarrow> 'k) \<Rightarrow> 'k \<Rightarrow> 'r list \<Rightarrow> 'r list" where
  "delete_row key k t = filter (\<lambda>r. key r \<noteq> k) t"

definition keyed :: "('r \<Rightarrow> 'k) \<Rightarrow> 'r list \<Rightarrow> bool" where
  "keyed key t \<longleftrightarrow> distinct (map key t)"

text \<open>The contract of a table, for the components that use it.\<close>

locale row_store =
  fixes key :: "'r \<Rightarrow> 'k"
    and rows :: "'t \<Rightarrow> 'r set"
    and look :: "'k \<Rightarrow> 't \<Rightarrow> 'r option"
    and ins :: "'r \<Rightarrow> 't \<Rightarrow> 't"
    and upd :: "'k \<Rightarrow> ('r \<Rightarrow> 'r) \<Rightarrow> 't \<Rightarrow> 't"
    and del :: "'k \<Rightarrow> 't \<Rightarrow> 't"
    and invar :: "'t \<Rightarrow> bool"
  assumes look_iff: "invar t \<Longrightarrow> look k t = Some r \<longleftrightarrow> r \<in> rows t \<and> key r = k"
    and rows_ins: "rows (ins r t) = insert r (rows t)"
    and rows_upd: "rows (upd k f t) = (\<lambda>r. if key r = k then f r else r) ` rows t"
    and rows_del: "rows (del k t) = {r \<in> rows t. key r \<noteq> k}"
    and invar_ins: "invar t \<Longrightarrow> key r \<notin> key ` rows t \<Longrightarrow> invar (ins r t)"
    and invar_upd: "invar t \<Longrightarrow> (\<And>r. key (f r) = key r) \<Longrightarrow> invar (upd k f t)"
    and invar_del: "invar t \<Longrightarrow> invar (del k t)"
begin

lemma look_None: "invar t \<Longrightarrow> look k t = None \<longleftrightarrow> k \<notin> key ` rows t"
  by (metis (no_types, opaque_lifting) image_iff look_iff not_None_eq)

lemma look_ins_same: "invar t \<Longrightarrow> key r \<notin> key ` rows t \<Longrightarrow> look (key r) (ins r t) = Some r"
  by (simp add: look_iff invar_ins rows_ins)

lemma look_ins_other:
  assumes "invar t" and "key r \<notin> key ` rows t" and "k \<noteq> key r"
  shows "look k (ins r t) = look k t"
proof -
  have "look k (ins r t) = Some x \<longleftrightarrow> look k t = Some x" for x
    using assms by (auto simp: look_iff invar_ins rows_ins)
  then show ?thesis by (metis not_None_eq)
qed

lemma look_upd_same:
  assumes "invar t" and "\<And>r. key (f r) = key r"
  shows "look k (upd k f t) = map_option f (look k t)"
proof (cases "look k t")
  case None
  with assms have "look k (upd k f t) \<noteq> Some x" for x
    by (auto simp: look_iff invar_upd rows_upd look_None split: if_splits)
  with None show ?thesis by auto
next
  case (Some r)
  with assms(1) have r: "r \<in> rows t" "key r = k"
    by (simp_all add: look_iff)
  then have "f r \<in> rows (upd k f t)"
    by (auto simp: rows_upd intro!: rev_image_eqI [of r])
  with r assms have "look k (upd k f t) = Some (f r)"
    by (simp add: look_iff invar_upd)
  with Some show ?thesis by simp
qed

lemma look_upd_other:
  assumes "invar t" and "\<And>r. key (f r) = key r" and "k \<noteq> j"
  shows "look k (upd j f t) = look k t"
proof -
  have "look k (upd j f t) = Some x \<longleftrightarrow> look k t = Some x" for x
    using assms by (auto simp: look_iff invar_upd rows_upd image_iff split: if_splits)
  then show ?thesis by (metis not_None_eq)
qed

lemma look_del_same: "invar t \<Longrightarrow> look k (del k t) = None"
  by (auto simp: look_None invar_del rows_del)

lemma look_del_other:
  assumes "invar t" and "k \<noteq> j"
  shows "look k (del j t) = look k t"
proof -
  have "look k (del j t) = Some x \<longleftrightarrow> look k t = Some x" for x
    using assms by (auto simp: look_iff invar_del rows_del)
  then show ?thesis by (metis not_None_eq)
qed

end

lemma find_row_Some_iff:
  assumes "keyed key t"
  shows "find_row key k t = Some r \<longleftrightarrow> r \<in> set t \<and> key r = k"
  using assms by (induction t) (auto simp: find_row_def keyed_def rev_image_eqI)

lemma find_row_SomeD: "find_row key k t = Some r \<Longrightarrow> r \<in> set t \<and> key r = k"
  by (auto simp: find_row_def find_Some_iff)

lemma find_row_None: "find_row key k t = None \<longleftrightarrow> k \<notin> key ` set t"
  by (auto simp: find_row_def find_None_iff)

lemma map_key_update_row [simp]:
  assumes "\<And>r. key (f r) = key r"
  shows "map key (update_row key k f t) = map key t"
  using assms by (auto simp: update_row_def)

lemma keyed_update_row: "(\<And>r. key (f r) = key r) \<Longrightarrow> keyed key (update_row key k f t) = keyed key t"
  by (simp add: keyed_def)

lemma keyed_delete_row: "keyed key t \<Longrightarrow> keyed key (delete_row key k t)"
  by (simp add: keyed_def delete_row_def distinct_map_filter)

lemma keyed_filter: "keyed key t \<Longrightarrow> keyed key (filter P t)"
  by (simp add: keyed_def distinct_map_filter)

lemma keyed_insert_row: "keyed key (insert_row r t) \<longleftrightarrow> keyed key t \<and> key r \<notin> key ` set t"
  by (auto simp: keyed_def insert_row_def)

lemma set_update_row:
  "set (update_row key k f t) = (\<lambda>r. if key r = k then f r else r) ` set t"
  by (simp add: update_row_def)

lemma set_insert_row [simp]: "set (insert_row r t) = insert r (set t)"
  by (simp add: insert_row_def)

lemma set_delete_row [simp]: "set (delete_row key k t) = {r \<in> set t. key r \<noteq> k}"
  by (simp add: delete_row_def)

text \<open>Every list table meets the contract, for any key function.\<close>

lemma list_row_store:
  "row_store key set (find_row key) insert_row (update_row key) (delete_row key) (keyed key)"
  by unfold_locales
    (auto simp: find_row_Some_iff set_update_row keyed_insert_row keyed_update_row keyed_delete_row)

lemma find_row_update_row:
  assumes "\<And>r. key (f r) = key r"
  shows "find_row key k (update_row key j f t) =
    (if k = j then map_option f (find_row key k t) else find_row key k t)"
  using assms by (induction t) (auto simp: find_row_def update_row_def)

lemma find_row_insert_row:
  "find_row key k (insert_row r t) =
    (case find_row key k t of None \<Rightarrow> if key r = k then Some r else None | Some q \<Rightarrow> Some q)"
  by (induction t) (auto simp: find_row_def insert_row_def)

lemma update_row_absent: "k \<notin> key ` set t \<Longrightarrow> update_row key k f t = t"
  by (force simp: update_row_def intro!: map_idI)

lemma find_append:
  "find P (xs @ ys) = (case find P xs of None \<Rightarrow> find P ys | Some x \<Rightarrow> Some x)"
  by (induction xs) auto

lemma find_None_conv: "find P xs = None \<longleftrightarrow> (\<forall>x \<in> set xs. \<not> P x)"
  by (auto simp: find_None_iff)

end
