(* ===== verification/Js_Text.thy ===== *)
theory Js_Text
  imports Prelude
begin

text \<open>
  The JavaScript and Node string functions that the sources call, as executable functions on
  \<open>string\<close>: white space and \<open>trim\<close>, \<open>startsWith\<close>, \<open>includes\<close>, \<open>slice\<close>, \<open>toUpperCase\<close>,
  decimal printing and parsing, \<open>split\<close>, \<open>join\<close>, \<open>padStart\<close>, and the hexadecimal reading and
  printing of a \<open>Buffer\<close>. Text is a list of one-unit characters, so white space and letter case
  are those of ASCII. The lemmas are the round trips and the length and character facts that
  the components use.
\<close>

definition code_of :: "char \<Rightarrow> nat" where
  "code_of c = of_char c"

definition ws :: "char \<Rightarrow> bool" where
  "ws c \<longleftrightarrow> code_of c \<in> {9, 10, 11, 12, 13, 32}"

definition trim :: "string \<Rightarrow> string" where
  "trim s = rev (dropWhile ws (rev (dropWhile ws s)))"

definition startsWith :: "string \<Rightarrow> string \<Rightarrow> bool" where
  "startsWith s p \<longleftrightarrow> take (length p) s = p"

definition endsWith :: "string \<Rightarrow> string \<Rightarrow> bool" where
  "endsWith s p \<longleftrightarrow> startsWith (rev s) (rev p)"

fun str_includes :: "string \<Rightarrow> string \<Rightarrow> bool" where
  "str_includes [] p \<longleftrightarrow> p = []"
| "str_includes (c # cs) p \<longleftrightarrow> startsWith (c # cs) p \<or> str_includes cs p"

text \<open>\<open>s.slice(0, n)\<close>, \<open>s.slice(n)\<close> and \<open>s.slice(-n)\<close> for \<open>n > 0\<close>.\<close>

definition slice_to :: "nat \<Rightarrow> string \<Rightarrow> string" where
  "slice_to n s = take n s"

definition slice_from :: "nat \<Rightarrow> string \<Rightarrow> string" where
  "slice_from n s = drop n s"

definition slice_last :: "nat \<Rightarrow> string \<Rightarrow> string" where
  "slice_last n s = drop (length s - n) s"

definition upper_char :: "char \<Rightarrow> char" where
  "upper_char c = (if 97 \<le> code_of c \<and> code_of c \<le> 122 then char_of (code_of c - 32) else c)"

definition toUpperCase :: "string \<Rightarrow> string" where
  "toUpperCase s = map upper_char s"

definition digit_char :: "nat \<Rightarrow> char" where
  "digit_char n = char_of (48 + n)"

definition is_digit :: "char \<Rightarrow> bool" where
  "is_digit c \<longleftrightarrow> 48 \<le> code_of c \<and> code_of c \<le> 57"

definition digit_val :: "char \<Rightarrow> nat" where
  "digit_val c = code_of c - 48"

fun show_nat :: "nat \<Rightarrow> string" where
  "show_nat n = (if n < 10 then [digit_char n] else show_nat (n div 10) @ [digit_char (n mod 10)])"

declare show_nat.simps [simp del]

definition show_int :: "int \<Rightarrow> string" where
  "show_int i = (if i < 0 then ''-'' @ show_nat (nat (- i)) else show_nat (nat i))"

definition read_nat :: "string \<Rightarrow> nat" where
  "read_nat s = foldl (\<lambda>n c. 10 * n + digit_val c) 0 s"

text \<open>
  \<open>Number.parseInt(s, 10)\<close>: leading white space and one sign are skipped, the longest run of
  digits is read, and no digits give NaN, here \<open>None\<close>.
\<close>

definition parseInt :: "string \<Rightarrow> int option" where
  "parseInt s =
    (let t = dropWhile ws s;
         neg = startsWith t ''-'';
         u = (if neg \<or> startsWith t ''+'' then drop 1 t else t);
         ds = takeWhile is_digit u
     in if ds = [] then None
        else Some (if neg then - int (read_nat ds) else int (read_nat ds)))"

fun join :: "string \<Rightarrow> string list \<Rightarrow> string" where
  "join sep [] = []"
| "join sep [x] = x"
| "join sep (x # y # ys) = x @ sep @ join sep (y # ys)"

text \<open>\<open>s.split(c)\<close> for a one-character separator: always at least one part.\<close>

fun split_char :: "char \<Rightarrow> string \<Rightarrow> string list" where
  "split_char d [] = [[]]"
| "split_char d (c # cs) =
    (if c = d then [] # split_char d cs
     else (case split_char d cs of [] \<Rightarrow> [[c]] | p # ps \<Rightarrow> (c # p) # ps))"

definition padStart :: "nat \<Rightarrow> char \<Rightarrow> string \<Rightarrow> string" where
  "padStart n c s = replicate (n - length s) c @ s"

text \<open>A Node \<open>Buffer\<close> is a \<open>string\<close> of bytes; its hexadecimal text has two digits a byte.\<close>

definition hex_digit :: "nat \<Rightarrow> char" where
  "hex_digit n = (if n < 10 then char_of (48 + n) else char_of (87 + n))"

definition hex_val :: "char \<Rightarrow> nat option" where
  "hex_val c =
    (let n = code_of c
     in if 48 \<le> n \<and> n \<le> 57 then Some (n - 48)
        else if 97 \<le> n \<and> n \<le> 102 then Some (n - 87)
        else if 65 \<le> n \<and> n \<le> 70 then Some (n - 55)
        else None)"

fun toHex :: "string \<Rightarrow> string" where
  "toHex [] = []"
| "toHex (b # bs) = hex_digit (code_of b div 16) # hex_digit (code_of b mod 16) # toHex bs"

text \<open>\<open>Buffer.from(s, 'hex')\<close> stops at the first pair that is not two hexadecimal digits.\<close>

fun fromHex :: "string \<Rightarrow> string" where
  "fromHex (a # b # cs) =
    (case (hex_val a, hex_val b) of
       (Some m, Some n) \<Rightarrow> char_of (16 * m + n) # fromHex cs
     | _ \<Rightarrow> [])"
| "fromHex _ = []"

section \<open>Lemmas\<close>

lemma code_of_less [simp]: "code_of c < 256"
  by (simp add: code_of_def)

lemma code_of_char_of [simp]: "n < 256 \<Longrightarrow> code_of (char_of n) = n"
  by (simp add: code_of_def of_char_of)

lemma char_of_code_of [simp]: "char_of (code_of c) = c"
  by (simp add: code_of_def)

lemma startsWith_append [simp]: "startsWith (p @ s) p"
  by (simp add: startsWith_def)

lemma startsWith_iff: "startsWith s p \<longleftrightarrow> (\<exists>t. s = p @ t)"
  by (auto simp: startsWith_def) (metis append_take_drop_id)

lemma startsWith_Nil [simp]: "startsWith s []"
  by (simp add: startsWith_def)

lemma startsWith_Cons: "startsWith s (c # p) \<longleftrightarrow> (\<exists>t. s = c # t \<and> startsWith t p)"
  by (cases s) (auto simp: startsWith_def)

lemma includes_iff: "str_includes s p \<longleftrightarrow> (\<exists>a b. s = a @ p @ b)"
proof (induction s)
  case (Cons c cs)
  have "(\<exists>a b. c # cs = a @ p @ b) \<longleftrightarrow> (\<exists>b. c # cs = p @ b) \<or> (\<exists>a b. cs = a @ p @ b)"
    by (metis append_Cons append_Nil list.inject neq_Nil_conv)
  with Cons.IH show ?case by (simp add: startsWith_iff)
qed auto

lemma length_slice_last: "length (slice_last n s) = min n (length s)"
  by (simp add: slice_last_def)

lemma slice_last_suffix: "suffix (slice_last n s) s"
  by (simp add: slice_last_def suffix_drop)

lemma length_toUpperCase [simp]: "length (toUpperCase s) = length s"
  by (simp add: toUpperCase_def)

lemma hd_trim: "trim s \<noteq> [] \<Longrightarrow> \<not> ws (hd (trim s)) \<and> \<not> ws (last (trim s))"
proof -
  assume ne: "trim s \<noteq> []"
  let ?d = "dropWhile ws (rev (dropWhile ws s))"
  from ne have d: "?d \<noteq> []" by (simp add: trim_def)
  then have last: "\<not> ws (hd ?d)" by (rule hd_dropWhile)
  obtain p where p: "rev (dropWhile ws s) = p @ ?d"
    by (metis takeWhile_dropWhile_id)
  then have "dropWhile ws s = rev ?d @ rev p"
    by (metis rev_append rev_rev_ident)
  moreover have "dropWhile ws s \<noteq> []" using d by (metis dropWhile.simps(1) rev.simps(1))
  then have "\<not> ws (hd (dropWhile ws s))" by (rule hd_dropWhile)
  ultimately have "\<not> ws (hd (rev ?d))" using d by (metis hd_append2 rev_is_Nil_conv)
  with last d show ?thesis by (simp add: trim_def last_rev)
qed

lemma trim_Nil [simp]: "trim [] = []"
  by (simp add: trim_def)

lemma digit_char_props [simp]:
  "n < 10 \<Longrightarrow> is_digit (digit_char n)" "n < 10 \<Longrightarrow> digit_val (digit_char n) = n"
  by (simp_all add: is_digit_def digit_char_def digit_val_def)

lemma show_nat_digits: "\<forall>c \<in> set (show_nat n). is_digit c"
proof (induction n rule: show_nat.induct)
  case (1 n)
  then show ?case by (subst show_nat.simps) auto
qed

lemma show_nat_nonempty [simp]: "show_nat n \<noteq> []"
  by (subst show_nat.simps) simp

lemma read_nat_snoc [simp]: "read_nat (s @ [c]) = 10 * read_nat s + digit_val c"
  by (simp add: read_nat_def)

lemma read_nat_show_nat [simp]: "read_nat (show_nat n) = n"
proof (induction n rule: show_nat.induct)
  case (1 n)
  show ?case
  proof (cases "n < 10")
    case True
    then show ?thesis by (subst show_nat.simps) (simp add: read_nat_def)
  next
    case False
    with 1 have "read_nat (show_nat (n div 10)) = n div 10" by simp
    with False show ?thesis by (subst show_nat.simps) simp
  qed
qed

lemma length_show_nat_le: "n < 10 ^ k \<Longrightarrow> 0 < k \<Longrightarrow> length (show_nat n) \<le> k"
proof (induction n arbitrary: k rule: show_nat.induct)
  case (1 n)
  show ?case
  proof (cases "n < 10")
    case True
    with 1 show ?thesis by (subst show_nat.simps) simp
  next
    case False
    with "1.prems" obtain j where k: "k = Suc j" and j: "0 < j"
      by (metis gr0_implies_Suc gr0I power_0 power_Suc0_right One_nat_def not_less_iff_gr_or_eq)
    with "1.prems" have "n div 10 < 10 ^ j"
      by (simp add: less_mult_imp_div_less mult.commute)
    with False j "1.IH" have "length (show_nat (n div 10)) \<le> j" by blast
    with False k show ?thesis by (subst show_nat.simps) simp
  qed
qed

lemma split_char_nonempty [simp]: "split_char d s \<noteq> []"
  by (induction s) (auto split: list.splits)

lemma split_char_absent: "d \<notin> set s \<Longrightarrow> split_char d s = [s]"
  by (induction s) auto

lemma split_char_append: "d \<notin> set a \<Longrightarrow> split_char d (a @ d # b) = a # split_char d b"
  by (induction a) auto

lemma split_join:
  assumes "xs \<noteq> []" and "\<forall>x \<in> set xs. d \<notin> set x"
  shows "split_char d (join [d] xs) = xs"
  using assms
proof (induction xs rule: induct_list012)
  case (3 x y ys)
  then have "split_char d (x @ [d] @ join [d] (y # ys)) = x # split_char d (join [d] (y # ys))"
    by (simp add: split_char_append)
  with 3 show ?case by simp
qed (auto simp: split_char_absent)

lemma hex_val_hex_digit [simp]: "n < 16 \<Longrightarrow> hex_val (hex_digit n) = Some n"
  by (auto simp: hex_val_def hex_digit_def Let_def)

lemma fromHex_toHex [simp]: "fromHex (toHex s) = s"
proof (induction s)
  case (Cons b bs)
  have "code_of b div 16 < 16" "code_of b mod 16 < 16"
    using code_of_less [of b] by (simp_all add: less_mult_imp_div_less)
  with Cons show ?case by (simp add: mult.commute)
qed simp

lemma toHex_inject [simp]: "toHex a = toHex b \<longleftrightarrow> a = b"
  by (metis fromHex_toHex)

lemma length_toHex [simp]: "length (toHex s) = 2 * length s"
  by (induction s) simp_all

lemma toHex_Nil_iff [simp]: "toHex s = [] \<longleftrightarrow> s = []"
  by (cases s) simp_all

lemma hex_digit_not: "hex_val c = None \<Longrightarrow> n < 16 \<Longrightarrow> hex_digit n \<noteq> c"
  by (metis hex_val_hex_digit option.distinct(1))

lemma toHex_absent: "hex_val c = None \<Longrightarrow> c \<notin> set (toHex s)"
proof (induction s)
  case (Cons b bs)
  have "code_of b div 16 < 16" "code_of b mod 16 < 16"
    using code_of_less [of b] by (simp_all add: less_mult_imp_div_less)
  with Cons show ?case using hex_digit_not [of c] by auto
qed simp

lemma colon_toHex: "CHR '':'' \<notin> set (toHex s)"
  by (rule toHex_absent) (simp add: hex_val_def code_of_def)

lemma dot_toHex: "CHR ''.'' \<notin> set (toHex s)"
  by (rule toHex_absent) (simp add: hex_val_def code_of_def)

end
