(* ===== verification/Schema.thy ===== *)
theory Schema
  imports Js_Text
begin

text \<open>
  The data model of \<^verbatim>\<open>hub-api/prisma/schema.prisma\<close>: its enums, its models as records, and the
  state of the hub. The state \<open>hub\<close> holds one table per model, the jobs handed to the queue, the
  open sockets, what was delivered to them, and the clock. A handler runs without interleaving;
  the clock moves between handlers.
  What the sources call but the repository does not hold (identifiers, random bytes, hashes,
  ciphers, tokens, collation, the environment) is the record \<open>ext\<close> of functions, an argument of
  every definition that uses it.
  The operations here are the creates, updates and deletes that the schema determines: defaults,
  \<^verbatim>\<open>@updatedAt\<close>, unique keys, foreign keys, and cascading deletes. \<open>wf_hub\<close> is the integrity that
  the schema declares, and each operation is shown to keep it.
\<close>

section \<open>Enums\<close>

datatype OsType = UBUNTU | WINDOWS | MACOS
datatype ServerStatus = ONLINE | OFFLINE
datatype WorkerType = CODEX | CLAUDE | GEMINI
datatype TaskStatus = QUEUED | RUNNING | AWAITING_APPROVAL | COMPLETED | FAILED | CANCELLED
datatype TaskAttemptStatus = A_DISPATCHING | A_RUNNING | A_SUCCEEDED | A_FAILED | A_TIMED_OUT
datatype ApprovalStatus = PENDING | APPROVED | REJECTED
datatype PushPlatform = ANDROID | IOS
datatype ServerRegistrationStatus =
  R_PENDING | R_APPROVED | R_REJECTED | R_EXPIRED | R_CREDENTIAL_DELIVERED
datatype WorkerProvider = P_CODEX | P_CLAUDE_CODE | P_ANTIGRAVITY | P_OPENCODE | P_GEMINI

datatype json =
  JNull | JBool bool | JNum int | JStr string | JArr "json list" | JObj "(string \<times> json) list"

section \<open>Models\<close>

record user =
  u_id :: string
  u_email :: string
  u_passwordHash :: string
  u_createdAt :: int

record refresh_token =
  rt_id :: string
  rt_userId :: string
  rt_tokenHash :: string
  rt_revoked :: bool
  rt_expiresAt :: int
  rt_createdAt :: int

record server =
  s_id :: string
  s_ownerId :: string
  s_name :: string
  s_osType :: OsType
  s_tailscaleIp :: string
  s_apiKeyHash :: string
  s_status :: ServerStatus
  s_lastHeartbeatAt :: "int option"
  s_createdAt :: int
  s_updatedAt :: int

record reg_request =
  rr_id :: string
  rr_ownerId :: string
  rr_name :: string
  rr_osType :: OsType
  rr_tailscaleIp :: string
  rr_fingerprint :: string
  rr_verificationCode :: string
  rr_requestSecretHash :: string
  rr_status :: ServerRegistrationStatus
  rr_expiresAt :: int
  rr_serverId :: "string option"
  rr_apiKeyCiphertext :: "string option"
  rr_apiKeyIv :: "string option"
  rr_apiKeyAuthTag :: "string option"
  rr_createdAt :: int
  rr_updatedAt :: int

record worker_profile =
  wp_id :: string
  wp_serverId :: string
  wp_provider :: WorkerProvider
  wp_profileName :: string
  wp_enabled :: bool
  wp_capabilities :: json
  wp_createdAt :: int
  wp_updatedAt :: int

record task =
  t_id :: string
  t_serverId :: string
  t_workerType :: WorkerType
  t_status :: TaskStatus
  t_input :: json
  t_result :: "json option"
  t_logs :: string
  t_createdAt :: int
  t_updatedAt :: int

record task_attempt =
  at_id :: string
  at_taskId :: string
  at_serverId :: string
  at_status :: TaskAttemptStatus
  at_failureReason :: "string option"
  at_startedAt :: int
  at_lastSeenAt :: int
  at_finishedAt :: "int option"

record approval =
  ap_id :: string
  ap_taskId :: string
  ap_status :: ApprovalStatus
  ap_requestedAt :: int
  ap_decidedAt :: "int option"
  ap_reason :: "string option"

record push_token =
  pt_id :: string
  pt_userId :: string
  pt_token :: string
  pt_platform :: PushPlatform

section \<open>Messages, jobs, sockets and the state of the hub\<close>

text \<open>Hub to daemon and hub to mobile events (\<^verbatim>\<open>realtime/events.ts\<close>), with their payloads.\<close>

datatype daemon_msg =
  TASK_SUBMIT string json
| TASK_CANCEL string
| APPROVAL_DECISION string bool "string option"

datatype app_msg =
  TASK_UPDATED task
| APPROVAL_PENDING approval
| APPROVAL_RESOLVED approval

datatype job_opts = RetryOpts nat nat | RepeatOpts string int

record job =
  j_name :: string
  j_taskId :: "string option"
  j_opts :: job_opts

record socket =
  so_id :: string
  so_serverId :: "string option"
  so_ownerId :: "string option"
  so_userId :: "string option"
  so_rooms :: "string list"

record push_msg =
  pm_tokens :: "string list"
  pm_title :: string
  pm_body :: string

record hub =
  users :: "user list"
  refreshTokens :: "refresh_token list"
  servers :: "server list"
  regRequests :: "reg_request list"
  profiles :: "worker_profile list"
  tasks :: "task list"
  attempts :: "task_attempt list"
  approvals :: "approval list"
  pushTokens :: "push_token list"
  jobs :: "job list"
  daemonSockets :: "socket list"
  appSockets :: "socket list"
  daemonOut :: "(string \<times> daemon_msg) list"
  appOut :: "(string \<times> app_msg) list"
  pushOut :: "push_msg list"
  fcmApp :: bool
  clock :: int
  draws :: nat

record jwt_payload =
  jwt_sub :: string
  jwt_email :: string
  jwt_jti :: "string option"

datatype hub_error =
  NotFoundException string
| ForbiddenException string
| BadRequestException string
| UnauthorizedException string
| ServiceUnavailableException string
| RecordNotFound
| UniqueConstraint
| ForeignKeyConstraint
| ConfigMissing string
| JsError string

record ext =
  x_uuid :: "nat \<Rightarrow> string"
  x_random :: "nat \<Rightarrow> nat \<Rightarrow> string"
  x_sha256 :: "string \<Rightarrow> string"
  x_gcm_enc :: "string \<Rightarrow> string \<Rightarrow> string \<Rightarrow> string \<times> string"
  x_gcm_dec :: "string \<Rightarrow> string \<Rightarrow> string \<Rightarrow> string \<Rightarrow> string option"
  x_bcrypt_compare :: "string \<Rightarrow> string \<Rightarrow> bool"
  x_bcrypt_hash :: "string \<Rightarrow> nat \<Rightarrow> string"
  x_jwt_sign :: "string \<Rightarrow> string \<Rightarrow> int \<Rightarrow> jwt_payload \<Rightarrow> string"
  x_jwt_verify :: "string \<Rightarrow> int \<Rightarrow> string \<Rightarrow> jwt_payload option"
  x_localeCompare :: "string \<Rightarrow> string \<Rightarrow> int"
  x_collate :: "string \<Rightarrow> string \<Rightarrow> int"
  x_env :: "string \<Rightarrow> string option"
  x_fcm_init :: "string \<Rightarrow> bool"
  x_errorMessage :: "hub_error \<Rightarrow> string"

type_synonym 'a hub_prog = "(hub, hub_error, 'a) prog"

section \<open>Operations the schema determines\<close>

definition now :: "int hub_prog" where
  "now = getS clock"

definition draw :: "nat hub_prog" where
  "draw = (\<lambda>h. (Inr (draws h), h\<lparr>draws := Suc (draws h)\<rparr>))"

definition newId :: "ext \<Rightarrow> string hub_prog" where
  "newId x = bindE draw (\<lambda>n. ret (x_uuid x n))"

subsection \<open>Users and refresh tokens\<close>

definition user_create :: "ext \<Rightarrow> string \<Rightarrow> string \<Rightarrow> user hub_prog" where
  "user_create x email hash =
    bindE (newId x) (\<lambda>i. bindE (getS id) (\<lambda>h.
      let r = \<lparr>u_id = i, u_email = email, u_passwordHash = hash, u_createdAt = clock h\<rparr>
      in thenE (guardE (email \<notin> u_email ` set (users h)) UniqueConstraint)
        (thenE (modS (\<lambda>h. h\<lparr>users := insert_row r (users h)\<rparr>)) (ret r))))"

definition refreshToken_create :: "ext \<Rightarrow> string \<Rightarrow> string \<Rightarrow> int \<Rightarrow> refresh_token hub_prog" where
  "refreshToken_create x uid hash exp =
    bindE (newId x) (\<lambda>i. bindE (getS id) (\<lambda>h.
      let r = \<lparr>rt_id = i, rt_userId = uid, rt_tokenHash = hash, rt_revoked = False,
               rt_expiresAt = exp, rt_createdAt = clock h\<rparr>
      in thenE (guardE (uid \<in> u_id ` set (users h)) ForeignKeyConstraint)
        (thenE (modS (\<lambda>h. h\<lparr>refreshTokens := insert_row r (refreshTokens h)\<rparr>)) (ret r))))"

definition refreshToken_revoke :: "string \<Rightarrow> unit hub_prog" where
  "refreshToken_revoke i =
    bindE (getS refreshTokens) (\<lambda>t.
      thenE (guardE (i \<in> rt_id ` set t) RecordNotFound)
        (modS (\<lambda>h. h\<lparr>refreshTokens :=
           update_row rt_id i (\<lambda>r. r\<lparr>rt_revoked := True\<rparr>) (refreshTokens h)\<rparr>)))"

definition refreshToken_revokeMany :: "(refresh_token \<Rightarrow> bool) \<Rightarrow> unit hub_prog" where
  "refreshToken_revokeMany P =
    modS (\<lambda>h. h\<lparr>refreshTokens :=
      map (\<lambda>r. if P r then r\<lparr>rt_revoked := True\<rparr> else r) (refreshTokens h)\<rparr>)"

subsection \<open>Servers and worker profiles\<close>

type_synonym profile_data = "WorkerProvider \<times> string \<times> bool \<times> json"

definition profile_row :: "string \<Rightarrow> string \<Rightarrow> int \<Rightarrow> profile_data \<Rightarrow> worker_profile" where
  "profile_row i sid t d =
    (case d of (pr, nm, en, cap) \<Rightarrow>
      \<lparr>wp_id = i, wp_serverId = sid, wp_provider = pr, wp_profileName = nm, wp_enabled = en,
       wp_capabilities = cap, wp_createdAt = t, wp_updatedAt = t\<rparr>)"

definition profile_taken :: "string \<Rightarrow> profile_data \<Rightarrow> worker_profile list \<Rightarrow> bool" where
  "profile_taken sid d t \<longleftrightarrow>
    (\<exists>p \<in> set t. wp_serverId p = sid \<and> wp_provider p = fst d \<and> wp_profileName p = fst (snd d))"

definition profile_create :: "ext \<Rightarrow> string \<Rightarrow> profile_data \<Rightarrow> unit hub_prog" where
  "profile_create x sid d =
    bindE (newId x) (\<lambda>i. bindE (getS id) (\<lambda>h.
      thenE (guardE (sid \<in> s_id ` set (servers h)) ForeignKeyConstraint)
       (thenE (guardE (\<not> profile_taken sid d (profiles h)) UniqueConstraint)
         (modS (\<lambda>h. h\<lparr>profiles := insert_row (profile_row i sid (clock h) d) (profiles h)\<rparr>)))))"

text \<open>A nested create runs in one transaction: on an exception the tables are as they were.\<close>

definition transaction :: "'a hub_prog \<Rightarrow> 'a hub_prog" where
  "transaction m = (\<lambda>h. case m h of
      (Inl e, h') \<Rightarrow> (Inl e, h\<lparr>draws := draws h'\<rparr>)
    | (Inr a, h') \<Rightarrow> (Inr a, h'))"

definition server_insert :: "ext \<Rightarrow> string \<Rightarrow> string \<Rightarrow> OsType \<Rightarrow> string \<Rightarrow> string \<Rightarrow> server hub_prog" where
  "server_insert x owner name os ip hash =
    bindE (newId x) (\<lambda>i. bindE (getS id) (\<lambda>h.
      let r = \<lparr>s_id = i, s_ownerId = owner, s_name = name, s_osType = os, s_tailscaleIp = ip,
               s_apiKeyHash = hash, s_status = OFFLINE, s_lastHeartbeatAt = None,
               s_createdAt = clock h, s_updatedAt = clock h\<rparr>
      in thenE (guardE (owner \<in> u_id ` set (users h)) ForeignKeyConstraint)
        (thenE (modS (\<lambda>h. h\<lparr>servers := insert_row r (servers h)\<rparr>)) (ret r))))"

definition server_create ::
  "ext \<Rightarrow> string \<Rightarrow> string \<Rightarrow> OsType \<Rightarrow> string \<Rightarrow> string \<Rightarrow> profile_data list \<Rightarrow> server hub_prog" where
  "server_create x owner name os ip hash ps =
    transaction (bindE (server_insert x owner name os ip hash) (\<lambda>s.
      thenE (forE (profile_create x (s_id s)) ps) (ret s)))"

definition server_update :: "string \<Rightarrow> (server \<Rightarrow> server) \<Rightarrow> unit hub_prog" where
  "server_update i f =
    bindE (getS servers) (\<lambda>t.
      thenE (guardE (i \<in> s_id ` set t) RecordNotFound)
        (modS (\<lambda>h. h\<lparr>servers :=
           update_row s_id i (\<lambda>r. (f r)\<lparr>s_updatedAt := clock h\<rparr>) (servers h)\<rparr>)))"

definition server_delete :: "string \<Rightarrow> unit hub_prog" where
  "server_delete i =
    bindE (getS servers) (\<lambda>t.
      thenE (guardE (i \<in> s_id ` set t) RecordNotFound)
        (modS (\<lambda>h.
          let gone = t_id ` {r \<in> set (tasks h). t_serverId r = i} in
          h\<lparr>servers := delete_row s_id i (servers h),
            profiles := filter (\<lambda>r. wp_serverId r \<noteq> i) (profiles h),
            tasks := filter (\<lambda>r. t_serverId r \<noteq> i) (tasks h),
            attempts := filter (\<lambda>r. at_serverId r \<noteq> i \<and> at_taskId r \<notin> gone) (attempts h),
            approvals := filter (\<lambda>r. ap_taskId r \<notin> gone) (approvals h),
            regRequests :=
              map (\<lambda>r. if rr_serverId r = Some i then r\<lparr>rr_serverId := None\<rparr> else r)
                (regRequests h)\<rparr>)))"

subsection \<open>Registration requests\<close>

definition regRequest_create ::
  "ext \<Rightarrow> string \<Rightarrow> string \<Rightarrow> OsType \<Rightarrow> string \<Rightarrow> string \<Rightarrow> string \<Rightarrow> string \<Rightarrow> int \<Rightarrow> reg_request hub_prog" where
  "regRequest_create x owner name os ip fp code hash exp =
    bindE (newId x) (\<lambda>i. bindE (getS id) (\<lambda>h.
      let r = \<lparr>rr_id = i, rr_ownerId = owner, rr_name = name, rr_osType = os, rr_tailscaleIp = ip,
               rr_fingerprint = fp, rr_verificationCode = code, rr_requestSecretHash = hash,
               rr_status = R_PENDING, rr_expiresAt = exp, rr_serverId = None,
               rr_apiKeyCiphertext = None, rr_apiKeyIv = None, rr_apiKeyAuthTag = None,
               rr_createdAt = clock h, rr_updatedAt = clock h\<rparr>
      in thenE (guardE (owner \<in> u_id ` set (users h)) ForeignKeyConstraint)
        (thenE (modS (\<lambda>h. h\<lparr>regRequests := insert_row r (regRequests h)\<rparr>)) (ret r))))"

definition regRequest_update :: "string \<Rightarrow> (reg_request \<Rightarrow> reg_request) \<Rightarrow> reg_request hub_prog" where
  "regRequest_update i f =
    bindE (getS (\<lambda>h. (find_row rr_id i (regRequests h), clock h))) (\<lambda>(v, c).
      bindE (someE RecordNotFound v) (\<lambda>r.
        thenE (modS (\<lambda>h. h\<lparr>regRequests :=
           update_row rr_id i (\<lambda>r. (f r)\<lparr>rr_updatedAt := clock h\<rparr>) (regRequests h)\<rparr>))
          (ret ((f r)\<lparr>rr_updatedAt := c\<rparr>))))"

text \<open>An update that also writes the reference to a server checks the foreign key.\<close>

definition regRequest_connect ::
  "string \<Rightarrow> string \<Rightarrow> (reg_request \<Rightarrow> reg_request) \<Rightarrow> reg_request hub_prog" where
  "regRequest_connect i sid f =
    bindE (getS servers) (\<lambda>t.
      thenE (guardE (sid \<in> s_id ` set t) ForeignKeyConstraint)
        (regRequest_update i (\<lambda>r. (f r)\<lparr>rr_serverId := Some sid\<rparr>)))"

definition regRequest_updateMany ::
  "(reg_request \<Rightarrow> bool) \<Rightarrow> (reg_request \<Rightarrow> reg_request) \<Rightarrow> unit hub_prog" where
  "regRequest_updateMany P f =
    modS (\<lambda>h. h\<lparr>regRequests :=
      map (\<lambda>r. if P r then (f r)\<lparr>rr_updatedAt := clock h\<rparr> else r) (regRequests h)\<rparr>)"

subsection \<open>Tasks, attempts and approvals\<close>

definition task_create :: "ext \<Rightarrow> string \<Rightarrow> WorkerType \<Rightarrow> json \<Rightarrow> task hub_prog" where
  "task_create x sid wt inp =
    bindE (newId x) (\<lambda>i. bindE (getS id) (\<lambda>h.
      let r = \<lparr>t_id = i, t_serverId = sid, t_workerType = wt, t_status = QUEUED, t_input = inp,
               t_result = None, t_logs = [], t_createdAt = clock h, t_updatedAt = clock h\<rparr>
      in thenE (guardE (sid \<in> s_id ` set (servers h)) ForeignKeyConstraint)
        (thenE (modS (\<lambda>h. h\<lparr>tasks := insert_row r (tasks h)\<rparr>)) (ret r))))"

definition task_update :: "string \<Rightarrow> (task \<Rightarrow> task) \<Rightarrow> task hub_prog" where
  "task_update i f =
    bindE (getS (\<lambda>h. (find_row t_id i (tasks h), clock h))) (\<lambda>(v, c).
      bindE (someE RecordNotFound v) (\<lambda>r.
        thenE (modS (\<lambda>h. h\<lparr>tasks :=
           update_row t_id i (\<lambda>r. (f r)\<lparr>t_updatedAt := clock h\<rparr>) (tasks h)\<rparr>))
          (ret ((f r)\<lparr>t_updatedAt := c\<rparr>))))"

definition task_connect :: "string \<Rightarrow> string \<Rightarrow> (task \<Rightarrow> task) \<Rightarrow> task hub_prog" where
  "task_connect i sid f =
    bindE (getS servers) (\<lambda>t.
      thenE (guardE (sid \<in> s_id ` set t) ForeignKeyConstraint)
        (task_update i (\<lambda>r. (f r)\<lparr>t_serverId := sid\<rparr>)))"

definition taskAttempt_create :: "ext \<Rightarrow> string \<Rightarrow> string \<Rightarrow> task_attempt hub_prog" where
  "taskAttempt_create x tid sid =
    bindE (newId x) (\<lambda>i. bindE (getS id) (\<lambda>h.
      let r = \<lparr>at_id = i, at_taskId = tid, at_serverId = sid, at_status = A_DISPATCHING,
               at_failureReason = None, at_startedAt = clock h, at_lastSeenAt = clock h,
               at_finishedAt = None\<rparr>
      in thenE (guardE (tid \<in> t_id ` set (tasks h) \<and> sid \<in> s_id ` set (servers h)) ForeignKeyConstraint)
        (thenE (modS (\<lambda>h. h\<lparr>attempts := insert_row r (attempts h)\<rparr>)) (ret r))))"

definition taskAttempt_update :: "string \<Rightarrow> (int \<Rightarrow> task_attempt \<Rightarrow> task_attempt) \<Rightarrow> unit hub_prog" where
  "taskAttempt_update i f =
    bindE (getS attempts) (\<lambda>t.
      thenE (guardE (i \<in> at_id ` set t) RecordNotFound)
        (modS (\<lambda>h. h\<lparr>attempts := update_row at_id i (f (clock h)) (attempts h)\<rparr>)))"

definition approval_create :: "ext \<Rightarrow> string \<Rightarrow> string \<Rightarrow> approval hub_prog" where
  "approval_create x tid reason =
    bindE (newId x) (\<lambda>i. bindE (getS id) (\<lambda>h.
      let r = \<lparr>ap_id = i, ap_taskId = tid, ap_status = PENDING, ap_requestedAt = clock h,
               ap_decidedAt = None, ap_reason = Some reason\<rparr>
      in thenE (guardE (tid \<in> t_id ` set (tasks h)) ForeignKeyConstraint)
        (thenE (guardE (tid \<notin> ap_taskId ` set (approvals h)) UniqueConstraint)
          (thenE (modS (\<lambda>h. h\<lparr>approvals := insert_row r (approvals h)\<rparr>)) (ret r)))))"

definition approval_update :: "string \<Rightarrow> (int \<Rightarrow> approval \<Rightarrow> approval) \<Rightarrow> approval hub_prog" where
  "approval_update i f =
    bindE (getS (\<lambda>h. (find_row ap_id i (approvals h), clock h))) (\<lambda>(v, c).
      bindE (someE RecordNotFound v) (\<lambda>r.
        thenE (modS (\<lambda>h. h\<lparr>approvals := update_row ap_id i (f (clock h)) (approvals h)\<rparr>))
          (ret (f c r))))"

subsection \<open>Push tokens\<close>

definition pushToken_upsert :: "ext \<Rightarrow> string \<Rightarrow> string \<Rightarrow> PushPlatform \<Rightarrow> unit hub_prog" where
  "pushToken_upsert x uid tok pf =
    bindE (newId x) (\<lambda>i. bindE (getS id) (\<lambda>h.
      if \<exists>p \<in> set (pushTokens h). pt_userId p = uid \<and> pt_token p = tok
      then modS (\<lambda>h. h\<lparr>pushTokens :=
        map (\<lambda>p. if pt_userId p = uid \<and> pt_token p = tok then p\<lparr>pt_platform := pf\<rparr> else p)
          (pushTokens h)\<rparr>)
      else thenE (guardE (uid \<in> u_id ` set (users h)) ForeignKeyConstraint)
        (modS (\<lambda>h. h\<lparr>pushTokens :=
           insert_row \<lparr>pt_id = i, pt_userId = uid, pt_token = tok, pt_platform = pf\<rparr> (pushTokens h)\<rparr>))))"

end
