(* ===== verification/Integrity.thy ===== *)
theory Integrity
  imports Schema
begin

text \<open>
  The integrity that \<^verbatim>\<open>schema.prisma\<close> declares, as an invariant of the hub: row identifiers are
  distinct and were drawn from the identifier source, every foreign key refers to a row, and the
  unique keys are unique. Each operation of \<open>Schema\<close> keeps it, so every handler built from them
  does (\<open>keeps_rules\<close>). The tables are interpretations of \<open>row_store\<close>.
\<close>

interpretation userT: row_store u_id set "find_row u_id" insert_row "update_row u_id" "delete_row u_id" "keyed u_id"
  by (rule list_row_store)

interpretation serverT: row_store s_id set "find_row s_id" insert_row "update_row s_id" "delete_row s_id" "keyed s_id"
  by (rule list_row_store)

interpretation regT: row_store rr_id set "find_row rr_id" insert_row "update_row rr_id" "delete_row rr_id" "keyed rr_id"
  by (rule list_row_store)

interpretation taskT: row_store t_id set "find_row t_id" insert_row "update_row t_id" "delete_row t_id" "keyed t_id"
  by (rule list_row_store)

interpretation attemptT: row_store at_id set "find_row at_id" insert_row "update_row at_id" "delete_row at_id" "keyed at_id"
  by (rule list_row_store)

interpretation approvalT: row_store ap_id set "find_row ap_id" insert_row "update_row ap_id" "delete_row ap_id" "keyed ap_id"
  by (rule list_row_store)

section \<open>The invariant\<close>

definition ids_ok :: "ext \<Rightarrow> nat \<Rightarrow> ('r \<Rightarrow> string) \<Rightarrow> 'r list \<Rightarrow> bool" where
  "ids_ok x n key t \<longleftrightarrow> keyed key t \<and> (\<forall>r \<in> set t. \<exists>i < n. key r = x_uuid x i)"

definition refs :: "('r \<Rightarrow> 'k) \<Rightarrow> 'r list \<Rightarrow> ('q \<Rightarrow> 'k) \<Rightarrow> 'q list \<Rightarrow> bool" where
  "refs ref t key q \<longleftrightarrow> (\<forall>r \<in> set t. ref r \<in> key ` set q)"

definition wf_ids :: "ext \<Rightarrow> hub \<Rightarrow> bool" where
  "wf_ids x h \<longleftrightarrow>
    ids_ok x (draws h) u_id (users h) \<and> ids_ok x (draws h) rt_id (refreshTokens h) \<and>
    ids_ok x (draws h) s_id (servers h) \<and> ids_ok x (draws h) rr_id (regRequests h) \<and>
    ids_ok x (draws h) wp_id (profiles h) \<and> ids_ok x (draws h) t_id (tasks h) \<and>
    ids_ok x (draws h) at_id (attempts h) \<and> ids_ok x (draws h) ap_id (approvals h) \<and>
    ids_ok x (draws h) pt_id (pushTokens h)"

definition wf_refs :: "hub \<Rightarrow> bool" where
  "wf_refs h \<longleftrightarrow>
    refs rt_userId (refreshTokens h) u_id (users h) \<and> refs s_ownerId (servers h) u_id (users h) \<and>
    refs rr_ownerId (regRequests h) u_id (users h) \<and>
    (\<forall>r \<in> set (regRequests h). \<forall>i. rr_serverId r = Some i \<longrightarrow> i \<in> s_id ` set (servers h)) \<and>
    refs wp_serverId (profiles h) s_id (servers h) \<and> refs t_serverId (tasks h) s_id (servers h) \<and>
    refs at_taskId (attempts h) t_id (tasks h) \<and> refs at_serverId (attempts h) s_id (servers h) \<and>
    refs ap_taskId (approvals h) t_id (tasks h) \<and> refs pt_userId (pushTokens h) u_id (users h)"

definition wf_uniq :: "hub \<Rightarrow> bool" where
  "wf_uniq h \<longleftrightarrow>
    keyed u_email (users h) \<and> keyed ap_taskId (approvals h) \<and>
    keyed (\<lambda>p. (wp_serverId p, wp_provider p, wp_profileName p)) (profiles h) \<and>
    keyed (\<lambda>p. (pt_userId p, pt_token p)) (pushTokens h)"

definition wf_hub :: "ext \<Rightarrow> hub \<Rightarrow> bool" where
  "wf_hub x h \<longleftrightarrow> wf_ids x h \<and> wf_refs h \<and> wf_uniq h"

lemmas wf_defs = wf_hub_def wf_ids_def wf_refs_def wf_uniq_def

lemma wf_hubD:
  assumes "wf_hub x h"
  shows "keyed u_id (users h)" "keyed s_id (servers h)" "keyed t_id (tasks h)"
    "keyed at_id (attempts h)" "keyed ap_id (approvals h)" "keyed rr_id (regRequests h)"
    "keyed ap_taskId (approvals h)" "keyed u_email (users h)"
    "refs t_serverId (tasks h) s_id (servers h)" "refs at_taskId (attempts h) t_id (tasks h)"
    "refs ap_taskId (approvals h) t_id (tasks h)" "refs s_ownerId (servers h) u_id (users h)"
    "refs wp_serverId (profiles h) s_id (servers h)"
  using assms by (simp_all add: wf_defs ids_ok_def)

lemma ids_ok_mono: "ids_ok x n key t \<Longrightarrow> n \<le> m \<Longrightarrow> ids_ok x m key t"
  unfolding ids_ok_def using less_le_trans by blast

lemma ids_ok_Suc [simp]: "ids_ok x n key t \<Longrightarrow> ids_ok x (Suc n) key t"
  by (erule ids_ok_mono) simp

lemma ids_ok_fresh:
  assumes "inj (x_uuid x)" and "ids_ok x n key t" and "n \<le> m"
  shows "x_uuid x m \<notin> key ` set t"
proof
  assume "x_uuid x m \<in> key ` set t"
  with assms(2) obtain i where "i < n" "x_uuid x m = x_uuid x i"
    by (auto simp: ids_ok_def)
  with assms(1,3) show False by (auto dest: injD)
qed

lemma wf_fresh:
  assumes "wf_hub x h" and "inj (x_uuid x)" and "draws h \<le> m"
  shows "x_uuid x m \<notin> s_id ` set (servers h)" "x_uuid x m \<notin> t_id ` set (tasks h)"
    "x_uuid x m \<notin> at_id ` set (attempts h)" "x_uuid x m \<notin> ap_id ` set (approvals h)"
    "x_uuid x m \<notin> rr_id ` set (regRequests h)"
  using assms(1) by (simp_all add: wf_hub_def wf_ids_def ids_ok_fresh [OF assms(2) _ assms(3)])

lemma ids_ok_insert:
  assumes "inj (x_uuid x)" and "ids_ok x n key t" and "key r = x_uuid x n"
  shows "ids_ok x (Suc n) key (insert_row r t)"
proof -
  have "x_uuid x n \<notin> key ` set t"
    by (rule ids_ok_fresh [OF assms(1,2)]) simp
  then show ?thesis
    using assms by (auto simp: ids_ok_def keyed_insert_row less_Suc_eq)
qed

lemma ids_ok_update:
  "(\<And>r. key (f r) = key r) \<Longrightarrow> ids_ok x n key t \<Longrightarrow> ids_ok x n key (update_row key k f t)"
  by (auto simp: ids_ok_def keyed_update_row set_update_row)

lemma ids_ok_map:
  "(\<And>r. key (f r) = key r) \<Longrightarrow> ids_ok x n key (map f t) = ids_ok x n key t"
  by (auto simp: ids_ok_def keyed_def comp_def)

lemma ids_ok_filter: "ids_ok x n key t \<Longrightarrow> ids_ok x n key (filter P t)"
  by (auto simp: ids_ok_def keyed_filter)

lemma refs_insert [simp]: "refs f (insert_row r t) key q \<longleftrightarrow> f r \<in> key ` set q \<and> refs f t key q"
  by (auto simp: refs_def)

lemma refs_insert_target: "refs f t key q \<Longrightarrow> refs f t key (insert_row r q)"
  by (auto simp: refs_def)

lemma refs_update:
  "(\<And>r. f (g r) = f r) \<Longrightarrow> refs f t key q \<Longrightarrow> refs f (update_row k i g t) key q"
  by (auto simp: refs_def set_update_row)

lemma keys_update_row: "(\<And>r. key (g r) = key r) \<Longrightarrow> key ` set (update_row k i g t) = key ` set t"
proof -
  assume "\<And>r. key (g r) = key r"
  then have "map key (update_row k i g t) = map key t" by (simp add: update_row_def)
  then show ?thesis by (metis list.set_map)
qed

lemma refs_update_target:
  "(\<And>r. key (g r) = key r) \<Longrightarrow> refs f t key (update_row k i g q) = refs f t key q"
  by (simp add: refs_def keys_update_row)

lemma keys_map: "(\<And>r. key (g r) = key r) \<Longrightarrow> key ` set (map g t) = key ` set t"
  by (simp add: image_image)

lemma refs_map: "(\<And>r. f (g r) = f r) \<Longrightarrow> refs f (map g t) key q = refs f t key q"
  by (auto simp: refs_def)

lemma refs_filter: "refs f t key q \<Longrightarrow> refs f (filter P t) key q"
  by (auto simp: refs_def)

lemma keyed_update_other:
  "(\<And>r. u (g r) = u r) \<Longrightarrow> keyed u (update_row k i g t) = keyed u t"
proof -
  assume "\<And>r. u (g r) = u r"
  then have "map u (update_row k i g t) = map u t" by (auto simp: update_row_def)
  then show ?thesis by (simp add: keyed_def)
qed

lemma keyed_map: "(\<And>r. u (g r) = u r) \<Longrightarrow> keyed u (map g t) = keyed u t"
  by (simp add: keyed_def comp_def)

lemmas wf_update_simps = ids_ok_update refs_update refs_update_target keyed_update_other keys_update_row
lemmas wf_insert_simps = ids_ok_insert keyed_insert_row refs_insert_target

section \<open>The operations keep it\<close>

lemma wf_draws [simp]: "wf_hub x h \<Longrightarrow> draws h \<le> n \<Longrightarrow> wf_hub x (h\<lparr>draws := n\<rparr>)"
  by (auto simp: wf_defs intro: ids_ok_mono)

lemma draw_apply [prog_simps]: "draw h = (Inr (draws h), h\<lparr>draws := Suc (draws h)\<rparr>)"
  by (simp add: draw_def)

lemma newId_apply [prog_simps]: "newId x h = (Inr (x_uuid x (draws h)), h\<lparr>draws := Suc (draws h)\<rparr>)"
  by (simp add: newId_def prog_simps)

lemma now_apply [prog_simps]: "now h = (Inr (clock h), h)"
  by (simp add: now_def prog_simps)

lemma keeps_draw [keeps_rules]: "keeps (wf_hub x) draw"
  by (simp add: keeps_def prog_simps)

lemma keeps_newId [keeps_rules]: "keeps (wf_hub x) (newId y)"
  by (simp add: keeps_def prog_simps)

lemma keeps_now [keeps_rules]: "keeps I now"
  by (simp add: keeps_def prog_simps)

lemma user_create_wf [keeps_rules]: "inj (x_uuid x) \<Longrightarrow> keeps (wf_hub x) (user_create x e p)"
  by (auto simp: keeps_def user_create_def prog_simps Let_def wf_defs wf_insert_simps)

lemma refreshToken_create_wf [keeps_rules]:
  "inj (x_uuid x) \<Longrightarrow> keeps (wf_hub x) (refreshToken_create x u t e)"
  by (auto simp: keeps_def refreshToken_create_def prog_simps Let_def wf_defs wf_insert_simps)

lemma refreshToken_revoke_wf [keeps_rules]: "keeps (wf_hub x) (refreshToken_revoke i)"
  by (auto simp: keeps_def refreshToken_revoke_def prog_simps wf_defs wf_update_simps)

lemma refreshToken_revokeMany_wf [keeps_rules]: "keeps (wf_hub x) (refreshToken_revokeMany P)"
  by (auto simp: keeps_def refreshToken_revokeMany_def prog_simps wf_defs ids_ok_map refs_map keyed_map)

lemma profile_create_wf [keeps_rules]: "inj (x_uuid x) \<Longrightarrow> keeps (wf_hub x) (profile_create x s d)"
  by (cases d) (auto simp: keeps_def profile_create_def profile_row_def profile_taken_def prog_simps
      wf_defs wf_insert_simps image_iff)

lemma server_insert_wf [keeps_rules]:
  "inj (x_uuid x) \<Longrightarrow> keeps (wf_hub x) (server_insert x a b c d e)"
  by (auto simp: keeps_def server_insert_def prog_simps Let_def wf_defs wf_insert_simps)

text \<open>Programs never give identifiers back.\<close>

definition draws_up :: "'a hub_prog \<Rightarrow> bool" where
  "draws_up m \<longleftrightarrow> (\<forall>h. draws h \<le> draws (snd (m h)))"

lemma draws_up_bindE:
  assumes "draws_up m" and "\<And>a. draws_up (f a)"
  shows "draws_up (bindE m f)"
proof (unfold draws_up_def, rule allI)
  fix h
  show "draws h \<le> draws (snd (bindE m f h))"
  proof (cases "m h")
    case (Pair v h')
    with assms(1) have "draws h \<le> draws h'" by (metis draws_up_def snd_conv)
    moreover have "draws h' \<le> draws (snd (f a h'))" for a
      using assms(2) by (simp add: draws_up_def)
    ultimately show ?thesis
      using Pair by (auto simp: bindE_apply split: sum.splits intro: order_trans)
  qed
qed

lemma draws_up_thenE: "draws_up m \<Longrightarrow> draws_up n \<Longrightarrow> draws_up (thenE m n)"
  by (simp add: thenE_def draws_up_bindE)

lemma draws_up_ret: "draws_up (ret a)"
  by (simp add: draws_up_def prog_simps)

lemma draws_up_forE: "(\<And>y. draws_up (f y)) \<Longrightarrow> draws_up (forE f ys)"
  by (induction ys) (simp_all add: draws_up_thenE draws_up_ret)

lemma draws_up_server_insert: "draws_up (server_insert x a b c d e)"
  by (simp add: draws_up_def server_insert_def prog_simps Let_def)

lemma draws_up_profile_create: "draws_up (profile_create x s d)"
  by (simp add: draws_up_def profile_create_def prog_simps)

lemma transaction_wf [keeps_rules]:
  assumes "keeps (wf_hub x) m" and "draws_up m"
  shows "keeps (wf_hub x) (transaction m)"
proof (rule keepsI)
  fix h assume "wf_hub x h"
  with assms(1) have "wf_hub x (snd (m h))" by (rule keepsD)
  moreover have "draws h \<le> draws (snd (m h))" using assms(2) by (simp add: draws_up_def)
  ultimately show "wf_hub x (snd (transaction m h))"
    using \<open>wf_hub x h\<close> by (auto simp: transaction_def split: prod.splits sum.splits)
qed

lemma server_create_wf [keeps_rules]:
  assumes "inj (x_uuid x)"
  shows "keeps (wf_hub x) (server_create x a b c d e ps)"
  unfolding server_create_def
  by (intro transaction_wf keeps_rules assms draws_up_bindE draws_up_thenE draws_up_forE
      draws_up_server_insert draws_up_profile_create draws_up_ret)

lemma server_update_wf [keeps_rules]:
  "(\<And>r. s_id (f r) = s_id r) \<Longrightarrow> (\<And>r. s_ownerId (f r) = s_ownerId r) \<Longrightarrow>
    keeps (wf_hub x) (server_update i f)"
  by (auto simp: keeps_def server_update_def prog_simps wf_defs wf_update_simps)

lemma regRequest_create_wf [keeps_rules]:
  "inj (x_uuid x) \<Longrightarrow> keeps (wf_hub x) (regRequest_create x a b c d e f g k)"
  by (auto simp: keeps_def regRequest_create_def prog_simps Let_def wf_defs wf_insert_simps)

lemma task_create_wf [keeps_rules]: "inj (x_uuid x) \<Longrightarrow> keeps (wf_hub x) (task_create x s w i)"
  by (auto simp: keeps_def task_create_def prog_simps Let_def wf_defs wf_insert_simps)

text \<open>A row update that leaves the references alone keeps the integrity; one that moves a task or a
  request to another server checks that the server exists.\<close>

lemma task_update_wf [keeps_rules]:
  "(\<And>r. t_id (f r) = t_id r) \<Longrightarrow> (\<And>r. t_serverId (f r) = t_serverId r) \<Longrightarrow>
    keeps (wf_hub x) (task_update i f)"
  by (auto simp: keeps_def task_update_def prog_simps wf_defs wf_update_simps split: option.splits)

lemma task_connect_wf [keeps_rules]:
  assumes "\<And>r. t_id (f r) = t_id r"
  shows "keeps (wf_hub x) (task_connect i sid f)"
proof -
  have moved: "refs t_serverId t s_id q \<Longrightarrow> sid \<in> s_id ` set q \<Longrightarrow>
      refs t_serverId (update_row t_id i (\<lambda>r. (f r)\<lparr>t_serverId := sid, t_updatedAt := c\<rparr>) t) s_id q"
    for t q c
    by (auto simp: refs_def set_update_row)
  from assms show ?thesis
    by (clarsimp simp: keeps_def task_connect_def task_update_def prog_simps wf_defs ids_ok_update
        refs_update_target keys_update_row moved split: option.splits)
qed

lemma taskAttempt_create_wf [keeps_rules]:
  "inj (x_uuid x) \<Longrightarrow> keeps (wf_hub x) (taskAttempt_create x t s)"
  by (auto simp: keeps_def taskAttempt_create_def prog_simps Let_def wf_defs wf_insert_simps)

lemma taskAttempt_update_wf [keeps_rules]:
  "(\<And>c r. at_id (f c r) = at_id r) \<Longrightarrow> (\<And>c r. at_taskId (f c r) = at_taskId r) \<Longrightarrow>
   (\<And>c r. at_serverId (f c r) = at_serverId r) \<Longrightarrow> keeps (wf_hub x) (taskAttempt_update i f)"
  by (auto simp: keeps_def taskAttempt_update_def prog_simps wf_defs wf_update_simps)

lemma approval_create_wf [keeps_rules]: "inj (x_uuid x) \<Longrightarrow> keeps (wf_hub x) (approval_create x t r)"
  by (auto simp: keeps_def approval_create_def prog_simps Let_def wf_defs wf_insert_simps)

lemma approval_update_wf [keeps_rules]:
  "(\<And>c r. ap_id (f c r) = ap_id r) \<Longrightarrow> (\<And>c r. ap_taskId (f c r) = ap_taskId r) \<Longrightarrow>
    keeps (wf_hub x) (approval_update i f)"
  by (auto simp: keeps_def approval_update_def prog_simps wf_defs wf_update_simps split: option.splits)

lemma regRequest_update_wf [keeps_rules]:
  assumes "\<And>r. rr_id (f r) = rr_id r" "\<And>r. rr_ownerId (f r) = rr_ownerId r"
    "\<And>r. rr_serverId (f r) = rr_serverId r"
  shows "keeps (wf_hub x) (regRequest_update i f)"
  using assms by (auto simp: keeps_def regRequest_update_def prog_simps wf_defs wf_update_simps
      set_update_row split: option.splits)

lemma regRequest_connect_wf [keeps_rules]:
  assumes "\<And>r. rr_id (f r) = rr_id r" "\<And>r. rr_ownerId (f r) = rr_ownerId r"
  shows "keeps (wf_hub x) (regRequest_connect i sid f)"
  using assms by (auto simp: keeps_def regRequest_connect_def regRequest_update_def prog_simps wf_defs
      wf_update_simps set_update_row split: option.splits)

lemma regRequest_updateMany_wf [keeps_rules]:
  assumes "\<And>r. rr_id (f r) = rr_id r" "\<And>r. rr_ownerId (f r) = rr_ownerId r"
    "\<And>r. rr_serverId (f r) = rr_serverId r"
  shows "keeps (wf_hub x) (regRequest_updateMany P f)"
  using assms by (auto simp: keeps_def regRequest_updateMany_def prog_simps wf_defs ids_ok_map refs_map
      keyed_map)

lemma pushToken_upsert_wf [keeps_rules]:
  "inj (x_uuid x) \<Longrightarrow> keeps (wf_hub x) (pushToken_upsert x u t p)"
  by (auto simp: keeps_def pushToken_upsert_def prog_simps wf_defs wf_insert_simps ids_ok_map refs_map
      keyed_map)

text \<open>Deleting a server deletes what refers to it, and nothing is left dangling.\<close>

lemma refs_delete:
  "refs f t key q \<Longrightarrow> (\<And>r. P r \<Longrightarrow> f r \<noteq> i) \<Longrightarrow> refs f (filter P t) key (delete_row key i q)"
  by (fastforce simp: refs_def)

lemma refs_delete_filter:
  assumes "refs f t key q" and "\<And>r. P r \<Longrightarrow> f r \<notin> key ` {y \<in> set q. \<not> Q y}"
  shows "refs f (filter P t) key (filter Q q)"
  using assms by (fastforce simp: refs_def)

lemma refs_delete_row: "refs f t key q \<Longrightarrow> refs f (delete_row k i t) key q"
  by (simp add: delete_row_def refs_filter)

lemma ids_ok_delete: "ids_ok x n key t \<Longrightarrow> ids_ok x n key (delete_row key i t)"
  by (simp add: delete_row_def ids_ok_filter)

lemma server_delete_wf [keeps_rules]: "keeps (wf_hub x) (server_delete i)"
proof (rule keepsI)
  fix h assume wf: "wf_hub x h"
  let ?gone = "t_id ` {r \<in> set (tasks h). t_serverId r = i}"
  have reg: "\<forall>r \<in> set (map (\<lambda>r. if rr_serverId r = Some i then r\<lparr>rr_serverId := None\<rparr> else r) (regRequests h)).
      \<forall>j. rr_serverId r = Some j \<longrightarrow> j \<in> s_id ` set (delete_row s_id i (servers h))"
    using wf by (fastforce simp: wf_defs)
  let ?at = "filter (\<lambda>r. at_serverId r \<noteq> i \<and> at_taskId r \<notin> ?gone) (attempts h)"
  have at1: "refs at_taskId ?at t_id (filter (\<lambda>r. t_serverId r \<noteq> i) (tasks h))"
    by (rule refs_delete_filter) (use wf in \<open>auto simp: wf_defs\<close>)
  have at2: "refs at_serverId ?at s_id (delete_row s_id i (servers h))"
    by (rule refs_delete) (use wf in \<open>auto simp: wf_defs\<close>)
  have "wf_ids x (snd (server_delete i h))"
    using wf by (simp add: server_delete_def prog_simps Let_def wf_hub_def wf_ids_def ids_ok_filter ids_ok_delete ids_ok_map)
  moreover have "wf_refs (snd (server_delete i h))"
    using wf reg at1 at2 by (simp add: server_delete_def prog_simps Let_def wf_hub_def wf_refs_def refs_map
        refs_delete refs_delete_filter refs_delete_row del: set_map set_delete_row)
  moreover have "wf_uniq (snd (server_delete i h))"
    using wf by (simp add: server_delete_def prog_simps Let_def wf_hub_def wf_uniq_def keyed_filter)
  ultimately show "wf_hub x (snd (server_delete i h))" by (simp add: wf_hub_def)
qed

end
