(* ===== verification/Messages.thy ===== *)
theory Messages
  imports Schema
begin

text \<open>
  The message and label literals of the sources that are not ASCII, as the UTF-8 bytes the source
  files hold. They are only ever returned, shown or concatenated; no function looks inside them.
\<close>

section \<open>Servers (hub-api/src/servers/servers.service.ts)\<close>

definition ko_server_not_found :: string where
  "ko_server_not_found =
   [CHR 0xEC, CHR 0x84, CHR 0x9C, CHR 0xEB, CHR 0xB2, CHR 0x84, CHR 0xEB, CHR 0xA5, CHR 0xBC,
    CHR 0x20, CHR 0xEC, CHR 0xB0, CHR 0xBE, CHR 0xEC, CHR 0x9D, CHR 0x84, CHR 0x20, CHR 0xEC,
    CHR 0x88, CHR 0x98, CHR 0x20, CHR 0xEC, CHR 0x97, CHR 0x86, CHR 0xEC, CHR 0x8A, CHR 0xB5,
    CHR 0xEB, CHR 0x8B, CHR 0x88, CHR 0xEB, CHR 0x8B, CHR 0xA4, CHR 0x2E]"

definition ko_server_forbidden :: string where
  "ko_server_forbidden =
   [CHR 0xED, CHR 0x95, CHR 0xB4, CHR 0xEB, CHR 0x8B, CHR 0xB9, CHR 0x20, CHR 0xEC, CHR 0x84,
    CHR 0x9C, CHR 0xEB, CHR 0xB2, CHR 0x84, CHR 0xEC, CHR 0x97, CHR 0x90, CHR 0x20, CHR 0xEC,
    CHR 0xA0, CHR 0x91, CHR 0xEA, CHR 0xB7, CHR 0xBC, CHR 0xED, CHR 0x95, CHR 0xA0, CHR 0x20,
    CHR 0xEA, CHR 0xB6, CHR 0x8C, CHR 0xED, CHR 0x95, CHR 0x9C, CHR 0xEC, CHR 0x9D, CHR 0xB4,
    CHR 0x20, CHR 0xEC, CHR 0x97, CHR 0x86, CHR 0xEC, CHR 0x8A, CHR 0xB5, CHR 0xEB, CHR 0x8B,
    CHR 0x88, CHR 0xEB, CHR 0x8B, CHR 0xA4, CHR 0x2E]"

section \<open>Tasks (hub-api/src/tasks/tasks.service.ts)\<close>

definition ko_task_not_found :: string where
  "ko_task_not_found =
   [CHR 0xEC, CHR 0x9E, CHR 0x91, CHR 0xEC, CHR 0x97, CHR 0x85, CHR 0xEC, CHR 0x9D, CHR 0x84,
    CHR 0x20, CHR 0xEC, CHR 0xB0, CHR 0xBE, CHR 0xEC, CHR 0x9D, CHR 0x84, CHR 0x20, CHR 0xEC,
    CHR 0x88, CHR 0x98, CHR 0x20, CHR 0xEC, CHR 0x97, CHR 0x86, CHR 0xEC, CHR 0x8A, CHR 0xB5,
    CHR 0xEB, CHR 0x8B, CHR 0x88, CHR 0xEB, CHR 0x8B, CHR 0xA4, CHR 0x2E]"

definition ko_task_forbidden :: string where
  "ko_task_forbidden =
   [CHR 0xED, CHR 0x95, CHR 0xB4, CHR 0xEB, CHR 0x8B, CHR 0xB9, CHR 0x20, CHR 0xEC, CHR 0x9E,
    CHR 0x91, CHR 0xEC, CHR 0x97, CHR 0x85, CHR 0xEC, CHR 0x97, CHR 0x90, CHR 0x20, CHR 0xEC,
    CHR 0xA0, CHR 0x91, CHR 0xEA, CHR 0xB7, CHR 0xBC, CHR 0xED, CHR 0x95, CHR 0xA0, CHR 0x20,
    CHR 0xEA, CHR 0xB6, CHR 0x8C, CHR 0xED, CHR 0x95, CHR 0x9C, CHR 0xEC, CHR 0x9D, CHR 0xB4,
    CHR 0x20, CHR 0xEC, CHR 0x97, CHR 0x86, CHR 0xEC, CHR 0x8A, CHR 0xB5, CHR 0xEB, CHR 0x8B,
    CHR 0x88, CHR 0xEB, CHR 0x8B, CHR 0xA4, CHR 0x2E]"

definition ko_task_completed :: string where
  "ko_task_completed =
   [CHR 0xEC, CHR 0x9E, CHR 0x91, CHR 0xEC, CHR 0x97, CHR 0x85, CHR 0x20, CHR 0xEC, CHR 0x99,
    CHR 0x84, CHR 0xEB, CHR 0xA3, CHR 0x8C]"

definition ko_task_failed :: string where
  "ko_task_failed =
   [CHR 0xEC, CHR 0x9E, CHR 0x91, CHR 0xEC, CHR 0x97, CHR 0x85, CHR 0x20, CHR 0xEC, CHR 0x8B,
    CHR 0xA4, CHR 0xED, CHR 0x8C, CHR 0xA8]"

definition ko_task_open :: string where
  "ko_task_open =
   [CHR 0xEC, CHR 0x9E, CHR 0x91, CHR 0xEC, CHR 0x97, CHR 0x85, CHR 0x28]"

definition ko_task_subject :: string where
  "ko_task_subject =
   [CHR 0x29, CHR 0xEC, CHR 0x9D, CHR 0xB4, CHR 0x20]"

definition ko_task_became :: string where
  "ko_task_became =
   [CHR 0xEB, CHR 0x90, CHR 0x98, CHR 0xEC, CHR 0x97, CHR 0x88, CHR 0xEC, CHR 0x8A, CHR 0xB5,
    CHR 0xEB, CHR 0x8B, CHR 0x88, CHR 0xEB, CHR 0x8B, CHR 0xA4, CHR 0x2E]"

definition ko_task_capacity :: string where
  "ko_task_capacity =
   [CHR 0x29, CHR 0xEC, CHR 0x9D, CHR 0xB4, CHR 0x20, CHR 0xEC, CHR 0x9E, CHR 0x91, CHR 0xEC,
    CHR 0x97, CHR 0x85, CHR 0xEC, CHR 0x9E, CHR 0x90, CHR 0x20, CHR 0xEC, CHR 0x9A, CHR 0xA9,
    CHR 0xEB, CHR 0x9F, CHR 0x89, CHR 0x20, CHR 0xEC, CHR 0x86, CHR 0x8C, CHR 0xEC, CHR 0xA7,
    CHR 0x84, CHR 0x20, CHR 0xED, CHR 0x9B, CHR 0x84, CHR 0x20, CHR 0xEC, CHR 0x8B, CHR 0xA4,
    CHR 0xED, CHR 0x8C, CHR 0xA8, CHR 0xED, CHR 0x96, CHR 0x88, CHR 0xEC, CHR 0x8A, CHR 0xB5,
    CHR 0xEB, CHR 0x8B, CHR 0x88, CHR 0xEB, CHR 0x8B, CHR 0xA4, CHR 0x2E]"

section \<open>Approvals (hub-api/src/approvals/approvals.service.ts)\<close>

definition ko_approval_not_found :: string where
  "ko_approval_not_found =
   [CHR 0xEC, CHR 0x8A, CHR 0xB9, CHR 0xEC, CHR 0x9D, CHR 0xB8, CHR 0x20, CHR 0xEC, CHR 0x9A,
    CHR 0x94, CHR 0xEC, CHR 0xB2, CHR 0xAD, CHR 0xEC, CHR 0x9D, CHR 0x84, CHR 0x20, CHR 0xEC,
    CHR 0xB0, CHR 0xBE, CHR 0xEC, CHR 0x9D, CHR 0x84, CHR 0x20, CHR 0xEC, CHR 0x88, CHR 0x98,
    CHR 0x20, CHR 0xEC, CHR 0x97, CHR 0x86, CHR 0xEC, CHR 0x8A, CHR 0xB5, CHR 0xEB, CHR 0x8B,
    CHR 0x88, CHR 0xEB, CHR 0x8B, CHR 0xA4, CHR 0x2E]"

definition ko_approval_forbidden :: string where
  "ko_approval_forbidden =
   [CHR 0xED, CHR 0x95, CHR 0xB4, CHR 0xEB, CHR 0x8B, CHR 0xB9, CHR 0x20, CHR 0xEC, CHR 0x8A,
    CHR 0xB9, CHR 0xEC, CHR 0x9D, CHR 0xB8, CHR 0x20, CHR 0xEC, CHR 0x9A, CHR 0x94, CHR 0xEC,
    CHR 0xB2, CHR 0xAD, CHR 0xEC, CHR 0x97, CHR 0x90, CHR 0x20, CHR 0xEC, CHR 0xA0, CHR 0x91,
    CHR 0xEA, CHR 0xB7, CHR 0xBC, CHR 0xED, CHR 0x95, CHR 0xA0, CHR 0x20, CHR 0xEA, CHR 0xB6,
    CHR 0x8C, CHR 0xED, CHR 0x95, CHR 0x9C, CHR 0xEC, CHR 0x9D, CHR 0xB4, CHR 0x20, CHR 0xEC,
    CHR 0x97, CHR 0x86, CHR 0xEC, CHR 0x8A, CHR 0xB5, CHR 0xEB, CHR 0x8B, CHR 0x88, CHR 0xEB,
    CHR 0x8B, CHR 0xA4, CHR 0x2E]"

definition ko_approval_decided :: string where
  "ko_approval_decided =
   [CHR 0xEC, CHR 0x9D, CHR 0xB4, CHR 0xEB, CHR 0xAF, CHR 0xB8, CHR 0x20, CHR 0xEC, CHR 0xB2,
    CHR 0x98, CHR 0xEB, CHR 0xA6, CHR 0xAC, CHR 0xEB, CHR 0x90, CHR 0x9C, CHR 0x20, CHR 0xEC,
    CHR 0x8A, CHR 0xB9, CHR 0xEC, CHR 0x9D, CHR 0xB8, CHR 0x20, CHR 0xEC, CHR 0x9A, CHR 0x94,
    CHR 0xEC, CHR 0xB2, CHR 0xAD, CHR 0xEC, CHR 0x9E, CHR 0x85, CHR 0xEB, CHR 0x8B, CHR 0x88,
    CHR 0xEB, CHR 0x8B, CHR 0xA4, CHR 0x2E]"

definition ko_approval_needed :: string where
  "ko_approval_needed =
   [CHR 0xEC, CHR 0x8A, CHR 0xB9, CHR 0xEC, CHR 0x9D, CHR 0xB8, CHR 0x20, CHR 0xED, CHR 0x95,
    CHR 0x84, CHR 0xEC, CHR 0x9A, CHR 0x94]"

section \<open>Workers and realtime (hub-api/src/workers, hub-api/src/realtime)\<close>

definition ko_unsupported_worker :: string where
  "ko_unsupported_worker =
   [CHR 0xEC, CHR 0xA7, CHR 0x80, CHR 0xEC, CHR 0x9B, CHR 0x90, CHR 0xED, CHR 0x95, CHR 0x98,
    CHR 0xEC, CHR 0xA7, CHR 0x80, CHR 0x20, CHR 0xEC, CHR 0x95, CHR 0x8A, CHR 0xEB, CHR 0x8A,
    CHR 0x94, CHR 0x20, CHR 0xEC, CHR 0x9B, CHR 0x8C, CHR 0xEC, CHR 0xBB, CHR 0xA4, CHR 0x20,
    CHR 0xED, CHR 0x83, CHR 0x80, CHR 0xEC, CHR 0x9E, CHR 0x85, CHR 0xEC, CHR 0x9E, CHR 0x85,
    CHR 0xEB, CHR 0x8B, CHR 0x88, CHR 0xEB, CHR 0x8B, CHR 0xA4, CHR 0x3A, CHR 0x20]"

definition ko_server_open :: string where
  "ko_server_open =
   [CHR 0xEC, CHR 0x84, CHR 0x9C, CHR 0xEB, CHR 0xB2, CHR 0x84, CHR 0x28]"

definition ko_server_missing :: string where
  "ko_server_missing =
   [CHR 0x29, CHR 0xEB, CHR 0xA5, CHR 0xBC, CHR 0x20, CHR 0xEC, CHR 0xB0, CHR 0xBE, CHR 0xEC,
    CHR 0x9D, CHR 0x84, CHR 0x20, CHR 0xEC, CHR 0x88, CHR 0x98, CHR 0x20, CHR 0xEC, CHR 0x97,
    CHR 0x86, CHR 0xEC, CHR 0x8A, CHR 0xB5, CHR 0xEB, CHR 0x8B, CHR 0x88, CHR 0xEB, CHR 0x8B,
    CHR 0xA4, CHR 0x2E]"

definition ko_task_missing :: string where
  "ko_task_missing =
   [CHR 0x29, CHR 0xEC, CHR 0x9D, CHR 0x84, CHR 0x20, CHR 0xEC, CHR 0xB0, CHR 0xBE, CHR 0xEC,
    CHR 0x9D, CHR 0x84, CHR 0x20, CHR 0xEC, CHR 0x88, CHR 0x98, CHR 0x20, CHR 0xEC, CHR 0x97,
    CHR 0x86, CHR 0xEC, CHR 0x8A, CHR 0xB5, CHR 0xEB, CHR 0x8B, CHR 0x88, CHR 0xEB, CHR 0x8B,
    CHR 0xA4, CHR 0x2E]"

definition ko_daemon_offline :: string where
  "ko_daemon_offline =
   [CHR 0x29, CHR 0xEC, CHR 0x9D, CHR 0x98, CHR 0x20, CHR 0x41, CHR 0x67, CHR 0x65, CHR 0x6E,
    CHR 0x74, CHR 0x20, CHR 0x44, CHR 0x61, CHR 0x65, CHR 0x6D, CHR 0x6F, CHR 0x6E, CHR 0xEC,
    CHR 0x9D, CHR 0xB4, CHR 0x20, CHR 0xEC, CHR 0x97, CHR 0xB0, CHR 0xEA, CHR 0xB2, CHR 0xB0,
    CHR 0xEB, CHR 0x90, CHR 0x98, CHR 0xEC, CHR 0x96, CHR 0xB4, CHR 0x20, CHR 0xEC, CHR 0x9E,
    CHR 0x88, CHR 0xEC, CHR 0xA7, CHR 0x80, CHR 0x20, CHR 0xEC, CHR 0x95, CHR 0x8A, CHR 0xEC,
    CHR 0x8A, CHR 0xB5, CHR 0xEB, CHR 0x8B, CHR 0x88, CHR 0xEB, CHR 0x8B, CHR 0xA4, CHR 0x2E]"

section \<open>Auth (hub-api/src/auth/auth.service.ts)\<close>

definition ko_bad_login :: string where
  "ko_bad_login =
   [CHR 0xEC, CHR 0x9D, CHR 0xB4, CHR 0xEB, CHR 0xA9, CHR 0x94, CHR 0xEC, CHR 0x9D, CHR 0xBC,
    CHR 0x20, CHR 0xEB, CHR 0x98, CHR 0x90, CHR 0xEB, CHR 0x8A, CHR 0x94, CHR 0x20, CHR 0xEB,
    CHR 0xB9, CHR 0x84, CHR 0xEB, CHR 0xB0, CHR 0x80, CHR 0xEB, CHR 0xB2, CHR 0x88, CHR 0xED,
    CHR 0x98, CHR 0xB8, CHR 0xEA, CHR 0xB0, CHR 0x80, CHR 0x20, CHR 0xEC, CHR 0x98, CHR 0xAC,
    CHR 0xEB, CHR 0xB0, CHR 0x94, CHR 0xEB, CHR 0xA5, CHR 0xB4, CHR 0xEC, CHR 0xA7, CHR 0x80,
    CHR 0x20, CHR 0xEC, CHR 0x95, CHR 0x8A, CHR 0xEC, CHR 0x8A, CHR 0xB5, CHR 0xEB, CHR 0x8B,
    CHR 0x88, CHR 0xEB, CHR 0x8B, CHR 0xA4, CHR 0x2E]"

definition ko_bad_refresh :: string where
  "ko_bad_refresh =
   [CHR 0xEC, CHR 0x9C, CHR 0xA0, CHR 0xED, CHR 0x9A, CHR 0xA8, CHR 0xED, CHR 0x95, CHR 0x98,
    CHR 0xEC, CHR 0xA7, CHR 0x80, CHR 0x20, CHR 0xEC, CHR 0x95, CHR 0x8A, CHR 0xEC, CHR 0x9D,
    CHR 0x80, CHR 0x20, CHR 0x72, CHR 0x65, CHR 0x66, CHR 0x72, CHR 0x65, CHR 0x73, CHR 0x68,
    CHR 0x20, CHR 0x74, CHR 0x6F, CHR 0x6B, CHR 0x65, CHR 0x6E, CHR 0x20, CHR 0xEC, CHR 0x9E,
    CHR 0x85, CHR 0xEB, CHR 0x8B, CHR 0x88, CHR 0xEB, CHR 0x8B, CHR 0xA4, CHR 0x2E]"

section \<open>Registrations (hub-api/src/server-registrations/server-registrations.service.ts)\<close>

definition ko_owner_not_found :: string where
  "ko_owner_not_found =
   [CHR 0xEB, CHR 0x93, CHR 0xB1, CHR 0xEB, CHR 0xA1, CHR 0x9D, CHR 0xED, CHR 0x95, CHR 0xA0,
    CHR 0x20, CHR 0xEC, CHR 0x82, CHR 0xAC, CHR 0xEC, CHR 0x9A, CHR 0xA9, CHR 0xEC, CHR 0x9E,
    CHR 0x90, CHR 0xEB, CHR 0xA5, CHR 0xBC, CHR 0x20, CHR 0xEC, CHR 0xB0, CHR 0xBE, CHR 0xEC,
    CHR 0x9D, CHR 0x84, CHR 0x20, CHR 0xEC, CHR 0x88, CHR 0x98, CHR 0x20, CHR 0xEC, CHR 0x97,
    CHR 0x86, CHR 0xEC, CHR 0x8A, CHR 0xB5, CHR 0xEB, CHR 0x8B, CHR 0x88, CHR 0xEB, CHR 0x8B,
    CHR 0xA4, CHR 0x2E]"

definition ko_request_not_found :: string where
  "ko_request_not_found =
   [CHR 0xEC, CHR 0x84, CHR 0x9C, CHR 0xEB, CHR 0xB2, CHR 0x84, CHR 0x20, CHR 0xEB, CHR 0x93,
    CHR 0xB1, CHR 0xEB, CHR 0xA1, CHR 0x9D, CHR 0x20, CHR 0xEC, CHR 0x9A, CHR 0x94, CHR 0xEC,
    CHR 0xB2, CHR 0xAD, CHR 0xEC, CHR 0x9D, CHR 0x84, CHR 0x20, CHR 0xEC, CHR 0xB0, CHR 0xBE,
    CHR 0xEC, CHR 0x9D, CHR 0x84, CHR 0x20, CHR 0xEC, CHR 0x88, CHR 0x98, CHR 0x20, CHR 0xEC,
    CHR 0x97, CHR 0x86, CHR 0xEC, CHR 0x8A, CHR 0xB5, CHR 0xEB, CHR 0x8B, CHR 0x88, CHR 0xEB,
    CHR 0x8B, CHR 0xA4, CHR 0x2E]"

definition ko_request_forbidden :: string where
  "ko_request_forbidden =
   [CHR 0xED, CHR 0x95, CHR 0xB4, CHR 0xEB, CHR 0x8B, CHR 0xB9, CHR 0x20, CHR 0xEB, CHR 0x93,
    CHR 0xB1, CHR 0xEB, CHR 0xA1, CHR 0x9D, CHR 0x20, CHR 0xEC, CHR 0x9A, CHR 0x94, CHR 0xEC,
    CHR 0xB2, CHR 0xAD, CHR 0xEC, CHR 0x97, CHR 0x90, CHR 0x20, CHR 0xEC, CHR 0xA0, CHR 0x91,
    CHR 0xEA, CHR 0xB7, CHR 0xBC, CHR 0xED, CHR 0x95, CHR 0xA0, CHR 0x20, CHR 0xEA, CHR 0xB6,
    CHR 0x8C, CHR 0xED, CHR 0x95, CHR 0x9C, CHR 0xEC, CHR 0x9D, CHR 0xB4, CHR 0x20, CHR 0xEC,
    CHR 0x97, CHR 0x86, CHR 0xEC, CHR 0x8A, CHR 0xB5, CHR 0xEB, CHR 0x8B, CHR 0x88, CHR 0xEB,
    CHR 0x8B, CHR 0xA4, CHR 0x2E]"

definition ko_secret_missing :: string where
  "ko_secret_missing =
   [CHR 0xEB, CHR 0x93, CHR 0xB1, CHR 0xEB, CHR 0xA1, CHR 0x9D, CHR 0x20, CHR 0xEC, CHR 0x9A,
    CHR 0x94, CHR 0xEC, CHR 0xB2, CHR 0xAD, CHR 0x20, CHR 0x73, CHR 0x65, CHR 0x63, CHR 0x72,
    CHR 0x65, CHR 0x74, CHR 0xEC, CHR 0x9D, CHR 0xB4, CHR 0x20, CHR 0xED, CHR 0x95, CHR 0x84,
    CHR 0xEC, CHR 0x9A, CHR 0x94, CHR 0xED, CHR 0x95, CHR 0xA9, CHR 0xEB, CHR 0x8B, CHR 0x88,
    CHR 0xEB, CHR 0x8B, CHR 0xA4, CHR 0x2E]"

definition ko_secret_wrong :: string where
  "ko_secret_wrong =
   [CHR 0xEB, CHR 0x93, CHR 0xB1, CHR 0xEB, CHR 0xA1, CHR 0x9D, CHR 0x20, CHR 0xEC, CHR 0x9A,
    CHR 0x94, CHR 0xEC, CHR 0xB2, CHR 0xAD, CHR 0x20, CHR 0x73, CHR 0x65, CHR 0x63, CHR 0x72,
    CHR 0x65, CHR 0x74, CHR 0xEC, CHR 0x9D, CHR 0xB4, CHR 0x20, CHR 0xEC, CHR 0x98, CHR 0xAC,
    CHR 0xEB, CHR 0xB0, CHR 0x94, CHR 0xEB, CHR 0xA5, CHR 0xB4, CHR 0xEC, CHR 0xA7, CHR 0x80,
    CHR 0x20, CHR 0xEC, CHR 0x95, CHR 0x8A, CHR 0xEC, CHR 0x8A, CHR 0xB5, CHR 0xEB, CHR 0x8B,
    CHR 0x88, CHR 0xEB, CHR 0x8B, CHR 0xA4, CHR 0x2E]"

section \<open>Mobile labels (mobile-app/App.tsx)\<close>

definition ko_no_record :: string where
  "ko_no_record =
   [CHR 0xEA, CHR 0xB8, CHR 0xB0, CHR 0xEB, CHR 0xA1, CHR 0x9D, CHR 0x20, CHR 0xEC, CHR 0x97,
    CHR 0x86, CHR 0xEC, CHR 0x9D, CHR 0x8C]"

definition ko_just_now :: string where
  "ko_just_now =
   [CHR 0xEB, CHR 0xB0, CHR 0xA9, CHR 0xEA, CHR 0xB8, CHR 0x88, CHR 0x20, CHR 0xEC, CHR 0xA0,
    CHR 0x84]"

definition ko_minutes_ago :: string where
  "ko_minutes_ago =
   [CHR 0xEB, CHR 0xB6, CHR 0x84, CHR 0x20, CHR 0xEC, CHR 0xA0, CHR 0x84]"

definition ko_hours_ago :: string where
  "ko_hours_ago =
   [CHR 0xEC, CHR 0x8B, CHR 0x9C, CHR 0xEA, CHR 0xB0, CHR 0x84, CHR 0x20, CHR 0xEC, CHR 0xA0,
    CHR 0x84]"

definition ko_no_result :: string where
  "ko_no_result =
   [CHR 0xEC, CHR 0x95, CHR 0x84, CHR 0xEC, CHR 0xA7, CHR 0x81, CHR 0x20, CHR 0xEA, CHR 0xB2,
    CHR 0xB0, CHR 0xEA, CHR 0xB3, CHR 0xBC, CHR 0xEA, CHR 0xB0, CHR 0x80, CHR 0x20, CHR 0xEC,
    CHR 0x97, CHR 0x86, CHR 0xEC, CHR 0x8A, CHR 0xB5, CHR 0xEB, CHR 0x8B, CHR 0x88, CHR 0xEB,
    CHR 0x8B, CHR 0xA4, CHR 0x2E]"

definition ko_waiting :: string where
  "ko_waiting =
   [CHR 0xEB, CHR 0x8C, CHR 0x80, CHR 0xEA, CHR 0xB8, CHR 0xB0, CHR 0x20, CHR 0xEC, CHR 0xA4,
    CHR 0x91]"

definition ko_running :: string where
  "ko_running =
   [CHR 0xEC, CHR 0x8B, CHR 0xA4, CHR 0xED, CHR 0x96, CHR 0x89, CHR 0x20, CHR 0xEC, CHR 0xA4,
    CHR 0x91]"

definition ko_awaiting :: string where
  "ko_awaiting =
   [CHR 0xEC, CHR 0x8A, CHR 0xB9, CHR 0xEC, CHR 0x9D, CHR 0xB8, CHR 0x20, CHR 0xEB, CHR 0x8C,
    CHR 0x80, CHR 0xEA, CHR 0xB8, CHR 0xB0]"

definition ko_approved :: string where
  "ko_approved =
   [CHR 0xEC, CHR 0x8A, CHR 0xB9, CHR 0xEC, CHR 0x9D, CHR 0xB8, CHR 0xEB, CHR 0x90, CHR 0xA8]"

definition ko_done :: string where
  "ko_done =
   [CHR 0xEC, CHR 0x99, CHR 0x84, CHR 0xEB, CHR 0xA3, CHR 0x8C]"

definition ko_failure :: string where
  "ko_failure =
   [CHR 0xEC, CHR 0x8B, CHR 0xA4, CHR 0xED, CHR 0x8C, CHR 0xA8]"

definition ko_rejected :: string where
  "ko_rejected =
   [CHR 0xEA, CHR 0xB1, CHR 0xB0, CHR 0xEC, CHR 0xA0, CHR 0x88, CHR 0xEB, CHR 0x90, CHR 0xA8]"

definition ko_cancelled :: string where
  "ko_cancelled =
   [CHR 0xEC, CHR 0xB7, CHR 0xA8, CHR 0xEC, CHR 0x86, CHR 0x8C, CHR 0xEB, CHR 0x90, CHR 0xA8]"

definition ko_no_prompt :: string where
  "ko_no_prompt =
   [CHR 0xEC, CHR 0x9E, CHR 0x85, CHR 0xEB, CHR 0xA0, CHR 0xA5, CHR 0x20, CHR 0xEB, CHR 0x82,
    CHR 0xB4, CHR 0xEC, CHR 0x9A, CHR 0xA9, CHR 0x20, CHR 0xEC, CHR 0x97, CHR 0x86, CHR 0xEC,
    CHR 0x9D, CHR 0x8C]"

definition ko_no_logs :: string where
  "ko_no_logs =
   [CHR 0xEC, CHR 0x95, CHR 0x84, CHR 0xEC, CHR 0xA7, CHR 0x81, CHR 0x20, CHR 0xEB, CHR 0xA1,
    CHR 0x9C, CHR 0xEA, CHR 0xB7, CHR 0xB8, CHR 0xEA, CHR 0xB0, CHR 0x80, CHR 0x20, CHR 0xEC,
    CHR 0x97, CHR 0x86, CHR 0xEC, CHR 0x8A, CHR 0xB5, CHR 0xEB, CHR 0x8B, CHR 0x88, CHR 0xEB,
    CHR 0x8B, CHR 0xA4, CHR 0x2E]"

definition ko_push_on :: string where
  "ko_push_on =
   [CHR 0xED, CHR 0x91, CHR 0xB8, CHR 0xEC, CHR 0x8B, CHR 0x9C, CHR 0x20, CHR 0xEC, CHR 0x95,
    CHR 0x8C, CHR 0xEB, CHR 0xA6, CHR 0xBC, CHR 0x20, CHR 0xEC, CHR 0xBC, CHR 0x9C, CHR 0xEC,
    CHR 0xA7, CHR 0x90]"

definition ko_push_token :: string where
  "ko_push_token =
   [CHR 0xED, CHR 0x86, CHR 0xA0, CHR 0xED, CHR 0x81, CHR 0xB0, CHR 0x20]"

definition ko_push_registering :: string where
  "ko_push_registering =
   [CHR 0xED, CHR 0x91, CHR 0xB8, CHR 0xEC, CHR 0x8B, CHR 0x9C, CHR 0x20, CHR 0xEC, CHR 0x95,
    CHR 0x8C, CHR 0xEB, CHR 0xA6, CHR 0xBC, CHR 0x20, CHR 0xEB, CHR 0x93, CHR 0xB1, CHR 0xEB,
    CHR 0xA1, CHR 0x9D, CHR 0x20, CHR 0xEC, CHR 0xA4, CHR 0x91]"

definition ko_push_checking :: string where
  "ko_push_checking =
   [CHR 0xEA, CHR 0xB8, CHR 0xB0, CHR 0xEA, CHR 0xB8, CHR 0xB0, CHR 0x20, CHR 0xED, CHR 0x86,
    CHR 0xA0, CHR 0xED, CHR 0x81, CHR 0xB0, CHR 0xEC, CHR 0x9D, CHR 0x84, CHR 0x20, CHR 0xED,
    CHR 0x99, CHR 0x95, CHR 0xEC, CHR 0x9D, CHR 0xB8, CHR 0xED, CHR 0x95, CHR 0x98, CHR 0xEA,
    CHR 0xB3, CHR 0xA0, CHR 0x20, CHR 0xEC, CHR 0x9E, CHR 0x88, CHR 0xEC, CHR 0x8A, CHR 0xB5,
    CHR 0xEB, CHR 0x8B, CHR 0x88, CHR 0xEB, CHR 0x8B, CHR 0xA4, CHR 0x2E]"

definition ko_push_unavailable :: string where
  "ko_push_unavailable =
   [CHR 0xEC, CHR 0x95, CHR 0x8C, CHR 0xEB, CHR 0xA6, CHR 0xBC, CHR 0xEC, CHR 0x9D, CHR 0x84,
    CHR 0x20, CHR 0xEC, CHR 0x82, CHR 0xAC, CHR 0xEC, CHR 0x9A, CHR 0xA9, CHR 0xED, CHR 0x95,
    CHR 0xA0, CHR 0x20, CHR 0xEC, CHR 0x88, CHR 0x98, CHR 0x20, CHR 0xEC, CHR 0x97, CHR 0x86,
    CHR 0xEC, CHR 0x9D, CHR 0x8C]"

definition ko_push_check_config :: string where
  "ko_push_check_config =
   [CHR 0x46, CHR 0x69, CHR 0x72, CHR 0x65, CHR 0x62, CHR 0x61, CHR 0x73, CHR 0x65, CHR 0x20,
    CHR 0xEC, CHR 0x84, CHR 0xA4, CHR 0xEC, CHR 0xA0, CHR 0x95, CHR 0xEC, CHR 0x9D, CHR 0x84,
    CHR 0x20, CHR 0xED, CHR 0x99, CHR 0x95, CHR 0xEC, CHR 0x9D, CHR 0xB8, CHR 0xED, CHR 0x95,
    CHR 0x9C, CHR 0x20, CHR 0xEB, CHR 0x92, CHR 0xA4, CHR 0x20, CHR 0xEB, CHR 0x8B, CHR 0xA4,
    CHR 0xEC, CHR 0x8B, CHR 0x9C, CHR 0x20, CHR 0xEC, CHR 0x8B, CHR 0x9C, CHR 0xEB, CHR 0x8F,
    CHR 0x84, CHR 0xED, CHR 0x95, CHR 0x98, CHR 0xEC, CHR 0x84, CHR 0xB8, CHR 0xEC, CHR 0x9A,
    CHR 0x94, CHR 0x2E]"

definition ko_push_off :: string where
  "ko_push_off =
   [CHR 0xED, CHR 0x91, CHR 0xB8, CHR 0xEC, CHR 0x8B, CHR 0x9C, CHR 0x20, CHR 0xEC, CHR 0x95,
    CHR 0x8C, CHR 0xEB, CHR 0xA6, CHR 0xBC, CHR 0x20, CHR 0xEA, CHR 0xBA, CHR 0xBC, CHR 0xEC,
    CHR 0xA7, CHR 0x90]"

definition ko_push_hint :: string where
  "ko_push_hint =
   [CHR 0xEC, CHR 0x8A, CHR 0xB9, CHR 0xEC, CHR 0x9D, CHR 0xB8, CHR 0x20, CHR 0xEC, CHR 0x9A,
    CHR 0x94, CHR 0xEC, CHR 0xB2, CHR 0xAD, CHR 0x20, CHR 0xEC, CHR 0x95, CHR 0x8C, CHR 0xEB,
    CHR 0xA6, CHR 0xBC, CHR 0xEC, CHR 0x9D, CHR 0x84, CHR 0x20, CHR 0xEB, CHR 0xB0, CHR 0x9B,
    CHR 0xEC, CHR 0x9C, CHR 0xBC, CHR 0xEB, CHR 0xA0, CHR 0xA4, CHR 0xEB, CHR 0xA9, CHR 0xB4,
    CHR 0x20, CHR 0xEB, CHR 0x93, CHR 0xB1, CHR 0xEB, CHR 0xA1, CHR 0x9D, CHR 0xED, CHR 0x95,
    CHR 0x98, CHR 0xEC, CHR 0x84, CHR 0xB8, CHR 0xEC, CHR 0x9A, CHR 0x94, CHR 0x2E]"

definition ko_sending :: string where
  "ko_sending =
   [CHR 0xEC, CHR 0xA0, CHR 0x84, CHR 0xEC, CHR 0x86, CHR 0xA1, CHR 0x20, CHR 0xEC, CHR 0xA4,
    CHR 0x91]"

definition ko_run_task :: string where
  "ko_run_task =
   [CHR 0xEC, CHR 0x9E, CHR 0x91, CHR 0xEC, CHR 0x97, CHR 0x85, CHR 0x20, CHR 0xEC, CHR 0x8B,
    CHR 0xA4, CHR 0xED, CHR 0x96, CHR 0x89]"

end
