(* ===== verification/Common.thy ===== *)
theory Common
  imports Integrity Messages
begin

text \<open>
  \<^verbatim>\<open>hub-api/src/common\<close>: durations and the crypto helpers. Random bytes, SHA-256 and AES-256-GCM
  are functions of \<open>ext\<close>; what is modelled is how the helpers frame, encode and decode them, and
  where they throw. The lemmas give the duration grammar, the shape of verification codes and the
  decrypt-after-encrypt round trips.
\<close>

section \<open>Durations (duration.util.ts)\<close>

definition UNIT_MS :: "char \<Rightarrow> int option" where
  "UNIT_MS c =
    (if c = CHR ''s'' then Some 1000
     else if c = CHR ''m'' then Some (60 * 1000)
     else if c = CHR ''h'' then Some (60 * 60 * 1000)
     else if c = CHR ''d'' then Some (24 * 60 * 60 * 1000)
     else None)"

definition match_duration :: "string \<Rightarrow> (string \<times> char) option" where
  "match_duration s =
    (if s = [] then None
     else let amount = butlast s; unit = last s
       in if amount \<noteq> [] \<and> list_all is_digit amount \<and> UNIT_MS unit \<noteq> None
          then Some (amount, unit) else None)"

definition durationToMs :: "string \<Rightarrow> hub_error + int" where
  "durationToMs value =
    (case match_duration (trim value) of
       None \<Rightarrow> Inl (JsError (''Invalid duration format: '' @ value))
     | Some (amount, unit) \<Rightarrow> Inr (int (read_nat amount) * the (UNIT_MS unit)))"

section \<open>Crypto helpers (crypto.util.ts)\<close>

definition randomBytes :: "ext \<Rightarrow> nat \<Rightarrow> string hub_prog" where
  "randomBytes x n = bindE draw (\<lambda>k. ret (x_random x k n))"

definition generateApiKey :: "ext \<Rightarrow> string hub_prog" where
  "generateApiKey x = bindE (randomBytes x 32) (\<lambda>b. ret (toHex b))"

definition generateSecret :: "ext \<Rightarrow> string hub_prog" where
  "generateSecret x = bindE (randomBytes x 32) (\<lambda>b. ret (toHex b))"

definition readUIntBE :: "string \<Rightarrow> nat" where
  "readUIntBE b = foldl (\<lambda>n c. 256 * n + code_of c) 0 b"

definition verification_code :: "string \<Rightarrow> string" where
  "verification_code b = padStart 6 (CHR ''0'') (show_nat (readUIntBE b mod 1000000))"

definition generateVerificationCode :: "ext \<Rightarrow> string hub_prog" where
  "generateVerificationCode x = bindE (randomBytes x 3) (\<lambda>b. ret (verification_code b))"

definition hashApiKey :: "ext \<Rightarrow> string \<Rightarrow> string" where
  "hashApiKey x apiKey = toHex (x_sha256 x apiKey)"

definition encryptSecret :: "ext \<Rightarrow> string \<Rightarrow> string \<Rightarrow> string hub_prog" where
  "encryptSecret x plainText keyHex =
    (let key = fromHex keyHex in
     bindE (randomBytes x 12) (\<lambda>iv.
       thenE (guardE (length key = 32) (JsError ''Invalid key length''))
         (let (encrypted, authTag) = x_gcm_enc x key iv plainText
          in ret (join '':'' (map toHex [iv, authTag, encrypted])))))"

definition decryptSecret :: "ext \<Rightarrow> string \<Rightarrow> string \<Rightarrow> hub_error + string" where
  "decryptSecret x cipherText keyHex =
    (case split_char (CHR '':'') cipherText of
       ivHex # authTagHex # dataHex # _ \<Rightarrow>
         (let key = fromHex keyHex in
          if length key \<noteq> 32 then Inl (JsError ''Invalid key length'')
          else case x_gcm_dec x key (fromHex ivHex) (fromHex authTagHex) (fromHex dataHex) of
              None \<Rightarrow> Inl (JsError ''Unsupported state or unable to authenticate data'')
            | Some p \<Rightarrow> Inr p)
     | _ \<Rightarrow> Inl (JsError ''The first argument must be of type string''))"

record enc_payload =
  ep_ciphertext :: string
  ep_iv :: string
  ep_authTag :: string

definition encryptForRequestSecret :: "ext \<Rightarrow> string \<Rightarrow> string \<Rightarrow> enc_payload hub_prog" where
  "encryptForRequestSecret x plainText requestSecret =
    (let key = x_sha256 x requestSecret in
     bindE (randomBytes x 12) (\<lambda>iv.
       let (encrypted, authTag) = x_gcm_enc x key iv plainText
       in ret \<lparr>ep_ciphertext = toHex encrypted, ep_iv = toHex iv, ep_authTag = toHex authTag\<rparr>))"

definition decryptForRequestSecret :: "ext \<Rightarrow> enc_payload \<Rightarrow> string \<Rightarrow> hub_error + string" where
  "decryptForRequestSecret x payload requestSecret =
    (let key = x_sha256 x requestSecret in
     case x_gcm_dec x key (fromHex (ep_iv payload)) (fromHex (ep_authTag payload))
       (fromHex (ep_ciphertext payload)) of
       None \<Rightarrow> Inl (JsError ''Unsupported state or unable to authenticate data'')
     | Some p \<Rightarrow> Inr p)"

text \<open>What the code relies on of AES-256-GCM: decryption under the same key and nonce, with the tag
  that encryption produced, gives the text back.\<close>

definition gcm_ok :: "ext \<Rightarrow> bool" where
  "gcm_ok x \<longleftrightarrow> (\<forall>k iv p. x_gcm_dec x k iv (snd (x_gcm_enc x k iv p)) (fst (x_gcm_enc x k iv p)) = Some p)"

section \<open>Lemmas\<close>

lemma randomBytes_apply [prog_simps]:
  "randomBytes x n h = (Inr (x_random x (draws h) n), h\<lparr>draws := Suc (draws h)\<rparr>)"
  by (simp add: randomBytes_def prog_simps)

lemma generateApiKey_apply [prog_simps]:
  "generateApiKey x h = (Inr (toHex (x_random x (draws h) 32)), h\<lparr>draws := Suc (draws h)\<rparr>)"
  by (simp add: generateApiKey_def prog_simps)

lemma generateSecret_apply [prog_simps]:
  "generateSecret x h = (Inr (toHex (x_random x (draws h) 32)), h\<lparr>draws := Suc (draws h)\<rparr>)"
  by (simp add: generateSecret_def prog_simps)

lemma generateVerificationCode_apply [prog_simps]:
  "generateVerificationCode x h =
    (Inr (verification_code (x_random x (draws h) 3)), h\<lparr>draws := Suc (draws h)\<rparr>)"
  by (simp add: generateVerificationCode_def prog_simps)

lemma keeps_randomBytes [keeps_rules]: "keeps (wf_hub x) (randomBytes y n)"
  by (simp add: keeps_def prog_simps)

lemma keeps_generateApiKey [keeps_rules]: "keeps (wf_hub x) (generateApiKey y)"
  by (simp add: keeps_def prog_simps)

lemma keeps_generateSecret [keeps_rules]: "keeps (wf_hub x) (generateSecret y)"
  by (simp add: keeps_def prog_simps)

lemma keeps_generateVerificationCode [keeps_rules]: "keeps (wf_hub x) (generateVerificationCode y)"
  by (simp add: keeps_def prog_simps)

lemma keeps_encryptSecret [keeps_rules]: "keeps (wf_hub x) (encryptSecret y p k)"
  by (simp add: keeps_def encryptSecret_def prog_simps Let_def split: prod.splits)

lemma keeps_encryptForRequestSecret [keeps_rules]: "keeps (wf_hub x) (encryptForRequestSecret y p k)"
  by (simp add: keeps_def encryptForRequestSecret_def prog_simps Let_def split: prod.splits)

lemma match_duration_iff:
  "match_duration s = Some (a, u) \<longleftrightarrow>
    s = a @ [u] \<and> a \<noteq> [] \<and> list_all is_digit a \<and> UNIT_MS u \<noteq> None"
  by (auto simp: match_duration_def Let_def split: if_splits)

lemma not_ws_digit: "is_digit c \<Longrightarrow> \<not> ws c"
  by (auto simp: is_digit_def ws_def)

lemma not_ws_unit: "UNIT_MS u \<noteq> None \<Longrightarrow> \<not> ws u"
  by (auto simp: UNIT_MS_def ws_def code_of_def split: if_splits)

lemma trim_id: "s \<noteq> [] \<Longrightarrow> \<not> ws (hd s) \<Longrightarrow> \<not> ws (last s) \<Longrightarrow> trim s = s"
proof -
  assume a: "s \<noteq> []" "\<not> ws (hd s)" "\<not> ws (last s)"
  then have "dropWhile ws s = s" by (cases s) simp_all
  moreover from a have "dropWhile ws (rev s) = rev s" by (cases "rev s") (auto simp: hd_rev [symmetric])
  ultimately show ?thesis by (simp add: trim_def)
qed

lemma foldl_readUIntBE_nat: "readUIntBE (b @ [c]) = 256 * readUIntBE b + code_of c"
  by (simp add: readUIntBE_def)

lemma list_all_replicate_digit: "list_all is_digit (replicate n (CHR ''0''))"
  by (simp add: list_all_iff is_digit_def code_of_def)

section \<open>Properties\<close>

text \<open>\<open>durationToMs\<close> accepts exactly a run of decimal digits followed by one of the units s, m, h
  or d, white space around it aside, and returns the amount times the unit in milliseconds; every
  other text is the error branch.\<close>

theorem durationToMs_iff:
  "durationToMs value = Inr ms \<longleftrightarrow>
    (\<exists>amount unit m. trim value = amount @ [unit] \<and> amount \<noteq> [] \<and> list_all is_digit amount \<and>
       UNIT_MS unit = Some m \<and> ms = int (read_nat amount) * m)"
proof -
  have "durationToMs value = Inr ms \<longleftrightarrow>
      (\<exists>a u. match_duration (trim value) = Some (a, u) \<and> ms = int (read_nat a) * the (UNIT_MS u))"
    by (auto simp: durationToMs_def split: option.splits)
  then show ?thesis by (auto simp: match_duration_iff)
qed

text \<open>A printed amount with a unit reads back as that amount: \<open>durationToMs\<close> is a left inverse of
  printing, for every unit of the table.\<close>

theorem durationToMs_print:
  assumes "UNIT_MS u = Some m"
  shows "durationToMs (show_nat n @ [u]) = Inr (int n * m)"
proof -
  have d: "list_all is_digit (show_nat n)" using show_nat_digits by (simp add: list_all_iff)
  then have "\<not> ws (hd (show_nat n @ [u]))"
    by (metis hd_append2 hd_in_set list_all_iff not_ws_digit show_nat_nonempty)
  moreover from assms have "\<not> ws u" by (simp add: not_ws_unit)
  ultimately have "trim (show_nat n @ [u]) = show_nat n @ [u]" by (simp add: trim_id)
  with d assms show ?thesis
    unfolding durationToMs_def by (simp add: match_duration_iff [THEN iffD2, of _ "show_nat n" u])
qed

theorem durationToMs_print_witness:
  "durationToMs (show_nat 30 @ ''d'') = Inr (30 * 86400000)"
  using durationToMs_print [of "CHR ''d''" 86400000 30] by (simp add: UNIT_MS_def)

text \<open>Whatever three bytes the random source gives, the verification code is exactly six decimal
  digits.\<close>

theorem verification_code_shape:
  "length (verification_code b) = 6 \<and> list_all is_digit (verification_code b)"
proof -
  let ?n = "readUIntBE b mod 1000000"
  have "length (show_nat ?n) \<le> 6" by (rule length_show_nat_le) simp_all
  moreover have "list_all is_digit (show_nat ?n)" using show_nat_digits by (simp add: list_all_iff)
  ultimately show ?thesis
    by (simp add: verification_code_def padStart_def list_all_replicate_digit)
qed

text \<open>Decrypting a stored secret gives back the text that was encrypted, with the same 32-byte key,
  whatever nonce was drawn.\<close>

theorem decryptSecret_encryptSecret:
  assumes "gcm_ok x" and "length (fromHex keyHex) = 32"
    and "encryptSecret x plainText keyHex h = (Inr c, h')"
  shows "decryptSecret x c keyHex = Inr plainText"
proof -
  obtain iv e tag where iv: "iv = x_random x (draws h) 12"
    and enc: "x_gcm_enc x (fromHex keyHex) iv plainText = (e, tag)"
    by (metis surj_pair)
  from assms iv enc have "c = join '':'' (map toHex [iv, tag, e])"
    by (simp add: encryptSecret_def prog_simps Let_def)
  then have "split_char (CHR '':'') c = map toHex [iv, tag, e]"
    using split_join [of "map toHex [iv, tag, e]" "CHR '':''"] by (simp add: colon_toHex)
  moreover from assms(1) enc have "x_gcm_dec x (fromHex keyHex) iv tag e = Some plainText"
    by (metis fst_conv gcm_ok_def snd_conv)
  ultimately show ?thesis using assms(2) by (simp add: decryptSecret_def Let_def)
qed

lemma decryptForRequestSecret_encrypt:
  assumes "gcm_ok x" and "encryptForRequestSecret x p s h = (Inr c, h')"
  shows "decryptForRequestSecret x c s = Inr p"
proof -
  obtain e tag where enc: "x_gcm_enc x (x_sha256 x s) (x_random x (draws h) 12) p = (e, tag)"
    by (metis surj_pair)
  with assms(1) have "x_gcm_dec x (x_sha256 x s) (x_random x (draws h) 12) tag e = Some p"
    by (metis fst_conv gcm_ok_def snd_conv)
  with assms(2) enc show ?thesis
    by (auto simp: encryptForRequestSecret_def decryptForRequestSecret_def prog_simps Let_def)
qed

section \<open>A concrete environment\<close>

text \<open>An instance of \<open>ext\<close> on which the hypotheses of the development hold, for the witnesses: counted
  identifiers, a pass-through hash and cipher, unsigned tokens.\<close>

definition demo_key :: string where
  "demo_key = replicate 64 (CHR ''0'')"

definition demo_token :: "jwt_payload \<Rightarrow> string" where
  "demo_token p = join ''.'' (map toHex ([jwt_sub p, jwt_email p] @
     (case jwt_jti p of None \<Rightarrow> [] | Some j \<Rightarrow> [j])))"

definition demo_payload :: "string \<Rightarrow> jwt_payload option" where
  "demo_payload tok =
    (case map fromHex (split_char (CHR ''.'') tok) of
       [s, e] \<Rightarrow> Some \<lparr>jwt_sub = s, jwt_email = e, jwt_jti = None\<rparr>
     | [s, e, j] \<Rightarrow> Some \<lparr>jwt_sub = s, jwt_email = e, jwt_jti = Some j\<rparr>
     | _ \<Rightarrow> None)"

definition demo_ext :: ext where
  "demo_ext = \<lparr>
    x_uuid = (\<lambda>n. replicate (Suc n) (CHR ''i'')),
    x_random = (\<lambda>k n. replicate n (char_of k)),
    x_sha256 = (\<lambda>s. s),
    x_gcm_enc = (\<lambda>k iv p. (p, k)),
    x_gcm_dec = (\<lambda>k iv tag c. if tag = k then Some c else None),
    x_bcrypt_compare = (\<lambda>p h. p = h),
    x_bcrypt_hash = (\<lambda>p n. p),
    x_jwt_sign = (\<lambda>sec e t p. demo_token p),
    x_jwt_verify = (\<lambda>sec t tok. demo_payload tok),
    x_localeCompare = (\<lambda>a b. int (length a) - int (length b)),
    x_collate = (\<lambda>a b. int (length a) - int (length b)),
    x_env = (\<lambda>k. if k = ''PUSH_TOKEN_ENC_KEY'' then Some demo_key else Some ''1d''),
    x_fcm_init = (\<lambda>_. True),
    x_errorMessage = (\<lambda>_. ''db'')\<rparr>"

definition demo_hub :: hub where
  "demo_hub = \<lparr>users = [], refreshTokens = [], servers = [], regRequests = [], profiles = [], tasks = [],
    attempts = [], approvals = [], pushTokens = [], jobs = [], daemonSockets = [], appSockets = [],
    daemonOut = [], appOut = [], pushOut = [], fcmApp = False, clock = 1000, draws = 0\<rparr>"

definition demo_user_hub :: hub where
  "demo_user_hub = demo_hub\<lparr>users := [\<lparr>u_id = ''i'', u_email = ''a@b.c'', u_passwordHash = ''pw'',
     u_createdAt = 1000\<rparr>], draws := 1\<rparr>"

lemma demo_uuid: "x_uuid demo_ext n = replicate (Suc n) (CHR ''i'')"
  by (simp add: demo_ext_def)

lemma demo_payload_token [simp]: "demo_payload (demo_token p) = Some p"
proof -
  let ?l = "[jwt_sub p, jwt_email p] @ (case jwt_jti p of None \<Rightarrow> [] | Some j \<Rightarrow> [j])"
  have "split_char (CHR ''.'') (demo_token p) = map toHex ?l"
    unfolding demo_token_def by (rule split_join) (auto simp: dot_toHex)
  then show ?thesis by (cases p) (simp add: demo_payload_def comp_def split: option.splits)
qed

lemma demo_jwt:
  "x_jwt_sign demo_ext sec e t p = demo_token p" "x_jwt_verify demo_ext sec t tok = demo_payload tok"
  by (simp_all add: demo_ext_def)

lemma demo_gcm_ok: "gcm_ok demo_ext"
  by (simp add: gcm_ok_def demo_ext_def)

lemma demo_inj: "inj (x_uuid demo_ext)"
  by (simp add: demo_ext_def inj_def replicate_eq_replicate)

lemma wf_demo_hub: "wf_hub x demo_hub"
  by (simp add: demo_hub_def wf_defs ids_ok_def refs_def keyed_def)

lemma demo_key_length: "length (fromHex demo_key) = 32"
  unfolding demo_key_def by code_simp

lemma wf_demo_user_hub: "wf_hub demo_ext demo_user_hub"
  by (simp add: demo_user_hub_def demo_hub_def demo_ext_def wf_defs ids_ok_def refs_def keyed_def)

theorem decryptSecret_encryptSecret_witness:
  "\<exists>c. encryptSecret demo_ext ''tok'' demo_key demo_hub = (Inr c, demo_hub\<lparr>draws := 1\<rparr>) \<and>
     decryptSecret demo_ext c demo_key = Inr ''tok''"
proof -
  obtain a b where "x_gcm_enc demo_ext (fromHex demo_key) (x_random demo_ext 0 12) ''tok'' = (a, b)"
    by (metis surj_pair)
  then obtain c where e: "encryptSecret demo_ext ''tok'' demo_key demo_hub = (Inr c, demo_hub\<lparr>draws := 1\<rparr>)"
    using demo_key_length by (simp add: encryptSecret_def prog_simps Let_def demo_hub_def)
  then show ?thesis using decryptSecret_encryptSecret [OF demo_gcm_ok demo_key_length e] by blast
qed

end
