(* ===== verification/Realtime.thy ===== *)
theory Realtime
  imports Common
begin

text \<open>
  \<^verbatim>\<open>hub-api/src/realtime\<close>: the event names, the rooms, the delivery of events to sockets, and the
  service that the task, approval and worker components call. A socket is in \<open>daemonSockets\<close> or
  \<open>appSockets\<close> while it is connected; emitting to a room delivers one message to each socket that
  joined it. The connection handlers of the daemon namespace are in theory \<open>Gateway\<close>, after the
  servers component they call.
\<close>

section \<open>Event names (events.ts)\<close>

datatype daemon_inbound = HEARTBEAT | TASK_STATUS_UPDATE | TASK_LOG | TASK_RESULT | APPROVAL_REQUEST

fun DAEMON_INBOUND :: "daemon_inbound \<Rightarrow> string" where
  "DAEMON_INBOUND HEARTBEAT = ''daemon:heartbeat''"
| "DAEMON_INBOUND TASK_STATUS_UPDATE = ''task:statusUpdate''"
| "DAEMON_INBOUND TASK_LOG = ''task:log''"
| "DAEMON_INBOUND TASK_RESULT = ''task:result''"
| "DAEMON_INBOUND APPROVAL_REQUEST = ''approval:request''"

fun DAEMON_OUTBOUND :: "daemon_msg \<Rightarrow> string" where
  "DAEMON_OUTBOUND (TASK_SUBMIT _ _) = ''task:submit''"
| "DAEMON_OUTBOUND (TASK_CANCEL _) = ''task:cancel''"
| "DAEMON_OUTBOUND (APPROVAL_DECISION _ _ _) = ''approval:decision''"

fun APP_OUTBOUND :: "app_msg \<Rightarrow> string" where
  "APP_OUTBOUND (TASK_UPDATED _) = ''task:updated''"
| "APP_OUTBOUND (APPROVAL_PENDING _) = ''approval:pending''"
| "APP_OUTBOUND (APPROVAL_RESOLVED _) = ''approval:resolved''"

datatype internal_event = DAEMON_TASK_STATUS | DAEMON_TASK_LOG | DAEMON_TASK_RESULT | DAEMON_APPROVAL_REQUEST

fun INTERNAL_EVENTS :: "internal_event \<Rightarrow> string" where
  "INTERNAL_EVENTS DAEMON_TASK_STATUS = ''daemon.task.status''"
| "INTERNAL_EVENTS DAEMON_TASK_LOG = ''daemon.task.log''"
| "INTERNAL_EVENTS DAEMON_TASK_RESULT = ''daemon.task.result''"
| "INTERNAL_EVENTS DAEMON_APPROVAL_REQUEST = ''daemon.approval.request''"

text \<open>The payloads the daemon sends. The status of a status update is one of the five the interface
  lists; the hub casts it to the status of the task.\<close>

datatype daemon_status = DS_RUNNING | DS_AWAITING_APPROVAL | DS_COMPLETED | DS_FAILED | DS_CANCELLED

fun cast_status :: "daemon_status \<Rightarrow> TaskStatus" where
  "cast_status DS_RUNNING = RUNNING"
| "cast_status DS_AWAITING_APPROVAL = AWAITING_APPROVAL"
| "cast_status DS_COMPLETED = COMPLETED"
| "cast_status DS_FAILED = FAILED"
| "cast_status DS_CANCELLED = CANCELLED"

record status_payload =
  sp_taskId :: string
  sp_status :: daemon_status

record log_payload =
  lp_taskId :: string
  lp_chunk :: string

datatype failure_category = CAPACITY_EXHAUSTED | PROCESS_ERROR | UNKNOWN

record failure_payload =
  fp_category :: failure_category
  fp_retryable :: "bool option"
  fp_message :: "string option"
  fp_detail :: "string option"

datatype result_status = RS_COMPLETED | RS_FAILED

record result_payload =
  rp_taskId :: string
  rp_status :: result_status
  rp_failure :: "failure_payload option"
  rp_result :: "json option"

record approval_payload =
  pl_taskId :: string
  pl_reason :: string

section \<open>Rooms and delivery (daemon.gateway.ts, app.gateway.ts)\<close>

definition serverRoom :: "string \<Rightarrow> string" where
  "serverRoom serverId = ''server:'' @ serverId"

definition userRoom :: "string \<Rightarrow> string" where
  "userRoom userId = ''user:'' @ userId"

definition in_room :: "string \<Rightarrow> socket list \<Rightarrow> socket list" where
  "in_room room ss = filter (\<lambda>s. room \<in> set (so_rooms s)) ss"

definition isServerOnline :: "string \<Rightarrow> bool hub_prog" where
  "isServerOnline serverId =
    getS (\<lambda>h. length (in_room (serverRoom serverId) (daemonSockets h)) > 0)"

definition gw_dispatchToServer :: "string \<Rightarrow> daemon_msg \<Rightarrow> unit hub_prog" where
  "gw_dispatchToServer serverId m =
    modS (\<lambda>h. h\<lparr>daemonOut := daemonOut h @
      map (\<lambda>s. (so_id s, m)) (in_room (serverRoom serverId) (daemonSockets h))\<rparr>)"

definition emitToUser :: "string \<Rightarrow> app_msg \<Rightarrow> unit hub_prog" where
  "emitToUser userId m =
    modS (\<lambda>h. h\<lparr>appOut := appOut h @
      map (\<lambda>s. (so_id s, m)) (in_room (userRoom userId) (appSockets h))\<rparr>)"

section \<open>The realtime service (realtime.service.ts)\<close>

definition dispatchToServer :: "string \<Rightarrow> daemon_msg \<Rightarrow> unit hub_prog" where
  "dispatchToServer serverId m =
    bindE (isServerOnline serverId) (\<lambda>online.
      if \<not> online
      then throw (ServiceUnavailableException (ko_server_open @ serverId @ ko_daemon_offline))
      else gw_dispatchToServer serverId m)"

definition notifyUser :: "string \<Rightarrow> app_msg \<Rightarrow> unit hub_prog" where
  "notifyUser userId m = emitToUser userId m"

text \<open>\<open>AppGateway.handleConnection\<close>: a mobile socket without a valid access token is disconnected;
  one with a token joins the room of the token's user, and only that room.\<close>

definition config_getOrThrow :: "ext \<Rightarrow> string \<Rightarrow> string hub_prog" where
  "config_getOrThrow x k = someE (ConfigMissing k) (x_env x k)"

definition app_connect :: "ext \<Rightarrow> string \<Rightarrow> string option \<Rightarrow> unit hub_prog" where
  "app_connect x sid token =
    (case token of
       None \<Rightarrow> ret ()
     | Some tok \<Rightarrow>
         if tok = [] then ret ()
         else catchE
           (bindE (config_getOrThrow x ''JWT_ACCESS_SECRET'') (\<lambda>sec.
            bindE now (\<lambda>t.
            bindE (someE (JsError ''invalid token'') (x_jwt_verify x sec t tok)) (\<lambda>payload.
              modS (\<lambda>h. h\<lparr>appSockets := appSockets h @
                [\<lparr>so_id = sid, so_serverId = None, so_ownerId = None, so_userId = Some (jwt_sub payload),
                  so_rooms = [userRoom (jwt_sub payload)]\<rparr>]\<rparr>)))))
           (\<lambda>_. ret ()))"

definition app_disconnect :: "string \<Rightarrow> unit hub_prog" where
  "app_disconnect sid = modS (\<lambda>h. h\<lparr>appSockets := filter (\<lambda>s. so_id s \<noteq> sid) (appSockets h)\<rparr>)"

section \<open>Lemmas\<close>

lemma isServerOnline_apply [prog_simps]:
  "isServerOnline sid h = (Inr (in_room (serverRoom sid) (daemonSockets h) \<noteq> []), h)"
  by (simp add: isServerOnline_def prog_simps)

lemma dispatchToServer_apply [prog_simps]:
  "dispatchToServer sid m h =
    (if in_room (serverRoom sid) (daemonSockets h) = []
     then (Inl (ServiceUnavailableException (ko_server_open @ sid @ ko_daemon_offline)), h)
     else (Inr (), h\<lparr>daemonOut := daemonOut h @
       map (\<lambda>s. (so_id s, m)) (in_room (serverRoom sid) (daemonSockets h))\<rparr>))"
  by (simp add: dispatchToServer_def gw_dispatchToServer_def prog_simps)

lemma notifyUser_apply [prog_simps]:
  "notifyUser u m h = (Inr (), h\<lparr>appOut := appOut h @
     map (\<lambda>s. (so_id s, m)) (in_room (userRoom u) (appSockets h))\<rparr>)"
  by (simp add: notifyUser_def emitToUser_def prog_simps)

lemma serverRoom_inject [simp]: "serverRoom a = serverRoom b \<longleftrightarrow> a = b"
  by (simp add: serverRoom_def)

lemma userRoom_inject [simp]: "userRoom a = userRoom b \<longleftrightarrow> a = b"
  by (simp add: userRoom_def)

lemma wf_hub_io [simp]:
  "wf_hub x (h\<lparr>daemonOut := a\<rparr>) = wf_hub x h" "wf_hub x (h\<lparr>appOut := b\<rparr>) = wf_hub x h"
  "wf_hub x (h\<lparr>pushOut := c\<rparr>) = wf_hub x h" "wf_hub x (h\<lparr>jobs := d\<rparr>) = wf_hub x h"
  "wf_hub x (h\<lparr>daemonSockets := e\<rparr>) = wf_hub x h" "wf_hub x (h\<lparr>appSockets := f\<rparr>) = wf_hub x h"
  "wf_hub x (h\<lparr>fcmApp := g\<rparr>) = wf_hub x h" "wf_hub x (h\<lparr>clock := k\<rparr>) = wf_hub x h"
  by (simp_all add: wf_defs)

lemma keeps_dispatchToServer [keeps_rules]: "keeps (wf_hub x) (dispatchToServer s m)"
  by (simp add: keeps_def prog_simps)

lemma keeps_notifyUser [keeps_rules]: "keeps (wf_hub x) (notifyUser u m)"
  by (simp add: keeps_def prog_simps)

lemma keeps_config_getOrThrow [keeps_rules]: "keeps I (config_getOrThrow x k)"
  by (simp add: config_getOrThrow_def keeps_someE)

lemma keeps_app_connect [keeps_rules]: "keeps (wf_hub x) (app_connect y s t)"
  unfolding app_connect_def by (intro keeps_rules keepsI) (simp add: prog_simps)

text \<open>Every mobile socket is in the room of its own user and in no other.\<close>

definition app_rooms_ok :: "hub \<Rightarrow> bool" where
  "app_rooms_ok h \<longleftrightarrow> (\<forall>s \<in> set (appSockets h). \<exists>u. so_userId s = Some u \<and> so_rooms s = [userRoom u])"

lemma app_connect_rooms: "keeps app_rooms_ok (app_connect x s t)"
  unfolding app_connect_def by (intro keeps_rules keepsI) (auto simp: prog_simps app_rooms_ok_def)

text \<open>What is sent to a user reaches only sockets that authenticated as that user: whenever the
  rooms are those the connection handler assigns, each delivery that \<open>notifyUser\<close> adds goes to a
  connected socket whose verified subject is the addressee.\<close>

theorem notifyUser_only_owner:
  assumes "app_rooms_ok h" and "notifyUser u m h = (r, h')"
  shows "\<exists>new. appOut h' = appOut h @ new \<and>
    (\<forall>(sid, msg) \<in> set new. msg = m \<and>
       (\<exists>s \<in> set (appSockets h). so_id s = sid \<and> so_userId s = Some u))"
proof -
  let ?new = "map (\<lambda>s. (so_id s, m)) (in_room (userRoom u) (appSockets h))"
  have "so_userId s = Some u" if "s \<in> set (appSockets h)" "userRoom u \<in> set (so_rooms s)" for s
    using assms(1) that by (auto simp: app_rooms_ok_def)
  then have "\<forall>(sid, msg) \<in> set ?new. msg = m \<and>
       (\<exists>s \<in> set (appSockets h). so_id s = sid \<and> so_userId s = Some u)"
    by (auto simp: in_room_def)
  moreover from assms(2) have "appOut h' = appOut h @ ?new"
    by (auto simp: prog_simps)
  ultimately show ?thesis by blast
qed

definition demo_app_hub :: hub where
  "demo_app_hub = demo_hub\<lparr>appSockets := [\<lparr>so_id = ''s1'', so_serverId = None, so_ownerId = None,
      so_userId = Some ''u'', so_rooms = [userRoom ''u'']\<rparr>]\<rparr>"

definition demo_approval :: approval where
  "demo_approval = \<lparr>ap_id = ''a'', ap_taskId = ''t'', ap_status = PENDING, ap_requestedAt = 0,
    ap_decidedAt = None, ap_reason = None\<rparr>"

lemma demo_app_hub_connect:
  "app_connect demo_ext ''s1'' (Some (demo_token \<lparr>jwt_sub = ''u'', jwt_email = ''e'', jwt_jti = None\<rparr>)) demo_hub =
     (Inr (), demo_app_hub)"
proof -
  have "demo_token \<lparr>jwt_sub = ''u'', jwt_email = ''e'', jwt_jti = None\<rparr> \<noteq> []"
    by (simp add: demo_token_def)
  moreover have "x_env demo_ext ''JWT_ACCESS_SECRET'' = Some ''1d''" by (simp add: demo_ext_def)
  ultimately show ?thesis
    by (simp add: app_connect_def config_getOrThrow_def prog_simps demo_jwt demo_hub_def demo_app_hub_def)
qed

theorem notifyUser_only_owner_witness:
  "appOut (snd (notifyUser ''u'' (APPROVAL_PENDING demo_approval) demo_app_hub)) =
     [(''s1'', APPROVAL_PENDING demo_approval)] \<and>
   (\<exists>new. appOut (snd (notifyUser ''u'' (APPROVAL_PENDING demo_approval) demo_app_hub)) =
      appOut demo_app_hub @ new \<and>
    (\<forall>(sid, msg) \<in> set new. msg = APPROVAL_PENDING demo_approval \<and>
       (\<exists>s \<in> set (appSockets demo_app_hub). so_id s = sid \<and> so_userId s = Some ''u'')))"
proof
  show "appOut (snd (notifyUser ''u'' (APPROVAL_PENDING demo_approval) demo_app_hub)) =
     [(''s1'', APPROVAL_PENDING demo_approval)]"
    by (simp add: prog_simps in_room_def demo_app_hub_def demo_hub_def)
  have "app_rooms_ok demo_app_hub" by (simp add: app_rooms_ok_def demo_app_hub_def)
  then show "\<exists>new. appOut (snd (notifyUser ''u'' (APPROVAL_PENDING demo_approval) demo_app_hub)) =
      appOut demo_app_hub @ new \<and>
    (\<forall>(sid, msg) \<in> set new. msg = APPROVAL_PENDING demo_approval \<and>
       (\<exists>s \<in> set (appSockets demo_app_hub). so_id s = sid \<and> so_userId s = Some ''u''))"
    by (rule notifyUser_only_owner [OF _ surjective_pairing])
qed

end
