(* ===== verification/Ownership.thy ===== *)
theory Ownership
  imports Realtime
begin

text \<open>
  The ownership check that the servers and the tasks component share: look a row up, refuse with
  one error when it does not exist and with another when it belongs to someone else. The contract
  is the locale \<open>owned_resource\<close>; its clients' lemmas (the check changes nothing, it succeeds
  exactly for the owner, two owners never share a row) are proved once here and interpreted on
  \<open>getOwnedServer\<close> and \<open>getOwnedTask\<close>.
\<close>

locale owned_resource =
  fixes look :: "hub \<Rightarrow> string \<Rightarrow> 'r option"
    and owner :: "hub \<Rightarrow> 'r \<Rightarrow> string"
    and check :: "string \<Rightarrow> string \<Rightarrow> 'r hub_prog"
    and missing :: hub_error
    and foreign :: hub_error
  assumes check_eq: "check u i h =
      (case look h i of
         None \<Rightarrow> (Inl missing, h)
       | Some r \<Rightarrow> if owner h r \<noteq> u then (Inl foreign, h) else (Inr r, h))"
begin

lemma check_frame [simp]: "snd (check u i h) = h"
  by (simp add: check_eq split: option.splits)

lemma check_Inr_iff: "check u i h = (Inr r, h') \<longleftrightarrow> h' = h \<and> look h i = Some r \<and> owner h r = u"
  by (auto simp: check_eq split: option.splits if_splits)

lemma check_error:
  "check u i h = (Inl e, h') \<Longrightarrow>
    h' = h \<and> (e = missing \<and> look h i = None \<or> e = foreign \<and> (\<exists>r. look h i = Some r \<and> owner h r \<noteq> u))"
  by (auto simp: check_eq split: option.splits if_splits)

lemma check_exclusive:
  "check u i h = (Inr r, h) \<Longrightarrow> p \<noteq> u \<Longrightarrow> check p i h = (Inl foreign, h)"
  by (auto simp: check_eq split: option.splits if_splits)

lemma keeps_check: "keeps I (check u i)"
  by (simp add: keeps_def)

end

end
