(* ===== verification/Servers.thy ===== *)
theory Servers
  imports Ownership
begin

text \<open>
  \<^verbatim>\<open>hub-api/src/servers/servers.service.ts\<close>: registration of a server with a fresh API key and its
  default worker profile, the owner's queries, removal with everything that hangs on the server,
  the heartbeat and offline marks that the daemon gateway calls, and the lookup by API key.
\<close>

record create_server_dto =
  csd_name :: string
  csd_osType :: OsType
  csd_tailscaleIp :: string

record public_server =
  ps_id :: string
  ps_name :: string
  ps_osType :: OsType
  ps_tailscaleIp :: string
  ps_status :: ServerStatus
  ps_lastHeartbeatAt :: "int option"
  ps_createdAt :: int

definition srv_toPublic :: "server \<Rightarrow> public_server" where
  "srv_toPublic s = \<lparr>ps_id = s_id s, ps_name = s_name s, ps_osType = s_osType s,
     ps_tailscaleIp = s_tailscaleIp s, ps_status = s_status s,
     ps_lastHeartbeatAt = s_lastHeartbeatAt s, ps_createdAt = s_createdAt s\<rparr>"

definition srv_defaultWorkerProfiles :: "profile_data list" where
  "srv_defaultWorkerProfiles =
    [(P_CODEX, ''default'', True,
      JObj [(''taskExecution'', JBool True), (''approvals'', JBool True),
            (''shell'', JBool True), (''codeEditing'', JBool True)])]"

definition getOwnedServer :: "string \<Rightarrow> string \<Rightarrow> server hub_prog" where
  "getOwnedServer ownerId serverId =
    bindE (getS (\<lambda>h. find_row s_id serverId (servers h))) (\<lambda>v.
      case v of
        None \<Rightarrow> throw (NotFoundException ko_server_not_found)
      | Some s \<Rightarrow>
          if s_ownerId s \<noteq> ownerId then throw (ForbiddenException ko_server_forbidden)
          else ret s)"

definition srv_create :: "ext \<Rightarrow> string \<Rightarrow> create_server_dto \<Rightarrow> (public_server \<times> string) hub_prog" where
  "srv_create x ownerId dto =
    bindE (generateApiKey x) (\<lambda>apiKey.
    bindE (server_create x ownerId (csd_name dto) (csd_osType dto) (csd_tailscaleIp dto)
             (hashApiKey x apiKey) srv_defaultWorkerProfiles) (\<lambda>s.
      ret (srv_toPublic s, apiKey)))"

definition srv_findAllForOwner :: "string \<Rightarrow> public_server list hub_prog" where
  "srv_findAllForOwner ownerId =
    getS (\<lambda>h. map srv_toPublic (filter (\<lambda>s. s_ownerId s = ownerId) (servers h)))"

definition srv_findOneForOwner :: "string \<Rightarrow> string \<Rightarrow> public_server hub_prog" where
  "srv_findOneForOwner ownerId serverId =
    bindE (getOwnedServer ownerId serverId) (\<lambda>s. ret (srv_toPublic s))"

definition getHealth :: "string \<Rightarrow> string \<Rightarrow> (ServerStatus \<times> int option) hub_prog" where
  "getHealth ownerId serverId =
    bindE (getOwnedServer ownerId serverId) (\<lambda>s. ret (s_status s, s_lastHeartbeatAt s))"

definition srv_remove :: "string \<Rightarrow> string \<Rightarrow> unit hub_prog" where
  "srv_remove ownerId serverId =
    thenE (getOwnedServer ownerId serverId) (server_delete serverId)"

definition markHeartbeat :: "string \<Rightarrow> unit hub_prog" where
  "markHeartbeat serverId =
    bindE now (\<lambda>t. server_update serverId (\<lambda>s. s\<lparr>s_status := ONLINE, s_lastHeartbeatAt := Some t\<rparr>))"

definition markOffline :: "string \<Rightarrow> unit hub_prog" where
  "markOffline serverId = server_update serverId (\<lambda>s. s\<lparr>s_status := OFFLINE\<rparr>)"

definition findByApiKey :: "ext \<Rightarrow> string \<Rightarrow> server option hub_prog" where
  "findByApiKey x apiKey =
    getS (\<lambda>h. find (\<lambda>s. s_apiKeyHash s = hashApiKey x apiKey) (servers h))"

section \<open>Lemmas\<close>

interpretation ownedServer: owned_resource "\<lambda>h i. find_row s_id i (servers h)" "\<lambda>h s. s_ownerId s"
  getOwnedServer "NotFoundException ko_server_not_found" "ForbiddenException ko_server_forbidden"
  by unfold_locales (simp add: getOwnedServer_def prog_simps split: option.splits)

lemma getOwnedServer_apply [prog_simps]:
  "getOwnedServer ownerId i h =
    (case find_row s_id i (servers h) of
       None \<Rightarrow> (Inl (NotFoundException ko_server_not_found), h)
     | Some s \<Rightarrow> if s_ownerId s \<noteq> ownerId then (Inl (ForbiddenException ko_server_forbidden), h) else (Inr s, h))"
  by (rule ownedServer.check_eq)

lemma keeps_getOwnedServer [keeps_rules]: "keeps I (getOwnedServer ownerId i)"
  by (rule ownedServer.keeps_check)

lemma keeps_srv_create [keeps_rules]: "inj (x_uuid x) \<Longrightarrow> keeps (wf_hub x) (srv_create x u d)"
  unfolding srv_create_def by (intro keeps_rules)

lemma keeps_srv_findOneForOwner [keeps_rules]: "keeps I (srv_findOneForOwner u i)"
  unfolding srv_findOneForOwner_def by (intro keeps_rules)

lemma keeps_srv_remove [keeps_rules]: "keeps (wf_hub x) (srv_remove u i)"
  unfolding srv_remove_def by (intro keeps_rules)

lemma keeps_markHeartbeat [keeps_rules]: "keeps (wf_hub x) (markHeartbeat i)"
  unfolding markHeartbeat_def by (intro keeps_rules) simp_all

lemma keeps_markOffline [keeps_rules]: "keeps (wf_hub x) (markOffline i)"
  unfolding markOffline_def by (intro keeps_rules) simp_all

lemma srv_findOneForOwner_apply [prog_simps]:
  "srv_findOneForOwner u i h =
    (case find_row s_id i (servers h) of
       None \<Rightarrow> (Inl (NotFoundException ko_server_not_found), h)
     | Some s \<Rightarrow> if s_ownerId s \<noteq> u then (Inl (ForbiddenException ko_server_forbidden), h)
         else (Inr (srv_toPublic s), h))"
  by (simp add: srv_findOneForOwner_def prog_simps split: option.splits)

lemma server_update_apply [prog_simps]:
  "server_update i f h =
    (if i \<in> s_id ` set (servers h)
     then (Inr (), h\<lparr>servers := update_row s_id i (\<lambda>r. (f r)\<lparr>s_updatedAt := clock h\<rparr>) (servers h)\<rparr>)
     else (Inl RecordNotFound, h))"
  by (simp add: server_update_def prog_simps)

text \<open>The nested create of the one default profile always succeeds on a fresh server.\<close>

lemma server_create_default:
  assumes "wf_hub x h" and "inj (x_uuid x)" and "ownerId \<in> u_id ` set (users h)"
  shows "\<exists>s h'. server_create x ownerId n os ip hash srv_defaultWorkerProfiles h = (Inr s, h') \<and>
    servers h' = insert_row s (servers h) \<and> s_id s = x_uuid x (draws h) \<and> s_ownerId s = ownerId \<and>
    s_apiKeyHash s = hash \<and> s_status s = OFFLINE \<and>
    profiles h' = profiles h @ [profile_row (x_uuid x (Suc (draws h))) (s_id s) (clock h) (hd srv_defaultWorkerProfiles)]"
proof -
  have fresh: "x_uuid x (draws h) \<notin> s_id ` set (servers h)"
    by (rule wf_fresh [OF assms(1,2) order_refl])
  have "x_uuid x (draws h) \<notin> wp_serverId ` set (profiles h)"
    using fresh wf_hubD(13) [OF assms(1)] by (auto simp: refs_def)
  then have "\<not> profile_taken (x_uuid x (draws h)) d (profiles h)" for d
    by (auto simp: profile_taken_def rev_image_eqI)
  with assms(3) show ?thesis
    by (simp add: server_create_def server_insert_def transaction_def srv_defaultWorkerProfiles_def
        profile_create_def prog_simps Let_def insert_row_def)
qed

section \<open>Properties\<close>

text \<open>The ownership check of the servers component: it never changes the state, it returns a row
  exactly when the row exists and belongs to the caller, and otherwise it distinguishes a missing
  server from somebody else's.\<close>

theorem getOwnedServer_spec:
  "snd (getOwnedServer ownerId i h) = h \<and>
   (fst (getOwnedServer ownerId i h) = Inr s \<longleftrightarrow> find_row s_id i (servers h) = Some s \<and> s_ownerId s = ownerId) \<and>
   (fst (getOwnedServer ownerId i h) = Inl (NotFoundException ko_server_not_found) \<longleftrightarrow>
      i \<notin> s_id ` set (servers h)) \<and>
   (fst (getOwnedServer ownerId i h) = Inl (ForbiddenException ko_server_forbidden) \<longleftrightarrow>
      (\<exists>r. find_row s_id i (servers h) = Some r \<and> s_ownerId r \<noteq> ownerId))"
  by (auto simp: prog_simps find_row_None split: option.splits if_splits dest: find_row_SomeD)

text \<open>C24. Registering a server and authenticating with the returned key: the create succeeds for an
  existing owner, the new server is offline with exactly one enabled CODEX profile, and the key
  that was returned finds this server, provided the new key's hash is not already in use.\<close>

theorem srv_create_findByApiKey:
  assumes "wf_hub x h" and "inj (x_uuid x)" and "ownerId \<in> u_id ` set (users h)"
    and "hashApiKey x (toHex (x_random x (draws h) 32)) \<notin> s_apiKeyHash ` set (servers h)"
  shows "\<exists>p k h' s. srv_create x ownerId dto h = (Inr (p, k), h') \<and>
    fst (findByApiKey x k h') = Inr (Some s) \<and> s_id s = ps_id p \<and> s_ownerId s = ownerId \<and>
    ps_status p = OFFLINE \<and>
    [wp_provider w. w \<leftarrow> profiles h', wp_serverId w = ps_id p \<and> wp_enabled w] = [P_CODEX]"
proof -
  let ?h = "h\<lparr>draws := Suc (draws h)\<rparr>"
  let ?k = "toHex (x_random x (draws h) 32)"
  have "wf_hub x ?h" "ownerId \<in> u_id ` set (users ?h)" using assms by simp_all
  from server_create_default [OF this(1) assms(2) this(2), of "csd_name dto" "csd_osType dto"
      "csd_tailscaleIp dto" "hashApiKey x ?k"]
  obtain s h' where s: "server_create x ownerId (csd_name dto) (csd_osType dto) (csd_tailscaleIp dto)
      (hashApiKey x ?k) srv_defaultWorkerProfiles ?h = (Inr s, h')"
    and h': "servers h' = insert_row s (servers h)" "s_ownerId s = ownerId" "s_apiKeyHash s = hashApiKey x ?k"
      "s_status s = OFFLINE" "s_id s = x_uuid x (Suc (draws h))"
      "profiles h' = profiles h @ [profile_row (x_uuid x (Suc (Suc (draws h)))) (s_id s) (clock h) (hd srv_defaultWorkerProfiles)]"
    by (elim exE conjE) simp
  have c: "srv_create x ownerId dto h = (Inr (srv_toPublic s, ?k), h')"
    using s by (simp add: srv_create_def prog_simps)
  have "find (\<lambda>s. s_apiKeyHash s = hashApiKey x ?k) (servers h') = Some s"
  proof -
    have "find (\<lambda>s. s_apiKeyHash s = hashApiKey x ?k) (servers h) = None"
      using assms(4) by (auto simp: find_None_conv rev_image_eqI)
    then show ?thesis using h'(1,3) by (simp add: insert_row_def find_append)
  qed
  moreover have "s_id s \<notin> wp_serverId ` set (profiles h)"
  proof -
    have "s_id s \<notin> s_id ` set (servers h)"
      unfolding h'(5) by (rule wf_fresh [OF assms(1,2)]) simp
    then show ?thesis using wf_hubD(13) [OF assms(1)] by (auto simp: refs_def)
  qed
  then have "[wp_provider w. w \<leftarrow> profiles h', wp_serverId w = s_id s \<and> wp_enabled w] = [P_CODEX]"
    using h'(6) by (auto simp: srv_defaultWorkerProfiles_def profile_row_def image_iff)
  ultimately show ?thesis using c h' by (force simp: findByApiKey_def prog_simps srv_toPublic_def)
qed

definition demo_dto :: create_server_dto where
  "demo_dto = \<lparr>csd_name = ''srv'', csd_osType = UBUNTU, csd_tailscaleIp = ''100.1.1.1''\<rparr>"

definition demo_api_key :: string where
  "demo_api_key = toHex (x_random demo_ext 1 32)"

definition demo_server :: server where
  "demo_server = \<lparr>s_id = ''iii'', s_ownerId = ''i'', s_name = ''srv'', s_osType = UBUNTU,
     s_tailscaleIp = ''100.1.1.1'', s_apiKeyHash = hashApiKey demo_ext demo_api_key, s_status = OFFLINE,
     s_lastHeartbeatAt = None, s_createdAt = 1000, s_updatedAt = 1000\<rparr>"

definition demo_server_hub :: hub where
  "demo_server_hub = demo_user_hub\<lparr>servers := [demo_server],
     profiles := [profile_row ''iiii'' ''iii'' 1000 (hd srv_defaultWorkerProfiles)], draws := 4\<rparr>"

lemma demo_srv_create:
  "srv_create demo_ext ''i'' demo_dto demo_user_hub = (Inr (srv_toPublic demo_server, demo_api_key), demo_server_hub)"
  by (simp add: srv_create_def server_create_def server_insert_def transaction_def profile_create_def
      profile_taken_def prog_simps Let_def insert_row_def srv_defaultWorkerProfiles_def demo_uuid
      demo_api_key_def demo_dto_def demo_server_def demo_server_hub_def demo_user_hub_def demo_hub_def
      numeral_eq_Suc)

lemma wf_demo_server_hub: "wf_hub demo_ext demo_server_hub"
  using keepsD [OF keeps_srv_create [OF demo_inj] wf_demo_user_hub, of "''i''" demo_dto]
  by (simp add: demo_srv_create)

theorem srv_create_findByApiKey_witness:
  "\<exists>p k h' s. srv_create demo_ext ''i'' demo_dto demo_user_hub = (Inr (p, k), h') \<and>
    fst (findByApiKey demo_ext k h') = Inr (Some s) \<and> s_id s = ps_id p \<and> s_ownerId s = ''i'' \<and>
    ps_status p = OFFLINE \<and>
    [wp_provider w. w \<leftarrow> profiles h', wp_serverId w = ps_id p \<and> wp_enabled w] = [P_CODEX]"
proof (rule srv_create_findByApiKey [OF wf_demo_user_hub demo_inj])
  show "''i'' \<in> u_id ` set (users demo_user_hub)" by (simp add: demo_user_hub_def)
  show "hashApiKey demo_ext (toHex (x_random demo_ext (draws demo_user_hub) 32))
      \<notin> s_apiKeyHash ` set (servers demo_user_hub)"
    by (simp add: demo_user_hub_def demo_hub_def)
qed

text \<open>Removing a server: only its owner can, it leaves nothing that refers to it in any table (the
  registration request that created it keeps its row with the reference cleared), and the servers,
  tasks and attempts of everyone else are exactly as before.\<close>

theorem srv_remove_cascade:
  assumes "wf_hub x h" and "srv_remove ownerId i h = (Inr (), h')"
  shows "(\<exists>s. find_row s_id i (servers h) = Some s \<and> s_ownerId s = ownerId) \<and>
    servers h' = filter (\<lambda>s. s_id s \<noteq> i) (servers h) \<and>
    tasks h' = filter (\<lambda>t. t_serverId t \<noteq> i) (tasks h) \<and>
    (\<forall>r \<in> set (profiles h'). wp_serverId r \<noteq> i) \<and>
    (\<forall>r \<in> set (attempts h'). at_serverId r \<noteq> i \<and> at_taskId r \<in> t_id ` set (tasks h')) \<and>
    (\<forall>r \<in> set (approvals h'). ap_taskId r \<in> t_id ` set (tasks h')) \<and>
    (\<forall>r \<in> set (regRequests h'). rr_serverId r \<noteq> Some i) \<and>
    length (regRequests h') = length (regRequests h) \<and> wf_hub x h'"
proof -
  from assms(2) obtain s where s: "find_row s_id i (servers h) = Some s" "s_ownerId s = ownerId"
    and del: "server_delete i h = (Inr (), h')"
    by (auto simp: srv_remove_def prog_simps split: option.splits if_splits)
  have wf: "wf_hub x h'"
    using keepsD [OF server_delete_wf assms(1)] del by (metis snd_conv)
  have eqs: "servers h' = filter (\<lambda>s. s_id s \<noteq> i) (servers h)"
    "tasks h' = filter (\<lambda>t. t_serverId t \<noteq> i) (tasks h)" "\<forall>r \<in> set (profiles h'). wp_serverId r \<noteq> i"
    "\<forall>r \<in> set (attempts h'). at_serverId r \<noteq> i" "\<forall>r \<in> set (regRequests h'). rr_serverId r \<noteq> Some i"
    "length (regRequests h') = length (regRequests h)"
    using del by (auto simp: server_delete_def prog_simps Let_def delete_row_def split: if_splits)
  from wf_hubD(10,11) [OF wf] s wf eqs show ?thesis by (simp add: refs_def)
qed

theorem srv_remove_cascade_witness:
  "let h' = snd (srv_remove ''i'' ''iii'' demo_server_hub) in
    servers h' = [] \<and> wf_hub demo_ext h' \<and> (\<forall>r \<in> set (profiles h'). wp_serverId r \<noteq> ''iii'')"
proof -
  have "fst (srv_remove ''i'' ''iii'' demo_server_hub) = Inr ()"
    by (simp add: srv_remove_def server_delete_def prog_simps find_row_def demo_server_hub_def demo_server_def)
  then have r: "srv_remove ''i'' ''iii'' demo_server_hub = (Inr (), snd (srv_remove ''i'' ''iii'' demo_server_hub))"
    by (metis prod.collapse)
  have "filter (\<lambda>s. s_id s \<noteq> ''iii'') (servers demo_server_hub) = []"
    by (simp add: demo_server_hub_def demo_server_def)
  then show ?thesis using srv_remove_cascade [OF wf_demo_server_hub r] by (simp add: Let_def)
qed

end
