(* ===== verification/Workers.thy ===== *)
theory Workers
  imports Servers
begin

text \<open>
  \<^verbatim>\<open>hub-api/src/workers\<close>: the interface every worker adapter implements (the record
  \<open>worker_adapter\<close>, with its contract as the locale \<open>ai_worker_adapter\<close>), the Codex adapter, and the
  registry that finds the adapter of a worker type and lists the profiles a task can be dispatched
  to.
\<close>

section \<open>Adapters (interfaces/ai-worker-adapter.interface.ts)\<close>

record task_request =
  tr_taskId :: string
  tr_serverId :: string
  tr_input :: json

record worker_adapter =
  wa_workerType :: WorkerType
  wa_submitTask :: "task_request \<Rightarrow> string hub_prog"
  wa_getStatus :: "string \<Rightarrow> (string \<times> TaskStatus) hub_prog"
  wa_getResult :: "string \<Rightarrow> (string \<times> json option) hub_prog"
  wa_cancelTask :: "string \<Rightarrow> unit hub_prog"

section \<open>The Codex adapter (adapters/codex.adapter.ts)\<close>

definition findTaskOrThrow :: "string \<Rightarrow> task hub_prog" where
  "findTaskOrThrow taskId =
    bindE (getS (\<lambda>h. find_row t_id taskId (tasks h))) (\<lambda>v.
      someE (NotFoundException (ko_task_open @ taskId @ ko_task_missing)) v)"

definition codex_submitTask :: "task_request \<Rightarrow> string hub_prog" where
  "codex_submitTask task =
    thenE (dispatchToServer (tr_serverId task) (TASK_SUBMIT (tr_taskId task) (tr_input task)))
      (ret (tr_taskId task))"

definition codex_getStatus :: "string \<Rightarrow> (string \<times> TaskStatus) hub_prog" where
  "codex_getStatus handle = bindE (findTaskOrThrow handle) (\<lambda>t. ret (t_id t, t_status t))"

definition codex_getResult :: "string \<Rightarrow> (string \<times> json option) hub_prog" where
  "codex_getResult handle = bindE (findTaskOrThrow handle) (\<lambda>t. ret (t_id t, t_result t))"

definition codex_cancelTask :: "string \<Rightarrow> unit hub_prog" where
  "codex_cancelTask handle =
    bindE (findTaskOrThrow handle) (\<lambda>t. dispatchToServer (t_serverId t) (TASK_CANCEL (t_id t)))"

definition codexAdapter :: worker_adapter where
  "codexAdapter = \<lparr>wa_workerType = CODEX, wa_submitTask = codex_submitTask,
     wa_getStatus = codex_getStatus, wa_getResult = codex_getResult, wa_cancelTask = codex_cancelTask\<rparr>"

section \<open>The registry (worker-registry.service.ts)\<close>

record WorkerDispatchCandidate =
  wc_serverId :: string
  wc_serverName :: string
  wc_provider :: WorkerProvider
  wc_profileName :: string

fun show_workerType :: "WorkerType \<Rightarrow> string" where
  "show_workerType CODEX = ''CODEX''"
| "show_workerType CLAUDE = ''CLAUDE''"
| "show_workerType GEMINI = ''GEMINI''"

definition adapters :: "(WorkerType \<times> worker_adapter) list" where
  "adapters = [(wa_workerType codexAdapter, codexAdapter)]"

definition registry_get :: "WorkerType \<Rightarrow> worker_adapter hub_prog" where
  "registry_get workerType =
    someE (BadRequestException (ko_unsupported_worker @ show_workerType workerType))
      (map_of adapters workerType)"

fun providerForWorkerType :: "WorkerType \<Rightarrow> WorkerProvider" where
  "providerForWorkerType CODEX = P_CODEX"
| "providerForWorkerType CLAUDE = P_CLAUDE_CODE"
| "providerForWorkerType GEMINI = P_GEMINI"

definition profile_order :: "ext \<Rightarrow> worker_profile \<times> server \<Rightarrow> worker_profile \<times> server \<Rightarrow> int" where
  "profile_order x a b =
    (let c = x_collate x (wp_serverId (fst a)) (wp_serverId (fst b))
     in if c \<noteq> 0 then c else x_collate x (wp_profileName (fst a)) (wp_profileName (fst b)))"

definition dispatchable :: "hub \<Rightarrow> WorkerProvider \<Rightarrow> string \<Rightarrow> string list \<Rightarrow> (worker_profile \<times> server) list" where
  "dispatchable h provider ownerId excluded =
    [(p, s). p \<leftarrow> profiles h, s \<leftarrow> servers h,
      s_id s = wp_serverId p \<and> wp_enabled p \<and> wp_provider p = provider \<and>
      s_ownerId s = ownerId \<and> s_status s = ONLINE \<and> s_id s \<notin> set excluded]"

definition toCandidate :: "worker_profile \<times> server \<Rightarrow> WorkerDispatchCandidate" where
  "toCandidate ps = \<lparr>wc_serverId = s_id (snd ps), wc_serverName = s_name (snd ps),
     wc_provider = wp_provider (fst ps), wc_profileName = wp_profileName (fst ps)\<rparr>"

definition candidate_order ::
  "ext \<Rightarrow> string \<Rightarrow> WorkerDispatchCandidate \<Rightarrow> WorkerDispatchCandidate \<Rightarrow> int" where
  "candidate_order x preferred left right =
    (if wc_serverId left = preferred then -1
     else if wc_serverId right = preferred then 1
     else x_localeCompare x (wc_serverName left) (wc_serverName right))"

definition getDispatchCandidates ::
  "ext \<Rightarrow> WorkerType \<Rightarrow> string \<Rightarrow> string list \<Rightarrow> WorkerDispatchCandidate list hub_prog" where
  "getDispatchCandidates x workerType preferred excluded =
    thenE (registry_get workerType)
     (bindE (getS (\<lambda>h. find_row s_id preferred (servers h))) (\<lambda>v.
      bindE (someE (BadRequestException (ko_server_open @ preferred @ ko_server_missing)) v) (\<lambda>ps.
        getS (\<lambda>h. js_sort (candidate_order x preferred)
          (map toCandidate (js_sort (profile_order x)
            (dispatchable h (providerForWorkerType workerType) (s_ownerId ps) excluded)))))))"

section \<open>The contract of an adapter\<close>

lemma dispatchToServer_effect:
  assumes "dispatchToServer sid m h = (v, h')"
  shows "case v of Inl _ \<Rightarrow> h' = h
    | Inr _ \<Rightarrow> (\<exists>out. h' = h\<lparr>daemonOut := daemonOut h @ out\<rparr> \<and> out \<noteq> [] \<and> (\<forall>p \<in> set out. snd p = m))"
proof (cases "in_room (serverRoom sid) (daemonSockets h) = []")
  case False
  let ?out = "map (\<lambda>s. (so_id s, m)) (in_room (serverRoom sid) (daemonSockets h))"
  from False have "?out \<noteq> []" "\<forall>p \<in> set ?out. snd p = m" by auto
  moreover from False assms have "v = Inr ()" "h' = h\<lparr>daemonOut := daemonOut h @ ?out\<rparr>"
    by (auto simp: prog_simps)
  ultimately show ?thesis by (auto intro!: exI [of _ ?out])
qed (use assms in \<open>auto simp: prog_simps\<close>)

text \<open>An adapter does no work itself: submitting and cancelling touch nothing but the outbox of the
  daemon channel, and fail without any effect when they fail; status and result are what the task's
  row says.\<close>

locale ai_worker_adapter =
  fixes adapter :: worker_adapter
  assumes submit_effect: "wa_submitTask adapter r h = (v, h') \<Longrightarrow>
      (case v of Inl _ \<Rightarrow> h' = h
       | Inr i \<Rightarrow> i = tr_taskId r \<and> (\<exists>out. h' = h\<lparr>daemonOut := daemonOut h @ out\<rparr> \<and> out \<noteq> [] \<and>
           (\<forall>m \<in> set out. snd m = TASK_SUBMIT (tr_taskId r) (tr_input r))))"
    and cancel_effect: "wa_cancelTask adapter i h = (w, h') \<Longrightarrow>
      (case w of Inl _ \<Rightarrow> h' = h
       | Inr _ \<Rightarrow> (\<exists>out. h' = h\<lparr>daemonOut := daemonOut h @ out\<rparr> \<and> out \<noteq> [] \<and>
           (\<forall>m \<in> set out. snd m = TASK_CANCEL i)))"
    and status_db: "find_row t_id i (tasks h) = Some t \<Longrightarrow>
      wa_getStatus adapter i h = (Inr (i, t_status t), h)"
    and result_db: "find_row t_id i (tasks h) = Some t \<Longrightarrow>
      wa_getResult adapter i h = (Inr (i, t_result t), h)"
begin

lemma submit_keeps:
  assumes "\<And>h out. I (h\<lparr>daemonOut := out\<rparr>) = I h"
  shows "keeps I (wa_submitTask adapter r)"
proof (rule keepsI)
  fix h assume "I h"
  then show "I (snd (wa_submitTask adapter r h))"
    using submit_effect [OF surjective_pairing, of r h] assms
    by (cases "fst (wa_submitTask adapter r h)") auto
qed

lemma cancel_keeps:
  assumes "\<And>h out. I (h\<lparr>daemonOut := out\<rparr>) = I h"
  shows "keeps I (wa_cancelTask adapter i)"
proof (rule keepsI)
  fix h assume "I h"
  then show "I (snd (wa_cancelTask adapter i h))"
    using cancel_effect [OF surjective_pairing, of i h] assms
    by (cases "fst (wa_cancelTask adapter i h)") auto
qed

text \<open>Cancelling does not change what the adapter reports: the status is the hub's to set.\<close>

lemma status_after_cancel:
  assumes "find_row t_id i (tasks h) = Some t"
  shows "wa_getStatus adapter i (snd (wa_cancelTask adapter j h)) =
    (Inr (i, t_status t), snd (wa_cancelTask adapter j h))"
proof -
  have "tasks (snd (wa_cancelTask adapter j h)) = tasks h"
    using cancel_effect [OF surjective_pairing, of j h]
    by (cases "fst (wa_cancelTask adapter j h)") auto
  with assms show ?thesis by (simp add: status_db)
qed

end

interpretation codex: ai_worker_adapter codexAdapter
proof
  fix r h v w h' i and t :: task
  show "wa_submitTask codexAdapter r h = (v, h') \<Longrightarrow>
      (case v of Inl _ \<Rightarrow> h' = h
       | Inr i \<Rightarrow> i = tr_taskId r \<and> (\<exists>out. h' = h\<lparr>daemonOut := daemonOut h @ out\<rparr> \<and> out \<noteq> [] \<and>
           (\<forall>m \<in> set out. snd m = TASK_SUBMIT (tr_taskId r) (tr_input r))))"
    using dispatchToServer_effect [OF surjective_pairing, of "tr_serverId r" "TASK_SUBMIT (tr_taskId r) (tr_input r)" h]
    by (auto simp: codexAdapter_def codex_submitTask_def thenE_apply ret_apply split: prod.splits sum.splits)
  show "wa_cancelTask codexAdapter i h = (w, h') \<Longrightarrow>
      (case w of Inl _ \<Rightarrow> h' = h
       | Inr _ \<Rightarrow> (\<exists>out. h' = h\<lparr>daemonOut := daemonOut h @ out\<rparr> \<and> out \<noteq> [] \<and>
           (\<forall>m \<in> set out. snd m = TASK_CANCEL i)))"
    using dispatchToServer_effect [of _ "TASK_CANCEL i" h w h'] find_row_SomeD [of t_id i "tasks h"]
    by (cases "find_row t_id i (tasks h)")
      (auto simp: codexAdapter_def codex_cancelTask_def findTaskOrThrow_def bindE_apply getS_apply someE_apply)
  show "find_row t_id i (tasks h) = Some t \<Longrightarrow> wa_getStatus codexAdapter i h = (Inr (i, t_status t), h)"
    by (auto simp: codexAdapter_def codex_getStatus_def findTaskOrThrow_def prog_simps dest: find_row_SomeD)
  show "find_row t_id i (tasks h) = Some t \<Longrightarrow> wa_getResult codexAdapter i h = (Inr (i, t_result t), h)"
    by (auto simp: codexAdapter_def codex_getResult_def findTaskOrThrow_def prog_simps dest: find_row_SomeD)
qed

section \<open>Lemmas\<close>

lemma registry_get_apply [prog_simps]:
  "registry_get wt h =
    (if wt = CODEX then Inr codexAdapter
     else Inl (BadRequestException (ko_unsupported_worker @ show_workerType wt)), h)"
  by (simp add: registry_get_def adapters_def codexAdapter_def prog_simps)

lemma keeps_registry_get [keeps_rules]: "keeps I (registry_get wt)"
  by (simp add: registry_get_def keeps_someE)

lemma keeps_getDispatchCandidates [keeps_rules]: "keeps I (getDispatchCandidates x wt p e)"
  unfolding getDispatchCandidates_def by (intro keeps_rules)

text \<open>The list the registry returns, and the three ways the query ends.\<close>

definition candidate_list :: "ext \<Rightarrow> hub \<Rightarrow> string \<Rightarrow> string \<Rightarrow> string list \<Rightarrow> WorkerDispatchCandidate list" where
  "candidate_list x h ownerId preferred excluded =
    js_sort (candidate_order x preferred)
      (map toCandidate (js_sort (profile_order x) (dispatchable h P_CODEX ownerId excluded)))"

lemma getDispatchCandidates_apply [prog_simps]:
  "getDispatchCandidates x wt preferred excluded h =
    (if wt \<noteq> CODEX then Inl (BadRequestException (ko_unsupported_worker @ show_workerType wt))
     else case find_row s_id preferred (servers h) of
       None \<Rightarrow> Inl (BadRequestException (ko_server_open @ preferred @ ko_server_missing))
     | Some s \<Rightarrow> Inr (candidate_list x h (s_ownerId s) preferred excluded), h)"
  by (simp add: getDispatchCandidates_def candidate_list_def prog_simps split: option.splits)

lemma candidate_list_iff:
  "c \<in> set (candidate_list x h ownerId preferred excluded) \<longleftrightarrow>
    (\<exists>p s. p \<in> set (profiles h) \<and> s \<in> set (servers h) \<and> s_id s = wp_serverId p \<and> wp_enabled p \<and>
       wp_provider p = P_CODEX \<and> s_ownerId s = ownerId \<and> s_status s = ONLINE \<and> s_id s \<notin> set excluded \<and>
       c = toCandidate (p, s))"
proof -
  have "set (candidate_list x h ownerId preferred excluded) = toCandidate ` set (dispatchable h P_CODEX ownerId excluded)"
    by (simp add: candidate_list_def)
  moreover have "(p, s) \<in> set (dispatchable h P_CODEX ownerId excluded) \<longleftrightarrow> p \<in> set (profiles h) \<and> s \<in> set (servers h) \<and>
      s_id s = wp_serverId p \<and> wp_enabled p \<and> wp_provider p = P_CODEX \<and> s_ownerId s = ownerId \<and>
      s_status s = ONLINE \<and> s_id s \<notin> set excluded" for p s
    by (auto simp: dispatchable_def)
  ultimately show ?thesis by (simp only: image_iff Bex_def split_paired_Ex conj_assoc)
qed

text \<open>The order of the candidates: those on the preferred server come first, the others follow in the
  order of their names, whatever the database's order was.\<close>

lemma js_insert_preferred:
  "wc_serverId c = preferred \<Longrightarrow> js_insert (candidate_order x preferred) c cs = c # cs"
  by (cases cs) (simp_all add: candidate_order_def)

lemma js_insert_other:
  assumes "wc_serverId c \<noteq> preferred" and "\<forall>p \<in> set ps. wc_serverId p = preferred"
    and "\<forall>p \<in> set qs. wc_serverId p \<noteq> preferred"
  shows "js_insert (candidate_order x preferred) c (ps @ qs) =
    ps @ js_insert (\<lambda>a b. x_localeCompare x (wc_serverName a) (wc_serverName b)) c qs"
proof -
  have "js_insert (candidate_order x preferred) c qs =
    js_insert (\<lambda>a b. x_localeCompare x (wc_serverName a) (wc_serverName b)) c qs"
    using assms(1,3) by (induction qs) (auto simp: candidate_order_def)
  with assms(1,2) show ?thesis by (induction ps) (auto simp: candidate_order_def)
qed

lemma js_sort_candidates:
  "js_sort (candidate_order x preferred) cs =
    rev (filter (\<lambda>c. wc_serverId c = preferred) cs) @
    js_sort (\<lambda>a b. x_localeCompare x (wc_serverName a) (wc_serverName b))
      (filter (\<lambda>c. wc_serverId c \<noteq> preferred) cs)"
proof (induction cs rule: rev_induct)
  case (snoc c cs)
  then show ?case
    by (cases "wc_serverId c = preferred") (simp_all add: js_insert_preferred js_insert_other)
qed simp

section \<open>Properties\<close>

text \<open>The dispatch candidates of a task: the query changes nothing; for a CODEX task with a known
  server it returns exactly one candidate for each enabled CODEX profile of an online server that is
  not excluded and has the same owner as the preferred server, so a task is never offered to another
  user's machine; every other worker type is refused.\<close>

theorem getDispatchCandidates_spec:
  "snd (getDispatchCandidates x wt preferred excluded h) = h \<and>
    (if wt \<noteq> CODEX
     then fst (getDispatchCandidates x wt preferred excluded h) =
       Inl (BadRequestException (ko_unsupported_worker @ show_workerType wt))
     else case find_row s_id preferred (servers h) of
        None \<Rightarrow> fst (getDispatchCandidates x wt preferred excluded h) =
          Inl (BadRequestException (ko_server_open @ preferred @ ko_server_missing))
      | Some ps \<Rightarrow> \<exists>cs. fst (getDispatchCandidates x wt preferred excluded h) = Inr cs \<and>
          mset cs = mset [toCandidate (p, s). p \<leftarrow> profiles h, s \<leftarrow> servers h,
            s_id s = wp_serverId p \<and> wp_enabled p \<and> wp_provider p = P_CODEX \<and>
            s_ownerId s = s_ownerId ps \<and> s_status s = ONLINE \<and> s_id s \<notin> set excluded])"
proof -
  have "mset (candidate_list x h ow preferred excluded) = mset [toCandidate (p, s). p \<leftarrow> profiles h, s \<leftarrow> servers h,
            s_id s = wp_serverId p \<and> wp_enabled p \<and> wp_provider p = P_CODEX \<and>
            s_ownerId s = ow \<and> s_status s = ONLINE \<and> s_id s \<notin> set excluded]" for ow
  proof -
    have "mset (candidate_list x h ow preferred excluded) = mset (map toCandidate (dispatchable h P_CODEX ow excluded))"
      unfolding candidate_list_def mset_js_sort mset_map by (simp only: mset_js_sort)
    then show ?thesis by (simp add: dispatchable_def map_concat comp_def if_distrib [of "map toCandidate"] cong: if_cong)
  qed
  then show ?thesis by (auto simp: prog_simps split: option.splits)
qed

text \<open>The order of the candidates: those on the preferred server form the front of the list, and
  behind them the other servers follow in the order of their names, for any consistent locale
  comparison; so the preferred server is tried first whenever it is available.\<close>

theorem getDispatchCandidates_order:
  assumes "js_comparator (x_localeCompare x)"
    and "getDispatchCandidates x wt preferred excluded h = (Inr cs, h')"
  shows "\<exists>front rest. cs = front @ rest \<and> (\<forall>c \<in> set front. wc_serverId c = preferred) \<and>
    (\<forall>c \<in> set rest. wc_serverId c \<noteq> preferred) \<and>
    sorted_wrt (\<lambda>a b. x_localeCompare x (wc_serverName a) (wc_serverName b) \<le> 0) rest"
proof -
  have names: "js_comparator (\<lambda>a b. x_localeCompare x (wc_serverName a) (wc_serverName b))"
    using assms(1) by (auto simp: js_comparator_def)
  from assms(2) obtain ow where "cs = candidate_list x h ow preferred excluded"
    by (auto simp: prog_simps split: if_splits option.splits)
  then obtain l where "cs = rev (filter (\<lambda>c. wc_serverId c = preferred) l) @
    js_sort (\<lambda>a b. x_localeCompare x (wc_serverName a) (wc_serverName b))
      (filter (\<lambda>c. wc_serverId c \<noteq> preferred) l)"
    by (simp add: candidate_list_def js_sort_candidates)
  moreover have "sorted_wrt (\<lambda>a b. x_localeCompare x (wc_serverName a) (wc_serverName b) \<le> 0)
      (js_sort (\<lambda>a b. x_localeCompare x (wc_serverName a) (wc_serverName b)) k)" for k
    using js_comparator.sorted_js_sort [OF names] by blast
  ultimately show ?thesis by (intro exI conjI) auto
qed

text \<open>Two online servers of one owner, each with its default profile.\<close>

definition demo_server2 :: server where
  "demo_server2 = demo_server\<lparr>s_id := ''iiiii'', s_name := ''backup'', s_status := ONLINE\<rparr>"

definition demo_pool_hub :: hub where
  "demo_pool_hub = demo_server_hub\<lparr>servers := [demo_server\<lparr>s_status := ONLINE\<rparr>, demo_server2],
     profiles := profiles demo_server_hub @ [profile_row ''iiiiii'' ''iiiii'' 1000 (hd srv_defaultWorkerProfiles)],
     draws := 6\<rparr>"

lemmas demo_pool_defs = demo_pool_hub_def demo_server2_def demo_server_hub_def demo_server_def demo_user_hub_def
  demo_hub_def srv_defaultWorkerProfiles_def profile_row_def

lemma demo_localeCompare: "x_localeCompare demo_ext = (\<lambda>a b. int (length a) - int (length b))"
  by (simp add: demo_ext_def)

lemma demo_collate: "x_collate demo_ext = (\<lambda>a b. int (length a) - int (length b))"
  by (simp add: demo_ext_def)

lemma demo_candidates:
  "getDispatchCandidates demo_ext CODEX ''iiiii'' [] demo_pool_hub =
    (Inr [\<lparr>wc_serverId = ''iiiii'', wc_serverName = ''backup'', wc_provider = P_CODEX, wc_profileName = ''default''\<rparr>,
          \<lparr>wc_serverId = ''iii'', wc_serverName = ''srv'', wc_provider = P_CODEX, wc_profileName = ''default''\<rparr>], demo_pool_hub)"
  by (simp add: prog_simps candidate_list_def dispatchable_def toCandidate_def js_sort_def candidate_order_def
      profile_order_def demo_collate find_row_def demo_pool_defs)

theorem getDispatchCandidates_order_witness:
  "\<exists>cs front rest. fst (getDispatchCandidates demo_ext CODEX ''iiiii'' [] demo_pool_hub) = Inr cs \<and>
    cs = front @ rest \<and> (\<forall>c \<in> set front. wc_serverId c = ''iiiii'') \<and> (\<forall>c \<in> set rest. wc_serverId c \<noteq> ''iiiii'') \<and>
    sorted_wrt (\<lambda>a b. x_localeCompare demo_ext (wc_serverName a) (wc_serverName b) \<le> 0) rest \<and> length cs = 2"
proof -
  have "js_comparator (x_localeCompare demo_ext)"
    unfolding demo_localeCompare by (rule js_comparator_asc)
  from getDispatchCandidates_order [OF this demo_candidates] show ?thesis
    by (metis demo_candidates fst_conv length_Cons list.size(3) numeral_2_eq_2)
qed

end
