(* ===== verification/Auth.thy ===== *)
theory Auth
  imports Realtime
begin

text \<open>
  \<^verbatim>\<open>hub-api/src/auth\<close>: login, refresh-token rotation and logout. Passwords, token signatures and
  hashes are functions of \<open>ext\<close>; the rows of refresh tokens are the state. The lemmas show that a
  refresh token is single use, that logout revokes it, and that a fresh token is accepted.
\<close>

record token_pair =
  tp_accessToken :: string
  tp_refreshToken :: string

definition config_get :: "ext \<Rightarrow> string \<Rightarrow> string \<Rightarrow> string" where
  "config_get x k d = (case x_env x k of None \<Rightarrow> d | Some v \<Rightarrow> v)"

definition hashToken :: "ext \<Rightarrow> string \<Rightarrow> string" where
  "hashToken x token = toHex (x_sha256 x token)"

definition verifyRefreshToken :: "ext \<Rightarrow> string \<Rightarrow> jwt_payload hub_prog" where
  "verifyRefreshToken x tok =
    catchE
      (bindE (config_getOrThrow x ''JWT_REFRESH_SECRET'') (\<lambda>sec.
       bindE now (\<lambda>t. someE (JsError ''invalid token'') (x_jwt_verify x sec t tok))))
      (\<lambda>_. throw (UnauthorizedException ko_bad_refresh))"

definition issueTokenPair :: "ext \<Rightarrow> string \<Rightarrow> string \<Rightarrow> token_pair hub_prog" where
  "issueTokenPair x userId email =
    bindE (config_getOrThrow x ''JWT_ACCESS_SECRET'') (\<lambda>accSec.
    bindE now (\<lambda>t.
    let accessToken = x_jwt_sign x accSec (config_get x ''JWT_ACCESS_EXPIRES_IN'' ''15m'') t
          \<lparr>jwt_sub = userId, jwt_email = email, jwt_jti = None\<rparr>;
        refreshExpiresIn = config_get x ''JWT_REFRESH_EXPIRES_IN'' ''30d''
    in bindE (newId x) (\<lambda>jti.
       bindE (config_getOrThrow x ''JWT_REFRESH_SECRET'') (\<lambda>refSec.
       let refreshToken = x_jwt_sign x refSec refreshExpiresIn t
             \<lparr>jwt_sub = userId, jwt_email = email, jwt_jti = Some jti\<rparr>
       in bindE (liftE (durationToMs refreshExpiresIn)) (\<lambda>ms.
          thenE (refreshToken_create x userId (hashToken x refreshToken) (t + ms))
            (ret \<lparr>tp_accessToken = accessToken, tp_refreshToken = refreshToken\<rparr>))))))"

definition login :: "ext \<Rightarrow> string \<Rightarrow> string \<Rightarrow> token_pair hub_prog" where
  "login x email password =
    bindE (getS (\<lambda>h. find_row u_email email (users h))) (\<lambda>v.
      case v of
        None \<Rightarrow> throw (UnauthorizedException ko_bad_login)
      | Some user \<Rightarrow>
          if \<not> x_bcrypt_compare x password (u_passwordHash user)
          then throw (UnauthorizedException ko_bad_login)
          else issueTokenPair x (u_id user) (u_email user))"

definition live_token :: "string \<Rightarrow> string \<Rightarrow> int \<Rightarrow> refresh_token \<Rightarrow> bool" where
  "live_token uid hash t r \<longleftrightarrow>
    rt_userId r = uid \<and> rt_tokenHash r = hash \<and> \<not> rt_revoked r \<and> rt_expiresAt r > t"

definition refresh :: "ext \<Rightarrow> string \<Rightarrow> token_pair hub_prog" where
  "refresh x refreshToken =
    bindE (verifyRefreshToken x refreshToken) (\<lambda>payload.
    let tokenHash = hashToken x refreshToken in
    bindE (getS (\<lambda>h. find (live_token (jwt_sub payload) tokenHash (clock h)) (refreshTokens h))) (\<lambda>stored.
      case stored of
        None \<Rightarrow> throw (UnauthorizedException ko_bad_refresh)
      | Some r \<Rightarrow>
          thenE (refreshToken_revoke (rt_id r))
            (issueTokenPair x (jwt_sub payload) (jwt_email payload))))"

definition logout :: "ext \<Rightarrow> string \<Rightarrow> unit hub_prog" where
  "logout x refreshToken =
    catchE
      (bindE (verifyRefreshToken x refreshToken) (\<lambda>payload.
        refreshToken_revokeMany (\<lambda>r. rt_userId r = jwt_sub payload \<and>
          rt_tokenHash r = hashToken x refreshToken \<and> \<not> rt_revoked r)))
      (\<lambda>_. ret ())"

text \<open>\<open>JwtStrategy.validate\<close> and the bearer guard: the user of a request is the subject of its
  verified access token.\<close>

definition jwt_validate :: "jwt_payload \<Rightarrow> string \<times> string" where
  "jwt_validate p = (jwt_sub p, jwt_email p)"

definition jwtAuthGuard :: "ext \<Rightarrow> string option \<Rightarrow> (string \<times> string) hub_prog" where
  "jwtAuthGuard x bearer =
    bindE (someE (UnauthorizedException ''Unauthorized'') bearer) (\<lambda>tok.
    bindE (config_getOrThrow x ''JWT_ACCESS_SECRET'') (\<lambda>sec.
    bindE now (\<lambda>t.
    bindE (someE (UnauthorizedException ''Unauthorized'') (x_jwt_verify x sec t tok)) (\<lambda>p.
      ret (jwt_validate p)))))"

text \<open>The seed script creates the first user once (\<^verbatim>\<open>prisma/seed.ts\<close>).\<close>

definition seed :: "ext \<Rightarrow> unit hub_prog" where
  "seed x =
    (let email = config_get x ''SEED_USER_EMAIL'' ''admin@example.com'';
         password = config_get x ''SEED_USER_PASSWORD'' ''change-me-please''
     in bindE (getS (\<lambda>h. find_row u_email email (users h))) (\<lambda>existing.
        case existing of
          Some _ \<Rightarrow> ret ()
        | None \<Rightarrow> thenE (user_create x email (x_bcrypt_hash x password 10)) (ret ())))"

text \<open>What the code relies on of tokens and hashes: a token verifies at the instant it is issued, and
  tokens with different identifiers have different hashes.\<close>

definition jwt_ok :: "ext \<Rightarrow> bool" where
  "jwt_ok x \<longleftrightarrow> (\<forall>sec e t p. x_jwt_verify x sec t (x_jwt_sign x sec e t p) = Some p)"

definition jwt_fresh :: "ext \<Rightarrow> bool" where
  "jwt_fresh x \<longleftrightarrow> (\<forall>sec e t p sec' e' t' q. jwt_jti p \<noteq> jwt_jti q \<longrightarrow>
     x_sha256 x (x_jwt_sign x sec e t p) \<noteq> x_sha256 x (x_jwt_sign x sec' e' t' q))"

section \<open>Lemmas\<close>

definition tokens_ok :: "ext \<Rightarrow> hub \<Rightarrow> bool" where
  "tokens_ok x h \<longleftrightarrow> keyed rt_tokenHash (refreshTokens h) \<and>
    (\<forall>r \<in> set (refreshTokens h). \<exists>sec e t p i. i < draws h \<and> jwt_jti p = Some (x_uuid x i) \<and>
       rt_tokenHash r = toHex (x_sha256 x (x_jwt_sign x sec e t p)))"

lemma config_getOrThrow_apply [prog_simps]:
  "config_getOrThrow x k h = (case x_env x k of None \<Rightarrow> Inl (ConfigMissing k) | Some v \<Rightarrow> Inr v, h)"
  by (simp add: config_getOrThrow_def prog_simps)

lemma verifyRefreshToken_apply [prog_simps]:
  "verifyRefreshToken x tok h =
    (case x_env x ''JWT_REFRESH_SECRET'' of
       None \<Rightarrow> (Inl (UnauthorizedException ko_bad_refresh), h)
     | Some sec \<Rightarrow>
         (case x_jwt_verify x sec (clock h) tok of
            None \<Rightarrow> (Inl (UnauthorizedException ko_bad_refresh), h)
          | Some p \<Rightarrow> (Inr p, h)))"
  by (simp add: verifyRefreshToken_def prog_simps split: option.splits)

lemma keeps_verifyRefreshToken [keeps_rules]: "keeps I (verifyRefreshToken x tok)"
  by (simp add: keeps_def prog_simps split: option.splits)

lemma keeps_issueTokenPair [keeps_rules]: "inj (x_uuid x) \<Longrightarrow> keeps (wf_hub x) (issueTokenPair x u e)"
  unfolding issueTokenPair_def Let_def by (intro keeps_rules)

lemma keeps_login [keeps_rules]: "inj (x_uuid x) \<Longrightarrow> keeps (wf_hub x) (login x e p)"
  unfolding login_def by (intro keeps_rules)

lemma keeps_refresh [keeps_rules]: "inj (x_uuid x) \<Longrightarrow> keeps (wf_hub x) (refresh x tok)"
  unfolding refresh_def Let_def by (intro keeps_rules)

lemma keeps_logout [keeps_rules]: "keeps (wf_hub x) (logout x tok)"
  unfolding logout_def by (intro keeps_rules)

lemma keeps_seed [keeps_rules]: "inj (x_uuid x) \<Longrightarrow> keeps (wf_hub x) (seed x)"
  unfolding seed_def Let_def by (intro keeps_rules)

definition issued_row :: "ext \<Rightarrow> string \<Rightarrow> string \<Rightarrow> int \<Rightarrow> hub \<Rightarrow> refresh_token" where
  "issued_row x u tok ms h =
    \<lparr>rt_id = x_uuid x (Suc (draws h)), rt_userId = u, rt_tokenHash = hashToken x tok,
     rt_revoked = False, rt_expiresAt = clock h + ms, rt_createdAt = clock h\<rparr>"

lemma issued_row_simps [simp]:
  "rt_userId (issued_row x u tok ms h) = u" "rt_tokenHash (issued_row x u tok ms h) = hashToken x tok"
  "rt_revoked (issued_row x u tok ms h) = False" "rt_expiresAt (issued_row x u tok ms h) = clock h + ms"
  "rt_id (issued_row x u tok ms h) = x_uuid x (Suc (draws h))"
  by (simp_all add: issued_row_def)

lemma issueTokenPair_InrE:
  assumes "issueTokenPair x u e h = (Inr pair, h')"
  obtains sec ms where "x_env x ''JWT_REFRESH_SECRET'' = Some sec"
    and "durationToMs (config_get x ''JWT_REFRESH_EXPIRES_IN'' ''30d'') = Inr ms"
    and "tp_refreshToken pair = x_jwt_sign x sec (config_get x ''JWT_REFRESH_EXPIRES_IN'' ''30d'') (clock h)
      \<lparr>jwt_sub = u, jwt_email = e, jwt_jti = Some (x_uuid x (draws h))\<rparr>"
    and "u \<in> u_id ` set (users h)"
    and "h' = h\<lparr>refreshTokens := insert_row (issued_row x u (tp_refreshToken pair) ms h) (refreshTokens h),
      draws := Suc (Suc (draws h))\<rparr>"
  using assms
  by (auto simp: issueTokenPair_def refreshToken_create_def issued_row_def prog_simps Let_def
      split: option.splits sum.splits prod.splits if_splits)

lemma issueTokenPair_ok:
  assumes "x_env x ''JWT_REFRESH_SECRET'' = Some sec" and "x_env x ''JWT_ACCESS_SECRET'' = Some acc"
    and "durationToMs (config_get x ''JWT_REFRESH_EXPIRES_IN'' ''30d'') = Inr ms"
    and "u \<in> u_id ` set (users h)"
  shows "\<exists>pair h'. issueTokenPair x u e h = (Inr pair, h')"
  using assms by (simp add: issueTokenPair_def refreshToken_create_def prog_simps Let_def)

lemma tokens_ok_fresh_hash:
  assumes "tokens_ok x h" and "jwt_fresh x" and "inj (x_uuid x)" and "draws h \<le> n"
    and "jwt_jti p = Some (x_uuid x n)"
  shows "toHex (x_sha256 x (x_jwt_sign x sec e t p)) \<notin> rt_tokenHash ` set (refreshTokens h)"
proof
  assume "toHex (x_sha256 x (x_jwt_sign x sec e t p)) \<in> rt_tokenHash ` set (refreshTokens h)"
  with assms(1) obtain sec' e' t' q i where "i < draws h" "jwt_jti q = Some (x_uuid x i)"
    "toHex (x_sha256 x (x_jwt_sign x sec e t p)) = toHex (x_sha256 x (x_jwt_sign x sec' e' t' q))"
    unfolding tokens_ok_def by (metis (no_types, lifting) imageE)
  moreover from this(1) assms(3,4) have "x_uuid x i \<noteq> x_uuid x n" by (auto dest: injD)
  ultimately show False using assms(2,5) by (auto simp: jwt_fresh_def)
qed

lemma tokens_ok_issue:
  assumes "tokens_ok x h" and "jwt_fresh x" and "inj (x_uuid x)"
    and "issueTokenPair x u e h = (Inr pair, h')"
  shows "tokens_ok x h'"
proof -
  obtain sec ms where
    tok: "tp_refreshToken pair = x_jwt_sign x sec (config_get x ''JWT_REFRESH_EXPIRES_IN'' ''30d'') (clock h)
      \<lparr>jwt_sub = u, jwt_email = e, jwt_jti = Some (x_uuid x (draws h))\<rparr>"
    and h': "h' = h\<lparr>refreshTokens := insert_row (issued_row x u (tp_refreshToken pair) ms h) (refreshTokens h),
      draws := Suc (Suc (draws h))\<rparr>"
    by (rule issueTokenPair_InrE [OF assms(4)])
  define r where "r = issued_row x u (tp_refreshToken pair) ms h"
  have r: "rt_tokenHash r = hashToken x (tp_refreshToken pair)" by (simp add: r_def)
  have "rt_tokenHash r \<notin> rt_tokenHash ` set (refreshTokens h)"
    using tokens_ok_fresh_hash [OF assms(1-3) order_refl] by (simp add: r tok hashToken_def)
  moreover have "\<exists>sec e t p i. i < Suc (Suc (draws h)) \<and> jwt_jti p = Some (x_uuid x i) \<and>
      rt_tokenHash q = toHex (x_sha256 x (x_jwt_sign x sec e t p))" if "q \<in> insert r (set (refreshTokens h))" for q
  proof (cases "q = r")
    case True
    have "jwt_jti \<lparr>jwt_sub = u, jwt_email = e, jwt_jti = Some (x_uuid x (draws h))\<rparr> = Some (x_uuid x (draws h))"
      by simp
    with True r tok show ?thesis unfolding hashToken_def by (metis lessI less_SucI)
  next
    case False
    with that assms(1) show ?thesis unfolding tokens_ok_def by (metis insertE less_SucI)
  qed
  ultimately show ?thesis using assms(1) by (simp add: tokens_ok_def h' keyed_insert_row r_def)
qed

lemma tokens_ok_revoke:
  "tokens_ok x h \<Longrightarrow> tokens_ok x (h\<lparr>refreshTokens := update_row rt_id i (\<lambda>r. r\<lparr>rt_revoked := True\<rparr>) (refreshTokens h)\<rparr>)"
  by (auto simp: tokens_ok_def keyed_update_other set_update_row)

lemma refresh_InrE:
  assumes "refresh x tok h = (Inr pair, h')"
  obtains sec p r where "x_env x ''JWT_REFRESH_SECRET'' = Some sec"
    and "x_jwt_verify x sec (clock h) tok = Some p"
    and "r \<in> set (refreshTokens h)" and "live_token (jwt_sub p) (hashToken x tok) (clock h) r"
    and "issueTokenPair x (jwt_sub p) (jwt_email p)
      (h\<lparr>refreshTokens := update_row rt_id (rt_id r) (\<lambda>r. r\<lparr>rt_revoked := True\<rparr>) (refreshTokens h)\<rparr>) = (Inr pair, h')"
proof -
  from assms obtain sec p r where a: "x_env x ''JWT_REFRESH_SECRET'' = Some sec"
      "x_jwt_verify x sec (clock h) tok = Some p"
    and f: "find (live_token (jwt_sub p) (hashToken x tok) (clock h)) (refreshTokens h) = Some r"
    and i: "thenE (refreshToken_revoke (rt_id r)) (issueTokenPair x (jwt_sub p) (jwt_email p)) h = (Inr pair, h')"
    by (auto simp: refresh_def prog_simps Let_def split: option.splits)
  from f have r: "r \<in> set (refreshTokens h)" "live_token (jwt_sub p) (hashToken x tok) (clock h) r"
    by (auto simp: find_Some_iff)
  from i r(1) have "issueTokenPair x (jwt_sub p) (jwt_email p)
      (h\<lparr>refreshTokens := update_row rt_id (rt_id r) (\<lambda>r. r\<lparr>rt_revoked := True\<rparr>) (refreshTokens h)\<rparr>) = (Inr pair, h')"
    by (simp add: refreshToken_revoke_def prog_simps)
  with a r show thesis by (rule that)
qed

text \<open>A token whose stored rows are all revoked is refused at every later instant.\<close>

lemma refresh_refused:
  assumes "\<And>r. r \<in> set (refreshTokens h) \<Longrightarrow> rt_tokenHash r = hashToken x tok \<Longrightarrow> rt_revoked r"
  shows "refresh x tok h = (Inl (UnauthorizedException ko_bad_refresh), h)"
proof -
  have "find (live_token u (hashToken x tok) t) (refreshTokens h) = None" for u t
    using assms by (auto simp: find_None_conv live_token_def)
  then show ?thesis by (simp add: refresh_def prog_simps Let_def split: option.splits)
qed

section \<open>Properties\<close>

text \<open>Refresh-token rotation: a refresh token is single use. After a successful refresh the same
  token is refused at every later time, and the state keeps the invariant that makes this hold (one
  row per token, each from an issued token).\<close>

theorem refresh_single_use:
  assumes "tokens_ok x h" and "jwt_fresh x" and "inj (x_uuid x)"
    and "refresh x tok h = (Inr pair, h')"
  shows "tokens_ok x h' \<and>
    (\<forall>c. fst (refresh x tok (h'\<lparr>clock := c\<rparr>)) = Inl (UnauthorizedException ko_bad_refresh))"
proof -
  obtain sec and p :: jwt_payload and r where r: "r \<in> set (refreshTokens h)" "live_token (jwt_sub p) (hashToken x tok) (clock h) r"
    and iss: "issueTokenPair x (jwt_sub p) (jwt_email p)
      (h\<lparr>refreshTokens := update_row rt_id (rt_id r) (\<lambda>r. r\<lparr>rt_revoked := True\<rparr>) (refreshTokens h)\<rparr>) = (Inr pair, h')"
    by (rule refresh_InrE [OF assms(4)])
  let ?t = "update_row rt_id (rt_id r) (\<lambda>r. r\<lparr>rt_revoked := True\<rparr>) (refreshTokens h)"
  let ?h = "h\<lparr>refreshTokens := ?t\<rparr>"
  have ok: "tokens_ok x ?h" by (rule tokens_ok_revoke [OF assms(1)])
  obtain sec' ms where
    tok: "tp_refreshToken pair = x_jwt_sign x sec' (config_get x ''JWT_REFRESH_EXPIRES_IN'' ''30d'') (clock ?h)
      \<lparr>jwt_sub = jwt_sub p, jwt_email = jwt_email p, jwt_jti = Some (x_uuid x (draws ?h))\<rparr>"
    and h': "h' = ?h\<lparr>refreshTokens := insert_row (issued_row x (jwt_sub p) (tp_refreshToken pair) ms ?h) (refreshTokens ?h),
      draws := Suc (Suc (draws ?h))\<rparr>"
    by (rule issueTokenPair_InrE [OF iss])
  have hash: "rt_tokenHash r = hashToken x tok" using r(2) by (simp add: live_token_def)
  have new: "hashToken x (tp_refreshToken pair) \<notin> rt_tokenHash ` set (refreshTokens h)"
    using tokens_ok_fresh_hash [OF assms(1-3) order_refl] by (simp add: tok hashToken_def)
  have old: "rt_revoked q" if "q \<in> set ?t" "rt_tokenHash q = hashToken x tok" for q
  proof -
    from that(1) obtain q0 where q0: "q0 \<in> set (refreshTokens h)"
      "q = (if rt_id q0 = rt_id r then q0\<lparr>rt_revoked := True\<rparr> else q0)"
      by (auto simp: set_update_row)
    with that(2) hash have "rt_tokenHash q0 = rt_tokenHash r" by (auto split: if_splits)
    with q0(1) r(1) assms(1) have "q0 = r"
      by (metis distinct_map inj_onD keyed_def tokens_ok_def)
    with q0 show ?thesis by simp
  qed
  have "rt_revoked q" if "q \<in> set (refreshTokens h')" "rt_tokenHash q = hashToken x tok" for q
    using that old new r(1) hash by (auto simp: h' rev_image_eqI)
  then have "refresh x tok (h'\<lparr>clock := c\<rparr>) = (Inl (UnauthorizedException ko_bad_refresh), h'\<lparr>clock := c\<rparr>)" for c
    by (intro refresh_refused) simp
  with tokens_ok_issue [OF ok assms(2,3) iss] show ?thesis by simp
qed

lemma demo_env: "x_env demo_ext ''JWT_REFRESH_SECRET'' = Some ''1d''" "x_env demo_ext ''JWT_ACCESS_SECRET'' = Some ''1d''"
  "config_get demo_ext ''JWT_REFRESH_EXPIRES_IN'' ''30d'' = ''1d''"
  by (simp_all add: demo_ext_def config_get_def)

lemma demo_duration: "durationToMs ''1d'' = Inr 86400000"
  by code_simp

lemma demo_jwt_ok: "jwt_ok demo_ext"
  by (simp add: jwt_ok_def demo_jwt)

lemma demo_jwt_fresh: "jwt_fresh demo_ext"
proof -
  have "jwt_jti p = jwt_jti q" if "demo_token p = demo_token q" for p q :: jwt_payload
    using arg_cong [OF that, of demo_payload] by simp
  moreover have "x_sha256 demo_ext s = s" for s by (simp add: demo_ext_def)
  ultimately show ?thesis unfolding jwt_fresh_def demo_jwt by (metis (no_types))
qed

definition demo_refresh :: string where
  "demo_refresh = demo_token \<lparr>jwt_sub = ''i'', jwt_email = ''a@b.c'', jwt_jti = Some ''ii''\<rparr>"

definition demo_login_hub :: hub where
  "demo_login_hub = demo_user_hub\<lparr>refreshTokens := [issued_row demo_ext ''i'' demo_refresh 86400000 demo_user_hub], draws := 3\<rparr>"

lemma demo_login:
  "\<exists>pair. login demo_ext ''a@b.c'' ''pw'' demo_user_hub = (Inr pair, demo_login_hub) \<and> tp_refreshToken pair = demo_refresh"
proof -
  have cmp: "x_bcrypt_compare demo_ext ''pw'' ''pw''" by (simp add: demo_ext_def)
  have id1: "x_uuid demo_ext (Suc 0) = ''ii''" by (simp add: demo_uuid)
  show ?thesis
    using cmp
    by (simp add: login_def issueTokenPair_def refreshToken_create_def prog_simps Let_def find_row_def
        demo_user_hub_def demo_hub_def demo_env demo_duration demo_jwt id1 demo_login_hub_def issued_row_def
        demo_refresh_def insert_row_def)
qed

lemma demo_tokens_ok: "tokens_ok demo_ext demo_login_hub"
proof -
  have base: "tokens_ok demo_ext demo_user_hub" by (simp add: tokens_ok_def keyed_def demo_user_hub_def demo_hub_def)
  obtain pair where "login demo_ext ''a@b.c'' ''pw'' demo_user_hub = (Inr pair, demo_login_hub)"
    using demo_login by blast
  then have "\<exists>u e. issueTokenPair demo_ext u e demo_user_hub = (Inr pair, demo_login_hub)"
    by (auto simp: login_def prog_simps split: option.splits if_splits)
  then show ?thesis using tokens_ok_issue [OF base demo_jwt_fresh demo_inj] by blast
qed

lemma demo_refresh_ok: "\<exists>pair h'. refresh demo_ext demo_refresh demo_login_hub = (Inr pair, h')"
  by (simp add: refresh_def refreshToken_revoke_def issueTokenPair_def refreshToken_create_def prog_simps Let_def
      demo_env demo_jwt demo_duration demo_refresh_def demo_login_hub_def demo_user_hub_def live_token_def demo_hub_def)

theorem refresh_single_use_witness:
  "\<exists>pair h'. refresh demo_ext demo_refresh demo_login_hub = (Inr pair, h') \<and> tokens_ok demo_ext h' \<and>
    (\<forall>c. fst (refresh demo_ext demo_refresh (h'\<lparr>clock := c\<rparr>)) = Inl (UnauthorizedException ko_bad_refresh))"
  using demo_refresh_ok refresh_single_use [OF demo_tokens_ok demo_jwt_fresh demo_inj] by blast

text \<open>A session can be continued: after a successful login the refresh token that was returned is
  accepted by the next refresh, when the configured lifetime is positive.\<close>

theorem login_then_refresh:
  assumes "jwt_ok x" and "x_env x ''JWT_ACCESS_SECRET'' = Some acc"
    and "durationToMs (config_get x ''JWT_REFRESH_EXPIRES_IN'' ''30d'') = Inr ms" and "0 < ms"
    and "login x email password h = (Inr pair, h')"
  shows "\<exists>pair2 h2. refresh x (tp_refreshToken pair) h' = (Inr pair2, h2)"
proof -
  from assms(5) have "\<exists>user :: user. issueTokenPair x (u_id user) (u_email user) h = (Inr pair, h')"
    by (auto simp: login_def prog_simps split: option.splits if_splits)
  then obtain user :: user where "issueTokenPair x (u_id user) (u_email user) h = (Inr pair, h')" ..
  then obtain sec ms' where sec: "x_env x ''JWT_REFRESH_SECRET'' = Some sec"
    and ms: "durationToMs (config_get x ''JWT_REFRESH_EXPIRES_IN'' ''30d'') = Inr ms'"
    and tok: "tp_refreshToken pair = x_jwt_sign x sec (config_get x ''JWT_REFRESH_EXPIRES_IN'' ''30d'') (clock h)
      \<lparr>jwt_sub = u_id user, jwt_email = u_email user, jwt_jti = Some (x_uuid x (draws h))\<rparr>"
    and u: "u_id user \<in> u_id ` set (users h)"
    and h': "h' = h\<lparr>refreshTokens := insert_row (issued_row x (u_id user) (tp_refreshToken pair) ms' h) (refreshTokens h),
      draws := Suc (Suc (draws h))\<rparr>"
    by (rule issueTokenPair_InrE)
  have c: "clock h' = clock h" "users h' = users h" by (simp_all add: h')
  let ?p = "\<lparr>jwt_sub = u_id user, jwt_email = u_email user, jwt_jti = Some (x_uuid x (draws h))\<rparr>"
  have ver: "x_jwt_verify x sec (clock h') (tp_refreshToken pair) = Some ?p"
    using assms(1) c by (simp add: tok jwt_ok_def)
  have "live_token (u_id user) (hashToken x (tp_refreshToken pair)) (clock h')
      (issued_row x (u_id user) (tp_refreshToken pair) ms' h)"
    using assms(3,4) ms c by (simp add: live_token_def)
  then have "find (live_token (u_id user) (hashToken x (tp_refreshToken pair)) (clock h')) (refreshTokens h') \<noteq> None"
    unfolding find_None_conv by (auto simp: h')
  then obtain r where r: "find (live_token (u_id user) (hashToken x (tp_refreshToken pair)) (clock h')) (refreshTokens h') = Some r"
    by auto
  then have "rt_id r \<in> rt_id ` set (refreshTokens h')" by (auto simp: find_Some_iff)
  with r ver sec have "refresh x (tp_refreshToken pair) h' = issueTokenPair x (u_id user) (u_email user)
      (h'\<lparr>refreshTokens := update_row rt_id (rt_id r) (\<lambda>r. r\<lparr>rt_revoked := True\<rparr>) (refreshTokens h')\<rparr>)"
    by (simp add: refresh_def refreshToken_revoke_def prog_simps Let_def)
  moreover have "u_id user \<in> u_id ` set (users (h'\<lparr>refreshTokens := t\<rparr>))" for t
    using u by (simp add: h')
  ultimately show ?thesis using issueTokenPair_ok [OF sec assms(2,3)] by metis
qed

theorem login_then_refresh_witness:
  "\<exists>pair h'. login demo_ext ''a@b.c'' ''pw'' demo_user_hub = (Inr pair, h') \<and>
    (\<exists>pair2 h2. refresh demo_ext (tp_refreshToken pair) h' = (Inr pair2, h2))"
proof -
  obtain pair where l: "login demo_ext ''a@b.c'' ''pw'' demo_user_hub = (Inr pair, demo_login_hub)"
    using demo_login by blast
  have "durationToMs (config_get demo_ext ''JWT_REFRESH_EXPIRES_IN'' ''30d'') = Inr 86400000"
    by (simp add: demo_env demo_duration)
  then show ?thesis using login_then_refresh [OF demo_jwt_ok demo_env(2) _ _ l] l by fastforce
qed

text \<open>Logout revokes the session: once a verified refresh token has been logged out, refreshing
  with it is refused at every later time, as long as verification never gives two different
  payloads for one token.\<close>

theorem logout_revokes:
  assumes "\<And>t p q. x_jwt_verify x sec (clock h) tok = Some p \<Longrightarrow> x_jwt_verify x sec t tok = Some q \<Longrightarrow> q = p"
    and "x_env x ''JWT_REFRESH_SECRET'' = Some sec" and "x_jwt_verify x sec (clock h) tok = Some p"
    and "logout x tok h = (r, h')"
  shows "r = Inr () \<and> (\<forall>c. fst (refresh x tok (h'\<lparr>clock := c\<rparr>)) = Inl (UnauthorizedException ko_bad_refresh))"
proof -
  let ?P = "\<lambda>r. rt_userId r = jwt_sub p \<and> rt_tokenHash r = hashToken x tok \<and> \<not> rt_revoked r"
  have r: "r = Inr ()" and h': "h' = h\<lparr>refreshTokens := map (\<lambda>r. if ?P r then r\<lparr>rt_revoked := True\<rparr> else r) (refreshTokens h)\<rparr>"
    using assms(2-4) by (simp_all add: logout_def refreshToken_revokeMany_def prog_simps)
  have none: "find (live_token (jwt_sub p) (hashToken x tok) c) (refreshTokens h') = None" for c
    by (auto simp: find_None_conv live_token_def h')
  have "fst (refresh x tok (h'\<lparr>clock := c\<rparr>)) = Inl (UnauthorizedException ko_bad_refresh)" for c
  proof (cases "x_jwt_verify x sec c tok")
    case None
    then show ?thesis using assms(2) by (simp add: refresh_def prog_simps)
  next
    case (Some q)
    then have "q = p" using assms(1,3) by blast
    with Some none assms(2) show ?thesis by (simp add: refresh_def prog_simps Let_def)
  qed
  with r show ?thesis by blast
qed

theorem logout_revokes_witness:
  "\<forall>c. fst (refresh demo_ext demo_refresh ((snd (logout demo_ext demo_refresh demo_login_hub))\<lparr>clock := c\<rparr>)) =
    Inl (UnauthorizedException ko_bad_refresh)"
proof -
  have v: "x_jwt_verify demo_ext ''1d'' t demo_refresh = Some \<lparr>jwt_sub = ''i'', jwt_email = ''a@b.c'', jwt_jti = Some ''ii''\<rparr>" for t
    by (simp add: demo_jwt demo_refresh_def)
  show ?thesis
    using logout_revokes [OF _ demo_env(1) v [of "clock demo_login_hub"], of "fst (logout demo_ext demo_refresh demo_login_hub)"
        "snd (logout demo_ext demo_refresh demo_login_hub)"] v by simp
qed

end
