(* ===== verification/Notifications.thy ===== *)
theory Notifications
  imports Auth
begin

text \<open>
  \<^verbatim>\<open>hub-api/src/notifications/notifications.service.ts\<close>: initialising the push client, storing an
  encrypted push token per device, and sending a push to every stored token of a user. A send is a
  message appended to \<open>pushOut\<close>; a delivery failure is logged by the source and has no other effect.
\<close>

definition ntf_onModuleInit :: "ext \<Rightarrow> unit hub_prog" where
  "ntf_onModuleInit x =
    (case x_env x ''FCM_SERVICE_ACCOUNT_PATH'' of
       None \<Rightarrow> ret ()
     | Some p \<Rightarrow>
         if p = [] then ret ()
         else if x_fcm_init x p then modS (\<lambda>h. h\<lparr>fcmApp := True\<rparr>)
         else ret ())"

record register_push_token_dto =
  rpt_token :: string
  rpt_platform :: PushPlatform

definition registerPushToken :: "ext \<Rightarrow> string \<Rightarrow> register_push_token_dto \<Rightarrow> unit hub_prog" where
  "registerPushToken x userId dto =
    bindE (config_getOrThrow x ''PUSH_TOKEN_ENC_KEY'') (\<lambda>encKey.
    bindE (encryptSecret x (rpt_token dto) encKey) (\<lambda>encryptedToken.
      pushToken_upsert x userId encryptedToken (rpt_platform dto)))"

fun decrypt_all :: "ext \<Rightarrow> string \<Rightarrow> push_token list \<Rightarrow> hub_error + string list" where
  "decrypt_all x k [] = Inr []"
| "decrypt_all x k (p # ps) =
    (case decryptSecret x (pt_token p) k of
       Inl e \<Rightarrow> Inl e
     | Inr t \<Rightarrow> (case decrypt_all x k ps of Inl e \<Rightarrow> Inl e | Inr ts \<Rightarrow> Inr (t # ts)))"

definition sendPush :: "ext \<Rightarrow> string \<Rightarrow> string \<Rightarrow> string \<Rightarrow> unit hub_prog" where
  "sendPush x userId title body =
    bindE (getS fcmApp) (\<lambda>app.
      if \<not> app then ret ()
      else bindE (config_getOrThrow x ''PUSH_TOKEN_ENC_KEY'') (\<lambda>encKey.
        bindE (getS (\<lambda>h. filter (\<lambda>p. pt_userId p = userId) (pushTokens h))) (\<lambda>stored.
          if stored = [] then ret ()
          else bindE (liftE (decrypt_all x encKey stored)) (\<lambda>tokens.
            modS (\<lambda>h. h\<lparr>pushOut := pushOut h @ [\<lparr>pm_tokens = tokens, pm_title = title, pm_body = body\<rparr>]\<rparr>)))))"

section \<open>Lemmas\<close>

lemma keeps_ntf_onModuleInit [keeps_rules]: "keeps (wf_hub x) (ntf_onModuleInit y)"
  unfolding ntf_onModuleInit_def by (intro keeps_rules keepsI) (simp add: prog_simps)

lemma keeps_registerPushToken [keeps_rules]:
  "inj (x_uuid x) \<Longrightarrow> keeps (wf_hub x) (registerPushToken x u d)"
  unfolding registerPushToken_def by (intro keeps_rules)

text \<open>A program that only appends to the push log keeps any invariant that does not read it.\<close>

lemma keeps_sendPush:
  assumes "\<And>h p. I (h\<lparr>pushOut := p\<rparr>) = I h"
  shows "keeps I (sendPush x u t b)"
  unfolding sendPush_def config_getOrThrow_def
  by (intro keeps_rules) (simp add: keeps_def prog_simps assms)

lemma sendPush_wf [keeps_rules]: "keeps (wf_hub x) (sendPush y u t b)"
  by (rule keeps_sendPush) simp

lemma encryptSecret_apply:
  assumes "length (fromHex k) = 32"
  shows "\<exists>c. encryptSecret x p k h = (Inr c, h\<lparr>draws := Suc (draws h)\<rparr>) \<and>
    hd (split_char (CHR '':'') c) = toHex (x_random x (draws h) 12) \<and>
    (gcm_ok x \<longrightarrow> decryptSecret x c k = Inr p)"
proof -
  obtain e tag where enc: "x_gcm_enc x (fromHex k) (x_random x (draws h) 12) p = (e, tag)"
    by (metis surj_pair)
  let ?parts = "map toHex [x_random x (draws h) 12, tag, e]"
  have c: "encryptSecret x p k h = (Inr (join '':'' ?parts), h\<lparr>draws := Suc (draws h)\<rparr>)"
    using assms enc by (simp add: encryptSecret_def prog_simps Let_def)
  have sp: "split_char (CHR '':'') (join '':'' ?parts) = ?parts"
    by (rule split_join) (simp_all add: colon_toHex)
  have "decryptSecret x (join '':'' ?parts) k = Inr p" if "gcm_ok x"
  proof -
    have "x_gcm_dec x (fromHex k) (x_random x (draws h) 12) tag e = Some p"
      using that enc by (metis fst_conv gcm_ok_def snd_conv)
    then show ?thesis using assms unfolding decryptSecret_def sp by (simp add: Let_def)
  qed
  with c sp show ?thesis by (metis hd_map list.distinct(1) list.sel(1))
qed

lemma pushToken_upsert_fresh:
  assumes "uid \<in> u_id ` set (users h)" and "\<forall>p \<in> set (pushTokens h). pt_token p \<noteq> tok"
  shows "pushToken_upsert x uid tok pf h =
    (Inr (), h\<lparr>draws := Suc (draws h), pushTokens := pushTokens h @
      [\<lparr>pt_id = x_uuid x (draws h), pt_userId = uid, pt_token = tok, pt_platform = pf\<rparr>]\<rparr>)"
  using assms by (auto simp: pushToken_upsert_def prog_simps insert_row_def)

section \<open>Properties\<close>

text \<open>C28. The upsert of a push token never finds the row it means to update: the stored token is
  encrypted under a fresh nonce, so registering the same device twice, with distinct nonces that no
  stored row used, leaves two rows for it, and the next push carries the device's token twice.\<close>

theorem register_twice_duplicates:
  assumes "gcm_ok x" and "x_env x ''PUSH_TOKEN_ENC_KEY'' = Some k" and "length (fromHex k) = 32"
    and "u \<in> u_id ` set (users h)" and "pushTokens h = []"
    and "x_random x (draws h) 12 \<noteq> x_random x (draws h + 2) 12"
    and "fcmApp h"
  shows "\<exists>h1 h2 p1 p2. registerPushToken x u dto h = (Inr (), h1) \<and> registerPushToken x u dto h1 = (Inr (), h2) \<and>
    pushTokens h2 = [p1, p2] \<and> pt_userId p1 = u \<and> pt_userId p2 = u \<and>
    pushOut (snd (sendPush x u title body h2)) =
      pushOut h @ [\<lparr>pm_tokens = [rpt_token dto, rpt_token dto], pm_title = title, pm_body = body\<rparr>]"
proof -
  obtain c1 where c1: "encryptSecret x (rpt_token dto) k h = (Inr c1, h\<lparr>draws := Suc (draws h)\<rparr>)"
      "hd (split_char (CHR '':'') c1) = toHex (x_random x (draws h) 12)" "decryptSecret x c1 k = Inr (rpt_token dto)"
    using encryptSecret_apply [OF assms(3), of x "rpt_token dto" h] assms(1) by blast
  let ?h = "h\<lparr>draws := Suc (draws h)\<rparr>"
  let ?p1 = "\<lparr>pt_id = x_uuid x (Suc (draws h)), pt_userId = u, pt_token = c1, pt_platform = rpt_platform dto\<rparr>"
  let ?h1 = "h\<lparr>draws := Suc (Suc (draws h)), pushTokens := [?p1]\<rparr>"
  have r1: "registerPushToken x u dto h = (Inr (), ?h1)"
    using c1(1) pushToken_upsert_fresh [of u ?h c1 x "rpt_platform dto"] assms(2,4,5)
    by (simp add: registerPushToken_def prog_simps)
  obtain c2 where c2: "encryptSecret x (rpt_token dto) k ?h1 = (Inr c2, ?h1\<lparr>draws := Suc (draws ?h1)\<rparr>)"
      "hd (split_char (CHR '':'') c2) = toHex (x_random x (draws ?h1) 12)" "decryptSecret x c2 k = Inr (rpt_token dto)"
    using encryptSecret_apply [OF assms(3), of x "rpt_token dto" ?h1] assms(1) by blast
  have ne: "c1 \<noteq> c2" using c1(2) c2(2) assms(6) by auto
  let ?p2 = "\<lparr>pt_id = x_uuid x (Suc (draws ?h1)), pt_userId = u, pt_token = c2, pt_platform = rpt_platform dto\<rparr>"
  let ?h2 = "h\<lparr>draws := Suc (Suc (Suc (Suc (draws h)))), pushTokens := [?p1, ?p2]\<rparr>"
  have r2: "registerPushToken x u dto ?h1 = (Inr (), ?h2)"
    using c2(1) ne pushToken_upsert_fresh [of u "?h1\<lparr>draws := Suc (draws ?h1)\<rparr>" c2 x "rpt_platform dto"] assms(2,4)
    by (simp add: registerPushToken_def prog_simps)
  have "pushOut (snd (sendPush x u title body ?h2)) =
      pushOut h @ [\<lparr>pm_tokens = [rpt_token dto, rpt_token dto], pm_title = title, pm_body = body\<rparr>]"
    using assms(2,7) c1(3) c2(3) by (simp add: sendPush_def prog_simps)
  with r1 r2 show ?thesis by fastforce
qed

definition demo_fcm_hub :: hub where
  "demo_fcm_hub = demo_user_hub\<lparr>fcmApp := True\<rparr>"

theorem register_twice_duplicates_witness:
  "\<exists>h1 h2 p1 p2. registerPushToken demo_ext ''i'' \<lparr>rpt_token = ''dev'', rpt_platform = ANDROID\<rparr> demo_fcm_hub = (Inr (), h1) \<and>
    registerPushToken demo_ext ''i'' \<lparr>rpt_token = ''dev'', rpt_platform = ANDROID\<rparr> h1 = (Inr (), h2) \<and>
    pushTokens h2 = [p1, p2] \<and> pt_userId p1 = ''i'' \<and> pt_userId p2 = ''i'' \<and>
    pushOut (snd (sendPush demo_ext ''i'' ''T'' ''B'' h2)) =
      pushOut demo_fcm_hub @ [\<lparr>pm_tokens = [''dev'', ''dev''], pm_title = ''T'', pm_body = ''B''\<rparr>]"
proof -
  have k: "x_env demo_ext ''PUSH_TOKEN_ENC_KEY'' = Some demo_key" by (simp add: demo_ext_def)
  have "(char_of (1::nat) :: char) \<noteq> char_of (3::nat)" by simp
  then have iv: "x_random demo_ext (draws demo_fcm_hub) 12 \<noteq> x_random demo_ext (draws demo_fcm_hub + 2) 12"
    by (simp add: demo_ext_def demo_fcm_hub_def demo_user_hub_def replicate_eq_replicate)
  show ?thesis
    using register_twice_duplicates [OF demo_gcm_ok k demo_key_length _ _ iv, of "''i''" "\<lparr>rpt_token = ''dev'', rpt_platform = ANDROID\<rparr>" "''T''" "''B''"]
    by (simp add: demo_fcm_hub_def demo_user_hub_def demo_hub_def)
qed

end
