(* ===== verification/Tasks.thy ===== *)
theory Tasks
  imports Workers Notifications
begin

text \<open>
  \<^verbatim>\<open>hub-api/src/tasks/tasks.service.ts\<close>: submitting, listing and cancelling tasks, the handlers of the
  daemon's status, log and result events, the failover after a capacity failure, and the settings
  of the watchdog. A job handed to the queue is appended to \<open>jobs\<close>; the processor that consumes it
  is in theory \<open>Task_Processor\<close>.
\<close>

section \<open>Settings and the queue\<close>

definition TASK_WATCHDOG_JOB :: string where
  "TASK_WATCHDOG_JOB = ''watchdog''"

definition TASK_WATCHDOG_REPEAT_JOB_ID :: string where
  "TASK_WATCHDOG_REPEAT_JOB_ID = ''task-watchdog''"

definition RETRYABLE_CAPACITY_FAILURE_PREFIX :: string where
  "RETRYABLE_CAPACITY_FAILURE_PREFIX = ''CAPACITY_EXHAUSTED''"

definition newline :: string where
  "newline = [CHR 0x0A]"

definition positiveIntFromEnv :: "ext \<Rightarrow> string \<Rightarrow> int \<Rightarrow> int" where
  "positiveIntFromEnv x name fallback =
    (case x_env x name of
       None \<Rightarrow> fallback
     | Some value \<Rightarrow>
         if value = [] then fallback
         else (case parseInt value of
             None \<Rightarrow> fallback
           | Some parsed \<Rightarrow> if parsed > 0 then parsed else fallback))"

definition watchdogTimeoutMs :: "ext \<Rightarrow> int" where
  "watchdogTimeoutMs x = positiveIntFromEnv x ''TASK_WATCHDOG_TIMEOUT_MS'' (15 * 60 * 1000)"

definition watchdogIntervalMs :: "ext \<Rightarrow> int" where
  "watchdogIntervalMs x = positiveIntFromEnv x ''TASK_WATCHDOG_INTERVAL_MS'' (60 * 1000)"

definition watchdogMaxRequeues :: "ext \<Rightarrow> int" where
  "watchdogMaxRequeues x = positiveIntFromEnv x ''TASK_WATCHDOG_MAX_REQUEUES'' 2"

definition queue_add :: "job \<Rightarrow> unit hub_prog" where
  "queue_add j = modS (\<lambda>h. h\<lparr>jobs := jobs h @ [j]\<rparr>)"

definition dispatch_job :: "string \<Rightarrow> job" where
  "dispatch_job taskId = \<lparr>j_name = ''dispatch'', j_taskId = Some taskId, j_opts = RetryOpts 5 2000\<rparr>"

definition requeueTask :: "string \<Rightarrow> unit hub_prog" where
  "requeueTask taskId = queue_add (dispatch_job taskId)"

definition ensureWatchdogScheduled :: "ext \<Rightarrow> unit hub_prog" where
  "ensureWatchdogScheduled x =
    queue_add \<lparr>j_name = TASK_WATCHDOG_JOB, j_taskId = None,
      j_opts = RepeatOpts TASK_WATCHDOG_REPEAT_JOB_ID (watchdogIntervalMs x)\<rparr>"

definition tsk_onModuleInit :: "ext \<Rightarrow> unit hub_prog" where
  "tsk_onModuleInit x = ensureWatchdogScheduled x"

section \<open>Tasks with their owner\<close>

text \<open>A query that includes the owner of the task's server. The reference is never dangling in a
  well-formed hub.\<close>

definition task_with_owner :: "hub \<Rightarrow> string \<Rightarrow> (task \<times> string) option" where
  "task_with_owner h taskId =
    (case find_row t_id taskId (tasks h) of
       None \<Rightarrow> None
     | Some t \<Rightarrow> map_option (\<lambda>s. (t, s_ownerId s)) (find_row s_id (t_serverId t) (servers h)))"

definition getOwnedTask :: "string \<Rightarrow> string \<Rightarrow> (task \<times> string) hub_prog" where
  "getOwnedTask ownerId taskId =
    bindE (getS (\<lambda>h. task_with_owner h taskId)) (\<lambda>v.
      case v of
        None \<Rightarrow> throw (NotFoundException ko_task_not_found)
      | Some t \<Rightarrow> if snd t \<noteq> ownerId then throw (ForbiddenException ko_task_forbidden) else ret t)"

text \<open>An update that returns the task with the owner, and pushes the new row to that owner.\<close>

definition update_and_notify :: "string \<Rightarrow> (task \<Rightarrow> task) \<Rightarrow> (task \<times> string) hub_prog" where
  "update_and_notify taskId f =
    bindE (task_update taskId f) (\<lambda>task.
    bindE (getS (\<lambda>h. find_row s_id (t_serverId task) (servers h))) (\<lambda>v.
    bindE (someE RecordNotFound v) (\<lambda>server.
      thenE (notifyUser (s_ownerId server) (TASK_UPDATED task)) (ret (task, s_ownerId server)))))"

definition updateStatus :: "string \<Rightarrow> TaskStatus \<Rightarrow> json option \<Rightarrow> (task \<times> string) hub_prog" where
  "updateStatus taskId status result =
    update_and_notify taskId (\<lambda>t. case result of
        None \<Rightarrow> t\<lparr>t_status := status\<rparr>
      | Some r \<Rightarrow> t\<lparr>t_status := status, t_result := Some r\<rparr>)"

record task_patch =
  tp_status :: "TaskStatus option"
  tp_result :: "json option"
  tp_logs :: "string option"

definition apply_patch :: "task_patch \<Rightarrow> task \<Rightarrow> task" where
  "apply_patch d t =
    (let t1 = (case tp_status d of None \<Rightarrow> t | Some s \<Rightarrow> t\<lparr>t_status := s\<rparr>);
         t2 = (case tp_result d of None \<Rightarrow> t1 | Some r \<Rightarrow> t1\<lparr>t_result := Some r\<rparr>)
     in (case tp_logs d of None \<Rightarrow> t2 | Some l \<Rightarrow> t2\<lparr>t_logs := l\<rparr>))"

definition updateTaskAndNotify :: "string \<Rightarrow> task_patch \<Rightarrow> (task \<times> string) hub_prog" where
  "updateTaskAndNotify taskId d = update_and_notify taskId (apply_patch d)"

section \<open>Attempts\<close>

definition at_active :: "task_attempt \<Rightarrow> bool" where
  "at_active a \<longleftrightarrow> at_status a = A_DISPATCHING \<or> at_status a = A_RUNNING"

definition started_desc :: "task_attempt \<Rightarrow> task_attempt \<Rightarrow> int" where
  "started_desc a b = at_startedAt b - at_startedAt a"

definition running_attempt :: "hub \<Rightarrow> string \<Rightarrow> task_attempt option" where
  "running_attempt h taskId =
    (case js_sort started_desc (filter (\<lambda>a. at_taskId a = taskId \<and> at_active a) (attempts h)) of
       [] \<Rightarrow> None | a # _ \<Rightarrow> Some a)"

definition touchRunningAttempt :: "string \<Rightarrow> unit hub_prog" where
  "touchRunningAttempt taskId =
    bindE (getS (\<lambda>h. running_attempt h taskId)) (\<lambda>v.
      case v of
        None \<Rightarrow> ret ()
      | Some a \<Rightarrow> taskAttempt_update (at_id a) (\<lambda>now a. a\<lparr>at_status := A_RUNNING, at_lastSeenAt := now\<rparr>))"

definition finishRunningAttempt :: "string \<Rightarrow> TaskAttemptStatus \<Rightarrow> string option \<Rightarrow> unit hub_prog" where
  "finishRunningAttempt taskId status reason =
    bindE (getS (\<lambda>h. running_attempt h taskId)) (\<lambda>v.
      case v of
        None \<Rightarrow> ret ()
      | Some a \<Rightarrow> taskAttempt_update (at_id a) (\<lambda>now a.
          a\<lparr>at_status := status,
            at_failureReason := (case reason of None \<Rightarrow> at_failureReason a | Some r \<Rightarrow> Some r),
            at_lastSeenAt := now, at_finishedAt := Some now\<rparr>))"

text \<open>The servers a retry leaves out: those where the task timed out or ran out of capacity, each
  once, in the order of the attempts.\<close>

definition excluded_by :: "task_attempt \<Rightarrow> bool" where
  "excluded_by a \<longleftrightarrow> at_status a = A_TIMED_OUT \<or>
    at_status a = A_FAILED \<and>
      (case at_failureReason a of None \<Rightarrow> False | Some r \<Rightarrow> startsWith r RETRYABLE_CAPACITY_FAILURE_PREFIX)"

definition retryExcludedServerIds :: "string \<Rightarrow> string list hub_prog" where
  "retryExcludedServerIds taskId =
    getS (\<lambda>h. rev (remdups (rev (map at_serverId
      (filter (\<lambda>a. at_taskId a = taskId \<and> excluded_by a) (attempts h))))))"

section \<open>The operations of the controller\<close>

record create_task_dto =
  ctd_serverId :: string
  ctd_workerType :: WorkerType
  ctd_input :: json

definition submit :: "ext \<Rightarrow> string \<Rightarrow> create_task_dto \<Rightarrow> task hub_prog" where
  "submit x ownerId dto =
    thenE (srv_findOneForOwner ownerId (ctd_serverId dto))
     (bindE (task_create x (ctd_serverId dto) (ctd_workerType dto) (ctd_input dto)) (\<lambda>task.
       thenE (queue_add (dispatch_job (t_id task)))
        (thenE (ensureWatchdogScheduled x) (ret task))))"

definition task_created_desc :: "task \<Rightarrow> task \<Rightarrow> int" where
  "task_created_desc a b = t_createdAt b - t_createdAt a"

definition owned_by :: "hub \<Rightarrow> string \<Rightarrow> task \<Rightarrow> bool" where
  "owned_by h ownerId t \<longleftrightarrow>
    (case find_row s_id (t_serverId t) (servers h) of None \<Rightarrow> False | Some s \<Rightarrow> s_ownerId s = ownerId)"

definition tsk_findAllForOwner :: "string \<Rightarrow> task list hub_prog" where
  "tsk_findAllForOwner ownerId =
    getS (\<lambda>h. js_sort task_created_desc (filter (owned_by h ownerId) (tasks h)))"

definition tsk_findOneForOwner :: "string \<Rightarrow> string \<Rightarrow> task hub_prog" where
  "tsk_findOneForOwner ownerId taskId = bindE (getOwnedTask ownerId taskId) (\<lambda>t. ret (fst t))"

definition cancel :: "string \<Rightarrow> string \<Rightarrow> task hub_prog" where
  "cancel ownerId taskId =
    bindE (getOwnedTask ownerId taskId) (\<lambda>t.
    bindE (registry_get (t_workerType (fst t))) (\<lambda>adapter.
    thenE (wa_cancelTask adapter (t_id (fst t)))
     (bindE (updateStatus (t_id (fst t)) CANCELLED None) (\<lambda>u. ret (fst u)))))"

section \<open>The handlers of the daemon's events\<close>

definition handleDaemonTaskStatus :: "status_payload \<Rightarrow> unit hub_prog" where
  "handleDaemonTaskStatus payload =
    thenE (touchRunningAttempt (sp_taskId payload))
     (thenE (updateStatus (sp_taskId payload) (cast_status (sp_status payload)) None) (ret ()))"

definition handleDaemonTaskLog :: "log_payload \<Rightarrow> unit hub_prog" where
  "handleDaemonTaskLog payload =
    bindE (getS (\<lambda>h. task_with_owner h (lp_taskId payload))) (\<lambda>v.
      case v of
        None \<Rightarrow> ret ()
      | Some (task, ownerId) \<Rightarrow>
          thenE (touchRunningAttempt (t_id task))
           (bindE (task_update (t_id task) (\<lambda>t. t\<lparr>t_logs := t_logs task @ lp_chunk payload\<rparr>)) (\<lambda>updated.
              notifyUser ownerId (TASK_UPDATED updated))))"

definition isRetryableCapacityFailure :: "result_payload \<Rightarrow> bool" where
  "isRetryableCapacityFailure payload \<longleftrightarrow>
    rp_status payload = RS_FAILED \<and>
    (case rp_failure payload of
       None \<Rightarrow> False
     | Some f \<Rightarrow> fp_category f = CAPACITY_EXHAUSTED \<and> fp_retryable f \<noteq> Some False)"

definition failure_field :: "(failure_payload \<Rightarrow> string option) \<Rightarrow> result_payload \<Rightarrow> string option" where
  "failure_field f payload = (case rp_failure payload of None \<Rightarrow> None | Some p \<Rightarrow> f p)"

definition or_else :: "'a option \<Rightarrow> 'a \<Rightarrow> 'a" where
  "or_else v d = (case v of None \<Rightarrow> d | Some a \<Rightarrow> a)"

definition formatStructuredFailureReason :: "result_payload \<Rightarrow> string" where
  "formatStructuredFailureReason payload =
    (let message = or_else (failure_field fp_message payload) ''Retryable worker capacity failure.'';
         detail = (case failure_field fp_detail payload of
             None \<Rightarrow> [] | Some d \<Rightarrow> if d = [] then [] else '' detail='' @ slice_to 500 d)
     in RETRYABLE_CAPACITY_FAILURE_PREFIX @ '': '' @ message @ detail)"

definition capacity_log :: "task \<Rightarrow> result_payload \<Rightarrow> string" where
  "capacity_log task payload =
    newline @ ''[hub] Retryable capacity failure from server '' @ t_serverId task @ '': '' @
    or_else (failure_field fp_message payload) ''capacity exhausted'' @ newline"

definition handleRetryableCapacityFailure :: "ext \<Rightarrow> result_payload \<Rightarrow> unit hub_prog" where
  "handleRetryableCapacityFailure x payload =
    bindE (getS (\<lambda>h. task_with_owner h (rp_taskId payload))) (\<lambda>v.
      case v of
        None \<Rightarrow> ret ()
      | Some (task, _) \<Rightarrow>
          thenE (finishRunningAttempt (t_id task) A_FAILED (Some (formatStructuredFailureReason payload)))
           (bindE (retryExcludedServerIds (t_id task)) (\<lambda>excluded.
            bindE (getDispatchCandidates x (t_workerType task) (t_serverId task) excluded) (\<lambda>candidates.
              case candidates of
                [] \<Rightarrow>
                  bindE (updateTaskAndNotify (t_id task) \<lparr>tp_status = Some FAILED, tp_result = rp_result payload,
                      tp_logs = Some (t_logs task @ capacity_log task payload @
                        ''[hub] Capacity failover exhausted: no remaining online compatible worker candidates.'' @ newline)\<rparr>)
                    (\<lambda>failed. sendPush x (snd failed) ko_task_failed
                       (ko_task_open @ t_id (fst failed) @ ko_task_capacity))
              | c # _ \<Rightarrow>
                  thenE (updateTaskAndNotify (t_id task) \<lparr>tp_status = Some QUEUED, tp_result = None,
                      tp_logs = Some (t_logs task @ capacity_log task payload @
                        ''[hub] Requeued after capacity failure; next candidate: '' @ wc_serverName c @ ''/'' @
                        wc_profileName c @ ''.'' @ newline)\<rparr>)
                    (requeueTask (t_id task))))))"

fun cast_result :: "result_status \<Rightarrow> TaskStatus" where
  "cast_result RS_COMPLETED = COMPLETED"
| "cast_result RS_FAILED = FAILED"

definition handleDaemonTaskResult :: "ext \<Rightarrow> result_payload \<Rightarrow> unit hub_prog" where
  "handleDaemonTaskResult x payload =
    (if isRetryableCapacityFailure payload then handleRetryableCapacityFailure x payload
     else
       thenE (finishRunningAttempt (rp_taskId payload)
           (if rp_status payload = RS_COMPLETED then A_SUCCEEDED else A_FAILED)
           (if rp_status payload = RS_FAILED then Some ''Daemon reported task failure.'' else None))
        (bindE (updateStatus (rp_taskId payload) (cast_result (rp_status payload)) (rp_result payload)) (\<lambda>task.
          let title = (if rp_status payload = RS_COMPLETED then ko_task_completed else ko_task_failed)
          in sendPush x (snd task) title
               (ko_task_open @ t_id (fst task) @ ko_task_subject @ title @ ko_task_became))))"

section \<open>Lemmas\<close>

interpretation ownedTask: owned_resource task_with_owner "\<lambda>h t. snd t" getOwnedTask
  "NotFoundException ko_task_not_found" "ForbiddenException ko_task_forbidden"
  by unfold_locales (simp add: getOwnedTask_def prog_simps split: option.splits)

interpretation taskOrder: js_comparator task_created_desc
  unfolding task_created_desc_def by (rule js_comparator_desc)

interpretation attemptOrder: js_comparator started_desc
  unfolding started_desc_def by (rule js_comparator_desc)

lemma task_update_apply [prog_simps]:
  "task_update i f h =
    (case find_row t_id i (tasks h) of
       None \<Rightarrow> (Inl RecordNotFound, h)
     | Some t \<Rightarrow> (Inr ((f t)\<lparr>t_updatedAt := clock h\<rparr>),
         h\<lparr>tasks := update_row t_id i (\<lambda>r. (f r)\<lparr>t_updatedAt := clock h\<rparr>) (tasks h)\<rparr>))"
  by (simp add: task_update_def prog_simps split: option.splits)

lemma taskAttempt_update_apply [prog_simps]:
  "taskAttempt_update i f h =
    (if i \<in> at_id ` set (attempts h)
     then (Inr (), h\<lparr>attempts := update_row at_id i (f (clock h)) (attempts h)\<rparr>)
     else (Inl RecordNotFound, h))"
  by (simp add: taskAttempt_update_def prog_simps)

lemma queue_add_apply [prog_simps]: "queue_add j h = (Inr (), h\<lparr>jobs := jobs h @ [j]\<rparr>)"
  by (simp add: queue_add_def prog_simps)

lemma getOwnedTask_apply [prog_simps]:
  "getOwnedTask u i h =
    (case task_with_owner h i of
       None \<Rightarrow> (Inl (NotFoundException ko_task_not_found), h)
     | Some t \<Rightarrow> if snd t \<noteq> u then (Inl (ForbiddenException ko_task_forbidden), h) else (Inr t, h))"
  by (rule ownedTask.check_eq)

text \<open>In a well-formed hub every task has an owner.\<close>

lemma task_server:
  assumes "wf_hub x h" and "find_row t_id i (tasks h) = Some t"
  shows "\<exists>s. find_row s_id (t_serverId t) (servers h) = Some s"
proof -
  from assms(2) have "t \<in> set (tasks h)" using find_row_SomeD by metis
  with wf_hubD(9) [OF assms(1)] have "t_serverId t \<in> s_id ` set (servers h)" by (simp add: refs_def)
  then show ?thesis by (metis find_row_None not_None_eq)
qed

lemma task_with_owner_iff:
  "task_with_owner h i = Some (t, u) \<longleftrightarrow>
    find_row t_id i (tasks h) = Some t \<and> (\<exists>s. find_row s_id (t_serverId t) (servers h) = Some s \<and> s_ownerId s = u)"
  by (auto simp: task_with_owner_def split: option.splits)

lemma task_with_owner_id: "task_with_owner h i = Some (t, u) \<Longrightarrow> t_id t = i"
  by (auto simp: task_with_owner_iff dest: find_row_SomeD)

lemma task_with_owner_None:
  "wf_hub x h \<Longrightarrow> task_with_owner h i = None \<longleftrightarrow> i \<notin> t_id ` set (tasks h)"
  using task_server [of x h i] find_row_None [of t_id i "tasks h"]
  by (cases "find_row t_id i (tasks h)") (fastforce simp: task_with_owner_def)+

lemma task_with_ownerI:
  assumes "wf_hub x h" and "find_row t_id i (tasks h) = Some t"
  obtains u where "task_with_owner h i = Some (t, u)"
  using task_server [OF assms] assms(2) by (auto simp: task_with_owner_def)

definition app_notice :: "hub \<Rightarrow> string \<Rightarrow> task \<Rightarrow> (string \<times> app_msg) list" where
  "app_notice h u t = map (\<lambda>s. (so_id s, TASK_UPDATED t)) (in_room (userRoom u) (appSockets h))"

lemma update_and_notify_apply:
  assumes "task_with_owner h i = Some (t, u)" and "\<And>r. t_id (f r) = t_id r" "t_serverId (f t) = t_serverId t"
  shows "update_and_notify i f h =
    (Inr ((f t)\<lparr>t_updatedAt := clock h\<rparr>, u),
     h\<lparr>tasks := update_row t_id i (\<lambda>r. (f r)\<lparr>t_updatedAt := clock h\<rparr>) (tasks h),
       appOut := appOut h @ app_notice h u ((f t)\<lparr>t_updatedAt := clock h\<rparr>)\<rparr>)"
  using assms by (auto simp: update_and_notify_def task_with_owner_iff prog_simps app_notice_def)

lemma update_and_notify_missing:
  "find_row t_id i (tasks h) = None \<Longrightarrow> update_and_notify i f h = (Inl RecordNotFound, h)"
  by (simp add: update_and_notify_def prog_simps)

lemma running_attempt_SomeD:
  assumes "running_attempt h i = Some a"
  shows "a \<in> set (attempts h)" "at_taskId a = i" "at_active a"
proof -
  from assms obtain l where "js_sort started_desc (filter (\<lambda>a. at_taskId a = i \<and> at_active a) (attempts h)) = a # l"
    by (auto simp: running_attempt_def split: list.splits)
  then have "a \<in> set (js_sort started_desc (filter (\<lambda>a. at_taskId a = i \<and> at_active a) (attempts h)))" by simp
  then show "a \<in> set (attempts h)" "at_taskId a = i" "at_active a" by auto
qed

lemma running_attempt_None:
  "running_attempt h i = None \<longleftrightarrow> filter (\<lambda>a. at_taskId a = i \<and> at_active a) (attempts h) = []"
  by (auto simp: running_attempt_def split: list.splits)

text \<open>Touching and finishing an attempt never fail: the attempt was just found.\<close>

definition touched :: "hub \<Rightarrow> string \<Rightarrow> hub" where
  "touched h i = (case running_attempt h i of None \<Rightarrow> h
     | Some a \<Rightarrow> h\<lparr>attempts := update_row at_id (at_id a)
         (\<lambda>a. a\<lparr>at_status := A_RUNNING, at_lastSeenAt := clock h\<rparr>) (attempts h)\<rparr>)"

lemma touchRunningAttempt_apply [prog_simps]: "touchRunningAttempt i h = (Inr (), touched h i)"
  by (cases "running_attempt h i") (auto simp: touchRunningAttempt_def touched_def prog_simps dest: running_attempt_SomeD)

lemma touched_simps [simp]:
  "tasks (touched h i) = tasks h" "servers (touched h i) = servers h" "clock (touched h i) = clock h"
  "appSockets (touched h i) = appSockets h" "appOut (touched h i) = appOut h" "jobs (touched h i) = jobs h"
  "task_with_owner (touched h i) j = task_with_owner h j"
  by (auto simp: touched_def task_with_owner_def split: option.splits)

definition finished :: "hub \<Rightarrow> string \<Rightarrow> TaskAttemptStatus \<Rightarrow> string option \<Rightarrow> hub" where
  "finished h i st reason = (case running_attempt h i of None \<Rightarrow> h
     | Some a \<Rightarrow> h\<lparr>attempts := update_row at_id (at_id a)
         (\<lambda>a. a\<lparr>at_status := st,
            at_failureReason := (case reason of None \<Rightarrow> at_failureReason a | Some r \<Rightarrow> Some r),
            at_lastSeenAt := clock h, at_finishedAt := Some (clock h)\<rparr>) (attempts h)\<rparr>)"

lemma finishRunningAttempt_apply [prog_simps]: "finishRunningAttempt i st r h = (Inr (), finished h i st r)"
  by (cases "running_attempt h i") (auto simp: finishRunningAttempt_def finished_def prog_simps dest: running_attempt_SomeD)

lemma finished_simps [simp]:
  "tasks (finished h i st r) = tasks h" "servers (finished h i st r) = servers h" "clock (finished h i st r) = clock h"
  "appSockets (finished h i st r) = appSockets h" "appOut (finished h i st r) = appOut h"
  "jobs (finished h i st r) = jobs h" "profiles (finished h i st r) = profiles h"
  "task_with_owner (finished h i st r) j = task_with_owner h j"
  by (auto simp: finished_def task_with_owner_def split: option.splits)

lemma sendPush_frame:
  "(snd (sendPush x u t b h))\<lparr>pushOut := []\<rparr> = h\<lparr>pushOut := []\<rparr>"
  by (rule keepsD [OF keeps_sendPush, where s = h]) simp_all

lemma sendPush_field: "(\<And>h p. f (h\<lparr>pushOut := p\<rparr>) = f h) \<Longrightarrow> f (snd (sendPush x u t b h)) = f h"
  by (metis sendPush_frame)

lemma sendPush_fields [simp]:
  "tasks (snd (sendPush x u t b h)) = tasks h" "attempts (snd (sendPush x u t b h)) = attempts h"
  "jobs (snd (sendPush x u t b h)) = jobs h" "servers (snd (sendPush x u t b h)) = servers h"
  "approvals (snd (sendPush x u t b h)) = approvals h" "appOut (snd (sendPush x u t b h)) = appOut h"
  by (rule sendPush_field, simp)+

subsection \<open>Integrity\<close>

lemma apply_patch_ids [simp]: "t_id (apply_patch d t) = t_id t" "t_serverId (apply_patch d t) = t_serverId t"
  by (simp_all add: apply_patch_def Let_def split: option.splits)

lemma keeps_queue_add [keeps_rules]: "keeps (wf_hub x) (queue_add j)"
  by (simp add: keeps_def prog_simps)

lemma keeps_getOwnedTask [keeps_rules]: "keeps I (getOwnedTask u i)"
  by (rule ownedTask.keeps_check)

lemma keeps_update_and_notify [keeps_rules]:
  assumes "\<And>r. t_id (f r) = t_id r" and "\<And>r. t_serverId (f r) = t_serverId r"
  shows "keeps (wf_hub x) (update_and_notify i f)"
  unfolding update_and_notify_def by (intro keeps_rules assms)

lemma keeps_updateStatus [keeps_rules]: "keeps (wf_hub x) (updateStatus i st r)"
  unfolding updateStatus_def by (intro keeps_rules) (simp_all split: option.splits)

lemma keeps_updateTaskAndNotify [keeps_rules]: "keeps (wf_hub x) (updateTaskAndNotify i d)"
  unfolding updateTaskAndNotify_def by (intro keeps_rules) simp_all

lemma keeps_touchRunningAttempt [keeps_rules]: "keeps (wf_hub x) (touchRunningAttempt i)"
  unfolding touchRunningAttempt_def by (intro keeps_rules) simp_all

lemma keeps_finishRunningAttempt [keeps_rules]: "keeps (wf_hub x) (finishRunningAttempt i st r)"
  unfolding finishRunningAttempt_def by (intro keeps_rules) simp_all

lemma keeps_cancelTask [keeps_rules]: "keeps (wf_hub x) (wa_cancelTask codexAdapter i)"
  by (rule codex.cancel_keeps) simp

lemma registry_get_bind:
  "bindE (registry_get wt) f =
    (if wt = CODEX then f codexAdapter
     else throw (BadRequestException (ko_unsupported_worker @ show_workerType wt)))"
  by (rule ext) (simp add: prog_simps)

lemma keeps_submit [keeps_rules]: "inj (x_uuid x) \<Longrightarrow> keeps (wf_hub x) (submit x u d)"
  unfolding submit_def ensureWatchdogScheduled_def by (intro keeps_rules)

lemma keeps_cancel [keeps_rules]: "keeps (wf_hub x) (cancel u i)"
  unfolding cancel_def registry_get_bind by (intro keeps_rules)

lemma keeps_handleDaemonTaskStatus [keeps_rules]: "keeps (wf_hub x) (handleDaemonTaskStatus p)"
  unfolding handleDaemonTaskStatus_def by (intro keeps_rules)

lemma keeps_option_pair [keeps_rules]:
  assumes "keeps I m" and "\<And>a b. keeps I (f a b)"
  shows "keeps I (case v of None \<Rightarrow> m | Some (a, b) \<Rightarrow> f a b)"
  using assms by (cases v) auto

lemma keeps_list [keeps_rules]:
  assumes "keeps I m" and "\<And>a as. keeps I (f a as)"
  shows "keeps I (case v of [] \<Rightarrow> m | a # as \<Rightarrow> f a as)"
  using assms by (cases v) auto

lemma keeps_handleDaemonTaskLog [keeps_rules]: "keeps (wf_hub x) (handleDaemonTaskLog p)"
  unfolding handleDaemonTaskLog_def by (intro keeps_rules) simp_all

lemma keeps_handleRetryableCapacityFailure [keeps_rules]:
  "keeps (wf_hub x) (handleRetryableCapacityFailure y p)"
  unfolding handleRetryableCapacityFailure_def requeueTask_def retryExcludedServerIds_def by (intro keeps_rules)

lemma keeps_handleDaemonTaskResult [keeps_rules]: "keeps (wf_hub x) (handleDaemonTaskResult y p)"
  unfolding handleDaemonTaskResult_def Let_def by (intro keeps_rules)

section \<open>Properties\<close>

text \<open>C19. Submitting a task: an unknown server and somebody else's server are refused with no effect;
  otherwise exactly one task is added, QUEUED on that server with empty logs and no result, and
  exactly one dispatch job for it is handed to the queue, followed by the watchdog's repeating job.\<close>

theorem submit_spec:
  "case find_row s_id (ctd_serverId dto) (servers h) of
     None \<Rightarrow> submit x ownerId dto h = (Inl (NotFoundException ko_server_not_found), h)
   | Some s \<Rightarrow>
       if s_ownerId s \<noteq> ownerId then submit x ownerId dto h = (Inl (ForbiddenException ko_server_forbidden), h)
       else \<exists>t h'. submit x ownerId dto h = (Inr t, h') \<and> tasks h' = tasks h @ [t] \<and>
         t_id t = x_uuid x (draws h) \<and> t_serverId t = ctd_serverId dto \<and> t_workerType t = ctd_workerType dto \<and>
         t_input t = ctd_input dto \<and> t_status t = QUEUED \<and> t_logs t = [] \<and> t_result t = None \<and>
         jobs h' = jobs h @ [\<lparr>j_name = ''dispatch'', j_taskId = Some (t_id t), j_opts = RetryOpts 5 2000\<rparr>,
           \<lparr>j_name = ''watchdog'', j_taskId = None, j_opts = RepeatOpts ''task-watchdog'' (watchdogIntervalMs x)\<rparr>] \<and>
         servers h' = servers h \<and> attempts h' = attempts h"
proof (cases "find_row s_id (ctd_serverId dto) (servers h)")
  case (Some s)
  then have "ctd_serverId dto \<in> s_id ` set (servers h)"
    by (metis find_row_None option.distinct(1))
  with Some show ?thesis
    by (auto simp: submit_def task_create_def prog_simps Let_def dispatch_job_def ensureWatchdogScheduled_def
        insert_row_def TASK_WATCHDOG_JOB_def TASK_WATCHDOG_REPEAT_JOB_ID_def)
qed (simp add: submit_def prog_simps)

text \<open>Log chunks are appended in the order they arrive: after the daemon has sent any sequence of
  chunks for a task, its log is the old log followed by their concatenation, every other field but
  the modification time is as before, and no other task has changed.\<close>

theorem handleDaemonTaskLog_appends:
  assumes "wf_hub x h" and "find_row t_id i (tasks h) = Some t"
  shows "\<exists>h' c. forE (\<lambda>chunk. handleDaemonTaskLog \<lparr>lp_taskId = i, lp_chunk = chunk\<rparr>) chunks h = (Inr (), h') \<and>
    find_row t_id i (tasks h') = Some (t\<lparr>t_logs := t_logs t @ concat chunks, t_updatedAt := c\<rparr>) \<and>
    (\<forall>j. j \<noteq> i \<longrightarrow> find_row t_id j (tasks h') = find_row t_id j (tasks h))"
  using assms
proof (induction chunks arbitrary: h t)
  case Nil
  then show ?case by (auto simp: prog_simps intro!: exI [of _ "t_updatedAt t"])
next
  case (Cons chunk chunks)
  let ?step = "handleDaemonTaskLog \<lparr>lp_taskId = i, lp_chunk = chunk\<rparr>"
  let ?t = "t\<lparr>t_logs := t_logs t @ chunk, t_updatedAt := clock h\<rparr>"
  obtain u where u: "task_with_owner h i = Some (t, u)" using task_with_ownerI [OF Cons.prems] .
  have id: "t_id t = i" using task_with_owner_id [OF u] .
  obtain h1 where h1: "?step h = (Inr (), h1)"
    and tasks: "tasks h1 = update_row t_id i (\<lambda>r. r\<lparr>t_logs := t_logs t @ chunk, t_updatedAt := clock h\<rparr>) (tasks h)"
    using u id Cons.prems(2) by (auto simp: handleDaemonTaskLog_def prog_simps)
  have wf: "wf_hub x h1" using keepsD [OF keeps_handleDaemonTaskLog Cons.prems(1)] h1 by (metis snd_conv)
  have find: "find_row t_id j (tasks h1) = (if j = i then Some ?t else find_row t_id j (tasks h))" for j
    unfolding tasks using Cons.prems(2) by (simp add: find_row_update_row)
  from Cons.IH [OF wf, of ?t] obtain h' c where
    "forE (\<lambda>chunk. handleDaemonTaskLog \<lparr>lp_taskId = i, lp_chunk = chunk\<rparr>) chunks h1 = (Inr (), h')"
    "find_row t_id i (tasks h') = Some (t\<lparr>t_logs := (t_logs t @ chunk) @ concat chunks, t_updatedAt := c\<rparr>)"
    "\<forall>j. j \<noteq> i \<longrightarrow> find_row t_id j (tasks h') = find_row t_id j (tasks h)"
    using find by auto
  then show ?case using h1 by (auto simp: prog_simps)
qed

text \<open>The tables after a final result; the push notification that follows changes none of them.\<close>

lemma result_final:
  assumes "task_with_owner h (rp_taskId p) = Some (t, u)" and "\<not> isRetryableCapacityFailure p"
    and "t' = t\<lparr>t_status := (if rp_status p = RS_COMPLETED then COMPLETED else FAILED),
        t_result := (case rp_result p of None \<Rightarrow> t_result t | Some r \<Rightarrow> Some r), t_updatedAt := clock h\<rparr>"
  shows "find_row t_id (rp_taskId p) (tasks (snd (handleDaemonTaskResult y p h))) = Some t'"
    and "appOut (snd (handleDaemonTaskResult y p h)) = appOut h @ app_notice h u t'"
    and "attempts (snd (handleDaemonTaskResult y p h)) = attempts (finished h (rp_taskId p)
      (if rp_status p = RS_COMPLETED then A_SUCCEEDED else A_FAILED)
      (if rp_status p = RS_FAILED then Some ''Daemon reported task failure.'' else None))"
    and "servers (snd (handleDaemonTaskResult y p h)) = servers h"
proof -
  let ?i = "rp_taskId p"
  let ?f = "\<lambda>t. case rp_result p of None \<Rightarrow> t\<lparr>t_status := cast_result (rp_status p)\<rparr>
      | Some r \<Rightarrow> t\<lparr>t_status := cast_result (rp_status p), t_result := Some r\<rparr>"
  let ?h = "finished h ?i (if rp_status p = RS_COMPLETED then A_SUCCEEDED else A_FAILED)
      (if rp_status p = RS_FAILED then Some ''Daemon reported task failure.'' else None)"
  have "task_with_owner ?h ?i = Some (t, u)" using assms(1) by simp
  from update_and_notify_apply [OF this, of ?f]
  have up: "updateStatus ?i (cast_result (rp_status p)) (rp_result p) ?h =
    (Inr ((?f t)\<lparr>t_updatedAt := clock h\<rparr>, u),
     ?h\<lparr>tasks := update_row t_id ?i (\<lambda>r. (?f r)\<lparr>t_updatedAt := clock h\<rparr>) (tasks h),
        appOut := appOut h @ app_notice h u ((?f t)\<lparr>t_updatedAt := clock h\<rparr>)\<rparr>)"
    by (auto simp: updateStatus_def app_notice_def split: option.splits)
  have t': "t' = (?f t)\<lparr>t_updatedAt := clock h\<rparr>"
    by (cases "rp_status p") (simp_all add: assms(3) split: option.splits)
  have "tasks (snd (handleDaemonTaskResult y p h)) = update_row t_id ?i (\<lambda>r. (?f r)\<lparr>t_updatedAt := clock h\<rparr>) (tasks h)"
    using assms(2) up by (simp add: handleDaemonTaskResult_def thenE_apply bindE_apply finishRunningAttempt_apply Let_def)
  then show "find_row t_id ?i (tasks (snd (handleDaemonTaskResult y p h))) = Some t'"
    using assms(1) by (simp add: t' find_row_update_row task_with_owner_iff split: option.splits)
  show "appOut (snd (handleDaemonTaskResult y p h)) = appOut h @ app_notice h u t'"
    "attempts (snd (handleDaemonTaskResult y p h)) = attempts ?h" "servers (snd (handleDaemonTaskResult y p h)) = servers h"
    using assms(2) up by (simp_all add: t' handleDaemonTaskResult_def thenE_apply bindE_apply finishRunningAttempt_apply Let_def)
qed

text \<open>A final result is recorded whatever the task's status was: the task takes the reported status
  and, when one is given, the result; the newest active attempt is closed as succeeded or failed with
  its finishing time; the owner's sockets are sent the new row. This holds even when the push
  notification that follows fails.\<close>

theorem handleDaemonTaskResult_records:
  assumes "wf_hub x h" and "task_with_owner h (rp_taskId p) = Some (t, u)" and "\<not> isRetryableCapacityFailure p"
  shows "\<exists>t'. t' = t\<lparr>t_status := (if rp_status p = RS_COMPLETED then COMPLETED else FAILED),
        t_result := (case rp_result p of None \<Rightarrow> t_result t | Some r \<Rightarrow> Some r), t_updatedAt := clock h\<rparr> \<and>
    find_row t_id (rp_taskId p) (tasks (snd (handleDaemonTaskResult y p h))) = Some t' \<and>
    appOut (snd (handleDaemonTaskResult y p h)) = appOut h @ app_notice h u t' \<and>
    (\<forall>a. running_attempt h (rp_taskId p) = Some a \<longrightarrow>
       (\<exists>b. find_row at_id (at_id a) (attempts (snd (handleDaemonTaskResult y p h))) = Some b \<and>
          at_status b = (if rp_status p = RS_COMPLETED then A_SUCCEEDED else A_FAILED) \<and>
          at_finishedAt b = Some (clock h)))"
proof -
  let ?t = "t\<lparr>t_status := (if rp_status p = RS_COMPLETED then COMPLETED else FAILED),
        t_result := (case rp_result p of None \<Rightarrow> t_result t | Some r \<Rightarrow> Some r), t_updatedAt := clock h\<rparr>"
  note final = result_final [OF assms(2,3) refl [of ?t], of y]
  have "\<exists>b. find_row at_id (at_id a) (attempts (finished h (rp_taskId p) st r)) = Some b \<and> at_status b = st \<and> at_finishedAt b = Some (clock h)"
    if "running_attempt h (rp_taskId p) = Some a" for a st r
  proof -
    have "find_row at_id (at_id a) (attempts h) = Some a"
      using running_attempt_SomeD(1) [OF that] wf_hubD(4) [OF assms(1)] by (simp add: find_row_Some_iff)
    then show ?thesis using that by (simp add: finished_def find_row_update_row)
  qed
  then show ?thesis unfolding final(3) by (intro exI [of _ ?t] conjI refl final(1,2) allI impI)
qed

text \<open>The server of the attempt that a capacity failure closes is excluded from then on.\<close>

lemma capacity_excludes:
  assumes "running_attempt h i = Some a"
  shows "at_serverId a \<in> at_serverId ` {b \<in> set (attempts (finished h i A_FAILED (Some (formatStructuredFailureReason p)))).
    at_taskId b = i \<and> excluded_by b}"
proof -
  let ?b = "a\<lparr>at_status := A_FAILED, at_failureReason := Some (formatStructuredFailureReason p),
      at_lastSeenAt := clock h, at_finishedAt := Some (clock h)\<rparr>"
  have "excluded_by ?b" by (simp add: excluded_by_def formatStructuredFailureReason_def Let_def startsWith_def)
  moreover have "?b \<in> set (attempts (finished h i A_FAILED (Some (formatStructuredFailureReason p))))"
    using assms running_attempt_SomeD(1) [OF assms] by (auto simp: finished_def set_update_row intro!: rev_image_eqI [of a])
  ultimately show ?thesis using running_attempt_SomeD(2) [OF assms] by (auto intro!: rev_image_eqI [of ?b])
qed

text \<open>The handler of a capacity failure, once the candidates that are left are known.\<close>

lemma capacity_run:
  assumes "task_with_owner h (rp_taskId p) = Some (t, u)" and "t_workerType t = CODEX" and "isRetryableCapacityFailure p"
    and "h1 = finished h (rp_taskId p) A_FAILED (Some (formatStructuredFailureReason p))"
    and "fst (retryExcludedServerIds (rp_taskId p) h1) = Inr ex"
    and "getDispatchCandidates y CODEX (t_serverId t) ex h1 = (Inr cs, h1)"
  shows "handleDaemonTaskResult y p h = (case cs of
      [] \<Rightarrow> bindE (updateTaskAndNotify (rp_taskId p) \<lparr>tp_status = Some FAILED, tp_result = rp_result p,
                      tp_logs = Some (t_logs t @ capacity_log t p @
                        ''[hub] Capacity failover exhausted: no remaining online compatible worker candidates.'' @ newline)\<rparr>)
                    (\<lambda>failed. sendPush y (snd failed) ko_task_failed (ko_task_open @ t_id (fst failed) @ ko_task_capacity)) h1
    | c # _ \<Rightarrow> thenE (updateTaskAndNotify (rp_taskId p) \<lparr>tp_status = Some QUEUED, tp_result = None,
                      tp_logs = Some (t_logs t @ capacity_log t p @
                        ''[hub] Requeued after capacity failure; next candidate: '' @ wc_serverName c @ ''/'' @
                        wc_profileName c @ ''.'' @ newline)\<rparr>) (requeueTask (rp_taskId p)) h1)"
proof -
  have "t_id t = rp_taskId p" using assms(1) by (rule task_with_owner_id)
  then show ?thesis
    using assms(5,6) unfolding handleDaemonTaskResult_def if_P [OF assms(3)] handleRetryableCapacityFailure_def
    by (simp add: bindE_apply [of "getS f" for f] getS_apply assms(1,2,4) thenE_apply [of "finishRunningAttempt a b c" for a b c]
        finishRunningAttempt_apply bindE_apply [of "retryExcludedServerIds i" for i] retryExcludedServerIds_def
        bindE_apply [of "getDispatchCandidates a b c d" for a b c d] split: list.splits)
qed

text \<open>C7. Failover after a capacity failure: the server of the attempt that ran out of capacity is
  excluded from every further dispatch of the task. When another candidate is left the task is QUEUED
  again with exactly one new dispatch job; when none is left it is FAILED with no new job.\<close>

theorem capacity_failover:
  assumes "wf_hub x h" and "task_with_owner h (rp_taskId p) = Some (t, u)" and "t_workerType t = CODEX"
    and "isRetryableCapacityFailure p" and "running_attempt h (rp_taskId p) = Some a"
  shows "\<exists>ex cs t'. fst (retryExcludedServerIds (rp_taskId p) (snd (handleDaemonTaskResult y p h))) = Inr ex \<and>
    at_serverId a \<in> set ex \<and>
    fst (getDispatchCandidates y CODEX (t_serverId t) ex h) = Inr cs \<and> (\<forall>c \<in> set cs. wc_serverId c \<notin> set ex) \<and>
    find_row t_id (rp_taskId p) (tasks (snd (handleDaemonTaskResult y p h))) = Some t' \<and>
    (if cs = [] then t_status t' = FAILED \<and> jobs (snd (handleDaemonTaskResult y p h)) = jobs h
     else t_status t' = QUEUED \<and> jobs (snd (handleDaemonTaskResult y p h)) = jobs h @ [dispatch_job (rp_taskId p)])"
proof -
  let ?i = "rp_taskId p"
  define h1 where "h1 = finished h ?i A_FAILED (Some (formatStructuredFailureReason p))"
  define ex where "ex = rev (remdups (rev (map at_serverId (filter (\<lambda>a. at_taskId a = ?i \<and> excluded_by a) (attempts h1)))))"
  have find: "find_row t_id ?i (tasks h) = Some t" using assms(2) by (auto simp: task_with_owner_iff)
  obtain s where s: "find_row s_id (t_serverId t) (servers h) = Some s"
    using assms(2) by (auto simp: task_with_owner_iff)
  define cs where "cs = candidate_list y h (s_ownerId s) (t_serverId t) ex"
  have cands: "getDispatchCandidates y CODEX (t_serverId t) ex h = (Inr cs, h)"
    "getDispatchCandidates y CODEX (t_serverId t) ex h1 = (Inr cs, h1)"
    using s by (simp_all add: getDispatchCandidates_apply candidate_list_def dispatchable_def h1_def cs_def)
  have ex: "at_serverId a \<in> set ex" using capacity_excludes [OF assms(5), of p] by (auto simp: ex_def h1_def)
  have out: "\<forall>c \<in> set cs. wc_serverId c \<notin> set ex" by (auto simp: cs_def candidate_list_iff toCandidate_def)
  have "task_with_owner h1 ?i = Some (t, u)" using assms(2) by (simp add: h1_def)
  note upd = update_and_notify_apply [OF this, of "apply_patch d" for d, folded updateTaskAndNotify_def]
  have h1: "tasks h1 = tasks h" "jobs h1 = jobs h" by (simp_all add: h1_def)
  let ?H = "snd (handleDaemonTaskResult y p h)"
  have "fst (retryExcludedServerIds ?i h1) = Inr ex" by (simp add: retryExcludedServerIds_def getS_apply ex_def)
  note run = capacity_run [OF assms(2-4) h1_def this cands(2)]
  have "attempts ?H = attempts h1"
    unfolding run by (simp add: bindE_apply thenE_apply upd requeueTask_def queue_add_apply split: list.splits)
  then have "fst (retryExcludedServerIds ?i ?H) = Inr ex"
    by (simp add: retryExcludedServerIds_def getS_apply ex_def)
  moreover have "\<exists>t'. find_row t_id ?i (tasks ?H) = Some t' \<and>
      (if cs = [] then t_status t' = FAILED \<and> jobs ?H = jobs h else t_status t' = QUEUED \<and> jobs ?H = jobs h @ [dispatch_job ?i])"
    unfolding run by (cases cs)
      (simp_all add: bindE_apply thenE_apply upd requeueTask_def queue_add_apply find_row_update_row find apply_patch_def Let_def h1 split: option.splits)
  ultimately show ?thesis using ex out cands(1) by auto
qed

lemma task_with_owner_out [simp]: "task_with_owner (h\<lparr>daemonOut := d\<rparr>) i = task_with_owner h i"
  by (auto simp: task_with_owner_def split: option.splits)

lemma cancel_apply:
  assumes "task_with_owner h i = Some (t, u)"
  shows "cancel ownerId i h =
    (if u \<noteq> ownerId then (Inl (ForbiddenException ko_task_forbidden), h)
     else if t_workerType t \<noteq> CODEX
     then (Inl (BadRequestException (ko_unsupported_worker @ show_workerType (t_workerType t))), h)
     else if in_room (serverRoom (t_serverId t)) (daemonSockets h) = []
     then (Inl (ServiceUnavailableException (ko_server_open @ t_serverId t @ ko_daemon_offline)), h)
     else (Inr (t\<lparr>t_status := CANCELLED, t_updatedAt := clock h\<rparr>),
       h\<lparr>daemonOut := daemonOut h @
           map (\<lambda>s. (so_id s, TASK_CANCEL i)) (in_room (serverRoom (t_serverId t)) (daemonSockets h)),
         tasks := update_row t_id i (\<lambda>r. r\<lparr>t_status := CANCELLED, t_updatedAt := clock h\<rparr>) (tasks h),
         appOut := appOut h @ app_notice h u (t\<lparr>t_status := CANCELLED, t_updatedAt := clock h\<rparr>)\<rparr>))"
proof -
  have t: "find_row t_id i (tasks h) = Some t" "t_id t = i"
    using assms by (auto simp: task_with_owner_id task_with_owner_iff)
  have up: "updateStatus i CANCELLED None (h\<lparr>daemonOut := d\<rparr>) = (Inr (t\<lparr>t_status := CANCELLED, t_updatedAt := clock h\<rparr>, u),
      h\<lparr>daemonOut := d, tasks := update_row t_id i (\<lambda>r. r\<lparr>t_status := CANCELLED, t_updatedAt := clock h\<rparr>) (tasks h),
         appOut := appOut h @ app_notice h u (t\<lparr>t_status := CANCELLED, t_updatedAt := clock h\<rparr>)\<rparr>)" for d
    using update_and_notify_apply [of "h\<lparr>daemonOut := d\<rparr>" i t u "\<lambda>t. t\<lparr>t_status := CANCELLED\<rparr>"] assms
    by (simp add: updateStatus_def app_notice_def)
  from assms t up show ?thesis
    by (simp add: cancel_def prog_simps codexAdapter_def codex_cancelTask_def findTaskOrThrow_def)
qed

lemma find_cancelled:
  "find_row t_id i ts = Some t \<Longrightarrow>
    find_row t_id i (update_row t_id i (\<lambda>r. r\<lparr>t_status := st, t_updatedAt := c\<rparr>) ts) = Some (t\<lparr>t_status := st, t_updatedAt := c\<rparr>)"
  by (simp add: find_row_update_row)

text \<open>C21. Cancelling: a missing task and somebody else's task are refused with no effect. For the
  owner of a CODEX task the outcome depends only on the daemon's connection: with no socket of the
  server the call fails and nothing changes, otherwise the cancellation is sent to that server and
  the task becomes CANCELLED, whatever its status was, a finished one included.\<close>

theorem cancel_spec:
  "case task_with_owner h i of
     None \<Rightarrow> cancel ownerId i h = (Inl (NotFoundException ko_task_not_found), h)
   | Some (t, u) \<Rightarrow>
       if u \<noteq> ownerId then cancel ownerId i h = (Inl (ForbiddenException ko_task_forbidden), h)
       else if t_workerType t \<noteq> CODEX
       then cancel ownerId i h = (Inl (BadRequestException (ko_unsupported_worker @ show_workerType (t_workerType t))), h)
       else if in_room (serverRoom (t_serverId t)) (daemonSockets h) = []
       then cancel ownerId i h =
         (Inl (ServiceUnavailableException (ko_server_open @ t_serverId t @ ko_daemon_offline)), h)
       else \<exists>h'. cancel ownerId i h = (Inr (t\<lparr>t_status := CANCELLED, t_updatedAt := clock h\<rparr>), h') \<and>
         find_row t_id i (tasks h') = Some (t\<lparr>t_status := CANCELLED, t_updatedAt := clock h\<rparr>) \<and>
         daemonOut h' = daemonOut h @
           map (\<lambda>s. (so_id s, TASK_CANCEL i)) (in_room (serverRoom (t_serverId t)) (daemonSockets h)) \<and>
         attempts h' = attempts h"
proof (cases "task_with_owner h i")
  case (Some tu)
  then obtain t u where tu: "task_with_owner h i = Some (t, u)" by (cases tu) auto
  then have "find_row t_id i (tasks h) = Some t" by (simp add: task_with_owner_iff)
  then show ?thesis by (simp add: tu cancel_apply [OF tu] find_cancelled)
qed (simp add: cancel_def prog_simps)

text \<open>C26. The hub does not protect a final status: a status event of the daemon that arrives after a
  successful cancellation sets the task's status again, so a late RUNNING brings a cancelled task
  back.\<close>

theorem late_status_undoes_cancel:
  assumes "wf_hub x h" and "cancel ownerId i h = (Inr t, h1)"
  shows "\<exists>t2. find_row t_id i (tasks h1) = Some t \<and> t_status t = CANCELLED \<and>
    find_row t_id i (tasks (snd (handleDaemonTaskStatus \<lparr>sp_taskId = i, sp_status = st\<rparr> h1))) = Some t2 \<and>
    t_status t2 = cast_status st"
proof -
  have "find_row t_id i (tasks h1) = Some t \<and> t_status t = CANCELLED"
  proof (cases "task_with_owner h i")
    case None
    then show ?thesis using assms(2) by (simp add: cancel_def prog_simps)
  next
    case (Some tu)
    then obtain t0 u where tu: "task_with_owner h i = Some (t0, u)" by (cases tu) auto
    then have "find_row t_id i (tasks h) = Some t0" by (simp add: task_with_owner_iff)
    then show ?thesis using assms(2) by (auto simp: cancel_apply [OF tu] find_cancelled split: if_splits)
  qed
  moreover have wf: "wf_hub x h1" using keepsD [OF keeps_cancel assms(1)] assms(2) by (metis snd_conv)
  ultimately obtain u where "task_with_owner h1 i = Some (t, u)" using task_with_ownerI by metis
  then have "task_with_owner (touched h1 i) i = Some (t, u)" by simp
  from update_and_notify_apply [OF this, of "\<lambda>t. t\<lparr>t_status := cast_status st\<rparr>"]
  have "tasks (snd (handleDaemonTaskStatus \<lparr>sp_taskId = i, sp_status = st\<rparr> h1)) =
      update_row t_id i (\<lambda>r. r\<lparr>t_status := cast_status st, t_updatedAt := clock h1\<rparr>) (tasks h1)"
    by (simp add: handleDaemonTaskStatus_def updateStatus_def prog_simps)
  with \<open>find_row t_id i (tasks h1) = Some t \<and> t_status t = CANCELLED\<close> show ?thesis
    by (simp add: find_row_update_row)
qed

subsection \<open>A concrete hub\<close>

text \<open>Two online servers with one connected daemon each, and a task that runs on the first.\<close>

definition demo_task :: task where
  "demo_task = \<lparr>t_id = ''iiiiiii'', t_serverId = ''iii'', t_workerType = CODEX, t_status = RUNNING,
     t_input = JObj [(''prompt'', JStr ''p'')], t_result = None, t_logs = ''log'', t_createdAt = 1000, t_updatedAt = 1000\<rparr>"

definition demo_attempt :: task_attempt where
  "demo_attempt = \<lparr>at_id = ''iiiiiiii'', at_taskId = ''iiiiiii'', at_serverId = ''iii'', at_status = A_RUNNING,
     at_failureReason = None, at_startedAt = 1000, at_lastSeenAt = 1000, at_finishedAt = None\<rparr>"

definition demo_daemon :: "string \<Rightarrow> string \<Rightarrow> socket" where
  "demo_daemon so sid = \<lparr>so_id = so, so_serverId = Some sid, so_ownerId = Some ''i'', so_userId = None,
     so_rooms = [serverRoom sid]\<rparr>"

definition demo_task_hub :: hub where
  "demo_task_hub = demo_pool_hub\<lparr>tasks := [demo_task], attempts := [demo_attempt], draws := 8,
     daemonSockets := [demo_daemon ''d1'' ''iii'', demo_daemon ''d2'' ''iiiii'']\<rparr>"

lemmas demo_task_defs = demo_task_hub_def demo_task_def demo_attempt_def demo_daemon_def demo_pool_defs

lemma demo_id:
  assumes "s \<noteq> []" and "set s \<subseteq> {CHR ''i''}" and "length s \<le> n"
  shows "\<exists>i < n. s = x_uuid demo_ext i"
proof -
  have "\<forall>c \<in> set s. c = CHR ''i''" using assms(2) by blast
  from replicate_length_same [OF this] have "s = replicate (length s) (CHR ''i'')" by (rule sym)
  moreover have "Suc (length s - 1) = length s" using assms(1) by simp
  ultimately have "s = x_uuid demo_ext (length s - 1)" unfolding demo_uuid by metis
  moreover have "length s - 1 < n" using assms(1,3) by (cases s) simp_all
  ultimately show ?thesis by blast
qed

lemma wf_demo_task_hub: "wf_hub demo_ext demo_task_hub"
  unfolding wf_hub_def
proof (intro conjI)
  show "wf_ids demo_ext demo_task_hub"
    by (simp add: wf_ids_def ids_ok_def keyed_def demo_task_defs demo_id)
  show "wf_refs demo_task_hub" "wf_uniq demo_task_hub"
    by (simp_all add: wf_refs_def wf_uniq_def refs_def keyed_def demo_task_defs)
qed

lemma demo_task_find:
  "find_row t_id ''iiiiiii'' (tasks demo_task_hub) = Some demo_task"
  "task_with_owner demo_task_hub ''iiiiiii'' = Some (demo_task, ''i'')"
  "running_attempt demo_task_hub ''iiiiiii'' = Some demo_attempt"
  by (simp_all add: task_with_owner_def running_attempt_def at_active_def find_row_def demo_task_defs)

theorem handleDaemonTaskLog_appends_witness:
  "\<exists>h' c. forE (\<lambda>chunk. handleDaemonTaskLog \<lparr>lp_taskId = ''iiiiiii'', lp_chunk = chunk\<rparr>) [''a'', ''b''] demo_task_hub = (Inr (), h') \<and>
    find_row t_id ''iiiiiii'' (tasks h') = Some (demo_task\<lparr>t_logs := t_logs demo_task @ concat [''a'', ''b''], t_updatedAt := c\<rparr>) \<and>
    (\<forall>j. j \<noteq> ''iiiiiii'' \<longrightarrow> find_row t_id j (tasks h') = find_row t_id j (tasks demo_task_hub))"
  by (rule handleDaemonTaskLog_appends [OF wf_demo_task_hub demo_task_find(1)])

definition demo_done :: result_payload where
  "demo_done = \<lparr>rp_taskId = ''iiiiiii'', rp_status = RS_COMPLETED, rp_failure = None, rp_result = Some JNull\<rparr>"

theorem handleDaemonTaskResult_records_witness:
  "\<exists>t'. find_row t_id ''iiiiiii'' (tasks (snd (handleDaemonTaskResult demo_ext demo_done demo_task_hub))) = Some t' \<and>
    t_status t' = COMPLETED \<and> t_result t' = Some JNull"
  using handleDaemonTaskResult_records [OF wf_demo_task_hub, of demo_done demo_task "''i''" demo_ext] demo_task_find(2)
  by (simp add: demo_done_def isRetryableCapacityFailure_def)

definition demo_capacity :: result_payload where
  "demo_capacity = \<lparr>rp_taskId = ''iiiiiii'', rp_status = RS_FAILED,
     rp_failure = Some \<lparr>fp_category = CAPACITY_EXHAUSTED, fp_retryable = None, fp_message = None, fp_detail = None\<rparr>,
     rp_result = None\<rparr>"

theorem capacity_failover_witness:
  "\<exists>ex cs t'. fst (retryExcludedServerIds ''iiiiiii'' (snd (handleDaemonTaskResult demo_ext demo_capacity demo_task_hub))) = Inr ex \<and>
    ''iii'' \<in> set ex \<and> fst (getDispatchCandidates demo_ext CODEX ''iii'' ex demo_task_hub) = Inr cs \<and>
    find_row t_id ''iiiiiii'' (tasks (snd (handleDaemonTaskResult demo_ext demo_capacity demo_task_hub))) = Some t' \<and>
    (if cs = [] then t_status t' = FAILED else t_status t' = QUEUED)"
proof -
  have c: "rp_taskId demo_capacity = ''iiiiiii''" "isRetryableCapacityFailure demo_capacity" "t_workerType demo_task = CODEX"
      "t_serverId demo_task = ''iii''" "at_serverId demo_attempt = ''iii''"
    by (simp_all add: demo_capacity_def isRetryableCapacityFailure_def demo_task_def demo_attempt_def)
  have f: "task_with_owner demo_task_hub (rp_taskId demo_capacity) = Some (demo_task, ''i'')"
    "running_attempt demo_task_hub (rp_taskId demo_capacity) = Some demo_attempt"
    unfolding c by (fact demo_task_find)+
  from capacity_failover [OF wf_demo_task_hub f(1) c(3) c(2) f(2), of demo_ext]
  show ?thesis unfolding c by (elim exE conjE) (intro exI conjI, assumption+, simp split: if_splits)
qed

theorem late_status_undoes_cancel_witness:
  "\<exists>t h1 t2. cancel ''i'' ''iiiiiii'' demo_task_hub = (Inr t, h1) \<and> t_status t = CANCELLED \<and>
    find_row t_id ''iiiiiii'' (tasks (snd (handleDaemonTaskStatus \<lparr>sp_taskId = ''iiiiiii'', sp_status = DS_RUNNING\<rparr> h1))) = Some t2 \<and>
    t_status t2 = RUNNING"
proof -
  have "in_room (serverRoom (t_serverId demo_task)) (daemonSockets demo_task_hub) \<noteq> []" "t_workerType demo_task = CODEX"
    by (simp_all add: in_room_def demo_task_defs)
  then obtain t h1 where c: "cancel ''i'' ''iiiiiii'' demo_task_hub = (Inr t, h1)"
    by (simp add: cancel_apply [OF demo_task_find(2)])
  from late_status_undoes_cancel [OF wf_demo_task_hub c, of DS_RUNNING] c show ?thesis by auto
qed

end
