(* ===== verification/Approvals.thy ===== *)
theory Approvals
  imports Tasks
begin

text \<open>
  \<^verbatim>\<open>hub-api/src/approvals/approvals.service.ts\<close>: the approval requests a daemon raises while it runs a
  task, the owner's list of them, and the owner's decision, which is final and is passed on to the
  daemon when it is connected.
\<close>

section \<open>Definitions\<close>

record decide_approval_dto =
  dad_approve :: bool
  dad_reason :: "string option"

definition approval_requested_desc :: "approval \<times> task \<Rightarrow> approval \<times> task \<Rightarrow> int" where
  "approval_requested_desc a b = ap_requestedAt (fst b) - ap_requestedAt (fst a)"

definition listForOwner :: "string \<Rightarrow> ApprovalStatus option \<Rightarrow> (approval \<times> task) list hub_prog" where
  "listForOwner ownerId status =
    getS (\<lambda>h. js_sort approval_requested_desc
      [(a, t). a \<leftarrow> approvals h, t \<leftarrow> tasks h,
        t_id t = ap_taskId a \<and> owned_by h ownerId t \<and> (status = None \<or> status = Some (ap_status a))])"

definition approval_with_task :: "hub \<Rightarrow> string \<Rightarrow> (approval \<times> task \<times> string) option" where
  "approval_with_task h approvalId =
    (case find_row ap_id approvalId (approvals h) of
       None \<Rightarrow> None
     | Some a \<Rightarrow> map_option (\<lambda>(t, u). (a, t, u)) (task_with_owner h (ap_taskId a)))"

definition decide :: "string \<Rightarrow> string \<Rightarrow> decide_approval_dto \<Rightarrow> approval hub_prog" where
  "decide ownerId approvalId dto =
    bindE (getS (\<lambda>h. approval_with_task h approvalId)) (\<lambda>v.
      case v of
        None \<Rightarrow> throw (NotFoundException ko_approval_not_found)
      | Some (approval, task, owner) \<Rightarrow>
          if owner \<noteq> ownerId then throw (ForbiddenException ko_approval_forbidden)
          else if ap_status approval \<noteq> PENDING then throw (BadRequestException ko_approval_decided)
          else
            bindE (approval_update approvalId (\<lambda>now a. a\<lparr>ap_status := (if dad_approve dto then APPROVED else REJECTED),
                ap_decidedAt := Some now,
                ap_reason := (case dad_reason dto of None \<Rightarrow> ap_reason a | Some r \<Rightarrow> Some r)\<rparr>)) (\<lambda>updated.
            thenE (task_update (ap_taskId approval)
                (\<lambda>t. t\<lparr>t_status := (if dad_approve dto then RUNNING else CANCELLED)\<rparr>))
             (thenE (catchE (dispatchToServer (t_serverId task)
                  (APPROVAL_DECISION (ap_taskId approval) (dad_approve dto) (dad_reason dto))) (\<lambda>_. ret ()))
               (thenE (notifyUser ownerId (APPROVAL_RESOLVED updated)) (ret updated)))))"

definition handleDaemonApprovalRequest :: "ext \<Rightarrow> approval_payload \<Rightarrow> unit hub_prog" where
  "handleDaemonApprovalRequest x payload =
    bindE (getS (\<lambda>h. task_with_owner h (pl_taskId payload))) (\<lambda>v.
      case v of
        None \<Rightarrow> ret ()
      | Some (task, ownerId) \<Rightarrow>
          bindE (approval_create x (pl_taskId payload) (pl_reason payload)) (\<lambda>approval.
          thenE (task_update (pl_taskId payload) (\<lambda>t. t\<lparr>t_status := AWAITING_APPROVAL\<rparr>))
           (thenE (notifyUser ownerId (APPROVAL_PENDING approval))
             (sendPush x ownerId ko_approval_needed (pl_reason payload)))))"

section \<open>Lemmas\<close>

interpretation approvalOrder: js_comparator approval_requested_desc
  unfolding approval_requested_desc_def by (rule js_comparator_desc)

lemma approval_update_apply [prog_simps]:
  "approval_update i f h =
    (case find_row ap_id i (approvals h) of
       None \<Rightarrow> (Inl RecordNotFound, h)
     | Some a \<Rightarrow> (Inr (f (clock h) a), h\<lparr>approvals := update_row ap_id i (f (clock h)) (approvals h)\<rparr>))"
  by (simp add: approval_update_def prog_simps split: option.splits)

lemma keeps_option_triple [keeps_rules]:
  assumes "keeps I m" and "\<And>a b c. keeps I (f a b c)"
  shows "keeps I (case v of None \<Rightarrow> m | Some (a, b, c) \<Rightarrow> f a b c)"
  using assms by (cases v) auto

lemma keeps_decide [keeps_rules]: "keeps (wf_hub x) (decide u i d)"
  unfolding decide_def by (intro keeps_rules) simp_all

lemma keeps_handleDaemonApprovalRequest [keeps_rules]:
  "inj (x_uuid x) \<Longrightarrow> keeps (wf_hub x) (handleDaemonApprovalRequest x p)"
  unfolding handleDaemonApprovalRequest_def by (intro keeps_rules) simp_all

definition decided :: "hub \<Rightarrow> decide_approval_dto \<Rightarrow> approval \<Rightarrow> approval" where
  "decided h dto a = a\<lparr>ap_status := (if dad_approve dto then APPROVED else REJECTED), ap_decidedAt := Some (clock h),
     ap_reason := (case dad_reason dto of None \<Rightarrow> ap_reason a | Some r \<Rightarrow> Some r)\<rparr>"

text \<open>What the decision sends to the daemon: nothing when it is not connected.\<close>

definition decision_out :: "hub \<Rightarrow> task \<Rightarrow> decide_approval_dto \<Rightarrow> (string \<times> daemon_msg) list" where
  "decision_out h t dto = map (\<lambda>s. (so_id s, APPROVAL_DECISION (t_id t) (dad_approve dto) (dad_reason dto)))
     (in_room (serverRoom (t_serverId t)) (daemonSockets h))"

lemma approval_with_task_iff:
  "approval_with_task h i = Some (a, t, u) \<longleftrightarrow>
    find_row ap_id i (approvals h) = Some a \<and> task_with_owner h (ap_taskId a) = Some (t, u)"
  by (auto simp: approval_with_task_def split: option.splits)

lemma decide_apply:
  assumes "approval_with_task h i = Some (a, t, u)"
  shows "decide ownerId i dto h =
    (if u \<noteq> ownerId then (Inl (ForbiddenException ko_approval_forbidden), h)
     else if ap_status a \<noteq> PENDING then (Inl (BadRequestException ko_approval_decided), h)
     else (Inr (decided h dto a),
       h\<lparr>approvals := update_row ap_id i (decided h dto) (approvals h),
         tasks := update_row t_id (t_id t)
           (\<lambda>r. r\<lparr>t_status := (if dad_approve dto then RUNNING else CANCELLED), t_updatedAt := clock h\<rparr>) (tasks h),
         daemonOut := daemonOut h @ decision_out h t dto,
         appOut := appOut h @ map (\<lambda>s. (so_id s, APPROVAL_RESOLVED (decided h dto a))) (in_room (userRoom ownerId) (appSockets h))\<rparr>))"
proof -
  have a: "find_row ap_id i (approvals h) = Some a" "task_with_owner h (ap_taskId a) = Some (t, u)"
    using assms by (simp_all add: approval_with_task_iff)
  then have t: "find_row t_id (ap_taskId a) (tasks h) = Some t" "t_id t = ap_taskId a"
    by (auto simp: task_with_owner_iff task_with_owner_id)
  show ?thesis
    unfolding decide_def bindE_apply [of "getS f" for f] getS_apply decided_def [abs_def]
    by (simp add: assms a t prog_simps decision_out_def)
qed

lemma approval_with_task_None:
  assumes "wf_hub x h"
  shows "approval_with_task h i = None \<longleftrightarrow> i \<notin> ap_id ` set (approvals h)"
proof (cases "find_row ap_id i (approvals h)")
  case None
  then show ?thesis using find_row_None [of ap_id i "approvals h"] by (simp add: approval_with_task_def)
next
  case (Some a)
  then have "a \<in> set (approvals h)" "i \<in> ap_id ` set (approvals h)" using find_row_SomeD [OF Some] by auto
  moreover have "ap_taskId a \<in> t_id ` set (tasks h)"
    using wf_hubD(11) [OF assms] calculation(1) by (simp add: refs_def)
  ultimately show ?thesis using Some task_with_owner_None [OF assms, of "ap_taskId a"]
    by (simp add: approval_with_task_def)
qed

section \<open>Properties\<close>

text \<open>C20. The decision on an approval: a missing request, somebody else's and an already decided one
  are refused, each with its own error and no effect. A pending request of the caller is decided
  whether or not the daemon is connected: the approval takes the decision and its time, the task
  becomes RUNNING or CANCELLED, and the daemon is told when it has a socket.\<close>

theorem decide_spec:
  assumes "wf_hub x h"
  shows "case approval_with_task h i of
     None \<Rightarrow> i \<notin> ap_id ` set (approvals h) \<and> decide ownerId i dto h = (Inl (NotFoundException ko_approval_not_found), h)
   | Some (a, t, u) \<Rightarrow>
       if u \<noteq> ownerId then decide ownerId i dto h = (Inl (ForbiddenException ko_approval_forbidden), h)
       else if ap_status a \<noteq> PENDING then decide ownerId i dto h = (Inl (BadRequestException ko_approval_decided), h)
       else \<exists>a' h'. decide ownerId i dto h = (Inr a', h') \<and> find_row ap_id i (approvals h') = Some a' \<and>
         ap_status a' = (if dad_approve dto then APPROVED else REJECTED) \<and> ap_decidedAt a' = Some (clock h) \<and>
         find_row t_id (ap_taskId a) (tasks h') =
           Some (t\<lparr>t_status := (if dad_approve dto then RUNNING else CANCELLED), t_updatedAt := clock h\<rparr>) \<and>
         daemonOut h' = daemonOut h @
           map (\<lambda>s. (so_id s, APPROVAL_DECISION (ap_taskId a) (dad_approve dto) (dad_reason dto)))
             (in_room (serverRoom (t_serverId t)) (daemonSockets h))"
proof (cases "approval_with_task h i")
  case None
  then show ?thesis using approval_with_task_None [OF assms, of i] by (simp add: decide_def prog_simps)
next
  case (Some p)
  then obtain a t u where p: "approval_with_task h i = Some (a, t, u)" by (cases p) auto
  then have "find_row ap_id i (approvals h) = Some a" "find_row t_id (ap_taskId a) (tasks h) = Some t" "t_id t = ap_taskId a"
    by (auto simp: approval_with_task_iff task_with_owner_iff dest: find_row_SomeD)
  then show ?thesis
    by (simp add: p decide_apply [OF p] find_row_update_row decided_def decision_out_def)
qed

text \<open>A decision is final: once a request is decided, a second decision by anybody, the same or the
  opposite, is refused and changes nothing.\<close>

theorem decide_final:
  assumes "wf_hub x h" and "decide ownerId i dto h = (Inr a, h1)"
  shows "\<exists>e. decide other i dto2 h1 = (Inl e, h1) \<and>
    (other = ownerId \<longrightarrow> e = BadRequestException ko_approval_decided)"
proof -
  obtain a0 t u where p: "approval_with_task h i = Some (a0, t, u)"
    using assms(2) by (cases "approval_with_task h i") (auto simp: decide_def prog_simps)
  have find: "find_row ap_id i (approvals h) = Some a0" using p by (simp add: approval_with_task_iff)
  have ok: "u = ownerId" "ap_status a0 = PENDING"
    and h1: "approvals h1 = update_row ap_id i (decided h dto) (approvals h)" "servers h1 = servers h"
      "tasks h1 = update_row t_id (t_id t)
           (\<lambda>r. r\<lparr>t_status := (if dad_approve dto then RUNNING else CANCELLED), t_updatedAt := clock h\<rparr>) (tasks h)"
    using assms(2) by (auto simp: decide_apply [OF p] split: if_splits)
  have t: "task_with_owner h (ap_taskId a0) = Some (t, u)" "t_id t = ap_taskId a0"
    using p by (auto simp: approval_with_task_iff dest: task_with_owner_id)
  have "task_with_owner h1 (ap_taskId a0) = Some (t\<lparr>t_status := (if dad_approve dto then RUNNING else CANCELLED), t_updatedAt := clock h\<rparr>, u)"
    using t by (auto simp: task_with_owner_iff h1 find_row_update_row)
  moreover have "find_row ap_id i (approvals h1) = Some (decided h dto a0)"
    using find by (simp add: h1 find_row_update_row decided_def)
  ultimately obtain t1 where "approval_with_task h1 i = Some (decided h dto a0, t1, u)"
    by (auto simp: approval_with_task_iff decided_def)
  from decide_apply [OF this, of other dto2] show ?thesis using ok by (auto simp: decided_def)
qed

text \<open>C23. A daemon's first approval request for a task stores a PENDING approval with the given reason
  and sets the task to AWAITING_APPROVAL, and every later request for the same task, even after the
  first was decided, fails on the unique key and changes no table: the second question never reaches
  the owner.\<close>

theorem approval_request_once:
  assumes "task_with_owner h i = Some (t, u)"
  shows "if i \<in> ap_taskId ` set (approvals h)
    then \<exists>n. handleDaemonApprovalRequest x \<lparr>pl_taskId = i, pl_reason = r\<rparr> h = (Inl UniqueConstraint, h\<lparr>draws := n\<rparr>)
    else \<exists>a. approvals (snd (handleDaemonApprovalRequest x \<lparr>pl_taskId = i, pl_reason = r\<rparr> h)) = approvals h @ [a] \<and>
      ap_taskId a = i \<and> ap_status a = PENDING \<and> ap_reason a = Some r \<and>
      find_row t_id i (tasks (snd (handleDaemonApprovalRequest x \<lparr>pl_taskId = i, pl_reason = r\<rparr> h))) =
        Some (t\<lparr>t_status := AWAITING_APPROVAL, t_updatedAt := clock h\<rparr>) \<and>
      (\<forall>s \<in> set (in_room (userRoom u) (appSockets h)).
        (so_id s, APPROVAL_PENDING a) \<in> set (appOut (snd (handleDaemonApprovalRequest x \<lparr>pl_taskId = i, pl_reason = r\<rparr> h))))"
proof -
  have t: "find_row t_id i (tasks h) = Some t" using assms by (simp add: task_with_owner_iff)
  then have "i \<in> t_id ` set (tasks h)" by (metis find_row_None option.distinct(1))
  then show ?thesis
    by (auto simp: handleDaemonApprovalRequest_def assms prog_simps approval_create_def Let_def t
        insert_row_def find_row_update_row)
qed

subsection \<open>Witnesses\<close>

definition demo_pending :: approval where
  "demo_pending = \<lparr>ap_id = ''iiiiiiiii'', ap_taskId = ''iiiiiii'', ap_status = PENDING, ap_requestedAt = 1000,
     ap_decidedAt = None, ap_reason = Some ''rm''\<rparr>"

definition demo_approval_hub :: hub where
  "demo_approval_hub = demo_task_hub\<lparr>approvals := [demo_pending], draws := 9\<rparr>"

lemma wf_demo_approval_hub: "wf_hub demo_ext demo_approval_hub"
  unfolding wf_hub_def
proof (intro conjI)
  show "wf_ids demo_ext demo_approval_hub"
    by (simp add: wf_ids_def ids_ok_def keyed_def demo_approval_hub_def demo_pending_def demo_task_defs demo_id)
  show "wf_refs demo_approval_hub" "wf_uniq demo_approval_hub"
    by (simp_all add: wf_refs_def wf_uniq_def refs_def keyed_def demo_approval_hub_def demo_pending_def demo_task_defs)
qed

lemma demo_approval_find: "approval_with_task demo_approval_hub ''iiiiiiiii'' = Some (demo_pending, demo_task, ''i'')"
  by (simp add: approval_with_task_iff task_with_owner_iff find_row_def demo_approval_hub_def demo_pending_def demo_task_defs)

theorem decide_spec_witness:
  "\<exists>a' h'. decide ''i'' ''iiiiiiiii'' \<lparr>dad_approve = True, dad_reason = None\<rparr> demo_approval_hub = (Inr a', h') \<and> ap_status a' = APPROVED"
  using decide_spec [OF wf_demo_approval_hub, of "''iiiiiiiii''" "''i''" "\<lparr>dad_approve = True, dad_reason = None\<rparr>"]
  by (auto simp: demo_approval_find demo_pending_def)

theorem decide_final_witness:
  "\<exists>a h1. decide ''i'' ''iiiiiiiii'' \<lparr>dad_approve = True, dad_reason = None\<rparr> demo_approval_hub = (Inr a, h1) \<and>
    decide ''i'' ''iiiiiiiii'' \<lparr>dad_approve = False, dad_reason = None\<rparr> h1 = (Inl (BadRequestException ko_approval_decided), h1)"
proof -
  obtain a h1 where d: "decide ''i'' ''iiiiiiiii'' \<lparr>dad_approve = True, dad_reason = None\<rparr> demo_approval_hub = (Inr a, h1)"
    by (simp add: decide_apply [OF demo_approval_find] demo_pending_def)
  from decide_final [OF wf_demo_approval_hub d, of "''i''" "\<lparr>dad_approve = False, dad_reason = None\<rparr>"] d
  show ?thesis by auto
qed

theorem approval_request_once_witness:
  "\<exists>n. handleDaemonApprovalRequest demo_ext \<lparr>pl_taskId = ''iiiiiii'', pl_reason = ''again''\<rparr> demo_approval_hub =
    (Inl UniqueConstraint, demo_approval_hub\<lparr>draws := n\<rparr>)"
proof -
  have t: "task_with_owner demo_approval_hub ''iiiiiii'' = Some (demo_task, ''i'')"
    using demo_approval_find by (simp add: approval_with_task_iff demo_pending_def)
  show ?thesis using approval_request_once [OF t, of demo_ext "''again''"]
    by (simp add: demo_approval_hub_def demo_pending_def)
qed

end
