(* ===== verification/Js_Regex.thy ===== *)
theory Js_Regex
  imports Js_Text
begin

text \<open>
  The regular expressions of JavaScript, as far as the sources use them: character classes, a
  starred class, the word boundary, the end of the input or line, concatenation and alternatives.
  A state of the matcher is the text before the current position, reversed, and the text after it;
  the matcher lists the states it can reach, the one JavaScript prefers first. The lemmas say when a
  phrase between word boundaries is found, and give the splitting and replacing of substrings.
\<close>

section \<open>Matching\<close>

datatype rx =
  Eps
| Cls "char \<Rightarrow> bool"
| Many "char \<Rightarrow> bool"
| WordB
| LineStart
| LineEnd
| InputEnd
| Seq rx rx
| Alt rx rx

definition is_word :: "char \<Rightarrow> bool" where
  "is_word c \<longleftrightarrow> is_digit c \<or> 65 \<le> code_of c \<and> code_of c \<le> 90 \<or> 97 \<le> code_of c \<and> code_of c \<le> 122 \<or> code_of c = 95"

definition newline_char :: "char \<Rightarrow> bool" where
  "newline_char c \<longleftrightarrow> code_of c \<in> {10, 13}"

fun at_word :: "string \<Rightarrow> bool" where
  "at_word [] = False"
| "at_word (c # _) = is_word c"

fun at_newline :: "string \<Rightarrow> bool" where
  "at_newline [] = True"
| "at_newline (c # _) = newline_char c"

text \<open>A star is greedy: the longest match comes first.\<close>

fun many_run :: "(char \<Rightarrow> bool) \<Rightarrow> string \<Rightarrow> string \<Rightarrow> (string \<times> string) list" where
  "many_run P p [] = [(p, [])]"
| "many_run P p (c # s) = (if P c then many_run P (c # p) s @ [(p, c # s)] else [(p, c # s)])"

fun rx_run :: "rx \<Rightarrow> string \<times> string \<Rightarrow> (string \<times> string) list" where
  "rx_run Eps (p, s) = [(p, s)]"
| "rx_run (Cls P) (p, s) = (case s of [] \<Rightarrow> [] | c # s' \<Rightarrow> if P c then [(c # p, s')] else [])"
| "rx_run (Many P) (p, s) = many_run P p s"
| "rx_run WordB (p, s) = (if at_word p \<noteq> at_word s then [(p, s)] else [])"
| "rx_run LineStart (p, s) = (if at_newline p then [(p, s)] else [])"
| "rx_run LineEnd (p, s) = (if at_newline s then [(p, s)] else [])"
| "rx_run InputEnd (p, s) = (if s = [] then [(p, s)] else [])"
| "rx_run (Seq r q) (p, s) = concat (map (rx_run q) (rx_run r (p, s)))"
| "rx_run (Alt r q) (p, s) = rx_run r (p, s) @ rx_run q (p, s)"

text \<open>\<open>re.test(s)\<close> looks at every position.\<close>

fun rx_search :: "rx \<Rightarrow> string \<Rightarrow> string \<Rightarrow> bool" where
  "rx_search r p [] \<longleftrightarrow> rx_run r (p, []) \<noteq> []"
| "rx_search r p (c # s) \<longleftrightarrow> rx_run r (p, c # s) \<noteq> [] \<or> rx_search r (c # p) s"

definition rx_test :: "rx \<Rightarrow> string \<Rightarrow> bool" where
  "rx_test r s \<longleftrightarrow> rx_search r [] s"

text \<open>\<open>s.replace(re, t)\<close> with the global flag: the preferred match at the leftmost position is
  replaced and the search goes on behind it.\<close>

function rx_replace_from :: "rx \<Rightarrow> string \<Rightarrow> string \<Rightarrow> string \<Rightarrow> string" where
  "rx_replace_from r t p s =
    (case rx_run r (p, s) of
       (p', s') # _ \<Rightarrow>
         if length s' < length s then t @ rx_replace_from r t p' s'
         else t @ (case s of [] \<Rightarrow> [] | c # cs \<Rightarrow> c # rx_replace_from r t (c # p) cs)
     | [] \<Rightarrow> (case s of [] \<Rightarrow> [] | c # cs \<Rightarrow> c # rx_replace_from r t (c # p) cs))"
  by pat_completeness auto
termination by (relation "measure (\<lambda>(r, t, p, s). length s)") auto

declare rx_replace_from.simps [simp del]

definition rx_replace :: "rx \<Rightarrow> string \<Rightarrow> string \<Rightarrow> string" where
  "rx_replace r t s = rx_replace_from r t [] s"

section \<open>Building expressions\<close>

definition any :: "char \<Rightarrow> bool" where
  "any c \<longleftrightarrow> \<not> newline_char c"

fun seqs :: "rx list \<Rightarrow> rx" where
  "seqs [] = Eps"
| "seqs [r] = r"
| "seqs (r # rs) = Seq r (seqs rs)"

fun alts :: "rx list \<Rightarrow> rx" where
  "alts [] = Cls (\<lambda>_. False)"
| "alts [r] = r"
| "alts (r # rs) = Alt r (alts rs)"

definition opt :: "rx \<Rightarrow> rx" where
  "opt r = Alt r Eps"

text \<open>A literal, and a literal under the flag that ignores case.\<close>

primrec lit :: "string \<Rightarrow> rx" where
  "lit [] = Eps"
| "lit (c # cs) = Seq (Cls (\<lambda>d. d = c)) (lit cs)"

primrec lit_i :: "string \<Rightarrow> rx" where
  "lit_i [] = Eps"
| "lit_i (c # cs) = Seq (Cls (\<lambda>d. upper_char d = upper_char c)) (lit_i cs)"

definition word_i :: "string \<Rightarrow> rx" where
  "word_i w = seqs [WordB, lit_i w, WordB]"

section \<open>Lemmas\<close>

lemma many_run_set: "set (many_run P p s) = {(rev a @ p, b) |a b. s = a @ b \<and> list_all P a}"
proof (induction s arbitrary: p)
  case (Cons c s)
  have "(\<exists>a b. x = (rev a @ p, b) \<and> c # s = a @ b \<and> list_all P a) \<longleftrightarrow>
      x = (p, c # s) \<or> P c \<and> (\<exists>a b. x = (rev a @ c # p, b) \<and> s = a @ b \<and> list_all P a)" for x
    by (auto simp: Cons_eq_append_conv)
  with Cons show ?case by auto
qed auto

lemma rx_run_append: "(p', s') \<in> set (rx_run r (p, s)) \<Longrightarrow> \<exists>a. s = a @ s' \<and> p' = rev a @ p"
proof (induction r "(p, s)" arbitrary: p s p' s' rule: rx_run.induct)
  case (8 r q p s)
  then obtain p1 s1 where "(p1, s1) \<in> set (rx_run r (p, s))" "(p', s') \<in> set (rx_run q (p1, s1))" by auto
  with 8 show ?case by fastforce
qed (auto simp: many_run_set split: list.splits if_splits)

lemma ex_split_Cons:
  "(\<exists>a b. c # s = a @ b \<and> Q a b) \<longleftrightarrow> Q [] (c # s) \<or> (\<exists>a b. s = a @ b \<and> Q (c # a) b)"
proof
  assume "\<exists>a b. c # s = a @ b \<and> Q a b"
  then obtain a b where "c # s = a @ b" "Q a b" by blast
  then show "Q [] (c # s) \<or> (\<exists>a b. s = a @ b \<and> Q (c # a) b)" by (cases a) auto
next
  assume "Q [] (c # s) \<or> (\<exists>a b. s = a @ b \<and> Q (c # a) b)"
  then show "\<exists>a b. c # s = a @ b \<and> Q a b"
  proof
    assume "Q [] (c # s)"
    then show ?thesis by (intro exI [of _ "[]"] exI [of _ "c # s"]) simp
  next
    assume "\<exists>a b. s = a @ b \<and> Q (c # a) b"
    then obtain a b where "s = a @ b" "Q (c # a) b" by blast
    then show ?thesis by (intro exI [of _ "c # a"] exI [of _ b]) simp
  qed
qed

lemma rx_search_iff: "rx_search r p s \<longleftrightarrow> (\<exists>a b. s = a @ b \<and> rx_run r (rev a @ p, b) \<noteq> [])"
proof (induction s arbitrary: p)
  case (Cons c s)
  then show ?case by (simp add: ex_split_Cons)
qed simp

lemma rx_test_iff: "rx_test r s \<longleftrightarrow> (\<exists>a b. s = a @ b \<and> rx_run r (rev a, b) \<noteq> [])"
  by (simp add: rx_test_def rx_search_iff)

lemma rx_test_alt [simp]: "rx_test (Alt r q) s \<longleftrightarrow> rx_test r s \<or> rx_test q s"
  by (auto simp: rx_test_iff)

lemma lit_i_run:
  "rx_run (lit_i w) (p, s) =
    (if toUpperCase (take (length w) s) = toUpperCase w then [(rev (take (length w) s) @ p, drop (length w) s)] else [])"
proof (induction w arbitrary: p s)
  case (Cons c w)
  show ?case using Cons by (cases s) (auto simp: toUpperCase_def)
qed (simp add: toUpperCase_def)

lemma lit_run: "rx_run (lit w) (p, s) = (if startsWith s w then [(rev w @ p, drop (length w) s)] else [])"
proof (induction w arbitrary: p s)
  case (Cons c w)
  show ?case using Cons by (cases s) (auto simp: startsWith_def)
qed simp

text \<open>When a phrase between word boundaries is found.\<close>

definition has_word :: "string \<Rightarrow> string \<Rightarrow> bool" where
  "has_word w s \<longleftrightarrow> (\<exists>a v b. s = a @ v @ b \<and> toUpperCase v = toUpperCase w \<and>
     at_word (rev a) \<noteq> at_word (v @ b) \<and> at_word (rev (a @ v)) \<noteq> at_word b)"

lemma rx_test_word_i: "rx_test (word_i w) s \<longleftrightarrow> has_word w s"
proof -
  have "rx_run (word_i w) (rev a, b) \<noteq> [] \<longleftrightarrow> at_word (rev a) \<noteq> at_word b \<and>
      toUpperCase (take (length w) b) = toUpperCase w \<and>
      at_word (rev (take (length w) b) @ rev a) \<noteq> at_word (drop (length w) b)" for a b
    by (simp add: word_i_def lit_i_run)
  then have "rx_test (word_i w) s \<longleftrightarrow> (\<exists>a b. s = a @ b \<and> at_word (rev a) \<noteq> at_word b \<and>
      toUpperCase (take (length w) b) = toUpperCase w \<and>
      at_word (rev (take (length w) b) @ rev a) \<noteq> at_word (drop (length w) b))"
    by (simp add: rx_test_iff)
  also have "\<dots> \<longleftrightarrow> has_word w s"
  proof
    assume "\<exists>a b. s = a @ b \<and> at_word (rev a) \<noteq> at_word b \<and> toUpperCase (take (length w) b) = toUpperCase w \<and>
      at_word (rev (take (length w) b) @ rev a) \<noteq> at_word (drop (length w) b)"
    then obtain a b where "s = a @ b" "at_word (rev a) \<noteq> at_word b" "toUpperCase (take (length w) b) = toUpperCase w"
      "at_word (rev (take (length w) b) @ rev a) \<noteq> at_word (drop (length w) b)" by blast
    then show "has_word w s" unfolding has_word_def
      by (intro exI [of _ a] exI [of _ "take (length w) b"] exI [of _ "drop (length w) b"]) simp
  next
    assume "has_word w s"
    then obtain a v b where s: "s = a @ v @ b" "toUpperCase v = toUpperCase w"
      "at_word (rev a) \<noteq> at_word (v @ b)" "at_word (rev (a @ v)) \<noteq> at_word b" unfolding has_word_def by blast
    then have "length w = length v" by (metis length_toUpperCase)
    with s show "\<exists>a b. s = a @ b \<and> at_word (rev a) \<noteq> at_word b \<and> toUpperCase (take (length w) b) = toUpperCase w \<and>
      at_word (rev (take (length w) b) @ rev a) \<noteq> at_word (drop (length w) b)"
      by (intro exI [of _ a] exI [of _ "v @ b"]) simp
  qed
  finally show ?thesis .
qed

section \<open>Splitting\<close>

text \<open>\<open>s.split(sep)\<close> for a non-empty separator, and \<open>s.split(/\r?\n/)\<close>.\<close>

function split_str :: "string \<Rightarrow> string \<Rightarrow> string list" where
  "split_str sep s =
    (case s of
       [] \<Rightarrow> [[]]
     | c # cs \<Rightarrow>
         if sep \<noteq> [] \<and> startsWith s sep then [] # split_str sep (drop (length sep) s)
         else (case split_str sep cs of [] \<Rightarrow> [[c]] | p # ps \<Rightarrow> (c # p) # ps))"
  by pat_completeness auto
termination by (relation "measure (\<lambda>(sep, s). length s)") auto

declare split_str.simps [simp del]

definition replace_all :: "string \<Rightarrow> string \<Rightarrow> string \<Rightarrow> string" where
  "replace_all sub t s = join t (split_str sub s)"

fun split_lines :: "string \<Rightarrow> string list" where
  "split_lines [] = [[]]"
| "split_lines (c # cs) =
    (if c = char_of (10 :: nat) then [] # split_lines cs
     else if c = char_of (13 :: nat) \<and> cs \<noteq> [] \<and> hd cs = char_of (10 :: nat) then [] # split_lines (tl cs)
     else (case split_lines cs of [] \<Rightarrow> [[c]] | p # ps \<Rightarrow> (c # p) # ps))"

lemma split_str_nonempty [simp]: "split_str sep s \<noteq> []"
  by (subst split_str.simps) (auto split: list.splits)

lemma split_str_absent: "\<not> str_includes s sep \<Longrightarrow> split_str sep s = [s]"
proof (induction s)
  case (Cons c cs)
  then show ?case by (subst split_str.simps) simp
qed (simp add: split_str.simps)

lemma split_str_here:
  assumes "sep \<noteq> []"
  shows "split_str sep (sep @ s) = [] # split_str sep s"
proof -
  obtain c r where "sep = c # r" using assms by (cases sep) auto
  moreover have "startsWith (sep @ s) sep" by simp
  ultimately show ?thesis by (subst split_str.simps) simp
qed

lemma replace_all_absent: "\<not> str_includes s sub \<Longrightarrow> replace_all sub t s = s"
  by (simp add: replace_all_def split_str_absent)

lemma join_Cons: "ps \<noteq> [] \<Longrightarrow> join sep (p # ps) = p @ sep @ join sep ps"
  by (cases ps) simp_all

lemma join_head: "join sep ((c # p) # ps) = c # join sep (p # ps)"
  by (cases ps) simp_all

lemma replace_all_step:
  "\<not> startsWith (c # s) sub \<Longrightarrow> replace_all sub t (c # s) = c # replace_all sub t s"
  unfolding replace_all_def by (subst split_str.simps) (auto simp: join_head split: list.splits)

lemma replace_all_here: "sub \<noteq> [] \<Longrightarrow> replace_all sub t (sub @ s) = t @ replace_all sub t s"
  by (simp add: replace_all_def split_str_here join_Cons)

lemma split_lines_nonempty [simp]: "split_lines s \<noteq> []"
  by (cases s) (auto split: list.splits)

lemma split_lines_no_newline: "l \<in> set (split_lines s) \<Longrightarrow> char_of (10 :: nat) \<notin> set l"
proof (induction s arbitrary: l rule: split_lines.induct)
  case (2 c cs)
  then show ?case by (auto split: if_splits list.splits)
qed simp

end
