(* ===== verification/Detectors.thy ===== *)
theory Detectors
  imports Js_Regex Realtime
begin

text \<open>
  The two detectors of the agent daemon that read a child process's output:
  \<^verbatim>\<open>agent-daemon/src/approval-detector.js\<close> finds a confirmation prompt and
  \<^verbatim>\<open>agent-daemon/src/failure-detector.js\<close> finds an exhausted capacity. Shown: which phrases count as a
  capacity failure, that a yes/no question is always found and plain text never, and the bound on the
  text that is passed on.
\<close>

section \<open>The approval detector\<close>

definition CONFIRM_MARKERS :: "rx list" where
  "CONFIRM_MARKERS =
    [seqs [WordB, lit_i ''y'', Many ws, lit ''/'', Many ws, lit_i ''n'', WordB],
     seqs [WordB, lit_i ''yes'', Many ws, lit ''/'', Many ws, lit_i ''no'', WordB],
     seqs [WordB, lit_i ''yes/n'', WordB],
     seqs [WordB, lit_i ''y/n'', opt (lit_i ''es''), WordB],
     seqs [WordB, alts [lit_i ''approve'', lit_i ''allow'', lit_i ''permit'', lit_i ''confirm''], WordB,
       Many any, lit ''?'', Many ws, InputEnd],
     seqs [WordB, alts [lit_i ''proceed'', lit_i ''continue''], WordB, Many any, lit ''?'', Many ws, InputEnd],
     seqs [lit ''?'', Many ws, alts [lit_i ''(y/n)'', lit_i ''[y/n]'', lit_i ''y/n''], Many ws, InputEnd],
     seqs [WordB, lit_i ''do you want '', opt (lit_i ''to ''), opt (lit_i ''to ''),
       alts [lit_i ''continue'', lit_i ''proceed'', lit_i ''run'', lit_i ''execute''], WordB, Many any, lit ''?''],
     seqs [WordB, lit_i ''are you sure'', WordB, Many any, lit ''?''],
     seqs [WordB, lit_i ''suggested '', opt (lit_i ''shell ''), lit_i ''command'', WordB, Many any, lit ''?'']]"

definition ansi_escape :: rx where
  "ansi_escape = seqs [Cls (\<lambda>c. code_of c = 27), lit ''['', Many (\<lambda>c. is_digit c \<or> c = CHR '';'' \<or> c = CHR ''?''),
     Cls (\<lambda>c. 97 \<le> code_of c \<and> code_of c \<le> 122 \<or> 65 \<le> code_of c \<and> code_of c \<le> 90)]"

definition stripAnsi :: "string \<Rightarrow> string" where
  "stripAnsi text = rx_replace ansi_escape [] text"

definition ellipsis :: string where
  "ellipsis = [CHR 0xE2, CHR 0x80, CHR 0xA6]"

definition nl :: string where
  "nl = [char_of (10 :: nat)]"

definition apr_excerpt :: "nat \<Rightarrow> string \<Rightarrow> string" where
  "apr_excerpt limit text =
    (let clean = join '' '' (filter (\<lambda>l. length (trim l) > 0) (split_lines (stripAnsi text)));
         trimmed = trim (rx_replace (Seq (Cls ws) (Many ws)) '' '' clean)
     in if length trimmed > limit then ellipsis @ slice_last limit trimmed else trimmed)"

definition has_marker :: "string \<Rightarrow> bool" where
  "has_marker line \<longleftrightarrow> list_ex (\<lambda>re. rx_test re line) CONFIRM_MARKERS"

definition detect :: "string \<Rightarrow> string option" where
  "detect chunk =
    (if chunk = [] then None
     else let clean = stripAnsi chunk in
       if trim clean = [] then None
       else let lines = split_lines clean in
         case List.find (\<lambda>i. trim (lines ! i) \<noteq> [] \<and> has_marker (trim (lines ! i))) [0..<length lines] of
           None \<Rightarrow> None
         | Some i \<Rightarrow> Some (apr_excerpt 240 (join nl (drop (i - 2) (take (i + 1) lines)))))"

section \<open>The failure detector\<close>

definition rate_limit :: rx where
  "rate_limit = seqs [WordB, lit_i ''rate'', opt (Cls (\<lambda>c. c = CHR '' '' \<or> c = CHR ''-'')), lit_i ''limit'',
     opt (Alt (lit_i ''ed'') (lit_i ''s'')), WordB]"

definition CAPACITY_PATTERNS :: "rx list" where
  "CAPACITY_PATTERNS =
    [word_i ''capacity'', word_i ''quota'', rate_limit, word_i ''usage limit'', word_i ''limit reached'',
     word_i ''too many requests'', word_i ''try again later'', word_i ''temporarily unavailable'',
     word_i ''model is overloaded'', word_i ''service is overloaded'']"

text \<open>The length is counted in characters of a byte; the source counts UTF-16 units, which is the same for
  output in ASCII.\<close>

definition fail_excerpt :: "string \<Rightarrow> string" where
  "fail_excerpt text =
    (let ls = filter (\<lambda>l. l \<noteq> []) (map trim (split_lines text))
     in slice_last 1200 (join nl (drop (length ls - 5) ls)))"

definition detectStructuredFailure :: "int option \<Rightarrow> string option \<Rightarrow> string \<Rightarrow> failure_payload option" where
  "detectStructuredFailure exitCode signal output =
    (if exitCode = Some 0 \<and> (signal = None \<or> signal = Some []) then None
     else let tail = fail_excerpt output in
       if tail \<noteq> [] \<and> list_ex (\<lambda>re. rx_test re tail) CAPACITY_PATTERNS
       then Some \<lparr>fp_category = CAPACITY_EXHAUSTED, fp_retryable = Some True,
              fp_message = Some ''Worker capacity, quota, or rate-limit signal detected.'', fp_detail = Some tail\<rparr>
       else None)"

section \<open>Lemmas\<close>

text \<open>An expression that cannot match without a character of some kind finds one.\<close>

primrec needs :: "(char \<Rightarrow> bool) \<Rightarrow> rx \<Rightarrow> bool" where
  "needs P Eps = False"
| "needs P (Cls Q) = (\<forall>c. Q c \<longrightarrow> P c)"
| "needs P (Many Q) = False"
| "needs P WordB = False"
| "needs P LineStart = False"
| "needs P LineEnd = False"
| "needs P InputEnd = False"
| "needs P (Seq r q) = (needs P r \<or> needs P q)"
| "needs P (Alt r q) = (needs P r \<and> needs P q)"

lemma needs_run:
  "needs P r \<Longrightarrow> (p', s') \<in> set (rx_run r (p, s)) \<Longrightarrow> \<exists>a. s = a @ s' \<and> (\<exists>c \<in> set a. P c)"
proof (induction r arbitrary: p s p' s')
  case (Cls Q)
  then show ?case by (cases s) (auto split: if_splits)
next
  case (Seq r q)
  from Seq.prems(2) obtain p1 s1 where run: "(p1, s1) \<in> set (rx_run r (p, s))" "(p', s') \<in> set (rx_run q (p1, s1))"
    by auto
  obtain a b where ab: "s = a @ s1" "s1 = b @ s'" using rx_run_append [OF run(1)] rx_run_append [OF run(2)] by blast
  show ?case
  proof (cases "needs P r")
    case True
    from Seq.IH(1) [OF True run(1)] ab obtain c where "c \<in> set a" "P c" by auto
    then show ?thesis using ab by (intro exI [of _ "a @ b"]) auto
  next
    case False
    then have "needs P q" using Seq.prems(1) by simp
    from Seq.IH(2) [OF this run(2)] ab obtain c where "c \<in> set b" "P c" by auto
    then show ?thesis using ab by (intro exI [of _ "a @ b"]) auto
  qed
qed auto

lemma needs_test: "needs P r \<Longrightarrow> rx_test r s \<Longrightarrow> \<exists>c \<in> set s. P c"
proof -
  assume "needs P r" "rx_test r s"
  then obtain a b p' s' where "s = a @ b" "(p', s') \<in> set (rx_run r (rev a, b))"
    unfolding rx_test_iff by (metis ex_in_conv prod.exhaust set_empty)
  with needs_run [OF \<open>needs P r\<close> this(2)] show ?thesis by auto
qed

lemma needs_lit: "needs P (lit w) \<longleftrightarrow> (\<exists>c \<in> set w. P c)"
  by (induction w) auto

lemma needs_lit_i: "\<exists>c \<in> set w. \<forall>d. upper_char d = upper_char c \<longrightarrow> P d \<Longrightarrow> needs P (lit_i w)"
  by (induction w) auto

lemma code_of_upper_char:
  "code_of (upper_char d) = (if 97 \<le> code_of d \<and> code_of d \<le> 122 then code_of d - 32 else code_of d)"
  by (auto simp: upper_char_def)

lemma is_word_upper: "is_word (upper_char c) \<longleftrightarrow> is_word c"
  by (auto simp: is_word_def is_digit_def code_of_upper_char)

lemma upper_char_other:
  assumes "code_of c < 65 \<or> 90 < code_of c" and "code_of c < 97 \<or> 122 < code_of c"
  shows "upper_char d = upper_char c \<longleftrightarrow> d = c"
proof
  assume "upper_char d = upper_char c"
  then have "code_of (upper_char d) = code_of (upper_char c)" by simp
  then have "code_of d = code_of c" using assms by (auto simp: code_of_upper_char split: if_splits)
  then show "d = c" by (metis char_of_code_of)
qed simp

definition slash_or_question :: "char \<Rightarrow> bool" where
  "slash_or_question c \<longleftrightarrow> c = CHR ''/'' \<or> c = CHR ''?''"

lemma needs_lit_slash: "CHR ''/'' \<in> set w \<Longrightarrow> needs slash_or_question (lit_i w)"
  using upper_char_other [of "CHR ''/''"] by (intro needs_lit_i) (auto simp: slash_or_question_def code_of_def)

lemma markers_need: "re \<in> set CONFIRM_MARKERS \<Longrightarrow> needs slash_or_question re"
  unfolding CONFIRM_MARKERS_def
  by (auto simp: needs_lit_slash needs_lit slash_or_question_def simp del: lit.simps lit_i.simps)

text \<open>Trimming keeps what stands between characters that are not white space.\<close>

lemma dropWhile_ws: "\<not> ws (hd v) \<Longrightarrow> v \<noteq> [] \<Longrightarrow> \<exists>a'. dropWhile ws (a @ v @ b) = a' @ v @ b"
proof (induction a)
  case Nil
  then show ?case by (cases v) auto
next
  case (Cons c a)
  then show ?case by (cases "ws c") (auto intro: exI [of _ "c # a"])
qed

lemma trim_middle:
  assumes "v \<noteq> []" and "\<not> ws (hd v)" and "\<not> ws (last v)"
  shows "\<exists>a' b'. trim (a @ v @ b) = a' @ v @ b'"
proof -
  obtain a' where "dropWhile ws (a @ v @ b) = a' @ v @ b" using dropWhile_ws assms by blast
  moreover obtain b' where "dropWhile ws (rev b @ rev v @ rev a') = b' @ rev v @ rev a'"
    using dropWhile_ws [of "rev v" "rev b" "rev a'"] assms by (auto simp: hd_rev)
  ultimately have "trim (a @ v @ b) = a' @ v @ rev b'" by (simp add: trim_def)
  then show ?thesis by blast
qed

lemma yn_marker:
  assumes "toUpperCase v = ''(Y/N)''"
  shows "has_marker (a @ v @ b)"
proof -
  from assms obtain c0 c1 c2 c3 c4 where v: "v = [c0, c1, c2, c3, c4]" and up: "upper_char c0 = CHR ''(''" "upper_char c1 = CHR ''Y''"
    "upper_char c2 = CHR ''/''" "upper_char c3 = CHR ''N''" "upper_char c4 = CHR '')''"
    by (auto simp: toUpperCase_def map_eq_Cons_conv)
  have "is_word c1" "is_word c3" "\<not> is_word c0" "\<not> is_word c4"
    by (subst is_word_upper [symmetric], simp add: up, simp add: is_word_def is_digit_def code_of_def)+
  moreover have "upper_char (CHR ''y'') = CHR ''Y''" "upper_char (CHR ''/'') = CHR ''/''" "upper_char (CHR ''n'') = CHR ''N''"
    by code_simp+
  ultimately have "rx_run (seqs [WordB, lit_i ''y/n'', opt (lit_i ''es''), WordB]) (rev (a @ [c0]), [c1, c2, c3, c4] @ b) \<noteq> []"
    using up by (simp add: opt_def)
  then have "rx_test (seqs [WordB, lit_i ''y/n'', opt (lit_i ''es''), WordB]) (a @ v @ b)"
    unfolding rx_test_iff v by (intro exI [of _ "a @ [c0]"] exI [of _ "[c1, c2, c3, c4] @ b"]) simp
  then show ?thesis unfolding has_marker_def list_ex_iff CONFIRM_MARKERS_def by auto
qed

lemma trim_subset: "set (trim s) \<subseteq> set s"
  by (auto simp: trim_def dest!: set_dropWhileD)

lemma split_lines_subset: "l \<in> set (split_lines s) \<Longrightarrow> set l \<subseteq> set s"
proof (induction s arbitrary: l rule: split_lines.induct)
  case (2 c cs)
  then show ?case by (cases cs) (fastforce split: if_splits list.splits)+
qed simp

lemma apr_excerpt_length: "length (apr_excerpt n s) \<le> n + length ellipsis"
  by (simp add: apr_excerpt_def Let_def length_slice_last)

lemma trim_Nil_iff: "trim s = [] \<longleftrightarrow> (\<forall>c \<in> set s. ws c)"
proof -
  have "trim s = [] \<longleftrightarrow> (\<forall>c \<in> set (dropWhile ws s). ws c)" by (simp add: trim_def)
  also have "\<dots> \<longleftrightarrow> dropWhile ws s = []" using hd_dropWhile [of ws s] by (metis hd_in_set list.set(1) empty_iff)
  finally show ?thesis by simp
qed

lemma includes_upper:
  assumes "str_includes (toUpperCase s) w"
  obtains a v b where "s = a @ v @ b" "toUpperCase v = w"
proof -
  from assms obtain x y where "map upper_char s = x @ w @ y" by (auto simp: includes_iff toUpperCase_def)
  then obtain a r where r: "s = a @ r" "map upper_char r = w @ y" by (metis map_eq_append_conv)
  then obtain v b where "r = v @ b" "map upper_char v = w" by (metis map_eq_append_conv)
  with r that show ?thesis by (simp add: toUpperCase_def)
qed

lemma detect_None_iff:
  "detect chunk = None \<longleftrightarrow> (\<forall>l \<in> set (split_lines (stripAnsi chunk)). trim l \<noteq> [] \<longrightarrow> \<not> has_marker (trim l))"
proof (cases "trim (stripAnsi chunk) = []")
  case True
  have "trim l = []" if "l \<in> set (split_lines (stripAnsi chunk))" for l
    using True split_lines_subset [OF that] by (auto simp: trim_Nil_iff)
  then show ?thesis using True by (simp add: detect_def)
next
  case False
  moreover have "chunk \<noteq> []" using False by (auto simp: stripAnsi_def rx_replace_def rx_replace_from.simps ansi_escape_def)
  moreover have "List.find (\<lambda>i. Q (ls ! i)) [0..<length ls] = None \<longleftrightarrow> (\<forall>l \<in> set ls. \<not> Q l)" for Q and ls :: "string list"
    by (auto simp: find_None_iff all_set_conv_all_nth)
  note find = this [of "\<lambda>l. trim l \<noteq> [] \<and> has_marker (trim l)" "split_lines (stripAnsi chunk)"]
  ultimately show ?thesis using find by (auto simp: detect_def Let_def split: option.splits)
qed

section \<open>Properties\<close>

text \<open>The approval detector asks when it must and only on a question: output with a line that shows
  \<open>(y/n)\<close>, in any case, is always found; what is found contains a slash or a question mark; and the
  reason passed to the hub has at most 240 characters behind an ellipsis.\<close>

theorem detect_asks:
  "((\<exists>l \<in> set (split_lines (stripAnsi chunk)). str_includes (toUpperCase l) ''(Y/N)'') \<longrightarrow> detect chunk \<noteq> None) \<and>
   (\<forall>reason. detect chunk = Some reason \<longrightarrow>
      (CHR ''/'' \<in> set (stripAnsi chunk) \<or> CHR ''?'' \<in> set (stripAnsi chunk)) \<and> length reason \<le> 240 + length ellipsis)"
proof (intro conjI impI allI)
  let ?lines = "split_lines (stripAnsi chunk)"
  assume "\<exists>l \<in> set ?lines. str_includes (toUpperCase l) ''(Y/N)''"
  then obtain l a v b where l: "l \<in> set ?lines" "l = a @ v @ b" "toUpperCase v = ''(Y/N)''"
    by (metis includes_upper)
  then have v: "map upper_char v = ''(Y/N)''" by (simp add: toUpperCase_def)
  have "ws (upper_char c) = ws c" for c by (auto simp: ws_def code_of_upper_char)
  moreover have "upper_char (hd v) = CHR ''(''" "upper_char (last v) = CHR '')''" "v \<noteq> []"
    using v by (auto simp: map_eq_Cons_conv)
  moreover have "\<not> ws (CHR ''('')" "\<not> ws (CHR '')'')" by code_simp+
  ultimately have "v \<noteq> []" "\<not> ws (hd v)" "\<not> ws (last v)" by metis+
  with l obtain a' b' where "trim l = a' @ v @ b'" using trim_middle by blast
  then have "trim l \<noteq> [] \<and> has_marker (trim l)" using yn_marker [OF l(3)] \<open>v \<noteq> []\<close> by simp
  then show "detect chunk \<noteq> None" using l(1) by (auto simp: detect_None_iff)
next
  fix reason assume d: "detect chunk = Some reason"
  then obtain l re where l: "l \<in> set (split_lines (stripAnsi chunk))" "re \<in> set CONFIRM_MARKERS" "rx_test re (trim l)"
    using detect_None_iff [of chunk] by (auto simp: has_marker_def list_ex_iff)
  from needs_test [OF markers_need [OF l(2)] l(3)] obtain c where "c \<in> set (trim l)" "slash_or_question c" by blast
  then show "CHR ''/'' \<in> set (stripAnsi chunk) \<or> CHR ''?'' \<in> set (stripAnsi chunk)"
    using trim_subset split_lines_subset [OF l(1)] by (auto simp: slash_or_question_def)
  show "length reason \<le> 240 + length ellipsis"
    using d apr_excerpt_length [of 240] by (auto simp: detect_def Let_def split: if_splits option.splits)
qed

theorem detect_asks_witness:
  "split_lines (stripAnsi ''Run rm? (Y/n)'') = [''Run rm? (Y/n)''] \<and> detect ''Run rm? (Y/n)'' \<noteq> None"
proof
  show lines: "split_lines (stripAnsi ''Run rm? (Y/n)'') = [''Run rm? (Y/n)'']" by code_simp
  have "str_includes (toUpperCase ''Run rm? (Y/n)'') ''(Y/N)''" by code_simp
  with lines show "detect ''Run rm? (Y/n)'' \<noteq> None" using detect_asks [of "''Run rm? (Y/n)''"] by simp
qed

text \<open>The phrases of the failure detector, spelled out.\<close>

definition capacity_phrases :: "string list" where
  "capacity_phrases =
    [''capacity'', ''quota'', ''usage limit'', ''limit reached'', ''too many requests'', ''try again later'',
     ''temporarily unavailable'', ''model is overloaded'', ''service is overloaded''] @
    [''rate'' @ sep @ ''limit'' @ suf. sep \<leftarrow> [[], '' '', ''-''], suf \<leftarrow> [[], ''ed'', ''s'']]"

text \<open>The states an expression can reach, as a set: concatenation and alternatives become unions.\<close>

definition reach :: "rx \<Rightarrow> string \<times> string \<Rightarrow> (string \<times> string) set" where
  "reach r st = set (rx_run r st)"

lemma reach_simps:
  "reach (Seq r q) st = (\<Union>x \<in> reach r st. reach q x)" "reach (Alt r q) st = reach r st \<union> reach q st" "reach Eps st = {st}"
  by (cases st; simp add: reach_def)+

lemma rx_test_reach: "rx_test r s \<longleftrightarrow> (\<exists>a b. s = a @ b \<and> reach r (rev a, b) \<noteq> {})"
  by (simp add: rx_test_iff reach_def)

lemma reach_lit_i_append: "reach (lit_i (u @ v)) st = (\<Union>x \<in> reach (lit_i u) st. reach (lit_i v) x)"
proof (induction u arbitrary: st)
  case (Cons c u)
  then show ?case by (simp add: reach_simps UN_UN_flatten)
qed (simp add: reach_simps)

lemma rx_test_options:
  "rx_test (seqs [WordB, lit_i u, opt (Alt (lit_i a) (lit_i b)), lit_i v, opt (Alt (lit_i c) (lit_i d)), WordB]) s \<longleftrightarrow>
    (\<exists>m \<in> {[], a, b}. \<exists>e \<in> {[], c, d}. rx_test (word_i (u @ m @ v @ e)) s)"
proof -
  have "reach (seqs [WordB, lit_i u, opt (Alt (lit_i a) (lit_i b)), lit_i v, opt (Alt (lit_i c) (lit_i d)), WordB]) st =
      (\<Union>m \<in> {[], a, b}. \<Union>e \<in> {[], c, d}. reach (word_i (u @ m @ v @ e)) st)" for st
    unfolding seqs.simps word_i_def opt_def
    by (simp add: reach_simps reach_lit_i_append UN_UN_flatten UN_Un UN_Un_distrib) blast
  then show ?thesis unfolding rx_test_reach by auto
qed

lemma rate_limit_words:
  "rx_test rate_limit s \<longleftrightarrow> (\<exists>m \<in> {[], '' '', ''-''}. \<exists>e \<in> {[], ''ed'', ''s''}. has_word (''rate'' @ m @ ''limit'' @ e) s)"
proof -
  have "upper_char d = upper_char (CHR '' '') \<longleftrightarrow> d = CHR '' ''" "upper_char d = upper_char (CHR ''-'') \<longleftrightarrow> d = CHR ''-''" for d
    by (rule upper_char_other; simp add: code_of_def)+
  then have "reach (Cls (\<lambda>c. c = CHR '' '' \<or> c = CHR ''-'')) st = reach (Alt (lit_i '' '') (lit_i ''-'')) st" for st
    unfolding reach_def by (cases st; cases "snd st") auto
  then have "reach rate_limit st = reach (seqs [WordB, lit_i ''rate'', opt (Alt (lit_i '' '') (lit_i ''-'')), lit_i ''limit'',
      opt (Alt (lit_i ''ed'') (lit_i ''s'')), WordB]) st" for st
    unfolding rate_limit_def seqs.simps opt_def reach_simps(1) reach_simps(2) [of _ Eps] by simp
  then have "rx_test rate_limit s \<longleftrightarrow> rx_test (seqs [WordB, lit_i ''rate'', opt (Alt (lit_i '' '') (lit_i ''-'')), lit_i ''limit'',
      opt (Alt (lit_i ''ed'') (lit_i ''s'')), WordB]) s"
    unfolding rx_test_reach by simp
  then show ?thesis unfolding rx_test_options rx_test_word_i .
qed

lemma capacity_patterns_iff:
  "list_ex (\<lambda>re. rx_test re s) CAPACITY_PATTERNS \<longleftrightarrow> (\<exists>w \<in> set capacity_phrases. has_word w s)"
proof -
  have "list_ex (\<lambda>re. rx_test re s) CAPACITY_PATTERNS \<longleftrightarrow> rx_test rate_limit s \<or>
    (\<exists>w \<in> set [''capacity'', ''quota'', ''usage limit'', ''limit reached'', ''too many requests'', ''try again later'',
       ''temporarily unavailable'', ''model is overloaded'', ''service is overloaded'']. rx_test (word_i w) s)"
    unfolding CAPACITY_PATTERNS_def list_ex_iff by auto
  then show ?thesis unfolding rate_limit_words rx_test_word_i capacity_phrases_def by auto
qed

lemma capacity_phrase_nonempty: "\<exists>w \<in> set capacity_phrases. has_word w s \<Longrightarrow> s \<noteq> []"
  by (auto simp: capacity_phrases_def has_word_def toUpperCase_def)

lemma detectStructuredFailure_cases:
  "detectStructuredFailure exitCode signal output =
    (if \<not> (exitCode = Some 0 \<and> signal \<in> {None, Some []}) \<and> (\<exists>w \<in> set capacity_phrases. has_word w (fail_excerpt output))
     then Some \<lparr>fp_category = CAPACITY_EXHAUSTED, fp_retryable = Some True,
            fp_message = Some ''Worker capacity, quota, or rate-limit signal detected.'', fp_detail = Some (fail_excerpt output)\<rparr>
     else None)"
  using capacity_phrase_nonempty by (auto simp: detectStructuredFailure_def Let_def capacity_patterns_iff)

text \<open>C33. The failure detector is exact: a run counts as out of capacity exactly when it did not end with
  code 0 and no signal and one of these phrases stands, in any case and between word boundaries, in
  the last five non-empty lines of the output, of which at most 1200 characters are kept. The result
  always tells the hub that the task may be tried elsewhere.\<close>

theorem detectStructuredFailure_exact:
  "detectStructuredFailure exitCode signal output =
    (if \<not> (exitCode = Some 0 \<and> signal \<in> {None, Some []}) \<and> (\<exists>w \<in> set capacity_phrases. has_word w (fail_excerpt output))
     then Some \<lparr>fp_category = CAPACITY_EXHAUSTED, fp_retryable = Some True,
            fp_message = Some ''Worker capacity, quota, or rate-limit signal detected.'', fp_detail = Some (fail_excerpt output)\<rparr>
     else None) \<and> length (fail_excerpt output) \<le> 1200"
  unfolding detectStructuredFailure_cases by (simp add: fail_excerpt_def Let_def length_slice_last)

end
