(* ===== verification/Js_Json.thy ===== *)
theory Js_Json
  imports Schema Js_Regex
begin

text \<open>
  JSON values as JavaScript sees them: truth, conversion to text by \<open>String\<close>, property access and
  \<open>JSON.stringify\<close>, and the responses of \<open>fetch\<close>. An undefined value is \<open>None\<close>.
\<close>

fun truthy_json :: "json \<Rightarrow> bool" where
  "truthy_json JNull = False"
| "truthy_json (JBool b) = b"
| "truthy_json (JNum n) = (n \<noteq> 0)"
| "truthy_json (JStr s) = (s \<noteq> [])"
| "truthy_json (JArr _) = True"
| "truthy_json (JObj _) = True"

definition truthy :: "json option \<Rightarrow> bool" where
  "truthy v = (case v of None \<Rightarrow> False | Some j \<Rightarrow> truthy_json j)"

text \<open>\<open>v.key\<close>; only objects have properties of the data.\<close>

fun getProp :: "string \<Rightarrow> json \<Rightarrow> json option" where
  "getProp k (JObj kvs) = map_of kvs k"
| "getProp k _ = None"

text \<open>\<open>a ?? b\<close>.\<close>

definition nullish :: "json option \<Rightarrow> bool" where
  "nullish v \<longleftrightarrow> v = None \<or> v = Some JNull"

text \<open>\<open>String(v)\<close>: the elements of an array are joined by commas, with null as the empty text.\<close>

fun js_String :: "json \<Rightarrow> string" where
  "js_String JNull = ''null''"
| "js_String (JBool b) = (if b then ''true'' else ''false'')"
| "js_String (JNum n) = show_int n"
| "js_String (JStr s) = s"
| "js_String (JArr vs) = join '','' (map (\<lambda>v. if v = JNull then [] else js_String v) vs)"
| "js_String (JObj _) = ''[object Object]''"

definition json_char :: "char \<Rightarrow> string" where
  "json_char c =
    (let n = code_of c in
     if n = 34 then [CHR 0x5C, CHR 0x22]
     else if n = 92 then [CHR 0x5C, CHR 0x5C]
     else if n = 8 then [CHR 0x5C, CHR ''b'']
     else if n = 9 then [CHR 0x5C, CHR ''t'']
     else if n = 10 then [CHR 0x5C, CHR ''n'']
     else if n = 12 then [CHR 0x5C, CHR ''f'']
     else if n = 13 then [CHR 0x5C, CHR ''r'']
     else if n < 32 then [CHR 0x5C, CHR ''u'', CHR ''0'', CHR ''0'', hex_digit (n div 16), hex_digit (n mod 16)]
     else [c])"

definition json_quote :: "string \<Rightarrow> string" where
  "json_quote s = [CHR 0x22] @ concat (map json_char s) @ [CHR 0x22]"

fun stringify :: "json \<Rightarrow> string" where
  "stringify JNull = ''null''"
| "stringify (JBool b) = (if b then ''true'' else ''false'')"
| "stringify (JNum n) = show_int n"
| "stringify (JStr s) = json_quote s"
| "stringify (JArr vs) = ''['' @ join '','' (map stringify vs) @ '']''"
| "stringify (JObj kvs) = ''{'' @ join '','' (map (\<lambda>kv. json_quote (fst kv) @ '':'' @ stringify (snd kv)) kvs) @ ''}''"

section \<open>Responses\<close>

text \<open>A response with its body: no text, a text that \<open>JSON.parse\<close> refuses with an error, or a value.\<close>

record http_resp =
  hr_status :: int
  hr_ok :: bool
  hr_body :: "(string + json) option"

section \<open>Lemmas\<close>

lemma json_char_absent: "code_of c \<noteq> 92 \<Longrightarrow> c \<noteq> d \<Longrightarrow> code_of c > 122 \<Longrightarrow> c \<notin> set (json_char d)"
  by (auto simp: json_char_def Let_def hex_digit_def code_of_def)

end
