(* ===== verification/Spawn_Plan.thy ===== *)
theory Spawn_Plan
  imports Js_Json
begin

text \<open>
  How the agent daemon turns its configuration and a task's input into a command:
  \<^verbatim>\<open>agent-daemon/src/config.js\<close> and the template functions at the top of
  \<^verbatim>\<open>agent-daemon/src/runner.js\<close>. Shown: the tokenizer reads back any list of well-formed tokens, the
  default command passes the prompt as one argument of its own, and in shell mode a prompt that
  names a later placeholder escapes from its quotes.
\<close>

section \<open>Configuration (config.js)\<close>

definition DEFAULT_COMMAND_TEMPLATE :: string where
  "DEFAULT_COMMAND_TEMPLATE = ''codex exec '' @ [CHR 0x22] @ ''{{prompt}}'' @ [CHR 0x22]"

type_synonym env = "string \<Rightarrow> string option"

record daemon_config =
  cfg_hubUrl :: string
  cfg_apiKey :: string
  cfg_serverId :: string
  cfg_commandTemplate :: string
  cfg_cwd :: string
  cfg_useShell :: bool
  cfg_heartbeatIntervalMs :: int
  cfg_debugSocket :: bool

definition required :: "env \<Rightarrow> string \<Rightarrow> string + string" where
  "required env name =
    (case env name of
       None \<Rightarrow> Inl (''Missing required env var '' @ name @
          '' (see agent-daemon/.env.example). Set it in your .env or environment.'')
     | Some value \<Rightarrow>
         if trim value = [] then Inl (''Missing required env var '' @ name @
           '' (see agent-daemon/.env.example). Set it in your .env or environment.'')
         else Inr (trim value))"

definition env_int :: "env \<Rightarrow> string \<Rightarrow> int \<Rightarrow> int" where
  "env_int env name fallback =
    (case env name of
       None \<Rightarrow> fallback
     | Some raw \<Rightarrow> if raw = [] then fallback else (case parseInt raw of None \<Rightarrow> fallback | Some n \<Rightarrow> n))"

text \<open>\<open>process.env.X || d\<close>.\<close>

definition env_or :: "env \<Rightarrow> string \<Rightarrow> string \<Rightarrow> string" where
  "env_or env name d = (case env name of None \<Rightarrow> d | Some v \<Rightarrow> if v = [] then d else v)"

definition load_config :: "env \<Rightarrow> string \<Rightarrow> string + daemon_config" where
  "load_config env cwd =
    (case required env ''HUB_URL'' of
       Inl e \<Rightarrow> Inl e
     | Inr hubUrl \<Rightarrow>
         (case required env ''API_KEY'' of
            Inl e \<Rightarrow> Inl e
          | Inr apiKey \<Rightarrow>
              Inr \<lparr>cfg_hubUrl = hubUrl, cfg_apiKey = apiKey,
                cfg_serverId = env_or env ''SERVER_ID'' ''daemon'',
                cfg_commandTemplate = env_or env ''CODEX_COMMAND_TEMPLATE'' DEFAULT_COMMAND_TEMPLATE,
                cfg_cwd = env_or env ''CODEX_EXEC_CWD'' cwd,
                cfg_useShell = (env_or env ''CODEX_USE_SHELL'' ''0'' = ''1''),
                cfg_heartbeatIntervalMs = env_int env ''HEARTBEAT_INTERVAL_MS'' 30000,
                cfg_debugSocket = (env_int env ''DEBUG_SOCKET'' 0 = 1)\<rparr>))"

section \<open>Command templates (runner.js)\<close>

definition backslash :: char where
  "backslash = CHR 0x5C"

definition dquote :: char where
  "dquote = CHR 0x22"

definition squote :: char where
  "squote = CHR 0x27"

text \<open>The loop of \<open>tokenize\<close>: the text still to read, the current token and whether a quote is open.\<close>

fun tokenize_loop :: "string \<Rightarrow> string \<Rightarrow> bool \<Rightarrow> string list" where
  "tokenize_loop [] current inQuotes = (if current = [] then [] else [current])"
| "tokenize_loop (ch # rest) current inQuotes =
    (if ch = backslash \<and> rest \<noteq> [] then tokenize_loop (tl rest) (current @ [ch, hd rest]) inQuotes
     else if ch = dquote then tokenize_loop rest (current @ [ch]) (\<not> inQuotes)
     else if ws ch \<and> \<not> inQuotes
     then (if current = [] then tokenize_loop rest [] inQuotes else current # tokenize_loop rest [] inQuotes)
     else tokenize_loop rest (current @ [ch]) inQuotes)"

definition tokenize :: "string \<Rightarrow> string list" where
  "tokenize template = tokenize_loop template [] False"

definition stripOuterQuotes :: "string \<Rightarrow> string" where
  "stripOuterQuotes token =
    (if length token \<ge> 2 \<and> startsWith token [dquote] \<and> endsWith token [dquote]
     then butlast (tl token)
     else filter (\<lambda>c. c \<noteq> dquote) token)"

definition quote_escape :: "string \<Rightarrow> string" where
  "quote_escape v = concat (map (\<lambda>c. if c = squote then [squote, backslash, squote, squote] else [c]) v)"

definition shellEscape :: "string \<Rightarrow> string" where
  "shellEscape v = [squote] @ quote_escape v @ [squote]"

definition placeholder :: "string \<Rightarrow> string" where
  "placeholder key = ''{{'' @ key @ ''}}''"

fun substitute :: "string \<Rightarrow> (string \<times> string) list \<Rightarrow> string" where
  "substitute out [] = out"
| "substitute out ((key, value) # rest) =
    substitute (if str_includes out (placeholder key) then replace_all (placeholder key) value out else out) rest"

record spawn_plan =
  pl_shell :: bool
  pl_command :: string
  pl_args :: "string list"

definition placeholders :: "json option \<Rightarrow> daemon_config \<Rightarrow> (string \<times> string) list" where
  "placeholders input config =
    [(''prompt'', if truthy input then (case getProp ''prompt'' (the input) of None \<Rightarrow> [] | Some p \<Rightarrow> js_String p) else []),
     (''input'', stringify (if nullish input then JObj [] else the input)),
     (''cwd'', cfg_cwd config)]"

definition buildSpawnPlan :: "json option \<Rightarrow> daemon_config \<Rightarrow> string + spawn_plan" where
  "buildSpawnPlan input config =
    (if cfg_useShell config
     then Inr \<lparr>pl_shell = True,
       pl_command = foldl (\<lambda>command (key, value). replace_all (placeholder key) (shellEscape value) command)
         (cfg_commandTemplate config) (placeholders input config),
       pl_args = []\<rparr>
     else let tokens = map (\<lambda>t. stripOuterQuotes (substitute t (placeholders input config))) (tokenize (cfg_commandTemplate config))
       in if tokens = [] then Inl (''Empty command template: '' @ cfg_commandTemplate config)
          else Inr \<lparr>pl_shell = False, pl_command = hd tokens, pl_args = tl tokens\<rparr>)"

section \<open>Lemmas\<close>

text \<open>Reading a text inside a token: \<open>None\<close> when unquoted white space or a dangling backslash would
  end the token, otherwise whether a quote is open behind it.\<close>

fun token_scan :: "string \<Rightarrow> bool \<Rightarrow> bool option" where
  "token_scan [] q = Some q"
| "token_scan (c # cs) q =
    (if c = backslash then (if cs = [] then None else token_scan (tl cs) q)
     else if c = dquote then token_scan cs (\<not> q)
     else if ws c \<and> \<not> q then None
     else token_scan cs q)"

definition well_formed_token :: "string \<Rightarrow> bool" where
  "well_formed_token t \<longleftrightarrow> t \<noteq> [] \<and> token_scan t False = Some False"

lemma tokenize_scan:
  "token_scan s q = Some q' \<Longrightarrow> tokenize_loop (s @ r) cur q = tokenize_loop r (cur @ s) q'"
proof (induction s q arbitrary: cur rule: token_scan.induct)
  case (2 c cs q)
  show ?case
  proof (cases "c = backslash")
    case True
    then obtain d ds where "cs = d # ds" using 2 by (cases cs) auto
    with True 2 show ?thesis by simp
  next
    case False
    with 2 show ?thesis by (auto split: if_splits)
  qed
qed simp

lemma tokenize_sep:
  assumes "well_formed_token t"
  shows "tokenize (t @ '' '' @ s) = t # tokenize s" "tokenize t = [t]"
  using assms tokenize_scan [of t False False "'' '' @ s" "[]"] tokenize_scan [of t False False "[]" "[]"]
  by (simp_all add: tokenize_def well_formed_token_def backslash_def dquote_def ws_def code_of_def)

lemma replace_all_skip:
  assumes "c \<notin> set a"
  shows "replace_all (c # sub) t (a @ s) = a @ replace_all (c # sub) t s"
  using assms by (induction a) (auto simp: replace_all_step startsWith_def)

lemma replace_all_Nil: "replace_all (c # sub) t [] = []"
  by (simp add: replace_all_def split_str.simps)

lemma includes_quoted:
  assumes "\<not> str_includes p k" and "d \<notin> set k" and "k \<noteq> []"
  shows "\<not> str_includes (d # p @ [d]) k"
proof
  assume "str_includes (d # p @ [d]) k"
  then obtain a b where ab: "d # p @ [d] = a @ k @ b" by (auto simp: includes_iff)
  have "a \<noteq> []" using ab assms(2,3) by (cases k) auto
  then obtain a' where a: "a = d # a'" using ab by (cases a) auto
  have "b \<noteq> []"
  proof
    assume "b = []"
    then have "last (a @ k @ b) = last k" using assms(3) by simp
    then have "last k = d" using ab by (metis last.simps last_snoc append_is_Nil_conv not_Cons_self2)
    then show False using assms(2,3) last_in_set by blast
  qed
  then obtain b' where "b = b' @ [d]" using ab by (metis append_butlast_last_id last.simps last_append last_snoc append_is_Nil_conv)
  then have "p = a' @ k @ b'" using ab a by simp
  then show False using assms(1) by (auto simp: includes_iff)
qed

lemma default_tokens: "tokenize DEFAULT_COMMAND_TEMPLATE = [''codex'', ''exec'', [dquote] @ placeholder ''prompt'' @ [dquote]]"
  unfolding DEFAULT_COMMAND_TEMPLATE_def placeholder_def by code_simp

lemma substitute_absent: "\<forall>(k, v) \<in> set ps. \<not> str_includes s (placeholder k) \<Longrightarrow> substitute s ps = s"
  by (induction ps) auto

lemma stripOuterQuotes_quoted: "stripOuterQuotes (dquote # p @ [dquote]) = p"
  by (simp add: stripOuterQuotes_def startsWith_def endsWith_def)

lemma stripOuterQuotes_plain: "dquote \<notin> set s \<Longrightarrow> stripOuterQuotes s = s"
  by (cases s) (auto simp: stripOuterQuotes_def startsWith_def filter_id_conv)

lemma quote_escape_append [simp]: "quote_escape (a @ b) = quote_escape a @ quote_escape b"
  by (simp add: quote_escape_def)

lemma quote_escape_Cons:
  "quote_escape (c # s) = (if c = squote then [squote, backslash, squote, squote] else [c]) @ quote_escape s"
  by (simp add: quote_escape_def)

lemma json_char_plain: "32 \<le> code_of c \<Longrightarrow> code_of c \<noteq> 34 \<Longrightarrow> code_of c \<noteq> 92 \<Longrightarrow> json_char c = [c]"
  by (simp add: json_char_def Let_def)



lemma brace_quote_escape: "CHR ''{'' \<notin> set a \<Longrightarrow> CHR ''{'' \<notin> set (quote_escape a)"
  by (auto simp: quote_escape_def squote_def backslash_def split: if_splits)

lemma brace_json: "CHR ''{'' \<notin> set a \<Longrightarrow> CHR ''{'' \<notin> set (concat (map json_char a))"
proof -
  assume a: "CHR ''{'' \<notin> set a"
  have "code_of (CHR ''{'') = 123" by code_simp
  then have "CHR ''{'' \<notin> set (json_char d)" if "d \<in> set a" for d
    using a that by (intro json_char_absent) auto
  then show ?thesis by auto
qed

text \<open>A text in which \<open>{{cwd}}\<close> does not occur: the JSON of an input with a single prompt.\<close>

lemma replace_cwd_json:
  assumes "CHR ''{'' \<notin> set a" and "CHR ''{'' \<notin> set b" and "CHR ''{'' \<notin> set c"
  shows "replace_all (placeholder ''cwd'') t (a @ ''{'' @ [dquote] @ b @ ''{{input}}'' @ c) = a @ ''{'' @ [dquote] @ b @ ''{{input}}'' @ c"
proof -
  let ?r = "replace_all (CHR ''{'' # ''{cwd}}'') t"
  have "?r c = c" using replace_all_skip [OF assms(3), of "''{cwd}}''" t "[]"] by (simp add: replace_all_Nil)
  then have "?r (''input}}'' @ c) = ''input}}'' @ c" using replace_all_skip [of "CHR ''{''" "''input}}''" "''{cwd}}''" t c] by simp
  then have "?r (''{{input}}'' @ c) = ''{{input}}'' @ c" by (simp add: replace_all_step startsWith_def)
  then have "?r (([dquote] @ b) @ ''{{input}}'' @ c) = ([dquote] @ b) @ ''{{input}}'' @ c"
    by (subst replace_all_skip) (use assms(2) in \<open>simp_all add: dquote_def\<close>)
  then have "?r (''{'' @ [dquote] @ b @ ''{{input}}'' @ c) = ''{'' @ [dquote] @ b @ ''{{input}}'' @ c"
    by (simp add: replace_all_step startsWith_def dquote_def)
  then show ?thesis using replace_all_skip [OF assms(1)] by (simp add: placeholder_def)
qed

section \<open>Properties\<close>

text \<open>The tokenizer reads back what was written: any tokens without unquoted white space, with
  balanced quotes and no dangling backslash, joined by single spaces, are returned unchanged and in
  order.\<close>

theorem tokenize_join:
  assumes "\<forall>t \<in> set ts. well_formed_token t"
  shows "tokenize (join '' '' ts) = ts"
  using assms
proof (induction ts)
  case (Cons t ts)
  show ?case
  proof (cases ts)
    case Nil
    then show ?thesis using Cons.prems tokenize_sep(2) by simp
  next
    case (Cons u us)
    with Cons.prems Cons.IH show ?thesis by (simp add: tokenize_sep(1) [simplified])
  qed
qed (simp add: tokenize_def)

theorem tokenize_join_witness:
  "tokenize (join '' '' [''codex'', ''exec'', [dquote] @ ''a b'' @ [dquote]]) = [''codex'', ''exec'', [dquote] @ ''a b'' @ [dquote]]"
proof (rule tokenize_join)
  show "\<forall>t \<in> set [''codex'', ''exec'', [dquote] @ ''a b'' @ [dquote]]. well_formed_token t" by code_simp
qed

text \<open>The plan of the default template; its argument is the prompt when that names no placeholder.\<close>

lemma default_plan:
  assumes "\<not> cfg_useShell config" and "cfg_commandTemplate config = DEFAULT_COMMAND_TEMPLATE"
    and "map_of kvs ''prompt'' = Some (JStr p)"
    and "a = stripOuterQuotes (substitute ([dquote] @ placeholder ''prompt'' @ [dquote]) (placeholders (Some (JObj kvs)) config))"
  shows "buildSpawnPlan (Some (JObj kvs)) config = Inr \<lparr>pl_shell = False, pl_command = ''codex'', pl_args = [''exec'', a]\<rparr>"
    and "\<not> str_includes p ''{{input}}'' \<Longrightarrow> \<not> str_includes p ''{{cwd}}'' \<Longrightarrow> a = p"
proof -
  let ?ps = "placeholders (Some (JObj kvs)) config"
  obtain i where ps: "?ps = [(''prompt'', p), (''input'', i), (''cwd'', cfg_cwd config)]"
    using assms(3) by (simp add: placeholders_def truthy_def)
  have keys: "substitute s ?ps = s" if "CHR ''{'' \<notin> set s" for s
    by (rule substitute_absent) (use that in \<open>auto simp: ps placeholder_def includes_iff\<close>)
  have plain: "stripOuterQuotes (substitute ''codex'' ?ps) = ''codex''" "stripOuterQuotes (substitute ''exec'' ?ps) = ''exec''"
    by (simp_all add: keys stripOuterQuotes_plain dquote_def)
  then show "buildSpawnPlan (Some (JObj kvs)) config = Inr \<lparr>pl_shell = False, pl_command = ''codex'', pl_args = [''exec'', a]\<rparr>"
    using assms(1,2) by (simp add: buildSpawnPlan_def Let_def default_tokens assms(4))
  assume that: "\<not> str_includes p ''{{input}}''" "\<not> str_includes p ''{{cwd}}''"
  have "replace_all (placeholder ''prompt'') p ([dquote] @ placeholder ''prompt'' @ [dquote]) = dquote # p @ [dquote]"
    using replace_all_skip [of "CHR ''{''" "[dquote]" "''{prompt}}''" p "placeholder ''prompt'' @ [dquote]"]
      replace_all_here [of "placeholder ''prompt''" p "[dquote]"] replace_all_skip [of "CHR ''{''" "[dquote]" "''{prompt}}''" p "[]"]
    by (simp add: placeholder_def replace_all_Nil dquote_def)
  moreover have "str_includes ([dquote] @ placeholder ''prompt'' @ [dquote]) (placeholder ''prompt'')"
    by (auto simp: includes_iff intro: exI [of _ "[dquote]"])
  moreover have "\<not> str_includes (dquote # p @ [dquote]) (placeholder ''input'')" "\<not> str_includes (dquote # p @ [dquote]) (placeholder ''cwd'')"
    using that by (intro includes_quoted; simp add: placeholder_def dquote_def)+
  ultimately show "a = p" by (simp add: assms(4) ps stripOuterQuotes_quoted)
qed

text \<open>The default command is safe from its prompt: whatever the prompt is, spaces, quotes and
  backslashes included, the child is \<open>codex\<close> with exactly two arguments, \<open>exec\<close> and one that carries
  the prompt; and the prompt arrives unchanged unless it names another placeholder.\<close>

theorem default_plan_prompt:
  assumes "\<not> cfg_useShell config" and "cfg_commandTemplate config = DEFAULT_COMMAND_TEMPLATE"
    and "map_of kvs ''prompt'' = Some (JStr p)"
  shows "\<exists>a. buildSpawnPlan (Some (JObj kvs)) config = Inr \<lparr>pl_shell = False, pl_command = ''codex'', pl_args = [''exec'', a]\<rparr> \<and>
    (\<not> str_includes p ''{{input}}'' \<and> \<not> str_includes p ''{{cwd}}'' \<longrightarrow> a = p)"
  using default_plan [OF assms refl] by blast

definition demo_config :: daemon_config where
  "demo_config = \<lparr>cfg_hubUrl = ''http://h'', cfg_apiKey = ''k'', cfg_serverId = ''s'', cfg_commandTemplate = DEFAULT_COMMAND_TEMPLATE,
     cfg_cwd = ''/w'', cfg_useShell = False, cfg_heartbeatIntervalMs = 30000, cfg_debugSocket = False\<rparr>"

theorem default_plan_prompt_witness:
  "buildSpawnPlan (Some (JObj [(''prompt'', JStr ''rm -rf $(x)'')])) demo_config =
     Inr \<lparr>pl_shell = False, pl_command = ''codex'', pl_args = [''exec'', ''rm -rf $(x)'']\<rparr>"
proof -
  have "\<not> str_includes ''rm -rf $(x)'' ''{{input}}''" "\<not> str_includes ''rm -rf $(x)'' ''{{cwd}}''" by code_simp+
  then show ?thesis
    using default_plan_prompt [of demo_config "[(''prompt'', JStr ''rm -rf $(x)'')]" "''rm -rf $(x)''"] by (auto simp: demo_config_def)
qed

text \<open>C32. In shell mode the quoting can be escaped: the placeholders are replaced one after the other, so
  a prompt that names \<open>{{input}}\<close> has the whole input inserted between a closing and an opening
  quote, where the shell reads it unquoted.\<close>

theorem shell_prompt_escapes_quotes:
  assumes "cfg_useShell config" and "cfg_commandTemplate config = pre @ ''{{prompt}}''"
    and "CHR ''{'' \<notin> set pre" and "CHR ''{'' \<notin> set p" and "CHR ''{'' \<notin> set q"
    and "input = JObj [(''prompt'', JStr (p @ ''{{input}}'' @ q))]"
  shows "\<exists>plan. buildSpawnPlan (Some input) config = Inr plan \<and> pl_shell plan \<and>
    pl_command plan = pre @ ([squote] @ quote_escape p @ [squote]) @ quote_escape (stringify input) @
      ([squote] @ quote_escape q @ [squote])"
proof -
  let ?s = "p @ ''{{input}}'' @ q" and ?sq = "[squote]"
  define b where "b = quote_escape (''prompt'' @ [dquote] @ '':'' @ [dquote] @ concat (map json_char p))"
  define c where "c = quote_escape (concat (map json_char q) @ [dquote] @ ''}'')"
  have free: "CHR ''{'' \<notin> set (quote_escape p)" "CHR ''{'' \<notin> set (quote_escape q)" "CHR ''{'' \<notin> set b" "CHR ''{'' \<notin> set c" "CHR ''{'' \<notin> set ?sq"
    unfolding b_def c_def using brace_json [OF assms(4)] brace_json [OF assms(5)] assms(4,5)
    by (intro brace_quote_escape; simp add: dquote_def squote_def del: set_concat)+ (simp add: squote_def)
  have J: "quote_escape (stringify input) = ''{'' @ [dquote] @ b @ ''{{input}}'' @ c"
    by (simp add: assms(6) json_quote_def b_def c_def quote_escape_Cons json_char_plain code_of_def squote_def dquote_def)
  have "replace_all (placeholder ''prompt'') (shellEscape ?s) (pre @ ''{{prompt}}'') = pre @ shellEscape ?s"
    using replace_all_skip [OF assms(3), of "''{prompt}}''"] replace_all_here [of "''{{prompt}}''" "shellEscape ?s" "[]"]
    by (simp add: placeholder_def replace_all_Nil)
  also have "\<dots> = (pre @ ?sq @ quote_escape p) @ ''{{input}}'' @ quote_escape q @ ?sq"
    by (simp add: shellEscape_def quote_escape_Cons squote_def)
  finally have one: "replace_all (placeholder ''prompt'') (shellEscape ?s) (pre @ ''{{prompt}}'') = \<dots>" .
  have "replace_all (placeholder ''input'') t ((pre @ ?sq @ quote_escape p) @ ''{{input}}'' @ quote_escape q @ ?sq) =
      (pre @ ?sq @ quote_escape p) @ t @ quote_escape q @ ?sq" for t
    using replace_all_skip [of "CHR ''{''" "pre @ ?sq @ quote_escape p" "''{input}}''" t] replace_all_here [of "''{{input}}''" t "quote_escape q @ ?sq"]
      replace_all_skip [of "CHR ''{''" "quote_escape q @ ?sq" "''{input}}''" t "[]"] free assms(3)
    by (simp add: placeholder_def replace_all_Nil)
  note two = this [of "shellEscape (stringify input)"]
  have three: "replace_all (placeholder ''cwd'') t ((pre @ ?sq @ quote_escape p @ ?sq) @ ''{'' @ [dquote] @ b @ ''{{input}}'' @ c @ ?sq @ quote_escape q @ ?sq) =
      (pre @ ?sq @ quote_escape p @ ?sq) @ ''{'' @ [dquote] @ b @ ''{{input}}'' @ c @ ?sq @ quote_escape q @ ?sq" for t
    by (rule replace_cwd_json) (use free assms(3) in auto)
  show ?thesis
    using assms(1,2) one two three J
    by (simp add: buildSpawnPlan_def placeholders_def truthy_def nullish_def assms(6) shellEscape_def)
qed

theorem shell_prompt_escapes_quotes_witness:
  "\<exists>plan. buildSpawnPlan (Some (JObj [(''prompt'', JStr (''$(id)'' @ ''{{input}}'' @ []))]))
      (demo_config\<lparr>cfg_useShell := True, cfg_commandTemplate := ''run '' @ ''{{prompt}}''\<rparr>) = Inr plan \<and>
    pl_command plan = ''run '' @ ([squote] @ ''$(id)'' @ [squote]) @
      quote_escape (stringify (JObj [(''prompt'', JStr (''$(id)'' @ ''{{input}}'' @ []))])) @ ([squote] @ [] @ [squote])"
proof -
  have "quote_escape ''$(id)'' = ''$(id)''" "quote_escape [] = []" by code_simp+
  then show ?thesis
    using shell_prompt_escapes_quotes [of "demo_config\<lparr>cfg_useShell := True, cfg_commandTemplate := ''run '' @ ''{{prompt}}''\<rparr>"
        "''run ''" "''$(id)''" "[]" "JObj [(''prompt'', JStr (''$(id)'' @ ''{{input}}'' @ []))]"] by auto
qed

end
