(* ===== verification/Daemon.thy ===== *)
theory Daemon
  imports Detectors Spawn_Plan Tasks
begin

text \<open>
  The agent daemon on a worker machine: \<^verbatim>\<open>agent-daemon/src/runner.js\<close> (one child process per task),
  \<^verbatim>\<open>client.js\<close> (the connection to the hub, its offline buffer and the running tasks) and
  \<^verbatim>\<open>index.js\<close> (start and signals). The state is one record: the socket, the buffer, what was handed to
  the socket, the map of running tasks and the runner objects, which outlive their map entry because
  the child's callbacks refer to them. A step function takes the events: from the hub, from the
  children, from the timer and from the operating system.
\<close>

section \<open>State\<close>

datatype daemon_emit =
  EmitHeartbeat
| EmitStatus status_payload
| EmitLog log_payload
| EmitResult result_payload
| EmitApproval approval_payload

record child =
  ch_exitCode :: "int option"
  ch_stdinEnded :: bool
  ch_stdinDestroyed :: bool
  ch_stdin :: "string list"
  ch_signals :: "string list"

record runner =
  rn_taskId :: string
  rn_input :: "json option"
  rn_child :: "child option"
  rn_awaitingApproval :: bool
  rn_killedByHub :: bool
  rn_lastChunk :: string
  rn_tail :: string
  rn_exitHandled :: bool

record daemon =
  dm_socket :: "bool option"
  dm_buffer :: "daemon_emit list"
  dm_sent :: "daemon_emit list"
  dm_runners :: "(string \<times> nat) list"
  dm_objs :: "runner list"
  dm_heartbeatTimer :: bool
  dm_exit :: "int option"

definition TAIL_LIMIT :: nat where
  "TAIL_LIMIT = 8192"

definition RESUME_INPUT :: string where
  "RESUME_INPUT = ''y'' @ nl"

definition newRunner :: "string \<Rightarrow> json option \<Rightarrow> runner" where
  "newRunner taskId input = \<lparr>rn_taskId = taskId, rn_input = input, rn_child = None, rn_awaitingApproval = False,
     rn_killedByHub = False, rn_lastChunk = [], rn_tail = [], rn_exitHandled = False\<rparr>"

definition newDaemon :: daemon where
  "newDaemon = \<lparr>dm_socket = None, dm_buffer = [], dm_sent = [], dm_runners = [], dm_objs = [],
     dm_heartbeatTimer = False, dm_exit = None\<rparr>"

definition runner_of :: "daemon \<Rightarrow> nat \<Rightarrow> runner" where
  "runner_of d ob = dm_objs d ! ob"

definition set_runner :: "nat \<Rightarrow> runner \<Rightarrow> daemon \<Rightarrow> daemon" where
  "set_runner ob r d = d\<lparr>dm_objs := (dm_objs d)[ob := r]\<rparr>"

section \<open>The connection (client.js)\<close>

definition emit :: "daemon_emit \<Rightarrow> daemon \<Rightarrow> daemon" where
  "emit ev d =
    (if dm_socket d = Some True then d\<lparr>dm_sent := dm_sent d @ [ev]\<rparr>
     else d\<lparr>dm_buffer := dm_buffer d @ [ev]\<rparr>)"

definition flushBuffer :: "daemon \<Rightarrow> daemon" where
  "flushBuffer d =
    (if dm_buffer d = [] then d
     else d\<lparr>dm_buffer := [], dm_sent := dm_sent d @ dm_buffer d\<rparr>)"

definition dropTask :: "string \<Rightarrow> daemon \<Rightarrow> daemon" where
  "dropTask taskId d = d\<lparr>dm_runners := filter (\<lambda>e. fst e \<noteq> taskId) (dm_runners d)\<rparr>"

section \<open>The runner (runner.js)\<close>

definition failure_json :: "failure_payload \<Rightarrow> json" where
  "failure_json f =
    JObj [(''category'', JStr (case fp_category f of CAPACITY_EXHAUSTED \<Rightarrow> ''CAPACITY_EXHAUSTED''
            | PROCESS_ERROR \<Rightarrow> ''PROCESS_ERROR'' | UNKNOWN \<Rightarrow> ''UNKNOWN'')),
      (''retryable'', case fp_retryable f of None \<Rightarrow> JNull | Some b \<Rightarrow> JBool b),
      (''message'', case fp_message f of None \<Rightarrow> JNull | Some m \<Rightarrow> JStr m),
      (''detail'', case fp_detail f of None \<Rightarrow> JNull | Some m \<Rightarrow> JStr m)]"

definition with_failure :: "failure_payload option \<Rightarrow> (string \<times> json) list" where
  "with_failure v = (case v of None \<Rightarrow> [] | Some f \<Rightarrow> [(''failure'', failure_json f)])"

definition finishFailed :: "nat \<Rightarrow> string \<Rightarrow> daemon \<Rightarrow> daemon" where
  "finishFailed ob reason d =
    (let r = runner_of d ob in
     if rn_exitHandled r then d
     else let d1 = set_runner ob (r\<lparr>rn_exitHandled := True\<rparr>) d;
              failure = detectStructuredFailure None None reason
          in dropTask (rn_taskId r) (emit (EmitResult \<lparr>rp_taskId = rn_taskId r, rp_status = RS_FAILED, rp_failure = failure,
               rp_result = Some (JObj ([(''error'', JStr reason)] @ with_failure failure))\<rparr>) d1))"

text \<open>The operating system's \<open>spawn\<close> is a parameter: the message of the error it throws, if any. The
  child's standard input is ended as soon as it has started.\<close>

definition start :: "(spawn_plan \<Rightarrow> string \<Rightarrow> string option) \<Rightarrow> daemon_config \<Rightarrow> nat \<Rightarrow> daemon \<Rightarrow> (string + unit) \<times> daemon" where
  "start spawn config ob d =
    (let r = runner_of d ob in
     case buildSpawnPlan (rn_input r) config of
       Inl e \<Rightarrow> (Inl e, d)
     | Inr plan \<Rightarrow>
         (case spawn plan (cfg_cwd config) of
            Some msg \<Rightarrow> (Inr (), finishFailed ob (''spawn failed: '' @ msg) d)
          | None \<Rightarrow>
              (Inr (), emit (EmitStatus \<lparr>sp_taskId = rn_taskId r, sp_status = DS_RUNNING\<rparr>)
                (set_runner ob (r\<lparr>rn_child := Some \<lparr>ch_exitCode = None, ch_stdinEnded = True, ch_stdinDestroyed = False, ch_stdin = [],
                   ch_signals = []\<rparr>\<rparr>) d))))"

definition onData :: "nat \<Rightarrow> string \<Rightarrow> daemon \<Rightarrow> daemon" where
  "onData ob chunk d =
    (let r = (runner_of d ob)\<lparr>rn_lastChunk := chunk, rn_tail := slice_last TAIL_LIMIT (rn_tail (runner_of d ob) @ chunk)\<rparr>;
         d1 = emit (EmitLog \<lparr>lp_taskId = rn_taskId r, lp_chunk = chunk\<rparr>) (set_runner ob r d)
     in if rn_awaitingApproval r then d1
        else case detect (rn_tail r) of
          None \<Rightarrow> d1
        | Some reason \<Rightarrow>
            emit (EmitApproval \<lparr>pl_taskId = rn_taskId r, pl_reason = reason\<rparr>)
              (set_runner ob (r\<lparr>rn_awaitingApproval := True\<rparr>) d1))"

text \<open>Writing to an ended stream makes it emit an error event; nothing listens to it, so the process ends.\<close>

definition resume :: "nat \<Rightarrow> daemon \<Rightarrow> daemon" where
  "resume ob d =
    (let r = (runner_of d ob)\<lparr>rn_awaitingApproval := False, rn_tail := []\<rparr> in
     case rn_child r of
       None \<Rightarrow> set_runner ob r d
     | Some c \<Rightarrow>
         if ch_exitCode c \<noteq> None then set_runner ob r d
         else if ch_stdinDestroyed c then set_runner ob r d
         else if ch_stdinEnded c then (set_runner ob r d)\<lparr>dm_exit := Some 1\<rparr>
         else set_runner ob (r\<lparr>rn_child := Some (c\<lparr>ch_stdin := ch_stdin c @ [RESUME_INPUT]\<rparr>)\<rparr>) d)"

definition kill_runner :: "nat \<Rightarrow> daemon \<Rightarrow> daemon" where
  "kill_runner ob d =
    (let r = (runner_of d ob)\<lparr>rn_killedByHub := True\<rparr> in
     case rn_child r of
       None \<Rightarrow> set_runner ob r d
     | Some c \<Rightarrow>
         if ch_exitCode c \<noteq> None then set_runner ob r d
         else set_runner ob (r\<lparr>rn_child := Some (c\<lparr>ch_signals := ch_signals c @ [''SIGTERM'']\<rparr>)\<rparr>) d)"

definition decide_runner :: "nat \<Rightarrow> bool \<Rightarrow> daemon \<Rightarrow> daemon" where
  "decide_runner ob approved d =
    (if approved then (if rn_awaitingApproval (runner_of d ob) then resume ob d else d)
     else kill_runner ob d)"

definition onClose :: "nat \<Rightarrow> int option \<Rightarrow> string option \<Rightarrow> daemon \<Rightarrow> daemon" where
  "onClose ob code signal d =
    (let r = runner_of d ob in
     if rn_exitHandled r then d
     else let d1 = set_runner ob (r\<lparr>rn_exitHandled := True\<rparr>) d in
       if rn_killedByHub r then dropTask (rn_taskId r) d1
       else let no_signal = (signal = None \<or> signal = Some []);
                ok = (code = Some 0 \<and> no_signal);
                failure = detectStructuredFailure code signal (if rn_tail r = [] then rn_lastChunk r else rn_tail r)
            in dropTask (rn_taskId r) (emit (EmitResult \<lparr>rp_taskId = rn_taskId r,
                 rp_status = (if ok then RS_COMPLETED else RS_FAILED), rp_failure = failure,
                 rp_result = Some (JObj ([(''exitCode'', case code of None \<Rightarrow> JNull | Some n \<Rightarrow> JNum n),
                   (''signal'', if no_signal then JNull else JStr (the signal)),
                   (''lastChunk'', JStr (rn_lastChunk r))] @ with_failure failure))\<rparr>) d1))"

definition onChildError :: "nat \<Rightarrow> string \<Rightarrow> daemon \<Rightarrow> daemon" where
  "onChildError ob msg d =
    (if rn_exitHandled (runner_of d ob) then d else finishFailed ob (''child process error: '' @ msg) d)"

definition dispose :: "nat \<Rightarrow> daemon \<Rightarrow> daemon" where
  "dispose ob d =
    (let r = runner_of d ob in
     case rn_child r of
       None \<Rightarrow> d
     | Some c \<Rightarrow>
         if ch_exitCode c = None
         then set_runner ob (r\<lparr>rn_child := Some (c\<lparr>ch_signals := ch_signals c @ [''SIGKILL'']\<rparr>)\<rparr>) d
         else d)"

section \<open>Messages from the hub (client.js)\<close>

definition onTaskSubmit :: "(spawn_plan \<Rightarrow> string \<Rightarrow> string option) \<Rightarrow> daemon_config \<Rightarrow> string option \<Rightarrow> json option \<Rightarrow>
    daemon \<Rightarrow> (string + unit) \<times> daemon" where
  "onTaskSubmit spawn config taskId input d =
    (case taskId of
       None \<Rightarrow> (Inr (), d)
     | Some i \<Rightarrow>
         if i = [] then (Inr (), d)
         else if map_of (dm_runners d) i \<noteq> None then (Inr (), d)
         else start spawn config (length (dm_objs d))
           (d\<lparr>dm_objs := dm_objs d @ [newRunner i input], dm_runners := dm_runners d @ [(i, length (dm_objs d))]\<rparr>))"

definition onTaskCancel :: "string option \<Rightarrow> daemon \<Rightarrow> daemon" where
  "onTaskCancel taskId d =
    (case taskId of
       None \<Rightarrow> d
     | Some i \<Rightarrow> (case map_of (dm_runners d) i of None \<Rightarrow> d | Some ob \<Rightarrow> kill_runner ob d))"

definition onApprovalDecision :: "string option \<Rightarrow> bool \<Rightarrow> daemon \<Rightarrow> daemon" where
  "onApprovalDecision taskId approved d =
    (case taskId of
       None \<Rightarrow> d
     | Some i \<Rightarrow> (case map_of (dm_runners d) i of None \<Rightarrow> d | Some ob \<Rightarrow> decide_runner ob approved d))"

definition shutdown :: "daemon \<Rightarrow> daemon" where
  "shutdown d =
    (let d1 = d\<lparr>dm_heartbeatTimer := False\<rparr>;
         d2 = fold (\<lambda>e. dispose (snd e)) (dm_runners d1) d1;
         d3 = d2\<lparr>dm_runners := []\<rparr>
     in case dm_socket d3 of None \<Rightarrow> d3 | Some _ \<Rightarrow> d3\<lparr>dm_socket := Some False\<rparr>)"

definition client_connect :: "daemon \<Rightarrow> daemon" where
  "client_connect d = d\<lparr>dm_socket := Some False, dm_heartbeatTimer := True\<rparr>"

definition on_connect :: "daemon \<Rightarrow> daemon" where
  "on_connect d = flushBuffer (d\<lparr>dm_socket := Some True\<rparr>)"

definition on_disconnect :: "string \<Rightarrow> daemon \<Rightarrow> daemon" where
  "on_disconnect reason d =
    (let d1 = d\<lparr>dm_socket := Some False\<rparr>
     in if reason = ''io server disconnect'' then d1\<lparr>dm_exit := Some 1\<rparr> else d1)"

section \<open>The process (index.js)\<close>

datatype daemon_input =
  SockConnect
| SockDisconnect string
| HubSubmit "string option" "json option"
| HubCancel "string option"
| HubDecision "string option" bool
| ChildData nat string
| ChildExit nat int
| ChildClose nat "int option" "string option"
| ChildError nat string
| StdinClosed nat
| HeartbeatTick
| OsSignal

definition boot :: "string + daemon_config \<Rightarrow> daemon" where
  "boot config =
    (case config of
       Inl e \<Rightarrow> newDaemon\<lparr>dm_exit := Some 1\<rparr>
     | Inr c \<Rightarrow> client_connect newDaemon)"

definition on_signal :: "daemon \<Rightarrow> daemon" where
  "on_signal d = (shutdown d)\<lparr>dm_exit := Some 0\<rparr>"

text \<open>A child's exit and the end of its input are observed by the runtime, which updates the object
  the runner reads.\<close>

definition child_seen :: "nat \<Rightarrow> (child \<Rightarrow> child) \<Rightarrow> daemon \<Rightarrow> daemon" where
  "child_seen ob f d = set_runner ob ((runner_of d ob)\<lparr>rn_child := map_option f (rn_child (runner_of d ob))\<rparr>) d"

text \<open>An exception that leaves a handler is uncaught and ends the process. A callback of a child exists
  only once the child was created.\<close>

definition has_child :: "daemon \<Rightarrow> nat \<Rightarrow> bool" where
  "has_child d ob \<longleftrightarrow> ob < length (dm_objs d) \<and> rn_child (runner_of d ob) \<noteq> None"

fun daemon_handle :: "(spawn_plan \<Rightarrow> string \<Rightarrow> string option) \<Rightarrow> daemon_config \<Rightarrow> daemon_input \<Rightarrow> daemon \<Rightarrow> daemon" where
  "daemon_handle spawn config SockConnect d = on_connect d"
| "daemon_handle spawn config (SockDisconnect reason) d = on_disconnect reason d"
| "daemon_handle spawn config (HubSubmit i v) d =
    (case onTaskSubmit spawn config i v d of (Inl e, d') \<Rightarrow> d'\<lparr>dm_exit := Some 1\<rparr> | (Inr _, d') \<Rightarrow> d')"
| "daemon_handle spawn config (HubCancel i) d = onTaskCancel i d"
| "daemon_handle spawn config (HubDecision i approved) d = onApprovalDecision i approved d"
| "daemon_handle spawn config (ChildData ob chunk) d = (if has_child d ob then onData ob chunk d else d)"
| "daemon_handle spawn config (ChildExit ob n) d =
    (if has_child d ob then child_seen ob (\<lambda>c. c\<lparr>ch_exitCode := Some n\<rparr>) d else d)"
| "daemon_handle spawn config (ChildClose ob code signal) d = (if has_child d ob then onClose ob code signal d else d)"
| "daemon_handle spawn config (ChildError ob msg) d = (if has_child d ob then onChildError ob msg d else d)"
| "daemon_handle spawn config (StdinClosed ob) d =
    (if has_child d ob then child_seen ob (\<lambda>c. c\<lparr>ch_stdinDestroyed := True\<rparr>) d else d)"
| "daemon_handle spawn config HeartbeatTick d = (if dm_heartbeatTimer d then emit EmitHeartbeat d else d)"
| "daemon_handle spawn config OsSignal d = on_signal d"

definition daemon_step :: "(spawn_plan \<Rightarrow> string \<Rightarrow> string option) \<Rightarrow> daemon_config \<Rightarrow> daemon_input \<Rightarrow> daemon \<Rightarrow> daemon" where
  "daemon_step spawn config e d = (if dm_exit d = None then daemon_handle spawn config e d else d)"

inductive daemon_reachable :: "(spawn_plan \<Rightarrow> string \<Rightarrow> string option) \<Rightarrow> daemon_config \<Rightarrow> daemon \<Rightarrow> bool" for spawn config where
  booted: "daemon_reachable spawn config (boot (Inr config))"
| stepped: "daemon_reachable spawn config d \<Longrightarrow> daemon_reachable spawn config (daemon_step spawn config e d)"

section \<open>The channel to the hub\<close>

text \<open>What a sender needs of a connection that may be down: a message is handed over when it is up and
  kept behind the others when it is not. Then, as long as nothing is pending while it is up, the
  messages handed over and the pending ones are together the messages sent, in order.\<close>

locale fifo_channel =
  fixes send :: "'m \<Rightarrow> 's \<Rightarrow> 's" and flush :: "'s \<Rightarrow> 's" and handed :: "'s \<Rightarrow> 'm list" and pending :: "'s \<Rightarrow> 'm list"
    and up :: "'s \<Rightarrow> bool"
  assumes send_up: "up s \<Longrightarrow> handed (send m s) = handed s @ [m] \<and> pending (send m s) = pending s"
    and send_down: "\<not> up s \<Longrightarrow> handed (send m s) = handed s \<and> pending (send m s) = pending s @ [m]"
    and up_send: "up (send m s) = up s"
    and flush: "handed (flush s) = handed s @ pending s" "pending (flush s) = []" "up (flush s) = up s"
begin

definition transcript :: "'s \<Rightarrow> 'm list" where
  "transcript s = handed s @ pending s"

definition in_order :: "'s \<Rightarrow> bool" where
  "in_order s \<longleftrightarrow> (up s \<longrightarrow> pending s = [])"

definition extends :: "'s \<Rightarrow> 's \<Rightarrow> bool" where
  "extends s s' \<longleftrightarrow> (\<exists>ms. transcript s' = transcript s @ ms) \<and> prefix (handed s) (handed s')"

lemma transcript_send: "in_order s \<Longrightarrow> transcript (send m s) = transcript s @ [m]"
  using send_up [of s m] send_down [of s m] by (cases "up s") (auto simp: transcript_def in_order_def)

lemma in_order_send: "in_order s \<Longrightarrow> in_order (send m s)"
  using send_up [of s m] by (auto simp: in_order_def up_send)

lemma transcript_flush [simp]: "transcript (flush s) = transcript s"
  by (simp add: transcript_def flush)

lemma extends_refl: "transcript s' = transcript s \<Longrightarrow> handed s' = handed s \<Longrightarrow> extends s s'"
  by (simp add: extends_def)

lemma extends_trans: "extends s t \<Longrightarrow> extends t u \<Longrightarrow> extends s u"
  unfolding extends_def by (metis append_assoc prefix_order.trans)

lemma extends_send: "in_order s \<Longrightarrow> extends s (send m s)"
  using transcript_send [of s m] send_up [of s m] send_down [of s m]
  by (cases "up s") (simp_all add: extends_def)

lemma extends_flush: "extends s (flush s)"
  by (simp add: extends_def flush)

end

interpretation hubLink: fifo_channel emit flushBuffer dm_sent dm_buffer "\<lambda>d. dm_socket d = Some True"
  by unfold_locales (auto simp: emit_def flushBuffer_def)

lemma runner_simps [simp]:
  "dm_sent (set_runner ob r d) = dm_sent d" "dm_buffer (set_runner ob r d) = dm_buffer d" "dm_socket (set_runner ob r d) = dm_socket d"
  "dm_runners (set_runner ob r d) = dm_runners d" "dm_exit (set_runner ob r d) = dm_exit d"
  "dm_sent (dropTask i d) = dm_sent d" "dm_buffer (dropTask i d) = dm_buffer d" "dm_socket (dropTask i d) = dm_socket d"
  "dm_objs (dropTask i d) = dm_objs d" "dm_exit (dropTask i d) = dm_exit d"
  "dm_objs (emit ev d) = dm_objs d" "dm_runners (emit ev d) = dm_runners d" "dm_exit (emit ev d) = dm_exit d"
  "dm_objs (flushBuffer d) = dm_objs d" "dm_runners (flushBuffer d) = dm_runners d" "dm_exit (flushBuffer d) = dm_exit d"
  "dm_socket (emit ev d) = dm_socket d" "dm_objs (set_runner ob r d) = (dm_objs d)[ob := r]"
  by (simp_all add: set_runner_def dropTask_def emit_def flushBuffer_def)

text \<open>Every event keeps the channel in order and extends what was sent.\<close>

definition sends :: "daemon \<Rightarrow> daemon \<Rightarrow> bool" where
  "sends d d' \<longleftrightarrow> hubLink.in_order d' \<and> hubLink.extends d d'"

lemma sends_refl: "hubLink.in_order d \<Longrightarrow> sends d d"
  by (simp add: sends_def hubLink.extends_refl)

lemma sends_emit: "sends d e \<Longrightarrow> sends d (emit ev e)"
  unfolding sends_def using hubLink.in_order_send hubLink.extends_send hubLink.extends_trans by blast

lemma sends_same:
  assumes "sends d e" and "dm_sent e' = dm_sent e" and "dm_buffer e' = dm_buffer e" and "dm_socket e' = dm_socket e \<or> dm_socket e' = Some False"
  shows "sends d e'"
  using assms by (auto simp: sends_def hubLink.in_order_def hubLink.extends_def hubLink.transcript_def)

lemma sends_set_runner: "sends d e \<Longrightarrow> sends d (set_runner ob r e)"
  by (erule sends_same) simp_all

lemma sends_dropTask: "sends d e \<Longrightarrow> sends d (dropTask i e)"
  by (erule sends_same) simp_all

lemma sends_dispose: "sends d e \<Longrightarrow> sends d (dispose ob e)"
  by (simp add: dispose_def Let_def sends_set_runner split: option.split)

lemma sends_exit: "sends d e \<Longrightarrow> sends d (e\<lparr>dm_exit := x\<rparr>)"
  by (erule sends_same) simp_all

lemmas sends_rules = sends_emit sends_set_runner sends_dropTask sends_exit sends_refl

lemma sends_runner_ops:
  assumes "hubLink.in_order d"
  shows "sends d (finishFailed ob msg d)" "sends d (onData ob chunk d)" "sends d (resume ob d)" "sends d (kill_runner ob d)"
    "sends d (decide_runner ob b d)" "sends d (onClose ob code signal d)" "sends d (onChildError ob msg d)" "sends d (child_seen ob f d)"
  using assms
  by (auto simp: finishFailed_def onData_def resume_def kill_runner_def decide_runner_def onClose_def onChildError_def child_seen_def Let_def
      split: option.splits intro!: sends_rules)

lemma sends_shutdown: "hubLink.in_order d \<Longrightarrow> sends d (shutdown d)"
proof -
  assume "hubLink.in_order d"
  then have "sends d (d\<lparr>dm_heartbeatTimer := False\<rparr>)" by (intro sends_same [OF sends_refl]) simp_all
  then have "sends d (fold (\<lambda>e. dispose (snd e)) es (d\<lparr>dm_heartbeatTimer := False\<rparr>))" for es
    by (induction es rule: rev_induct) (auto intro: sends_dispose)
  from sends_same [OF this [of "dm_runners d"]] show ?thesis
    by (simp add: shutdown_def Let_def split: option.split)
qed

lemma sends_onTaskSubmit: "hubLink.in_order d \<Longrightarrow> sends d (snd (onTaskSubmit spawn config i v d))"
proof -
  assume ok: "hubLink.in_order d"
  have "sends d (d\<lparr>dm_objs := a, dm_runners := b\<rparr>)" for a b by (rule sends_same [OF sends_refl [OF ok]]) simp_all
  then show ?thesis using ok
    by (auto simp: onTaskSubmit_def start_def finishFailed_def Let_def split: option.splits sum.splits intro!: sends_rules)
qed

lemma sends_daemon_step: "hubLink.in_order d \<Longrightarrow> sends d (daemon_step spawn config e d)"
proof (cases e)
  case SockConnect
  assume ok: "hubLink.in_order d"
  have "hubLink.extends d (on_connect d)" "dm_buffer (on_connect d) = []"
    using hubLink.extends_flush [of "d\<lparr>dm_socket := Some True\<rparr>"] hubLink.flush(2)
    by (simp_all add: on_connect_def hubLink.extends_def hubLink.transcript_def)
  then show ?thesis using ok SockConnect sends_refl by (simp add: daemon_step_def sends_def hubLink.in_order_def)
next
  case (SockDisconnect r)
  assume "hubLink.in_order d"
  then show ?thesis using SockDisconnect sends_same [OF sends_refl, of d]
    by (simp add: daemon_step_def on_disconnect_def Let_def sends_refl)
next
  case (HubSubmit i v)
  assume "hubLink.in_order d"
  then have "sends d (snd (onTaskSubmit spawn config i v d))" by (rule sends_onTaskSubmit)
  then show ?thesis using HubSubmit sends_same [of d "snd (onTaskSubmit spawn config i v d)"] sends_refl \<open>hubLink.in_order d\<close>
    by (auto simp: daemon_step_def split: prod.split sum.split)
next
  case OsSignal
  assume "hubLink.in_order d"
  then show ?thesis using OsSignal sends_same [OF sends_shutdown, of d] by (simp add: daemon_step_def on_signal_def sends_refl)
qed (auto simp: daemon_step_def onTaskCancel_def onApprovalDecision_def sends_runner_ops sends_refl sends_emit split: option.split)

section \<open>The running tasks\<close>

text \<open>A map entry refers to the live runner of its task, and every live runner has its entry until the
  process ends.\<close>

definition live_ok :: "daemon \<Rightarrow> bool" where
  "live_ok d \<longleftrightarrow> distinct (map fst (dm_runners d)) \<and>
    (\<forall>(i, ob) \<in> set (dm_runners d). ob < length (dm_objs d) \<and> rn_taskId (runner_of d ob) = i \<and> \<not> rn_exitHandled (runner_of d ob)) \<and>
    (dm_exit d = None \<longrightarrow> (\<forall>ob < length (dm_objs d). \<not> rn_exitHandled (runner_of d ob) \<longrightarrow>
      (rn_taskId (runner_of d ob), ob) \<in> set (dm_runners d)))"

fun is_result :: "string \<Rightarrow> daemon_emit \<Rightarrow> bool" where
  "is_result i (EmitResult p) = (rp_taskId p = i)"
| "is_result i _ = False"

definition results_ok :: "daemon \<Rightarrow> bool" where
  "results_ok d \<longleftrightarrow> (\<forall>i. length (filter (is_result i) (dm_sent d @ dm_buffer d)) \<le>
     length (filter (\<lambda>r. rn_taskId r = i \<and> rn_exitHandled r) (dm_objs d)))"

definition daemon_ok :: "daemon \<Rightarrow> bool" where
  "daemon_ok d \<longleftrightarrow> live_ok d \<and> results_ok d"

lemma count_list_update:
  assumes "n < length xs"
  shows "length (filter P (xs[n := v])) + of_bool (P (xs ! n)) = length (filter P xs) + of_bool (P v)"
  using assms
proof (induction xs arbitrary: n)
  case (Cons a xs)
  then show ?case by (cases n) auto
qed simp

lemma daemon_ok_cong:
  assumes "daemon_ok d" and "dm_objs d' = dm_objs d" and "dm_runners d' = dm_runners d"
    and "dm_sent d' @ dm_buffer d' = dm_sent d @ dm_buffer d" and "dm_exit d = None \<or> dm_exit d' \<noteq> None"
  shows "daemon_ok d'"
  using assms by (auto simp: daemon_ok_def live_ok_def results_ok_def runner_of_def)

text \<open>Changing a live runner without finishing it, and finishing it.\<close>

lemma daemon_ok_set_runner:
  assumes "daemon_ok d" and "rn_taskId r = rn_taskId (runner_of d ob)" and "rn_exitHandled r = rn_exitHandled (runner_of d ob)"
  shows "daemon_ok (set_runner ob r d)"
proof (cases "ob < length (dm_objs d)")
  case True
  have same: "rn_taskId (runner_of (set_runner ob r d) j) = rn_taskId (runner_of d j)"
    "rn_exitHandled (runner_of (set_runner ob r d) j) = rn_exitHandled (runner_of d j)" for j
    using assms(2,3) True by (simp_all add: runner_of_def nth_list_update)
  have "length (filter (\<lambda>r. rn_taskId r = i \<and> rn_exitHandled r) ((dm_objs d)[ob := r])) =
      length (filter (\<lambda>r. rn_taskId r = i \<and> rn_exitHandled r) (dm_objs d))" for i
    using count_list_update [OF True, of "\<lambda>r. rn_taskId r = i \<and> rn_exitHandled r" r] assms(2,3) by (simp add: runner_of_def)
  then show ?thesis using assms(1) by (simp add: daemon_ok_def live_ok_def results_ok_def same)
next
  case False
  then have "set_runner ob r d = d" by (simp add: set_runner_def list_update_beyond)
  then show ?thesis using assms(1) by simp
qed

lemma daemon_ok_emit:
  assumes "daemon_ok d" and "\<And>i. \<not> is_result i ev"
  shows "daemon_ok (emit ev d)"
  using assms by (auto simp: daemon_ok_def live_ok_def results_ok_def runner_of_def) (auto simp: emit_def)

lemma live_ok_finish:
  assumes "live_ok d" and "dm_exit d = None" and "ob < length (dm_objs d)" and "\<not> rn_exitHandled (runner_of d ob)"
    and "rn_taskId r = rn_taskId (runner_of d ob)" and "rn_exitHandled r"
  shows "live_ok (dropTask (rn_taskId r) (set_runner ob r d))"
proof -
  let ?d = "dropTask (rn_taskId r) (set_runner ob r d)"
  have entry: "(rn_taskId r, ob) \<in> set (dm_runners d)" and dist: "distinct (map fst (dm_runners d))"
    using assms by (simp_all add: live_ok_def)
  have rs: "set (dm_runners ?d) = {e \<in> set (dm_runners d). fst e \<noteq> rn_taskId r}" by (auto simp: dropTask_def)
  have at: "runner_of ?d j = (if j = ob then r else runner_of d j)" for j
    using assms(3) by (simp add: runner_of_def nth_list_update)
  have only: "j = ob" if "(rn_taskId r, j) \<in> set (dm_runners d)" for j
    using entry dist that by (metis eq_key_imp_eq_value)
  have "distinct (map fst (dm_runners ?d))" using dist by (simp add: dropTask_def distinct_map_filter)
  moreover have "j < length (dm_objs ?d) \<and> rn_taskId (runner_of ?d j) = i \<and> \<not> rn_exitHandled (runner_of ?d j)"
    if "(i, j) \<in> set (dm_runners ?d)" for i j
  proof -
    have ij: "(i, j) \<in> set (dm_runners d)" "i \<noteq> rn_taskId r" using that by (simp_all add: rs)
    then have "j < length (dm_objs d)" "rn_taskId (runner_of d j) = i" "\<not> rn_exitHandled (runner_of d j)"
      using assms(1) by (auto simp: live_ok_def)
    moreover from this have "j \<noteq> ob" using ij(2) assms(5) by auto
    ultimately show ?thesis by (simp add: at)
  qed
  moreover have "(rn_taskId (runner_of ?d j), j) \<in> set (dm_runners ?d)"
    if "j < length (dm_objs ?d)" "\<not> rn_exitHandled (runner_of ?d j)" for j
  proof -
    have j: "j \<noteq> ob" "j < length (dm_objs d)" "\<not> rn_exitHandled (runner_of d j)" using that assms(6) by (auto simp: at split: if_splits)
    then have "(rn_taskId (runner_of d j), j) \<in> set (dm_runners d)" using assms(1,2) by (simp add: live_ok_def)
    then show ?thesis using only j(1) by (auto simp: rs at)
  qed
  ultimately show ?thesis unfolding live_ok_def by blast
qed

lemma results_finish:
  assumes "results_ok d" and "ob < length (dm_objs d)" and "\<not> rn_exitHandled (runner_of d ob)"
    and "rn_taskId r = rn_taskId (runner_of d ob)" and "rn_exitHandled r"
  shows "results_ok (set_runner ob r d)" "rp_taskId p = rn_taskId r \<Longrightarrow> results_ok (emit (EmitResult p) (set_runner ob r d))"
proof -
  let ?P = "\<lambda>i r. rn_taskId r = i \<and> rn_exitHandled r"
  have count: "length (filter (?P i) ((dm_objs d)[ob := r])) = length (filter (?P i) (dm_objs d)) + of_bool (i = rn_taskId r)" for i
    using count_list_update [OF assms(2), of "?P i" r] assms(3-5) by (auto simp: runner_of_def)
  have out: "length (filter (is_result i) (dm_sent (emit (EmitResult p) e) @ dm_buffer (emit (EmitResult p) e))) =
      length (filter (is_result i) (dm_sent e @ dm_buffer e)) + of_bool (i = rp_taskId p)" for i e
    by (auto simp: emit_def)
  have old: "length (filter (is_result i) (dm_sent d @ dm_buffer d)) \<le> length (filter (?P i) (dm_objs d))" for i
    using assms(1) by (simp add: results_ok_def)
  show "results_ok (set_runner ob r d)"
    unfolding results_ok_def runner_simps count using trans_le_add1 [OF old] by blast
  show "results_ok (emit (EmitResult p) (set_runner ob r d))" if "rp_taskId p = rn_taskId r"
    unfolding results_ok_def out runner_simps count that using old by simp
qed

lemma live_ok_emit [simp]: "live_ok (emit ev d) = live_ok d"
  by (simp add: live_ok_def runner_of_def)

lemma live_ok_drop_emit [simp]: "live_ok (dropTask i (emit ev d)) = live_ok (dropTask i d)"
  by (simp add: live_ok_def runner_of_def dropTask_def)

lemma results_ok_drop [simp]: "results_ok (dropTask i d) = results_ok d"
  by (simp add: results_ok_def)

lemma daemon_ok_exit: "daemon_ok d \<Longrightarrow> daemon_ok (d\<lparr>dm_exit := Some n\<rparr>)"
  by (simp add: daemon_ok_def live_ok_def results_ok_def runner_of_def)

lemma daemon_ok_finish:
  assumes "daemon_ok d" and "dm_exit d = None" and "ob < length (dm_objs d)" and "\<not> rn_exitHandled (runner_of d ob)"
  shows "daemon_ok (dropTask (rn_taskId (runner_of d ob)) (set_runner ob ((runner_of d ob)\<lparr>rn_exitHandled := True\<rparr>) d))"
    "rp_taskId p = rn_taskId (runner_of d ob) \<Longrightarrow>
      daemon_ok (dropTask (rn_taskId (runner_of d ob)) (emit (EmitResult p) (set_runner ob ((runner_of d ob)\<lparr>rn_exitHandled := True\<rparr>) d)))"
  using assms live_ok_finish [of d ob "(runner_of d ob)\<lparr>rn_exitHandled := True\<rparr>"]
    results_finish [of d ob "(runner_of d ob)\<lparr>rn_exitHandled := True\<rparr>"]
  by (simp_all add: daemon_ok_def)

lemma daemon_ok_runner_ops:
  assumes "daemon_ok d" and "dm_exit d = None" and "ob < length (dm_objs d)"
  shows "daemon_ok (onData ob chunk d)" "daemon_ok (resume ob d)" "daemon_ok (kill_runner ob d)" "daemon_ok (decide_runner ob b d)"
    "daemon_ok (child_seen ob f d)" "daemon_ok (finishFailed ob msg d)" "daemon_ok (onChildError ob msg d)"
    "daemon_ok (onClose ob code signal d)"
proof -
  show "daemon_ok (resume ob d)" "daemon_ok (kill_runner ob d)" "daemon_ok (decide_runner ob b d)" "daemon_ok (child_seen ob f d)"
    using assms(1) by (auto simp: resume_def kill_runner_def decide_runner_def child_seen_def Let_def
        intro!: daemon_ok_exit daemon_ok_set_runner split: option.split)
  show fin: "daemon_ok (finishFailed ob msg d)" for msg
    using assms daemon_ok_finish(2) [OF assms] by (simp add: finishFailed_def Let_def)
  show "daemon_ok (onChildError ob msg d)" using assms(1) fin by (simp add: onChildError_def)
  show "daemon_ok (onClose ob code signal d)"
    using assms daemon_ok_finish [OF assms] by (simp add: onClose_def Let_def)
  let ?r = "(runner_of d ob)\<lparr>rn_lastChunk := chunk, rn_tail := slice_last TAIL_LIMIT (rn_tail (runner_of d ob) @ chunk)\<rparr>"
  let ?d = "emit (EmitLog \<lparr>lp_taskId = rn_taskId ?r, lp_chunk = chunk\<rparr>) (set_runner ob ?r d)"
  have d1: "daemon_ok ?d" using assms(1) by (intro daemon_ok_emit daemon_ok_set_runner) simp_all
  have "runner_of ?d ob = ?r" using assms(3) by (simp add: runner_of_def)
  then have "daemon_ok (emit (EmitApproval q) (set_runner ob (?r\<lparr>rn_awaitingApproval := True\<rparr>) ?d))" for q
    by (intro daemon_ok_emit [OF daemon_ok_set_runner [OF d1]]) simp_all
  with d1 show "daemon_ok (onData ob chunk d)" unfolding onData_def Let_def by (simp split: option.split)
qed

lemma daemon_ok_dispose: "daemon_ok d \<Longrightarrow> daemon_ok (dispose ob d)"
  by (auto simp: dispose_def Let_def intro!: daemon_ok_set_runner split: option.split)

lemma daemon_ok_submit:
  assumes "daemon_ok d" and "dm_exit d = None"
  shows "\<exists>r. onTaskSubmit spawn config i v d = (Inr (), r) \<and> daemon_ok r \<or>
    (\<exists>e. onTaskSubmit spawn config i v d = (Inl e, r)) \<and> daemon_ok (r\<lparr>dm_exit := Some 1\<rparr>)"
proof (cases "i = None \<or> i = Some [] \<or> map_of (dm_runners d) (the i) \<noteq> None")
  case True
  then show ?thesis using assms(1) by (auto simp: onTaskSubmit_def split: option.splits)
next
  case False
  then obtain j where i: "i = Some j" "j \<noteq> []" "map_of (dm_runners d) j = None" by (cases i) auto
  define d1 where "d1 = d\<lparr>dm_objs := dm_objs d @ [newRunner j v], dm_runners := dm_runners d @ [(j, length (dm_objs d))]\<rparr>"
  have free: "j \<notin> fst ` set (dm_runners d)" using i(3) by (simp add: map_of_eq_None_iff)
  have at: "runner_of d1 ob = (if ob < length (dm_objs d) then runner_of d ob else newRunner j v)" if "ob < length (dm_objs d1)" for ob
    using that by (auto simp: runner_of_def d1_def nth_append less_Suc_eq)
  have live: "live_ok d1"
    using assms free unfolding daemon_ok_def live_ok_def
    by (auto simp: d1_def runner_of_def nth_append newRunner_def less_Suc_eq)
  have ok: "daemon_ok d1" using live assms(1) by (auto simp: daemon_ok_def results_ok_def d1_def newRunner_def)
  have new: "runner_of d1 (length (dm_objs d)) = newRunner j v" "length (dm_objs d) < length (dm_objs d1)" "dm_exit d1 = None"
    using assms(2) by (simp_all add: runner_of_def d1_def)
  have "onTaskSubmit spawn config i v d = start spawn config (length (dm_objs d)) d1"
    using i by (simp add: onTaskSubmit_def d1_def)
  moreover have "daemon_ok (d1\<lparr>dm_exit := Some 1\<rparr>)" by (rule daemon_ok_cong [OF ok]) (use new in simp_all)
  moreover have "daemon_ok (finishFailed (length (dm_objs d)) msg d1)" for msg by (rule daemon_ok_runner_ops [OF ok new(3,2)])
  moreover have "daemon_ok (emit (EmitStatus p) (set_runner (length (dm_objs d)) ((newRunner j v)\<lparr>rn_child := c\<rparr>) d1))" for p c
    using ok new(1) by (intro daemon_ok_emit daemon_ok_set_runner) (simp_all add: newRunner_def)
  ultimately show ?thesis using new(1) by (simp add: start_def Let_def split: sum.split option.split)
qed

lemma daemon_ok_step:
  assumes "daemon_ok d"
  shows "daemon_ok (daemon_step spawn config e d)"
proof (cases "dm_exit d = None")
  case True
  have entry: "ob < length (dm_objs d)" if "map_of (dm_runners d) i = Some ob" for i ob
    using assms map_of_SomeD [OF that] by (auto simp: daemon_ok_def live_ok_def)
  have "daemon_ok (daemon_handle spawn config e d)"
  proof (cases e)
    case SockConnect
    then show ?thesis
      using daemon_ok_cong [OF assms, of "on_connect d"] True hubLink.flush(1,2) by (simp add: on_connect_def)
  next
    case (SockDisconnect r)
    then show ?thesis using daemon_ok_cong [OF assms] True by (simp add: on_disconnect_def Let_def)
  next
    case (HubSubmit i v)
    then show ?thesis using daemon_ok_submit [OF assms True, of spawn config i v] by auto
  next
    case OsSignal
    have "daemon_ok (fold (\<lambda>e. dispose (snd e)) es (d\<lparr>dm_heartbeatTimer := False\<rparr>))" for es
      using daemon_ok_cong [OF assms, of "d\<lparr>dm_heartbeatTimer := False\<rparr>"] True
      by (induction es rule: rev_induct) (auto intro: daemon_ok_dispose)
    then have "daemon_ok (on_signal d)"
      by (auto simp: on_signal_def shutdown_def Let_def daemon_ok_def live_ok_def results_ok_def split: option.split)
    then show ?thesis using OsSignal by simp
  qed (auto simp: onTaskCancel_def onApprovalDecision_def has_child_def daemon_ok_emit daemon_ok_runner_ops [OF assms True] entry assms
      split: option.split)
  then show ?thesis using True by (simp add: daemon_step_def)
next
  case False
  then show ?thesis using assms by (auto simp: daemon_step_def)
qed

lemma daemon_reachable_ok:
  assumes "daemon_reachable spawn config d"
  shows "daemon_ok d \<and> hubLink.in_order d"
  using assms
proof (induction rule: daemon_reachable.induct)
  case booted
  show ?case by (simp add: boot_def client_connect_def newDaemon_def daemon_ok_def live_ok_def results_ok_def hubLink.in_order_def)
next
  case (stepped d e)
  then show ?case using daemon_ok_step sends_daemon_step [of d spawn config e] by (auto simp: sends_def)
qed

text \<open>A submitted task whose command the system can start has a child and is reported as running.\<close>

lemma submit_starts_child:
  assumes "daemon_reachable spawn config d" and "dm_exit d = None" and "map_of (dm_runners d) i = None" and "i \<noteq> []"
    and "buildSpawnPlan v config = Inr plan" and "spawn plan (cfg_cwd config) = None"
    and "d' = daemon_step spawn config (HubSubmit (Some i) v) d"
  shows "has_child d' (length (dm_objs d))" and "rn_taskId (runner_of d' (length (dm_objs d))) = i"
    and "map_of (dm_runners d') i = Some (length (dm_objs d))"
    and "dm_sent d' @ dm_buffer d' = dm_sent d @ dm_buffer d @ [EmitStatus \<lparr>sp_taskId = i, sp_status = DS_RUNNING\<rparr>]"
proof -
  let ?n = "length (dm_objs d)" and ?ev = "EmitStatus \<lparr>sp_taskId = i, sp_status = DS_RUNNING\<rparr>"
  let ?c = "\<lparr>ch_exitCode = None, ch_stdinEnded = True, ch_stdinDestroyed = False, ch_stdin = [], ch_signals = []\<rparr>"
  define d1 where "d1 = d\<lparr>dm_runners := dm_runners d @ [(i, ?n)], dm_objs := dm_objs d @ [(newRunner i v)\<lparr>rn_child := Some ?c\<rparr>]\<rparr>"
  have d': "d' = emit ?ev d1"
    using assms(2-6) by (simp add: assms(7) d1_def daemon_step_def onTaskSubmit_def start_def runner_of_def set_runner_def newRunner_def Let_def)
  have "hubLink.in_order d1" using daemon_reachable_ok [OF assms(1)] by (simp add: d1_def hubLink.in_order_def)
  then show "dm_sent d' @ dm_buffer d' = dm_sent d @ dm_buffer d @ [?ev]"
    using hubLink.transcript_send [of d1 ?ev] by (simp add: d' hubLink.transcript_def d1_def)
  show "has_child d' ?n" "rn_taskId (runner_of d' ?n) = i" "map_of (dm_runners d') i = Some ?n"
    using assms(3) by (simp_all add: d' d1_def emit_def has_child_def runner_of_def newRunner_def map_add_def)
qed

text \<open>A daemon that is connected and runs one task, for the witnesses.\<close>

definition demo_spawn :: "spawn_plan \<Rightarrow> string \<Rightarrow> string option" where
  "demo_spawn plan cwd = None"

definition demo_running :: "string \<Rightarrow> daemon" where
  "demo_running i = daemon_step demo_spawn demo_config (HubSubmit (Some i) None)
     (daemon_step demo_spawn demo_config SockConnect (boot (Inr demo_config)))"

definition demo_daemon :: daemon where
  "demo_daemon = demo_running ''t''"

lemma demo_running_reachable: "daemon_reachable demo_spawn demo_config (demo_running i)"
  unfolding demo_running_def by (intro daemon_reachable.intros)

lemmas demo_daemon_reachable = demo_running_reachable [of "''t''", folded demo_daemon_def]

lemma demo_running_eq:
  assumes "i \<noteq> []"
  shows "demo_running i = \<lparr>dm_socket = Some True, dm_buffer = [], dm_sent = [EmitStatus \<lparr>sp_taskId = i, sp_status = DS_RUNNING\<rparr>],
     dm_runners = [(i, 0)], dm_objs = [(newRunner i None)\<lparr>rn_child := Some \<lparr>ch_exitCode = None, ch_stdinEnded = True, ch_stdinDestroyed = False,
       ch_stdin = [], ch_signals = []\<rparr>\<rparr>], dm_heartbeatTimer = True, dm_exit = None\<rparr>"
proof -
  have "\<exists>plan. buildSpawnPlan None demo_config = Inr plan"
    by (simp add: buildSpawnPlan_def demo_config_def default_tokens)
  then show ?thesis
    using assms by (auto simp: demo_running_def daemon_step_def boot_def client_connect_def newDaemon_def on_connect_def flushBuffer_def
        onTaskSubmit_def start_def runner_of_def set_runner_def emit_def newRunner_def demo_spawn_def Let_def)
qed

lemmas demo_daemon_eq = demo_running_eq [of "''t''", folded demo_daemon_def, simplified]

section \<open>Properties\<close>



text \<open>C31. One runner, one result: in every reachable state a task has at most one runner that is not
  finished, and at most as many results were sent or buffered for a task as runners of it have
  finished.\<close>

theorem daemon_one_result:
  assumes "daemon_reachable spawn config d"
  shows "length (filter (is_result i) (dm_sent d @ dm_buffer d)) \<le>
      length (filter (\<lambda>r. rn_taskId r = i \<and> rn_exitHandled r) (dm_objs d)) \<and>
    (dm_exit d = None \<and> a < length (dm_objs d) \<and> b < length (dm_objs d) \<and>
     \<not> rn_exitHandled (dm_objs d ! a) \<and> \<not> rn_exitHandled (dm_objs d ! b) \<and>
     rn_taskId (dm_objs d ! a) = rn_taskId (dm_objs d ! b) \<longrightarrow> a = b)"
proof -
  have ok: "live_ok d" "results_ok d" using daemon_reachable_ok [OF assms] by (simp_all add: daemon_ok_def)
  have "a = b" if "dm_exit d = None" "a < length (dm_objs d)" "b < length (dm_objs d)" "\<not> rn_exitHandled (dm_objs d ! a)"
    "\<not> rn_exitHandled (dm_objs d ! b)" "rn_taskId (dm_objs d ! a) = rn_taskId (dm_objs d ! b)"
  proof -
    have "(rn_taskId (dm_objs d ! a), a) \<in> set (dm_runners d)" "(rn_taskId (dm_objs d ! b), b) \<in> set (dm_runners d)"
      using ok(1) that by (auto simp: live_ok_def runner_of_def)
    then show ?thesis using ok(1) that(6) by (metis eq_key_imp_eq_value live_ok_def)
  qed
  then show ?thesis using ok(2) by (auto simp: results_ok_def)
qed

theorem daemon_one_result_witness:
  "length (filter (is_result ''t'') (dm_sent demo_daemon @ dm_buffer demo_daemon)) \<le>
      length (filter (\<lambda>r. rn_taskId r = ''t'' \<and> rn_exitHandled r) (dm_objs demo_daemon)) \<and> dm_objs demo_daemon \<noteq> []"
  using daemon_one_result [OF demo_daemon_reachable, of "''t''"] by (simp add: demo_daemon_eq)

text \<open>The one result a runner reports when its child ends.\<close>

lemma close_payload:
  assumes "hubLink.in_order d" and "\<not> rn_exitHandled (runner_of d ob)" and "\<not> rn_killedByHub (runner_of d ob)"
    and "out = (if rn_tail (runner_of d ob) = [] then rn_lastChunk (runner_of d ob) else rn_tail (runner_of d ob))"
  shows "\<exists>(p :: result_payload) rest. dm_sent (onClose ob code signal d) @ dm_buffer (onClose ob code signal d) =
      dm_sent d @ dm_buffer d @ [EmitResult p] \<and> rp_taskId p = rn_taskId (runner_of d ob) \<and>
    rp_status p = (if code = Some 0 \<and> signal \<in> {None, Some []} then RS_COMPLETED else RS_FAILED) \<and>
    rp_failure p = detectStructuredFailure code signal out \<and>
    rp_result p = Some (JObj ((''exitCode'', case code of None \<Rightarrow> JNull | Some n \<Rightarrow> JNum n) #
      (''signal'', if signal \<in> {None, Some []} then JNull else JStr (the signal)) #
      (''lastChunk'', JStr (rn_lastChunk (runner_of d ob))) # rest))"
proof -
  let ?r = "runner_of d ob"
  let ?d1 = "set_runner ob (?r\<lparr>rn_exitHandled := True\<rparr>) d"
  have "hubLink.in_order ?d1" using assms(1) by (simp add: hubLink.in_order_def)
  then have "dm_sent (emit ev ?d1) @ dm_buffer (emit ev ?d1) = dm_sent d @ dm_buffer d @ [ev]" for ev
    using hubLink.transcript_send [of ?d1 ev] by (simp add: hubLink.transcript_def)
  then show ?thesis using assms(2,3) unfolding onClose_def Let_def assms(4) by auto
qed

text \<open>The end of a child: a runner that the hub cancelled or rejected reports nothing; any other one
  reports exactly one result, COMPLETED when the child ended with code 0 and no signal and FAILED
  otherwise, and the hub will take it for a capacity failure exactly when one of the capacity phrases
  stands in the excerpt of a failed child's output. In both cases the task may be submitted again.\<close>

theorem daemon_close_reports:
  assumes "daemon_reachable spawn config d" and "dm_exit d = None" and "has_child d ob" and "\<not> rn_exitHandled (runner_of d ob)"
    and "daemon_step spawn config (ChildClose ob code signal) d = d'"
  shows "map_of (dm_runners d') (rn_taskId (runner_of d ob)) = None \<and>
    (if rn_killedByHub (runner_of d ob) then dm_sent d' @ dm_buffer d' = dm_sent d @ dm_buffer d
     else \<exists>p. dm_sent d' @ dm_buffer d' = dm_sent d @ dm_buffer d @ [EmitResult p] \<and> rp_taskId p = rn_taskId (runner_of d ob) \<and>
       (rp_status p = RS_COMPLETED \<longleftrightarrow> code = Some 0 \<and> signal \<in> {None, Some []}) \<and>
       (isRetryableCapacityFailure p \<longleftrightarrow> rp_status p = RS_FAILED \<and> (\<exists>w \<in> set capacity_phrases. has_word w
          (fail_excerpt (if rn_tail (runner_of d ob) = [] then rn_lastChunk (runner_of d ob) else rn_tail (runner_of d ob))))))"
proof -
  let ?r = "runner_of d ob"
  have d': "d' = onClose ob code signal d" using assms by (simp add: daemon_step_def)
  have gone: "map_of (dm_runners d') (rn_taskId ?r) = None"
    using assms(4) by (auto simp: d' onClose_def Let_def dropTask_def map_of_eq_None_iff)
  show ?thesis
  proof (cases "rn_killedByHub ?r")
    case True
    then show ?thesis using assms(4) gone by (simp add: d' onClose_def Let_def)
  next
    case False
    obtain p :: result_payload where p: "dm_sent d' @ dm_buffer d' = dm_sent d @ dm_buffer d @ [EmitResult p]" "rp_taskId p = rn_taskId ?r"
      and st: "rp_status p = (if code = Some 0 \<and> signal \<in> {None, Some []} then RS_COMPLETED else RS_FAILED)"
      and fail: "rp_failure p = detectStructuredFailure code signal (if rn_tail ?r = [] then rn_lastChunk ?r else rn_tail ?r)"
      using close_payload [OF conjunct2 [OF daemon_reachable_ok [OF assms(1)]] assms(4) False refl] unfolding d' by blast
    have "isRetryableCapacityFailure p \<longleftrightarrow> rp_status p = RS_FAILED \<and> (\<exists>w \<in> set capacity_phrases. has_word w
        (fail_excerpt (if rn_tail ?r = [] then rn_lastChunk ?r else rn_tail ?r)))"
      using st fail by (auto simp: isRetryableCapacityFailure_def detectStructuredFailure_cases split: if_splits)
    then show ?thesis using False gone p st by auto
  qed
qed

theorem daemon_close_reports_witness:
  "\<exists>p. dm_sent (daemon_step demo_spawn demo_config (ChildClose 0 (Some 0) None) demo_daemon) =
     dm_sent demo_daemon @ [EmitResult p] \<and> rp_taskId p = ''t'' \<and> rp_status p = RS_COMPLETED"
proof -
  have d: "dm_exit demo_daemon = None" "has_child demo_daemon 0" "\<not> rn_exitHandled (runner_of demo_daemon 0)"
    "\<not> rn_killedByHub (runner_of demo_daemon 0)" "rn_taskId (runner_of demo_daemon 0) = ''t''" "dm_buffer demo_daemon = []"
    by (simp_all add: demo_daemon_eq has_child_def runner_of_def newRunner_def)
  have "dm_socket (daemon_step demo_spawn demo_config (ChildClose 0 (Some 0) None) demo_daemon) = Some True"
    "dm_buffer (daemon_step demo_spawn demo_config (ChildClose 0 (Some 0) None) demo_daemon) = []"
    using d by (simp_all add: daemon_step_def onClose_def Let_def emit_def) (simp_all add: demo_daemon_eq)
  then show ?thesis
    using daemon_close_reports [OF demo_daemon_reachable d(1,2,3) refl, of "Some 0" None] d(4-6) by auto
qed

end
