(* ===== verification/Approval_Answer.thy ===== *)
theory Approval_Answer
  imports Approvals Daemon
begin

text \<open>
  The way of a decision from the hub (\<^verbatim>\<open>hub-api/src/approvals/approvals.service.ts\<close>) to the child process
  (\<^verbatim>\<open>agent-daemon/src/runner.js\<close>): the standard input of every child is ended when it starts, so nothing is
  ever written to it, and what a decision does to the child follows.
\<close>

section \<open>The standard input of the children\<close>

definition stdin_closed :: "child option \<Rightarrow> bool" where
  "stdin_closed v \<longleftrightarrow> (case v of None \<Rightarrow> True | Some c \<Rightarrow> ch_stdinEnded c \<and> ch_stdin c = [])"

definition stdin_ok :: "daemon \<Rightarrow> bool" where
  "stdin_ok d \<longleftrightarrow> (\<forall>r \<in> set (dm_objs d). stdin_closed (rn_child r))"

named_theorems stdin_rules

lemma stdin_ok_objs: "dm_objs d' = dm_objs d \<Longrightarrow> stdin_ok d \<Longrightarrow> stdin_ok d'"
  by (simp add: stdin_ok_def)

lemma stdin_ok_set [stdin_rules]:
  assumes "stdin_ok d" and "ob < length (dm_objs d) \<Longrightarrow> stdin_closed (rn_child r)"
  shows "stdin_ok (set_runner ob r d)"
proof (cases "ob < length (dm_objs d)")
  case True
  then show ?thesis using assms set_update_subset_insert [of "dm_objs d" ob r]
    by (auto simp: stdin_ok_def set_runner_def)
next
  case False
  then show ?thesis using stdin_ok_objs [OF _ assms(1)] by (simp add: set_runner_def list_update_beyond)
qed

lemma stdin_okD: "stdin_ok d \<Longrightarrow> ob < length (dm_objs d) \<Longrightarrow> stdin_closed (rn_child (runner_of d ob))"
  by (simp add: stdin_ok_def runner_of_def)

lemma stdin_ok_emit [stdin_rules]: "stdin_ok d \<Longrightarrow> stdin_ok (emit ev d)"
  by (erule stdin_ok_objs [rotated]) (simp add: emit_def)

lemma stdin_ok_drop [stdin_rules]: "stdin_ok d \<Longrightarrow> stdin_ok (dropTask i d)"
  by (simp add: stdin_ok_def dropTask_def)

lemma stdin_ok_exit [stdin_rules]: "stdin_ok d \<Longrightarrow> stdin_ok (d\<lparr>dm_exit := x\<rparr>)"
  by (simp add: stdin_ok_def)

lemma stdin_ok_runner_ops [stdin_rules]:
  assumes "stdin_ok d"
  shows "stdin_ok (finishFailed ob msg d)" "stdin_ok (onData ob chunk d)" "stdin_ok (resume ob d)" "stdin_ok (kill_runner ob d)"
    "stdin_ok (onClose ob code signal d)" "stdin_ok (dispose ob d)"
    "(\<And>c. stdin_closed (Some c) \<Longrightarrow> stdin_closed (Some (f c))) \<Longrightarrow> stdin_ok (child_seen ob f d)"
  using assms stdin_okD [OF assms, of ob]
  by (auto simp: finishFailed_def onData_def resume_def kill_runner_def onClose_def dispose_def child_seen_def Let_def stdin_closed_def
      split: option.splits intro!: stdin_rules)

lemma stdin_ok_submit [stdin_rules]: "stdin_ok d \<Longrightarrow> stdin_ok (snd (onTaskSubmit spawn config i v d))"
proof -
  assume ok: "stdin_ok d"
  have "stdin_ok (d\<lparr>dm_objs := dm_objs d @ [newRunner j v], dm_runners := b\<rparr>)" for j b
    using ok by (simp add: stdin_ok_def stdin_closed_def newRunner_def)
  then show ?thesis using ok
    by (auto simp: onTaskSubmit_def start_def Let_def stdin_closed_def split: option.splits sum.splits intro!: stdin_rules)
qed

lemma stdin_ok_shutdown [stdin_rules]: "stdin_ok d \<Longrightarrow> stdin_ok (shutdown d)"
proof -
  assume ok: "stdin_ok d"
  have "stdin_ok (fold (\<lambda>e. dispose (snd e)) es (d\<lparr>dm_heartbeatTimer := False\<rparr>))" for es
    using stdin_ok_objs [OF _ ok, of "d\<lparr>dm_heartbeatTimer := False\<rparr>"]
    by (induction es rule: rev_induct) (auto intro: stdin_rules)
  then show ?thesis by (auto simp: shutdown_def Let_def stdin_ok_def split: option.split)
qed

lemma stdin_ok_step:
  assumes "stdin_ok d"
  shows "stdin_ok (daemon_step spawn config e d)"
proof (cases "dm_exit d")
  case None
  have "stdin_ok (daemon_handle spawn config e d)"
  proof (cases e)
    case SockConnect
    then show ?thesis using assms by (simp add: stdin_ok_def on_connect_def flushBuffer_def)
  next
    case (SockDisconnect r)
    then show ?thesis using assms by (simp add: stdin_ok_def on_disconnect_def Let_def)
  next
    case (HubSubmit i v)
    then show ?thesis using stdin_ok_submit [OF assms, of spawn config i v] stdin_ok_exit by (auto split: prod.split sum.split)
  qed (use assms in \<open>auto simp: onTaskCancel_def onApprovalDecision_def decide_runner_def onChildError_def on_signal_def stdin_closed_def
      split: option.split intro!: stdin_rules\<close>)
  then show ?thesis using None by (simp add: daemon_step_def)
qed (use assms in \<open>simp add: daemon_step_def\<close>)

lemma daemon_reachable_stdin: "daemon_reachable spawn config d \<Longrightarrow> stdin_ok d"
proof (induction rule: daemon_reachable.induct)
  case booted
  show ?case by (simp add: stdin_ok_def boot_def client_connect_def newDaemon_def)
qed (rule stdin_ok_step)

section \<open>Properties\<close>

text \<open>C15. What a decision does on the machine. The owner of a pending request decides it while the daemon is
  connected and the runner waits with a running child: the hub's row takes the decision and the
  daemon is sent it. When it is a refusal, the child is asked to end, once, and its runner will not
  report a result. When it is an approval, the task is RUNNING again for its owner, yet the answer
  never reaches the child: its standard input was ended at the start and has received nothing. The
  daemon goes on when the stream is already destroyed, and ends when it is not, because nothing handles the
  error of a write after the end. The daemon reports nothing of it to the hub.\<close>

theorem decision_reaches_child:
  assumes "daemon_reachable spawn config d" and "dm_exit d = None" and "map_of (dm_runners d) (ap_taskId a) = Some ob"
    and "rn_awaitingApproval (runner_of d ob)" and "rn_child (runner_of d ob) = Some c" and "ch_exitCode c = None"
    and "approval_with_task h i = Some (a, t, u)" and "ap_status a = PENDING"
    and "s \<in> set (in_room (serverRoom (t_serverId t)) (daemonSockets h))"
    and "daemon_step spawn config (HubDecision (Some (ap_taskId a)) (dad_approve dto)) d = d'"
  shows "\<exists>a' h' t'. decide u i dto h = (Inr a', h') \<and> find_row t_id (ap_taskId a) (tasks h') = Some t' \<and>
    (so_id s, APPROVAL_DECISION (ap_taskId a) (dad_approve dto) (dad_reason dto)) \<in> set (daemonOut h') \<and>
    dm_sent d' = dm_sent d \<and> dm_buffer d' = dm_buffer d \<and> ch_stdin c = [] \<and>
    (if dad_approve dto
     then t_status t' = RUNNING \<and> rn_child (runner_of d' ob) = Some c \<and> \<not> rn_awaitingApproval (runner_of d' ob) \<and>
       dm_exit d' = (if ch_stdinDestroyed c then None else Some 1)
     else t_status t' = CANCELLED \<and> rn_child (runner_of d' ob) = Some (c\<lparr>ch_signals := ch_signals c @ [''SIGTERM'']\<rparr>) \<and>
       rn_killedByHub (runner_of d' ob) \<and> dm_exit d' = None)"
proof -
  have t: "find_row t_id (ap_taskId a) (tasks h) = Some t" "t_id t = ap_taskId a"
    using assms(7) by (auto simp: approval_with_task_iff task_with_owner_iff dest: find_row_SomeD)
  have ob: "ob < length (dm_objs d)"
    using daemon_reachable_ok [OF assms(1)] map_of_SomeD [OF assms(3)] by (auto simp: daemon_ok_def live_ok_def)
  have c: "ch_stdinEnded c" "ch_stdin c = []"
    using stdin_okD [OF daemon_reachable_stdin [OF assms(1)] ob] assms(5) by (simp_all add: stdin_closed_def)
  have d': "d' = decide_runner ob (dad_approve dto) d"
    using assms(2,3,10) by (simp add: daemon_step_def onApprovalDecision_def)
  show ?thesis
    using assms(2,4-6,9) c ob
    by (auto simp: decide_apply [OF assms(7)] assms(8) t find_row_update_row decision_out_def d' decide_runner_def resume_def kill_runner_def
        Let_def runner_of_def set_runner_def)
qed

subsection \<open>Witnesses\<close>

definition demo_asking :: daemon where
  "demo_asking = daemon_step demo_spawn demo_config (StdinClosed 0)
     (daemon_step demo_spawn demo_config (ChildData 0 ''(y/n)'') (demo_running ''iiiiiii''))"

lemma demo_asks: "\<exists>reason. detect ''(y/n)'' = Some reason"
proof -
  have "split_lines (stripAnsi ''(y/n)'') = [''(y/n)'']" "str_includes (toUpperCase ''(y/n)'') ''(Y/N)''" by code_simp+
  then show ?thesis using detect_asks [of "''(y/n)''"] by auto
qed

lemma demo_asking_facts:
  "daemon_reachable demo_spawn demo_config demo_asking" "dm_exit demo_asking = None" "map_of (dm_runners demo_asking) ''iiiiiii'' = Some 0"
  "rn_awaitingApproval (runner_of demo_asking 0)" "\<exists>c. rn_child (runner_of demo_asking 0) = Some c \<and> ch_exitCode c = None \<and> ch_stdinDestroyed c"
proof -
  show "daemon_reachable demo_spawn demo_config demo_asking"
    unfolding demo_asking_def by (intro daemon_reachable.stepped demo_running_reachable)
  have tail: "slice_last TAIL_LIMIT ''(y/n)'' = ''(y/n)''" by (simp add: slice_last_def TAIL_LIMIT_def)
  show "dm_exit demo_asking = None" "map_of (dm_runners demo_asking) ''iiiiiii'' = Some 0" "rn_awaitingApproval (runner_of demo_asking 0)"
    "\<exists>c. rn_child (runner_of demo_asking 0) = Some c \<and> ch_exitCode c = None \<and> ch_stdinDestroyed c"
    using demo_asks by (auto simp: demo_asking_def demo_running_eq daemon_step_def has_child_def child_seen_def onData_def Let_def
        runner_of_def set_runner_def emit_def newRunner_def tail)
qed

theorem decision_reaches_child_witness:
  "\<exists>a' h' t'. decide ''i'' ''iiiiiiiii'' \<lparr>dad_approve = True, dad_reason = None\<rparr> demo_approval_hub = (Inr a', h') \<and>
    find_row t_id ''iiiiiii'' (tasks h') = Some t' \<and> t_status t' = RUNNING \<and>
    (''d1'', APPROVAL_DECISION ''iiiiiii'' True None) \<in> set (daemonOut h') \<and>
    (\<exists>c. rn_child (runner_of (daemon_step demo_spawn demo_config (HubDecision (Some ''iiiiiii'') True) demo_asking) 0) = Some c \<and>
      ch_stdin c = [])"
proof -
  obtain c where c: "rn_child (runner_of demo_asking 0) = Some c" "ch_exitCode c = None" using demo_asking_facts(5) by blast
  have a: "ap_taskId demo_pending = ''iiiiiii''" "ap_status demo_pending = PENDING" by (simp_all add: demo_pending_def)
  let ?s = "hd (in_room (serverRoom (t_serverId demo_task)) (daemonSockets demo_approval_hub))"
  have s: "?s \<in> set (in_room (serverRoom (t_serverId demo_task)) (daemonSockets demo_approval_hub))" "so_id ?s = ''d1''"
    by (simp_all add: in_room_def serverRoom_def demo_approval_hub_def demo_task_defs)
  from decision_reaches_child [OF demo_asking_facts(1,2) _ demo_asking_facts(4) c demo_approval_find a(2) s(1) refl,
      of "\<lparr>dad_approve = True, dad_reason = None\<rparr>"] demo_asking_facts(3)
  show ?thesis by (auto simp: a s(2))
qed

end
