(* ===== verification/Threads.thy ===== *)
theory Threads
  imports Prelude
begin

text \<open>
  Handlers that give way to others. A thread is a handler cut at its awaits: it is finished, or it has
  a next atomic step on the shared state, after which it is another thread. Running a thread alone
  gives a program of the sequential model; a pool of threads takes the steps of its members in any
  order. The locale \<open>await_handlers\<close> is the contract between a family of threads and the sequential
  handlers they are cut from.
\<close>

section \<open>Threads\<close>

datatype ('s, 'e, 'a) thread =
    Done "'e + 'a"
  | Atomic "'s \<Rightarrow> ('s, 'e, 'a) thread \<times> 's"

primrec run :: "('s, 'e, 'a) thread \<Rightarrow> ('s, 'e, 'a) prog" where
  "run (Done r) = (\<lambda>s. (r, s))"
| "run (Atomic f) = (\<lambda>s. case map_prod run id (f s) of (g, s') \<Rightarrow> g s')"

primrec bindT :: "('s, 'e, 'a) thread \<Rightarrow> ('a \<Rightarrow> ('s, 'e, 'b) thread) \<Rightarrow> ('s, 'e, 'b) thread" where
  "bindT (Done r) k = (case r of Inl e \<Rightarrow> Done (Inl e) | Inr a \<Rightarrow> k a)"
| "bindT (Atomic f) k = Atomic (\<lambda>s. map_prod (\<lambda>t. bindT t k) id (f s))"

primrec catchT :: "('s, 'e, 'a) thread \<Rightarrow> ('e \<Rightarrow> ('s, 'e, 'a) thread) \<Rightarrow> ('s, 'e, 'a) thread" where
  "catchT (Done r) k = (case r of Inl e \<Rightarrow> k e | Inr a \<Rightarrow> Done (Inr a))"
| "catchT (Atomic f) k = Atomic (\<lambda>s. map_prod (\<lambda>t. catchT t k) id (f s))"

definition retT :: "'a \<Rightarrow> ('s, 'e, 'a) thread" where
  "retT a = Done (Inr a)"

definition throwT :: "'e \<Rightarrow> ('s, 'e, 'a) thread" where
  "throwT e = Done (Inl e)"

definition thenT :: "('s, 'e, 'a) thread \<Rightarrow> ('s, 'e, 'b) thread \<Rightarrow> ('s, 'e, 'b) thread" where
  "thenT t u = bindT t (\<lambda>_. u)"

text \<open>One awaited operation, with the code up to the next await.\<close>

definition atomic :: "('s, 'e, 'a) prog \<Rightarrow> ('s, 'e, 'a) thread" where
  "atomic m = Atomic (\<lambda>s. case m s of (r, s') \<Rightarrow> (Done r, s'))"

section \<open>A thread alone\<close>

named_theorems run_simps \<comment> \<open>running a thread alone\<close>

lemma bindE_throw [simp]: "bindE (throw e) f = throw e"
  by (rule ext) (simp add: bindE_apply throw_apply)

lemma thread_induct [case_names Done Atomic]:
  assumes "\<And>r. P (Done r)" and "\<And>f. (\<And>s. P (fst (f s))) \<Longrightarrow> P (Atomic f)"
  shows "P t"
proof (induction t)
  case (Atomic f)
  then have "P (fst (f s))" for s by (cases "f s") (metis fst_conv fsts.intros rangeI)
  then show ?case by (rule assms(2))
qed (rule assms(1))

lemma run_Atomic: "run (Atomic f) s = run (fst (f s)) (snd (f s))"
  by (cases "f s") simp

lemma run_basic [run_simps]: "run (retT a) = ret a" "run (throwT e) = throw e" "run (atomic m) = m"
  by (auto simp: retT_def throwT_def atomic_def ret_apply throw_apply split: prod.split)

lemma run_bindT [run_simps]: "run (bindT t k) = bindE (run t) (\<lambda>a. run (k a))"
proof
  show "run (bindT t k) s = bindE (run t) (\<lambda>a. run (k a)) s" for s
  proof (induction t arbitrary: s rule: thread_induct)
    case (Done r)
    then show ?case by (cases r) (simp_all add: bindE_apply)
  next
    case (Atomic f)
    from Atomic [of s "snd (f s)"] show ?case by (simp add: run_Atomic bindE_apply del: run.simps(2))
  qed
qed

lemma run_catchT [run_simps]: "run (catchT t k) = catchE (run t) (\<lambda>e. run (k e))"
proof
  show "run (catchT t k) s = catchE (run t) (\<lambda>e. run (k e)) s" for s
  proof (induction t arbitrary: s rule: thread_induct)
    case (Done r)
    then show ?case by (cases r) (simp_all add: catchE_apply)
  next
    case (Atomic f)
    from Atomic [of s "snd (f s)"] show ?case by (simp add: run_Atomic catchE_apply del: run.simps(2))
  qed
qed

lemma run_thenT [run_simps]: "run (thenT t u) = thenE (run t) (run u)"
  by (simp add: thenT_def thenE_def run_bindT)

lemma run_if [run_simps]: "run (if b then t else u) = (if b then run t else run u)"
  by simp

lemma run_option [run_simps]: "run (case v of None \<Rightarrow> t | Some a \<Rightarrow> u a) = (case v of None \<Rightarrow> run t | Some a \<Rightarrow> run (u a))"
  by (cases v) simp_all

lemma run_prod [run_simps]: "run (case p of (a, b) \<Rightarrow> t a b) = (case p of (a, b) \<Rightarrow> run (t a b))"
  by (cases p) simp

lemma run_list [run_simps]: "run (case l of [] \<Rightarrow> t | a # r \<Rightarrow> u a r) = (case l of [] \<Rightarrow> run t | a # r \<Rightarrow> run (u a r))"
  by (cases l) simp_all

section \<open>Steps\<close>

inductive thread_step :: "('s, 'e, 'a) thread \<times> 's \<Rightarrow> ('s, 'e, 'a) thread \<times> 's \<Rightarrow> bool" where
  "f s = (t, s') \<Longrightarrow> thread_step (Atomic f, s) (t, s')"

inductive_simps thread_step_iff: "thread_step (t, s) (t', s')"

abbreviation thread_steps :: "('s, 'e, 'a) thread \<times> 's \<Rightarrow> ('s, 'e, 'a) thread \<times> 's \<Rightarrow> bool" where
  "thread_steps \<equiv> thread_step\<^sup>*\<^sup>*"

lemma steps_bindT: "thread_steps (t, s) (t', s') \<Longrightarrow> thread_steps (bindT t k, s) (bindT t' k, s')"
proof (induction rule: rtranclp_induct2)
  case (step u v u' v')
  have "thread_step (bindT u k, v) (bindT u' k, v')" using step(2) by (auto simp: thread_step_iff)
  with step(3) show ?case by (rule rtranclp.rtrancl_into_rtrancl)
qed simp

lemma steps_catchT: "thread_steps (t, s) (t', s') \<Longrightarrow> thread_steps (catchT t k, s) (catchT t' k, s')"
proof (induction rule: rtranclp_induct2)
  case (step u v u' v')
  have "thread_step (catchT u k, v) (catchT u' k, v')" using step(2) by (auto simp: thread_step_iff)
  with step(3) show ?case by (rule rtranclp.rtrancl_into_rtrancl)
qed simp

lemma steps_run: "run t s = (r, s') \<Longrightarrow> thread_steps (t, s) (Done r, s')"
proof (induction t arbitrary: s rule: thread_induct)
  case (Atomic f)
  have "thread_step (Atomic f, s) (fst (f s), snd (f s))" by (intro thread_step.intros surjective_pairing)
  moreover have "thread_steps (fst (f s), snd (f s)) (Done r, s')"
    using Atomic by (simp add: run_Atomic del: run.simps(2) prod.collapse)
  ultimately show ?case by (rule converse_rtranclp_into_rtranclp)
qed simp

text \<open>A prefix of a thread that succeeds.\<close>

lemma steps_prefix:
  assumes "run t s = (Inr a, s')"
  shows "thread_steps (bindT t k, s) (k a, s')" and "thread_steps (thenT t u, s) (u, s')"
  using steps_bindT [OF steps_run [OF assms], of k] steps_bindT [OF steps_run [OF assms], of "\<lambda>_. u"] by (simp_all add: thenT_def)

text \<open>The first step of a handler inside its wrapper.\<close>

lemma steps_read: "m s = (Inr a, s') \<Longrightarrow> k a = t \<Longrightarrow> thread_steps (bindT (atomic m) k, s) (t, s')"
  using steps_prefix(1) [of "atomic m" s a s' k] by (simp add: run_simps)

lemma steps_first:
  assumes "m s = (Inr a, s')" and "k a = t"
  shows "thread_steps (bindT (bindT (atomic m) k) g, s) (bindT t g, s')"
    and "thread_steps (thenT (bindT (atomic m) k) u, s) (thenT t u, s')"
  unfolding thenT_def by (intro steps_bindT steps_read [of m s a s' k t] assms)+

section \<open>Pools\<close>

type_synonym ('s, 'e, 'a) pool = "('s, 'e, 'a) thread list \<times> 's"

inductive pool_step :: "('s, 'e, 'a) pool \<Rightarrow> ('s, 'e, 'a) pool \<Rightarrow> bool" where
  step: "i < length ts \<Longrightarrow> thread_step (ts ! i, s) (t, s') \<Longrightarrow> pool_step (ts, s) (ts[i := t], s')"

inductive_cases pool_stepE: "pool_step (ts, s) p"

abbreviation pool_steps :: "('s, 'e, 'a) pool \<Rightarrow> ('s, 'e, 'a) pool \<Rightarrow> bool" where
  "pool_steps \<equiv> pool_step\<^sup>*\<^sup>*"

lemma pool_member:
  assumes "thread_steps (ts ! i, s) (t, s')" and "i < length ts"
  shows "pool_steps (ts, s) (ts[i := t], s')"
  using assms(1)
proof (induction rule: rtranclp_induct2)
  case (step u v u' v')
  have "pool_step (ts[i := u], v) (ts[i := u, i := u'], v')" using step(2) assms(2) by (intro pool_step.step) auto
  with step(3) show ?case by (simp add: rtranclp.rtrancl_into_rtrancl)
qed simp

lemmas pool_first = pool_member [of "[t, u]" 0 s t' s' for t u s t' s', simplified]
lemmas pool_second = pool_member [of "[t, u]" 1 s t' s' for t u s t' s', simplified]

text \<open>Two members that both read before either writes.\<close>

lemma pool_read_then_write:
  assumes "thread_steps (t, s) (t', s)" and "thread_steps (u, s) (u', s)" and "run t' s = (p, s1)" and "run u' s1 = (q, s2)"
  shows "pool_steps ([t, u], s) ([Done p, Done q], s2)"
proof -
  note pool_first [OF assms(1), of u]
  also note pool_second [OF assms(2), of t']
  also note pool_first [OF steps_run [OF assms(3)], of u']
  also note pool_second [OF steps_run [OF assms(4)], of "Done p"]
  finally show ?thesis .
qed

text \<open>One member that runs from start to end while another one waits.\<close>

lemma pool_during:
  assumes "thread_steps (t, s) (t', s1)" and "run u s1 = (q, s2)" and "run t' s2 = (p, s3)"
  shows "pool_steps ([t, u], s) ([Done p, Done q], s3)"
proof -
  note pool_first [OF assms(1), of u]
  also note pool_second [OF steps_run [OF assms(2)], of t']
  also note pool_first [OF steps_run [OF assms(3)], of "Done q"]
  finally show ?thesis .
qed

section \<open>Invariants of pools\<close>

inductive keepsT :: "('s \<Rightarrow> bool) \<Rightarrow> ('s, 'e, 'a) thread \<Rightarrow> bool" for I where
  keeps_Done: "keepsT I (Done r)"
| keeps_Atomic: "(\<And>s. I s \<Longrightarrow> I (snd (f s))) \<Longrightarrow> (\<And>s. I s \<Longrightarrow> keepsT I (fst (f s))) \<Longrightarrow> keepsT I (Atomic f)"

inductive_cases keeps_AtomicE: "keepsT I (Atomic f)"

named_theorems keepsT_rules \<comment> \<open>threads every step of which keeps an invariant\<close>

lemma keepsT_basic [keepsT_rules]: "keepsT I (retT a)" "keepsT I (throwT e)"
  by (simp_all add: retT_def throwT_def keeps_Done)

lemma keepsT_atomic [keepsT_rules]:
  assumes "keeps I m"
  shows "keepsT I (atomic m)"
  unfolding atomic_def using assms by (intro keeps_Atomic) (auto simp: keeps_def keeps_Done split: prod.split)

lemma keepsT_bindT [keepsT_rules]:
  assumes "keepsT I t" and "\<And>a. keepsT I (k a)"
  shows "keepsT I (bindT t k)"
  using assms(1)
proof induction
  case (keeps_Done r)
  then show ?case using assms(2) by (cases r) (simp_all add: keepsT.keeps_Done)
next
  case (keeps_Atomic f)
  then show ?case by (auto intro: keepsT.keeps_Atomic)
qed

lemma keepsT_catchT [keepsT_rules]:
  assumes "keepsT I t" and "\<And>e. keepsT I (k e)"
  shows "keepsT I (catchT t k)"
  using assms(1)
proof induction
  case (keeps_Done r)
  then show ?case using assms(2) by (cases r) (simp_all add: keepsT.keeps_Done)
next
  case (keeps_Atomic f)
  then show ?case by (auto intro: keepsT.keeps_Atomic)
qed

lemma keepsT_thenT [keepsT_rules]: "keepsT I t \<Longrightarrow> keepsT I u \<Longrightarrow> keepsT I (thenT t u)"
  unfolding thenT_def by (rule keepsT_bindT)

lemma keepsT_if [keepsT_rules]: "keepsT I t \<Longrightarrow> keepsT I u \<Longrightarrow> keepsT I (if b then t else u)"
  by simp

lemma keepsT_option [keepsT_rules]:
  "keepsT I t \<Longrightarrow> (\<And>a. keepsT I (u a)) \<Longrightarrow> keepsT I (case v of None \<Rightarrow> t | Some a \<Rightarrow> u a)"
  by (cases v) simp_all

lemma keepsT_prod [keepsT_rules]: "(\<And>a b. keepsT I (t a b)) \<Longrightarrow> keepsT I (case p of (a, b) \<Rightarrow> t a b)"
  by (cases p) simp

lemma keepsT_list [keepsT_rules]:
  "keepsT I t \<Longrightarrow> (\<And>a r. keepsT I (u a r)) \<Longrightarrow> keepsT I (case l of [] \<Rightarrow> t | a # r \<Rightarrow> u a r)"
  by (cases l) simp_all

lemma keepsT_True: "keepsT (\<lambda>_. True) t"
  by (induction t rule: thread_induct) (auto intro: keepsT.intros)

lemma pool_keeps:
  assumes "pool_steps (ts, s) (ts', s')" and "\<forall>t \<in> set ts. keepsT I t" and "I s"
  shows "I s' \<and> (\<forall>t \<in> set ts'. keepsT I t)"
  using assms(1)
proof (induction rule: rtranclp_induct2)
  case refl
  show ?case using assms(2,3) by simp
next
  case (step us u vs v)
  from step(2) obtain i t where i: "i < length us" "thread_step (us ! i, u) (t, v)" "vs = us[i := t]"
    by (auto elim: pool_stepE)
  then obtain f where f: "us ! i = Atomic f" "f u = (t, v)" by (auto simp: thread_step_iff)
  have "keepsT I (Atomic f)" using step(3) i(1) f(1) by (metis nth_mem)
  then have "I v" "keepsT I t" using step(3) f(2) by (metis fst_conv snd_conv keeps_AtomicE)+
  then show ?case using step(3) i(3) set_update_subset_insert by fastforce
qed

section \<open>The contract of a family of handlers\<close>

locale await_handlers =
  fixes thread_of :: "'r \<Rightarrow> ('s, 'e, 'a) thread"
    and handler :: "'r \<Rightarrow> ('s, 'e, 'a) prog"
    and inv :: "'s \<Rightarrow> bool"
  assumes alone: "run (thread_of r) = handler r"
    and steps_keep: "keepsT inv (thread_of r)"
begin

lemma any_interleaving_keeps:
  assumes "pool_steps (map thread_of rs, s) (ts, s')" and "inv s"
  shows "inv s'"
  using pool_keeps [of _ s ts s' inv, OF assms(1) _ assms(2)] steps_keep by simp

text \<open>Taking the requests one after the other is one of the interleavings, with the sequential results.\<close>

lemma sequential_is_interleaving:
  assumes "handler r s = (p, s1)" and "handler q s1 = (o', s2)"
  shows "pool_steps (map thread_of [r, q], s) ([Done p, Done o'], s2)"
proof -
  have "pool_steps ([thread_of r, thread_of q], s) ([Done p, thread_of q], s1)"
    using assms(1) by (intro pool_first steps_run) (simp add: alone)
  also have "pool_steps ([Done p, thread_of q], s1) ([Done p, Done o'], s2)"
    using assms(2) by (intro pool_second steps_run) (simp add: alone)
  finally show ?thesis by simp
qed

end

end
