(* ===== verification/Gateway.thy ===== *)
theory Gateway
  imports Servers
begin

text \<open>
  The connection handlers of the daemon namespace (\<^verbatim>\<open>hub-api/src/realtime/daemon.gateway.ts\<close>): a
  daemon authenticates with its API key, joins the room of its server and marks the server online;
  a disconnect marks it offline; a heartbeat refreshes the mark.
\<close>

definition daemon_connect :: "ext \<Rightarrow> string \<Rightarrow> string option \<Rightarrow> unit hub_prog" where
  "daemon_connect x sid apiKey =
    (case apiKey of
       None \<Rightarrow> ret ()
     | Some k \<Rightarrow>
         if k = [] then ret ()
         else bindE (findByApiKey x k) (\<lambda>v.
           case v of
             None \<Rightarrow> ret ()
           | Some s \<Rightarrow>
               thenE (modS (\<lambda>h. h\<lparr>daemonSockets := daemonSockets h @
                   [\<lparr>so_id = sid, so_serverId = Some (s_id s), so_ownerId = Some (s_ownerId s),
                     so_userId = None, so_rooms = [serverRoom (s_id s)]\<rparr>]\<rparr>))
                 (markHeartbeat (s_id s))))"

definition daemon_disconnect :: "string \<Rightarrow> unit hub_prog" where
  "daemon_disconnect sid =
    bindE (getS (\<lambda>h. find_row so_id sid (daemonSockets h))) (\<lambda>v.
      case v of
        None \<Rightarrow> ret ()
      | Some so \<Rightarrow>
          thenE (modS (\<lambda>h. h\<lparr>daemonSockets := delete_row so_id sid (daemonSockets h)\<rparr>))
            (case so_serverId so of None \<Rightarrow> ret () | Some i \<Rightarrow> markOffline i))"

definition onHeartbeat :: "string \<Rightarrow> unit hub_prog" where
  "onHeartbeat sid =
    bindE (getS (\<lambda>h. find_row so_id sid (daemonSockets h))) (\<lambda>v.
      case v of
        None \<Rightarrow> ret ()
      | Some so \<Rightarrow> (case so_serverId so of None \<Rightarrow> ret () | Some i \<Rightarrow> markHeartbeat i))"

section \<open>Lemmas\<close>

definition daemon_rooms_ok :: "hub \<Rightarrow> bool" where
  "daemon_rooms_ok h \<longleftrightarrow>
    (\<forall>s \<in> set (daemonSockets h). \<exists>i. so_serverId s = Some i \<and> so_rooms s = [serverRoom i])"

lemma keeps_daemon_connect [keeps_rules]: "keeps (wf_hub x) (daemon_connect y s k)"
  unfolding daemon_connect_def findByApiKey_def by (intro keeps_rules keepsI) (simp add: prog_simps)

lemma keeps_daemon_disconnect [keeps_rules]: "keeps (wf_hub x) (daemon_disconnect s)"
  unfolding daemon_disconnect_def by (intro keeps_rules keepsI) (simp add: prog_simps)

lemma keeps_onHeartbeat [keeps_rules]: "keeps (wf_hub x) (onHeartbeat s)"
  unfolding onHeartbeat_def by (intro keeps_rules)

lemma markHeartbeat_apply [prog_simps]:
  "markHeartbeat i h =
    (if i \<in> s_id ` set (servers h)
     then (Inr (), h\<lparr>servers := update_row s_id i
        (\<lambda>s. s\<lparr>s_status := ONLINE, s_lastHeartbeatAt := Some (clock h), s_updatedAt := clock h\<rparr>) (servers h)\<rparr>)
     else (Inl RecordNotFound, h))"
  by (simp add: markHeartbeat_def prog_simps)

lemma markOffline_apply [prog_simps]:
  "markOffline i h =
    (if i \<in> s_id ` set (servers h)
     then (Inr (), h\<lparr>servers := update_row s_id i
        (\<lambda>s. s\<lparr>s_status := OFFLINE, s_updatedAt := clock h\<rparr>) (servers h)\<rparr>)
     else (Inl RecordNotFound, h))"
  by (simp add: markOffline_def prog_simps)

lemma daemon_connect_rooms: "keeps daemon_rooms_ok (daemon_connect x s k)"
  by (rule keepsI) (auto simp: daemon_connect_def findByApiKey_def prog_simps daemon_rooms_ok_def
      split: option.splits)

lemma daemon_disconnect_rooms: "keeps daemon_rooms_ok (daemon_disconnect s)"
  by (rule keepsI) (auto simp: daemon_disconnect_def prog_simps daemon_rooms_ok_def split: option.splits)

section \<open>Properties\<close>

text \<open>A daemon that connects with the key of a server makes that server reachable: the connection
  adds one socket, in exactly the room of the server that the key's hash identifies, the stored
  status becomes ONLINE with the current time as its heartbeat, and a dispatch to it is delivered. A
  key that identifies no server changes nothing.\<close>

theorem daemon_connect_online:
  assumes "wf_hub x h" and "k \<noteq> []"
  shows "(case find (\<lambda>s. s_apiKeyHash s = hashApiKey x k) (servers h) of
     None \<Rightarrow> daemon_connect x sid (Some k) h = (Inr (), h)
   | Some s \<Rightarrow> (\<exists>h' s'. daemon_connect x sid (Some k) h = (Inr (), h') \<and>
       daemonSockets h' = daemonSockets h @ [\<lparr>so_id = sid, so_serverId = Some (s_id s),
         so_ownerId = Some (s_ownerId s), so_userId = None, so_rooms = [serverRoom (s_id s)]\<rparr>] \<and>
       find_row s_id (s_id s) (servers h') = Some s' \<and> s_status s' = ONLINE \<and>
       s_lastHeartbeatAt s' = Some (clock h) \<and>
       (\<forall>m. (sid, m) \<in> set (daemonOut (snd (dispatchToServer (s_id s) m h'))))))"
proof (cases "find (\<lambda>s. s_apiKeyHash s = hashApiKey x k) (servers h)")
  case None
  with assms(2) show ?thesis by (simp add: daemon_connect_def findByApiKey_def prog_simps)
next
  case (Some s)
  then have s: "s \<in> set (servers h)" by (auto simp: find_Some_iff)
  have "find_row s_id (s_id s) (servers h) = Some s"
    using s wf_hubD(2) [OF assms(1)] by (simp add: find_row_Some_iff)
  with Some s assms(2) show ?thesis
    by (simp add: daemon_connect_def findByApiKey_def prog_simps find_row_update_row in_room_def)
qed

theorem daemon_connect_online_witness:
  "\<exists>h' s'. daemon_connect demo_ext ''sock'' (Some demo_api_key) demo_server_hub = (Inr (), h') \<and>
     find_row s_id ''iii'' (servers h') = Some s' \<and> s_status s' = ONLINE"
proof -
  have "demo_api_key \<noteq> []" by (simp add: demo_api_key_def demo_ext_def)
  moreover have "find (\<lambda>s. s_apiKeyHash s = hashApiKey demo_ext demo_api_key) (servers demo_server_hub) = Some demo_server"
    by (simp add: demo_server_hub_def demo_server_def)
  moreover have "s_id demo_server = ''iii''" by (simp add: demo_server_def)
  ultimately show ?thesis
    using daemon_connect_online [OF wf_demo_server_hub, of demo_api_key "''sock''"] by auto
qed

text \<open>C25. The stored status can disagree with the sockets: when a server has two connected sockets (a
  daemon that reconnected before its old connection timed out) and the old one disconnects, the row
  says OFFLINE although the server still has a connected daemon, to which dispatches are delivered.
  Until the next heartbeat the server is no dispatch candidate.\<close>

theorem stale_disconnect_marks_offline:
  assumes "wf_hub x h" and "find_row so_id a (daemonSockets h) = Some sa" and "so_serverId sa = Some i"
    and "sb \<in> set (daemonSockets h)" and "so_id sb \<noteq> a" and "serverRoom i \<in> set (so_rooms sb)"
    and "i \<in> s_id ` set (servers h)"
  shows "\<exists>h' s. daemon_disconnect a h = (Inr (), h') \<and> find_row s_id i (servers h') = Some s \<and>
    s_status s = OFFLINE \<and> fst (isServerOnline i h') = Inr True"
proof -
  let ?h1 = "h\<lparr>daemonSockets := delete_row so_id a (daemonSockets h)\<rparr>"
  have d: "daemon_disconnect a h = markOffline i ?h1"
    using assms(2,3) by (simp add: daemon_disconnect_def prog_simps)
  obtain s where "find_row s_id i (servers h) = Some s"
    using assms(7) by (metis find_row_None not_None_eq)
  moreover have "in_room (serverRoom i) (delete_row so_id a (daemonSockets h)) \<noteq> []"
    using assms(4-6) by (auto simp: in_room_def filter_empty_conv)
  ultimately show ?thesis using assms(7) by (simp add: d prog_simps find_row_update_row)
qed

definition demo_two_sockets :: hub where
  "demo_two_sockets = demo_server_hub\<lparr>daemonSockets :=
     [\<lparr>so_id = ''a'', so_serverId = Some ''iii'', so_ownerId = Some ''i'', so_userId = None, so_rooms = [serverRoom ''iii'']\<rparr>,
      \<lparr>so_id = ''b'', so_serverId = Some ''iii'', so_ownerId = Some ''i'', so_userId = None, so_rooms = [serverRoom ''iii'']\<rparr>]\<rparr>"

theorem stale_disconnect_marks_offline_witness:
  "\<exists>h' s. daemon_disconnect ''a'' demo_two_sockets = (Inr (), h') \<and> find_row s_id ''iii'' (servers h') = Some s \<and>
    s_status s = OFFLINE \<and> fst (isServerOnline ''iii'' h') = Inr True"
proof (rule stale_disconnect_marks_offline)
  show "wf_hub demo_ext demo_two_sockets" by (simp add: demo_two_sockets_def wf_demo_server_hub)
  show "find_row so_id ''a'' (daemonSockets demo_two_sockets) = Some (hd (daemonSockets demo_two_sockets))"
    by (simp add: demo_two_sockets_def find_row_def)
  show "so_serverId (hd (daemonSockets demo_two_sockets)) = Some ''iii''" by (simp add: demo_two_sockets_def)
  show "daemonSockets demo_two_sockets ! 1 \<in> set (daemonSockets demo_two_sockets)"
    "so_id (daemonSockets demo_two_sockets ! 1) \<noteq> ''a''"
    "serverRoom ''iii'' \<in> set (so_rooms (daemonSockets demo_two_sockets ! 1))"
    by (simp_all add: demo_two_sockets_def)
  show "''iii'' \<in> s_id ` set (servers demo_two_sockets)"
    by (simp add: demo_two_sockets_def demo_server_hub_def demo_server_def)
qed

end
