(* ===== verification/Task_Processor.thy ===== *)
theory Task_Processor
  imports Tasks
begin

text \<open>
  \<^verbatim>\<open>hub-api/src/tasks/tasks.processor.ts\<close>: the consumer of the dispatch queue. A dispatch job offers a
  QUEUED task to the candidates in order, one attempt row each, until one accepts it; the watchdog
  job times out the attempts of RUNNING tasks that have not reported for too long, and requeues or
  fails the task.
\<close>

section \<open>Definitions\<close>

text \<open>\<open>error.message\<close>: for the exceptions the hub's own code throws, their message; the database
  client's messages are a parameter.\<close>

fun error_message :: "ext \<Rightarrow> hub_error \<Rightarrow> string" where
  "error_message x (NotFoundException m) = m"
| "error_message x (ForbiddenException m) = m"
| "error_message x (BadRequestException m) = m"
| "error_message x (UnauthorizedException m) = m"
| "error_message x (ServiceUnavailableException m) = m"
| "error_message x (JsError m) = m"
| "error_message x e = x_errorMessage x e"

definition formatFailoverLog :: "string list \<Rightarrow> string" where
  "formatFailoverLog failures =
    newline @ ''[hub] Dispatch failover exhausted:'' @ newline @
    join newline (map (\<lambda>failure. ''- '' @ failure) failures) @ newline"

definition dispatchToCandidate :: "string \<Rightarrow> json \<Rightarrow> WorkerDispatchCandidate \<Rightarrow> unit hub_prog" where
  "dispatchToCandidate taskId inp candidate =
    bindE (getS (\<lambda>h. find_row t_id taskId (tasks h))) (\<lambda>v.
    bindE (someE RecordNotFound v) (\<lambda>task.
    bindE (registry_get (t_workerType task)) (\<lambda>adapter.
      thenE (wa_submitTask adapter \<lparr>tr_taskId = t_id task, tr_serverId = wc_serverId candidate, tr_input = inp\<rparr>)
        (ret ()))))"

text \<open>One round of the loop over the candidates: \<open>None\<close> when the task was dispatched, else the line
  that describes the failure.\<close>

definition dispatch_one :: "ext \<Rightarrow> task \<Rightarrow> WorkerDispatchCandidate \<Rightarrow> string option hub_prog" where
  "dispatch_one x task candidate =
    bindE (taskAttempt_create x (t_id task) (wc_serverId candidate)) (\<lambda>attempt.
      catchE
        (thenE (dispatchToCandidate (t_id task) (t_input task) candidate)
         (thenE (task_connect (t_id task) (wc_serverId candidate) (\<lambda>t. t\<lparr>t_status := RUNNING\<rparr>))
          (thenE (taskAttempt_update (at_id attempt) (\<lambda>now a. a\<lparr>at_status := A_RUNNING, at_lastSeenAt := now\<rparr>))
            (ret None))))
        (\<lambda>e.
          thenE (taskAttempt_update (at_id attempt) (\<lambda>now a. a\<lparr>at_status := A_FAILED,
              at_failureReason := Some (error_message x e), at_finishedAt := Some now, at_lastSeenAt := now\<rparr>))
            (ret (Some (wc_serverName candidate @ ''/'' @ wc_profileName candidate @ '': '' @ error_message x e)))))"

fun dispatch_loop :: "ext \<Rightarrow> task \<Rightarrow> WorkerDispatchCandidate list \<Rightarrow> string list \<Rightarrow> string list option hub_prog" where
  "dispatch_loop x task [] failures = ret (Some failures)"
| "dispatch_loop x task (candidate # candidates) failures =
    bindE (dispatch_one x task candidate) (\<lambda>r.
      case r of None \<Rightarrow> ret None | Some failure \<Rightarrow> dispatch_loop x task candidates (failures @ [failure]))"

text \<open>The processor's own copy of the exclusion list.\<close>

definition tp_retryExcludedServerIds :: "string \<Rightarrow> string list hub_prog" where
  "tp_retryExcludedServerIds taskId =
    getS (\<lambda>h. rev (remdups (rev (map at_serverId
      (filter (\<lambda>a. at_taskId a = taskId \<and>
         (at_status a = A_TIMED_OUT \<or> at_status a = A_FAILED \<and>
           (case at_failureReason a of None \<Rightarrow> False | Some r \<Rightarrow> startsWith r RETRYABLE_CAPACITY_FAILURE_PREFIX))) (attempts h))))))"

definition dispatch_task :: "ext \<Rightarrow> task \<Rightarrow> unit hub_prog" where
  "dispatch_task x task =
    bindE (tp_retryExcludedServerIds (t_id task)) (\<lambda>excluded.
    bindE (getDispatchCandidates x (t_workerType task) (t_serverId task) excluded) (\<lambda>candidates.
      if candidates = []
      then throw (JsError (''No online '' @ show_workerType (t_workerType task) @ '' worker candidates for task '' @
             t_id task @ ''.''))
      else bindE (dispatch_loop x task candidates []) (\<lambda>r.
        case r of
          None \<Rightarrow> ret ()
        | Some failures \<Rightarrow>
            thenE (task_update (t_id task) (\<lambda>t. t\<lparr>t_logs := t_logs task @ formatFailoverLog failures\<rparr>))
             (throw (JsError (''Task '' @ t_id task @ '' dispatch failed on all candidates: '' @
                join '' | '' failures))))))"

text \<open>The watchdog. The tasks and their newest attempts are read once, before the loop. The clock stands still
  while a handler runs, so attempts of one dispatch job that failed over begin at the same time; among
  them the database's order is taken to be that of their creation.\<close>

definition newest_attempt :: "hub \<Rightarrow> string \<Rightarrow> task_attempt option" where
  "newest_attempt h taskId =
    (case js_sort started_desc (filter (\<lambda>a. at_taskId a = taskId) (attempts h)) of
       [] \<Rightarrow> None | a # _ \<Rightarrow> Some a)"

definition stuck_candidates :: "int \<Rightarrow> hub \<Rightarrow> (task \<times> task_attempt option) list" where
  "stuck_candidates staleBefore h =
    map (\<lambda>t. (t, newest_attempt h (t_id t)))
      (filter (\<lambda>t. t_status t = RUNNING \<and> t_updatedAt t < staleBefore) (tasks h))"

definition stale_reason :: "ext \<Rightarrow> string" where
  "stale_reason x = ''No daemon update for '' @ show_int (watchdogTimeoutMs x) @ ''ms.''"

definition timed_out_count :: "hub \<Rightarrow> string \<Rightarrow> nat" where
  "timed_out_count h taskId =
    length (filter (\<lambda>a. at_taskId a = taskId \<and> at_status a = A_TIMED_OUT) (attempts h))"

definition time_out_task :: "ext \<Rightarrow> task \<Rightarrow> task_attempt \<Rightarrow> unit hub_prog" where
  "time_out_task x task attempt =
    bindE (getS (\<lambda>h. timed_out_count h (t_id task))) (\<lambda>timedOutCount.
    thenE (taskAttempt_update (at_id attempt) (\<lambda>now a. a\<lparr>at_status := A_TIMED_OUT,
        at_failureReason := Some (stale_reason x), at_finishedAt := Some now\<rparr>))
     (if int timedOutCount \<ge> watchdogMaxRequeues x
      then thenE (task_update (t_id task) (\<lambda>t. t\<lparr>t_status := FAILED, t_logs := t_logs task @ newline @
          ''[hub] Watchdog failed task after repeated stale RUNNING attempts: '' @ stale_reason x @ newline\<rparr>)) (ret ())
      else thenE (task_update (t_id task) (\<lambda>t. t\<lparr>t_status := QUEUED, t_logs := t_logs task @ newline @
          ''[hub] Watchdog requeued stale RUNNING task from server '' @ at_serverId attempt @ '': '' @ stale_reason x @ newline\<rparr>))
        (requeueTask (t_id task))))"

definition is_stuck :: "int \<Rightarrow> task_attempt option \<Rightarrow> bool" where
  "is_stuck staleBefore v =
    (case v of None \<Rightarrow> False | Some attempt \<Rightarrow> at_active attempt \<and> at_lastSeenAt attempt < staleBefore)"

fun scan_loop :: "ext \<Rightarrow> int \<Rightarrow> (task \<times> task_attempt option) list \<Rightarrow> nat \<Rightarrow> nat hub_prog" where
  "scan_loop x staleBefore [] handled = ret handled"
| "scan_loop x staleBefore ((task, v) # rest) handled =
    (if is_stuck staleBefore v
     then thenE (time_out_task x task (the v)) (scan_loop x staleBefore rest (handled + 1))
     else scan_loop x staleBefore rest handled)"

definition scanStuckTasksOnce :: "ext \<Rightarrow> nat hub_prog" where
  "scanStuckTasksOnce x =
    bindE now (\<lambda>t. let staleBefore = t - watchdogTimeoutMs x in
      bindE (getS (stuck_candidates staleBefore)) (\<lambda>running. scan_loop x staleBefore running 0))"

definition process :: "ext \<Rightarrow> job \<Rightarrow> unit hub_prog" where
  "process x job =
    (if j_name job = TASK_WATCHDOG_JOB then thenE (scanStuckTasksOnce x) (ret ())
     else case j_taskId job of
       None \<Rightarrow> ret ()
     | Some taskId \<Rightarrow>
         if taskId = [] then ret ()
         else bindE (getS (\<lambda>h. find_row t_id taskId (tasks h))) (\<lambda>v.
           case v of
             None \<Rightarrow> ret ()
           | Some task \<Rightarrow> if t_status task \<noteq> QUEUED then ret () else dispatch_task x task))"

section \<open>Lemmas\<close>

lemma tp_retryExcludedServerIds_eq: "tp_retryExcludedServerIds = retryExcludedServerIds"
  by (rule ext) (simp add: tp_retryExcludedServerIds_def retryExcludedServerIds_def excluded_by_def)

subsection \<open>Integrity\<close>

lemma keeps_submitTask [keeps_rules]: "keeps (wf_hub x) (wa_submitTask codexAdapter r)"
  by (rule codex.submit_keeps) simp

lemma keeps_dispatchToCandidate [keeps_rules]: "keeps (wf_hub x) (dispatchToCandidate t i c)"
  unfolding dispatchToCandidate_def registry_get_bind by (intro keeps_rules)

lemma keeps_dispatch_one [keeps_rules]: "inj (x_uuid x) \<Longrightarrow> keeps (wf_hub x) (dispatch_one x t c)"
  unfolding dispatch_one_def by (intro keeps_rules) simp_all

lemma keeps_dispatch_loop [keeps_rules]: "inj (x_uuid x) \<Longrightarrow> keeps (wf_hub x) (dispatch_loop x t cs fs)"
  by (induction cs arbitrary: fs) (auto intro!: keeps_rules)

lemma keeps_dispatch_task [keeps_rules]: "inj (x_uuid x) \<Longrightarrow> keeps (wf_hub x) (dispatch_task x t)"
  unfolding dispatch_task_def tp_retryExcludedServerIds_eq retryExcludedServerIds_def by (intro keeps_rules) simp_all

lemma keeps_time_out_task [keeps_rules]: "keeps (wf_hub x) (time_out_task y t a)"
  unfolding time_out_task_def requeueTask_def by (intro keeps_rules) simp_all

lemma keeps_scan_loop [keeps_rules]: "keeps (wf_hub x) (scan_loop y s l n)"
  by (induction y s l n rule: scan_loop.induct) (auto intro!: keeps_rules)

lemma keeps_process [keeps_rules]: "inj (x_uuid x) \<Longrightarrow> keeps (wf_hub x) (process x j)"
  unfolding process_def scanStuckTasksOnce_def Let_def by (intro keeps_rules)

subsection \<open>One round of dispatching\<close>

definition daemon_room :: "hub \<Rightarrow> WorkerDispatchCandidate \<Rightarrow> socket list" where
  "daemon_room h c = in_room (serverRoom (wc_serverId c)) (daemonSockets h)"

definition offline_message :: "WorkerDispatchCandidate \<Rightarrow> string" where
  "offline_message c = ko_server_open @ wc_serverId c @ ko_daemon_offline"

definition offline_line :: "WorkerDispatchCandidate \<Rightarrow> string" where
  "offline_line c = wc_serverName c @ ''/'' @ wc_profileName c @ '': '' @ offline_message c"

definition new_attempt :: "ext \<Rightarrow> hub \<Rightarrow> task \<Rightarrow> WorkerDispatchCandidate \<Rightarrow> task_attempt" where
  "new_attempt x h task c = \<lparr>at_id = x_uuid x (draws h), at_taskId = t_id task, at_serverId = wc_serverId c,
     at_status = A_DISPATCHING, at_failureReason = None, at_startedAt = clock h, at_lastSeenAt = clock h,
     at_finishedAt = None\<rparr>"

lemma update_row_last:
  "key r \<notin> key ` set t \<Longrightarrow> update_row key (key r) f (t @ [r]) = t @ [f r]"
  using update_row_absent [of "key r" key t f] by (simp add: update_row_def)

lemma update_row_fresh:
  "k \<notin> key ` set t \<Longrightarrow> key r = k \<Longrightarrow> update_row key k f (t @ [r]) = t @ [f r]"
  using update_row_last by metis

lemma taskAttempt_create_apply:
  assumes "t_id task \<in> t_id ` set (tasks h)" and "wc_serverId c \<in> s_id ` set (servers h)"
  shows "taskAttempt_create x (t_id task) (wc_serverId c) h =
    (Inr (new_attempt x h task c), h\<lparr>draws := Suc (draws h), attempts := attempts h @ [new_attempt x h task c]\<rparr>)"
  using assms by (simp add: taskAttempt_create_def prog_simps Let_def insert_row_def new_attempt_def)

lemma dispatchToCandidate_apply:
  assumes "find_row t_id i (tasks h) = Some t" and "t_workerType t = CODEX"
  shows "dispatchToCandidate i inp c h =
    (if daemon_room h c = [] then (Inl (ServiceUnavailableException (offline_message c)), h)
     else (Inr (), h\<lparr>daemonOut := daemonOut h @ map (\<lambda>s. (so_id s, TASK_SUBMIT i inp)) (daemon_room h c)\<rparr>))"
proof -
  have "t_id t = i" using find_row_SomeD [OF assms(1)] by simp
  then show ?thesis using assms
    by (simp add: dispatchToCandidate_def prog_simps codexAdapter_def codex_submitTask_def daemon_room_def offline_message_def)
qed

lemma dispatch_one_offline:
  assumes "wf_hub x h" and "inj (x_uuid x)" and "find_row t_id (t_id task) (tasks h) = Some t"
    and "t_workerType t = CODEX" and "wc_serverId c \<in> s_id ` set (servers h)" and "daemon_room h c = []"
  shows "dispatch_one x task c h = (Inr (Some (offline_line c)),
    h\<lparr>draws := Suc (draws h), attempts := attempts h @ [(new_attempt x h task c)\<lparr>at_status := A_FAILED,
        at_failureReason := Some (offline_message c), at_finishedAt := Some (clock h), at_lastSeenAt := clock h\<rparr>]\<rparr>)"
proof -
  let ?h = "h\<lparr>draws := Suc (draws h), attempts := attempts h @ [new_attempt x h task c]\<rparr>"
  have create: "taskAttempt_create x (t_id task) (wc_serverId c) h = (Inr (new_attempt x h task c), ?h)"
    using assms(3,5) by (intro taskAttempt_create_apply) (metis find_row_None option.distinct(1))+
  have submit: "dispatchToCandidate (t_id task) (t_input task) c ?h = (Inl (ServiceUnavailableException (offline_message c)), ?h)"
    using dispatchToCandidate_apply [of "t_id task" ?h t "t_input task" c] assms(3,4,6) by (simp add: daemon_room_def)
  have "x_uuid x (draws h) \<notin> at_id ` set (attempts h)" by (rule wf_fresh [OF assms(1,2) order_refl])
  then have "update_row at_id (at_id (new_attempt x h task c)) f (attempts ?h) = attempts h @ [f (new_attempt x h task c)]" for f
    by (simp add: update_row_fresh new_attempt_def)
  with create submit show ?thesis
    by (simp add: dispatch_one_def bindE_apply catchE_apply thenE_apply taskAttempt_update_apply ret_apply offline_line_def)
qed

lemma dispatch_one_online:
  assumes "wf_hub x h" and "inj (x_uuid x)" and "find_row t_id (t_id task) (tasks h) = Some t"
    and "t_workerType t = CODEX" and "wc_serverId c \<in> s_id ` set (servers h)" and "daemon_room h c \<noteq> []"
  shows "dispatch_one x task c h = (Inr None,
    h\<lparr>draws := Suc (draws h),
      attempts := attempts h @ [(new_attempt x h task c)\<lparr>at_status := A_RUNNING, at_lastSeenAt := clock h\<rparr>],
      daemonOut := daemonOut h @ map (\<lambda>s. (so_id s, TASK_SUBMIT (t_id task) (t_input task))) (daemon_room h c),
      tasks := update_row t_id (t_id task)
        (\<lambda>r. r\<lparr>t_status := RUNNING, t_serverId := wc_serverId c, t_updatedAt := clock h\<rparr>) (tasks h)\<rparr>)"
proof -
  let ?h = "h\<lparr>draws := Suc (draws h), attempts := attempts h @ [new_attempt x h task c]\<rparr>"
  let ?h2 = "?h\<lparr>daemonOut := daemonOut h @ map (\<lambda>s. (so_id s, TASK_SUBMIT (t_id task) (t_input task))) (daemon_room h c)\<rparr>"
  have create: "taskAttempt_create x (t_id task) (wc_serverId c) h = (Inr (new_attempt x h task c), ?h)"
    using assms(3,5) by (intro taskAttempt_create_apply) (metis find_row_None option.distinct(1))+
  have submit: "dispatchToCandidate (t_id task) (t_input task) c ?h = (Inr (), ?h2)"
    using dispatchToCandidate_apply [of "t_id task" ?h t "t_input task" c] assms(3,4,6) by (simp add: daemon_room_def)
  have "x_uuid x (draws h) \<notin> at_id ` set (attempts h)" by (rule wf_fresh [OF assms(1,2) order_refl])
  then have "update_row at_id (at_id (new_attempt x h task c)) f (attempts h @ [new_attempt x h task c]) =
      attempts h @ [f (new_attempt x h task c)]" for f
    by (simp add: update_row_fresh new_attempt_def)
  with create submit assms(3,5) show ?thesis
    by (simp add: dispatch_one_def bindE_apply catchE_apply thenE_apply taskAttempt_update_apply ret_apply
        task_connect_def task_update_apply getS_apply guardE_apply)
qed

text \<open>A run of unreachable candidates leaves one failed attempt each, and nothing else.\<close>

lemma dispatch_loop_offline:
  assumes "wf_hub x h" and "inj (x_uuid x)" and "find_row t_id (t_id task) (tasks h) = Some t" and "t_workerType t = CODEX"
    and "\<forall>c \<in> set cs. wc_serverId c \<in> s_id ` set (servers h) \<and> daemon_room h c = []"
  shows "\<exists>fs. dispatch_loop x task (cs @ rest) lines h =
      dispatch_loop x task rest (lines @ map offline_line cs) (h\<lparr>draws := draws h + length cs, attempts := attempts h @ fs\<rparr>) \<and>
    wf_hub x (h\<lparr>draws := draws h + length cs, attempts := attempts h @ fs\<rparr>) \<and>
    map at_serverId fs = map wc_serverId cs \<and> (\<forall>a \<in> set fs. at_status a = A_FAILED \<and> at_taskId a = t_id task)"
  using assms
proof (induction cs arbitrary: h lines)
  case Nil
  then show ?case by (auto intro!: exI [of _ "[]"])
next
  case (Cons c cs)
  let ?a = "(new_attempt x h task c)\<lparr>at_status := A_FAILED, at_failureReason := Some (offline_message c),
      at_finishedAt := Some (clock h), at_lastSeenAt := clock h\<rparr>"
  let ?h = "h\<lparr>draws := Suc (draws h), attempts := attempts h @ [?a]\<rparr>"
  have one: "dispatch_one x task c h = (Inr (Some (offline_line c)), ?h)"
    using Cons.prems by (intro dispatch_one_offline) simp_all
  have wf: "wf_hub x ?h" using keepsD [OF keeps_dispatch_one [OF Cons.prems(2)] Cons.prems(1), of task c] one by simp
  have "\<forall>c \<in> set cs. wc_serverId c \<in> s_id ` set (servers ?h) \<and> daemon_room ?h c = []"
    using Cons.prems(5) by (simp add: daemon_room_def)
  from Cons.IH [OF wf Cons.prems(2) _ Cons.prems(4) this, of "lines @ [offline_line c]"] Cons.prems(3)
  obtain fs where fs: "dispatch_loop x task (cs @ rest) (lines @ [offline_line c]) ?h =
      dispatch_loop x task rest ((lines @ [offline_line c]) @ map offline_line cs)
        (?h\<lparr>draws := draws ?h + length cs, attempts := attempts ?h @ fs\<rparr>)"
    "wf_hub x (?h\<lparr>draws := draws ?h + length cs, attempts := attempts ?h @ fs\<rparr>)"
    "map at_serverId fs = map wc_serverId cs" "\<forall>a \<in> set fs. at_status a = A_FAILED \<and> at_taskId a = t_id task"
    by auto
  show ?case
    using one fs by (intro exI [of _ "?a # fs"]) (simp add: bindE_apply new_attempt_def)
qed

subsection \<open>A dispatch job\<close>

lemma process_dispatch_job:
  assumes "i \<noteq> []" and "find_row t_id i (tasks h) = Some t"
  shows "process x (dispatch_job i) h = (if t_status t = QUEUED then dispatch_task x t h else (Inr (), h))"
  using assms by (simp add: process_def dispatch_job_def TASK_WATCHDOG_JOB_def bindE_apply getS_apply ret_apply)

lemma candidates_known:
  assumes "getDispatchCandidates x wt p ex h = (Inr cs, h')"
  shows "wt = CODEX" "\<forall>c \<in> set cs. wc_serverId c \<in> s_id ` set (servers h)"
  using assms by (auto simp: getDispatchCandidates_apply candidate_list_iff toCandidate_def split: if_splits option.splits)
    (metis image_eqI)

lemma dispatch_task_loop:
  assumes "t_id t = i" and "fst (retryExcludedServerIds i h) = Inr ex"
    and "getDispatchCandidates x (t_workerType t) (t_serverId t) ex h = (Inr cs, h)" and "cs \<noteq> []"
  shows "dispatch_task x t h = bindE (dispatch_loop x t cs []) (\<lambda>r.
        case r of
          None \<Rightarrow> ret ()
        | Some failures \<Rightarrow>
            thenE (task_update i (\<lambda>r. r\<lparr>t_logs := t_logs t @ formatFailoverLog failures\<rparr>))
             (throw (JsError (''Task '' @ i @ '' dispatch failed on all candidates: '' @ join '' | '' failures)))) h"
proof -
  have "retryExcludedServerIds i h = (Inr ex, h)"
    using assms(2) by (simp add: retryExcludedServerIds_def getS_apply)
  with assms show ?thesis unfolding dispatch_task_def tp_retryExcludedServerIds_eq bindE_apply [of "retryExcludedServerIds j" for j]
    by (simp add: bindE_apply [of "getDispatchCandidates a b c d" for a b c d])
qed

subsection \<open>The watchdog\<close>

lemma count_update_row:
  assumes "keyed key t" and "find_row key k t = Some r"
  shows "length (filter P (update_row key k f t)) + of_bool (P r) = length (filter P t) + of_bool (P (f r))"
  using assms
proof (induction t)
  case (Cons y ys)
  show ?case
  proof (cases "key y = k")
    case True
    then have "update_row key k f ys = ys" using Cons.prems(1) by (intro update_row_absent) (auto simp: keyed_def)
    with True Cons.prems(2) show ?thesis by (simp add: find_row_def update_row_def)
  next
    case False
    with Cons show ?thesis by (simp add: find_row_def update_row_def keyed_def)
  qed
qed (simp add: find_row_def)

lemma newest_attempt_SomeD:
  assumes "newest_attempt h i = Some a"
  shows "a \<in> set (attempts h)" "at_taskId a = i"
proof -
  from assms obtain l where "js_sort started_desc (filter (\<lambda>a. at_taskId a = i) (attempts h)) = a # l"
    by (auto simp: newest_attempt_def split: list.splits)
  then have "a \<in> set (js_sort started_desc (filter (\<lambda>a. at_taskId a = i) (attempts h)))" by simp
  then show "a \<in> set (attempts h)" "at_taskId a = i" by auto
qed

lemma is_stuckD: "is_stuck sb v \<Longrightarrow> \<exists>a. v = Some a \<and> at_active a \<and> at_lastSeenAt a < sb"
  by (auto simp: is_stuck_def split: option.splits)

text \<open>What timing out one task does, and the state the loop over the stuck tasks is in.\<close>

definition gives_up :: "ext \<Rightarrow> hub \<Rightarrow> string \<Rightarrow> bool" where
  "gives_up x h i \<longleftrightarrow> int (timed_out_count h i) \<ge> watchdogMaxRequeues x"

definition scan_ready :: "hub \<Rightarrow> (task \<times> task_attempt option) list \<Rightarrow> bool" where
  "scan_ready h l \<longleftrightarrow> distinct (map (t_id \<circ> fst) l) \<and> keyed at_id (attempts h) \<and>
    (\<forall>(t, v) \<in> set l. find_row t_id (t_id t) (tasks h) = Some t \<and>
      (\<forall>a. v = Some a \<longrightarrow> find_row at_id (at_id a) (attempts h) = Some a \<and> at_taskId a = t_id t))"

lemma time_out_task_effect:
  assumes "keyed at_id (attempts h)" and "find_row t_id (t_id t) (tasks h) = Some t"
    and "find_row at_id (at_id a) (attempts h) = Some a" and "at_taskId a = t_id t" and "at_active a"
  shows "\<exists>h' t'. time_out_task x t a h = (Inr (), h') \<and>
    jobs h' = jobs h @ (if gives_up x h (t_id t) then [] else [dispatch_job (t_id t)]) \<and>
    attempts h' = update_row at_id (at_id a) (\<lambda>a. a\<lparr>at_status := A_TIMED_OUT,
        at_failureReason := Some (stale_reason x), at_finishedAt := Some (clock h)\<rparr>) (attempts h) \<and>
    t_status t' = (if gives_up x h (t_id t) then FAILED else QUEUED) \<and>
    (\<forall>j. find_row t_id j (tasks h') = (if j = t_id t then Some t' else find_row t_id j (tasks h))) \<and>
    (\<forall>j. timed_out_count h' j = timed_out_count h j + of_bool (j = t_id t))"
proof -
  have "at_id a \<in> at_id ` set (attempts h)" using find_row_SomeD [OF assms(3)] by auto
  moreover have "timed_out_count (h\<lparr>attempts := update_row at_id (at_id a) (\<lambda>a. a\<lparr>at_status := A_TIMED_OUT,
        at_failureReason := Some (stale_reason x), at_finishedAt := Some (clock h)\<rparr>) (attempts h)\<rparr>) j =
      timed_out_count h j + of_bool (j = t_id t)" for j
    using count_update_row [OF assms(1,3), of "\<lambda>a. at_taskId a = j \<and> at_status a = A_TIMED_OUT"
        "\<lambda>a. a\<lparr>at_status := A_TIMED_OUT, at_failureReason := Some (stale_reason x), at_finishedAt := Some (clock h)\<rparr>"] assms(4,5)
    by (auto simp: timed_out_count_def at_active_def)
  ultimately show ?thesis using assms(2)
    by (simp add: time_out_task_def bindE_apply thenE_apply getS_apply taskAttempt_update_apply task_update_apply ret_apply
        requeueTask_def queue_add_apply find_row_update_row gives_up_def timed_out_count_def)
qed

lemma scan_ready_Cons:
  "scan_ready h ((t, v) # l) \<longleftrightarrow> scan_ready h l \<and> (\<forall>s w. (s, w) \<in> set l \<longrightarrow> t_id s \<noteq> t_id t) \<and>
    find_row t_id (t_id t) (tasks h) = Some t \<and>
    (\<forall>a. v = Some a \<longrightarrow> find_row at_id (at_id a) (attempts h) = Some a \<and> at_taskId a = t_id t)"
proof -
  have "t_id t \<notin> (t_id \<circ> fst) ` set l \<longleftrightarrow> (\<forall>s w. (s, w) \<in> set l \<longrightarrow> t_id s \<noteq> t_id t)"
    by force
  then show ?thesis unfolding scan_ready_def by (simp add: image_comp) blast
qed

lemma scan_ready_mem:
  assumes "scan_ready h l" and "(s, w) \<in> set l"
  shows "find_row t_id (t_id s) (tasks h) = Some s"
    "w = Some b \<Longrightarrow> find_row at_id (at_id b) (attempts h) = Some b \<and> at_taskId b = t_id s"
  using assms by (auto simp: scan_ready_def)

lemma scan_ready_step:
  assumes "scan_ready h ((t, v) # l)"
    and "\<forall>j. find_row t_id j (tasks h') = (if j = t_id t then Some t' else find_row t_id j (tasks h))"
    and "v = Some a" and "attempts h' = update_row at_id (at_id a) f (attempts h)"
    and "\<And>a. at_id (f a) = at_id a"
  shows "scan_ready h' l"
proof -
  have l: "scan_ready h l" and other: "\<And>s w. (s, w) \<in> set l \<Longrightarrow> t_id s \<noteq> t_id t"
    and a: "find_row at_id (at_id a) (attempts h) = Some a" "at_taskId a = t_id t"
    using assms(1,3) unfolding scan_ready_Cons by blast+
  have "find_row t_id (t_id s) (tasks h') = Some s \<and>
      (\<forall>b. w = Some b \<longrightarrow> find_row at_id (at_id b) (attempts h') = Some b \<and> at_taskId b = t_id s)"
    if m: "(s, w) \<in> set l" for s w
  proof -
    have "find_row at_id (at_id b) (attempts h') = Some b \<and> at_taskId b = t_id s" if "w = Some b" for b
    proof -
      have b: "find_row at_id (at_id b) (attempts h) = Some b" "at_taskId b = t_id s"
        using scan_ready_mem(2) [OF l m that] by blast+
      have "at_id b \<noteq> at_id a" using a b other [OF m] by auto
      then show ?thesis using b assms(4,5) by (simp add: find_row_update_row)
    qed
    then show ?thesis using assms(2) other [OF m] scan_ready_mem(1) [OF l m] by simp
  qed
  moreover have "keyed at_id (attempts h')" using l assms(4,5) by (simp add: scan_ready_def keyed_update_row)
  ultimately show ?thesis using l by (auto simp: scan_ready_def)
qed

text \<open>What one timeout and what a scan of a list do to the jobs, the tasks and their counts of timeouts.\<close>

definition timed_out :: "ext \<Rightarrow> hub \<Rightarrow> string \<Rightarrow> task \<Rightarrow> hub \<Rightarrow> bool" where
  "timed_out x h i t' h' \<longleftrightarrow> jobs h' = jobs h @ (if gives_up x h i then [] else [dispatch_job i]) \<and>
    t_status t' = (if gives_up x h i then FAILED else QUEUED) \<and>
    (\<forall>j. find_row t_id j (tasks h') = (if j = i then Some t' else find_row t_id j (tasks h))) \<and>
    (\<forall>j. timed_out_count h' j = timed_out_count h j + of_bool (j = i))"

definition scanned :: "ext \<Rightarrow> int \<Rightarrow> hub \<Rightarrow> (task \<times> task_attempt option) list \<Rightarrow> hub \<Rightarrow> bool" where
  "scanned x sb h l h' \<longleftrightarrow>
    jobs h' = jobs h @ [dispatch_job (t_id t). (t, v) \<leftarrow> l, is_stuck sb v \<and> \<not> gives_up x h (t_id t)] \<and>
    (\<forall>(t, v) \<in> set l. is_stuck sb v \<longrightarrow> (\<exists>t'. find_row t_id (t_id t) (tasks h') = Some t' \<and>
        t_status t' = (if gives_up x h (t_id t) then FAILED else QUEUED) \<and>
        timed_out_count h' (t_id t) = Suc (timed_out_count h (t_id t)))) \<and>
    (\<forall>j. (\<forall>(t, v) \<in> set l. is_stuck sb v \<longrightarrow> t_id t \<noteq> j) \<longrightarrow>
       find_row t_id j (tasks h') = find_row t_id j (tasks h) \<and> timed_out_count h' j = timed_out_count h j)"

lemma scanned_Cons:
  assumes "timed_out x h (t_id t) t' h1" and "scanned x sb h1 l h'" and "is_stuck sb v"
    and other: "\<And>s w. (s, w) \<in> set l \<Longrightarrow> t_id s \<noteq> t_id t"
  shows "scanned x sb h ((t, v) # l) h'"
proof -
  have jobs1: "jobs h1 = jobs h @ (if gives_up x h (t_id t) then [] else [dispatch_job (t_id t)])"
    and t': "t_status t' = (if gives_up x h (t_id t) then FAILED else QUEUED)"
    and find1: "\<And>j. find_row t_id j (tasks h1) = (if j = t_id t then Some t' else find_row t_id j (tasks h))"
    and count1: "\<And>j. timed_out_count h1 j = timed_out_count h j + of_bool (j = t_id t)"
    using assms(1) unfolding timed_out_def by blast+
  have gives: "gives_up x h1 (t_id s) = gives_up x h (t_id s)" if "(s, w) \<in> set l" for s w
    using other [OF that] count1 by (simp add: gives_up_def)
  have "[dispatch_job (t_id t). (t, v) \<leftarrow> l, is_stuck sb v \<and> \<not> gives_up x h1 (t_id t)] =
      [dispatch_job (t_id t). (t, v) \<leftarrow> l, is_stuck sb v \<and> \<not> gives_up x h (t_id t)]"
    using gives by (intro arg_cong [where f = concat] map_cong) auto
  then have jobs: "jobs h' = jobs h1 @ [dispatch_job (t_id t). (t, v) \<leftarrow> l, is_stuck sb v \<and> \<not> gives_up x h (t_id t)]"
    using assms(2) by (simp add: scanned_def)
  have rest: "find_row t_id j (tasks h') = find_row t_id j (tasks h1) \<and> timed_out_count h' j = timed_out_count h1 j"
    if "\<forall>(t, v) \<in> set l. is_stuck sb v \<longrightarrow> t_id t \<noteq> j" for j
    using assms(2) that unfolding scanned_def by blast
  then have here: "find_row t_id (t_id t) (tasks h') = Some t'" "timed_out_count h' (t_id t) = Suc (timed_out_count h (t_id t))"
    using find1 count1 other by force+
  have later: "\<exists>t'. find_row t_id (t_id s) (tasks h') = Some t' \<and>
      t_status t' = (if gives_up x h (t_id s) then FAILED else QUEUED) \<and>
      timed_out_count h' (t_id s) = Suc (timed_out_count h (t_id s))" if "(s, w) \<in> set l" "is_stuck sb w" for s w
    using assms(2) that gives [OF that(1)] other [OF that(1)] count1 unfolding scanned_def by fastforce
  show ?thesis
    unfolding scanned_def using jobs jobs1 t' here later rest find1 count1 assms(3) by (intro conjI allI impI) auto
qed

lemma scan_loop_effect:
  assumes "scan_ready h l"
  shows "\<exists>h'. scan_loop x sb l n h = (Inr (n + length (filter (\<lambda>(t, v). is_stuck sb v) l)), h') \<and> scanned x sb h l h'"
  using assms
proof (induction l arbitrary: h n)
  case (Cons p l)
  obtain t v where p: "p = (t, v)" by (cases p)
  show ?case
  proof (cases "is_stuck sb v")
    case False
    have "scan_ready h l" using Cons.prems by (simp add: p scan_ready_Cons)
    from Cons.IH [OF this, of n] False show ?thesis by (simp add: p scanned_def)
  next
    case True
    then obtain a where v: "v = Some a" and a: "at_active a" by (blast dest: is_stuckD)
    note ready = Cons.prems [unfolded p scan_ready_Cons]
    have "keyed at_id (attempts h)" using Cons.prems by (simp add: scan_ready_def)
    then obtain h1 t' where run: "time_out_task x t a h = (Inr (), h1)" and one: "timed_out x h (t_id t) t' h1"
      and att: "attempts h1 = update_row at_id (at_id a) (\<lambda>a. a\<lparr>at_status := A_TIMED_OUT,
        at_failureReason := Some (stale_reason x), at_finishedAt := Some (clock h)\<rparr>) (attempts h)"
      using time_out_task_effect [of h t a x] ready v a unfolding timed_out_def by blast
    have "\<forall>j. find_row t_id j (tasks h1) = (if j = t_id t then Some t' else find_row t_id j (tasks h))"
      using one unfolding timed_out_def by blast
    from scan_ready_step [OF Cons.prems [unfolded p] this v att] have "scan_ready h1 l" by simp
    from Cons.IH [OF this, of "n + 1"] obtain h' where
      loop: "scan_loop x sb l (n + 1) h1 = (Inr (n + 1 + length (filter (\<lambda>(t, v). is_stuck sb v) l)), h')"
      and "scanned x sb h1 l h'" by blast
    then have "scanned x sb h (p # l) h'" unfolding p using scanned_Cons [OF one _ True] ready by blast
    moreover have "scan_loop x sb (p # l) n h = (Inr (n + length (filter (\<lambda>(t, v). is_stuck sb v) (p # l))), h')"
      using True run loop v by (simp add: p thenE_apply)
    ultimately show ?thesis by blast
  qed
qed (simp add: ret_apply scanned_def)

definition task_stuck :: "ext \<Rightarrow> hub \<Rightarrow> task \<Rightarrow> bool" where
  "task_stuck x h t \<longleftrightarrow> t_status t = RUNNING \<and> t_updatedAt t < clock h - watchdogTimeoutMs x \<and>
    is_stuck (clock h - watchdogTimeoutMs x) (newest_attempt h (t_id t))"

lemma scan_ready_candidates:
  assumes "wf_hub y h"
  shows "scan_ready h (stuck_candidates sb h)"
proof -
  have "distinct (map (t_id \<circ> fst) (stuck_candidates sb h))"
    using wf_hubD(3) [OF assms] by (simp add: stuck_candidates_def comp_def keyed_def distinct_map_filter)
  moreover have "find_row t_id (t_id t) (tasks h) = Some t" if "t \<in> set (tasks h)" for t
    using wf_hubD(3) [OF assms] that by (simp add: find_row_Some_iff)
  moreover have "find_row at_id (at_id a) (attempts h) = Some a \<and> at_taskId a = i" if "newest_attempt h i = Some a" for a i
    using newest_attempt_SomeD [OF that] wf_hubD(4) [OF assms] by (simp add: find_row_Some_iff)
  ultimately show ?thesis
    using wf_hubD(4) [OF assms] by (auto simp: scan_ready_def stuck_candidates_def)
qed

section \<open>Properties\<close>

text \<open>C5. Dispatching a queued task: the candidates before the first one with a connected daemon each
  leave one failed attempt; that first one is sent the task, exactly once per socket of its server,
  and the task is RUNNING on its server with one running attempt there. Nobody else is sent anything,
  and delivering the same job again has no effect.\<close>

theorem process_dispatches_once:
  assumes "wf_hub x h" and "inj (x_uuid x)" and "i \<noteq> []"
    and "find_row t_id i (tasks h) = Some t" and "t_status t = QUEUED"
    and "fst (retryExcludedServerIds i h) = Inr ex"
    and "getDispatchCandidates x (t_workerType t) (t_serverId t) ex h = (Inr (pre @ c # post), h)"
    and "\<forall>p \<in> set pre. daemon_room h p = []" and "daemon_room h c \<noteq> []"
  shows "\<exists>h' fs a. process x (dispatch_job i) h = (Inr (), h') \<and> process x (dispatch_job i) h' = (Inr (), h') \<and>
    find_row t_id i (tasks h') = Some (t\<lparr>t_status := RUNNING, t_serverId := wc_serverId c, t_updatedAt := clock h\<rparr>) \<and>
    daemonOut h' = daemonOut h @ map (\<lambda>s. (so_id s, TASK_SUBMIT i (t_input t))) (daemon_room h c) \<and>
    attempts h' = attempts h @ fs @ [a] \<and> map at_serverId fs = map wc_serverId pre \<and>
    (\<forall>b \<in> set fs. at_status b = A_FAILED \<and> at_taskId b = i) \<and>
    at_status a = A_RUNNING \<and> at_taskId a = i \<and> at_serverId a = wc_serverId c"
proof -
  have id: "t_id t = i" using find_row_SomeD [OF assms(4)] by simp
  have codex: "t_workerType t = CODEX" and known: "\<forall>c \<in> set (pre @ c # post). wc_serverId c \<in> s_id ` set (servers h)"
    using candidates_known [OF assms(7)] by simp_all
  have find: "find_row t_id (t_id t) (tasks h) = Some t" using assms(4) id by simp
  have "\<forall>p \<in> set pre. wc_serverId p \<in> s_id ` set (servers h) \<and> daemon_room h p = []"
    using known assms(8) by simp
  from dispatch_loop_offline [OF assms(1,2) find codex this, of "c # post" "[]"] obtain fs where
    loop: "dispatch_loop x t (pre @ c # post) [] h = dispatch_loop x t (c # post) (map offline_line pre)
        (h\<lparr>draws := draws h + length pre, attempts := attempts h @ fs\<rparr>)"
    and wf: "wf_hub x (h\<lparr>draws := draws h + length pre, attempts := attempts h @ fs\<rparr>)"
    and fs: "map at_serverId fs = map wc_serverId pre" "\<forall>a \<in> set fs. at_status a = A_FAILED \<and> at_taskId a = i"
    using id by auto
  let ?h1 = "h\<lparr>draws := draws h + length pre, attempts := attempts h @ fs\<rparr>"
  have one: "dispatch_one x t c ?h1 = (Inr None,
    ?h1\<lparr>draws := Suc (draws ?h1),
      attempts := attempts ?h1 @ [(new_attempt x ?h1 t c)\<lparr>at_status := A_RUNNING, at_lastSeenAt := clock ?h1\<rparr>],
      daemonOut := daemonOut ?h1 @ map (\<lambda>s. (so_id s, TASK_SUBMIT (t_id t) (t_input t))) (daemon_room ?h1 c),
      tasks := update_row t_id (t_id t)
        (\<lambda>r. r\<lparr>t_status := RUNNING, t_serverId := wc_serverId c, t_updatedAt := clock ?h1\<rparr>) (tasks ?h1)\<rparr>)"
    (is "_ = (_, ?h2)")
    using known find assms(9) by (intro dispatch_one_online [OF wf assms(2) _ codex]) (simp_all add: daemon_room_def)
  have "dispatch_task x t h = (Inr (), ?h2)"
    using dispatch_task_loop [OF id assms(6,7)] loop one by (simp add: bindE_apply ret_apply)
  then have run: "process x (dispatch_job i) h = (Inr (), ?h2)"
    using process_dispatch_job [OF assms(3,4), of x] assms(5) by simp
  have find2: "find_row t_id i (tasks ?h2) = Some (t\<lparr>t_status := RUNNING, t_serverId := wc_serverId c, t_updatedAt := clock h\<rparr>)"
    using assms(4) id by (simp add: find_row_update_row)
  then have again: "process x (dispatch_job i) ?h2 = (Inr (), ?h2)"
    using process_dispatch_job [OF assms(3) find2, of x] by simp
  show ?thesis
    using run again find2 fs id
    by (intro exI [of _ ?h2] exI [of _ fs] exI [of _ "(new_attempt x ?h1 t c)\<lparr>at_status := A_RUNNING, at_lastSeenAt := clock ?h1\<rparr>"])
      (simp add: new_attempt_def daemon_room_def)
qed

text \<open>C22. When no candidate has a connected daemon the dispatch job fails, nothing is sent, each
  candidate leaves one failed attempt, the task's log names every failure, and the task stays QUEUED:
  the processor never fails a task, also not on the queue's last retry.\<close>

theorem process_exhausted_stays_queued:
  assumes "wf_hub x h" and "inj (x_uuid x)" and "i \<noteq> []"
    and "find_row t_id i (tasks h) = Some t" and "t_status t = QUEUED"
    and "fst (retryExcludedServerIds i h) = Inr ex"
    and "getDispatchCandidates x (t_workerType t) (t_serverId t) ex h = (Inr cs, h)" and "cs \<noteq> []"
    and "\<forall>c \<in> set cs. daemon_room h c = []"
  shows "\<exists>e h' fs. process x (dispatch_job i) h = (Inl e, h') \<and>
    find_row t_id i (tasks h') = Some (t\<lparr>t_logs := t_logs t @ formatFailoverLog (map offline_line cs), t_updatedAt := clock h\<rparr>) \<and>
    daemonOut h' = daemonOut h \<and> jobs h' = jobs h \<and> attempts h' = attempts h @ fs \<and>
    map at_serverId fs = map wc_serverId cs \<and> (\<forall>b \<in> set fs. at_status b = A_FAILED \<and> at_taskId b = i)"
proof -
  have id: "t_id t = i" using find_row_SomeD [OF assms(4)] by simp
  have codex: "t_workerType t = CODEX" and known: "\<forall>c \<in> set cs. wc_serverId c \<in> s_id ` set (servers h)"
    using candidates_known [OF assms(7)] by simp_all
  have find: "find_row t_id (t_id t) (tasks h) = Some t" using assms(4) id by simp
  have "\<forall>c \<in> set cs. wc_serverId c \<in> s_id ` set (servers h) \<and> daemon_room h c = []"
    using known assms(9) by simp
  from dispatch_loop_offline [OF assms(1,2) find codex this, of "[]" "[]"] obtain fs where
    loop: "dispatch_loop x t cs [] h = (Inr (Some (map offline_line cs)),
        h\<lparr>draws := draws h + length cs, attempts := attempts h @ fs\<rparr>)"
    and fs: "map at_serverId fs = map wc_serverId cs" "\<forall>a \<in> set fs. at_status a = A_FAILED \<and> at_taskId a = i"
    using id by (auto simp: ret_apply)
  have "find_row t_id i (update_row t_id i f (tasks h)) = Some (f t)" if "\<And>r. t_id (f r) = t_id r" for f
    using assms(4) that by (simp add: find_row_update_row)
  then show ?thesis
    using process_dispatch_job [OF assms(3,4), of x] dispatch_task_loop [OF id assms(6-8)] loop fs assms(4,5)
    by (simp add: bindE_apply thenE_apply task_update_apply throw_apply)
qed

lemma stuck_candidates_lists:
  assumes "sb = clock h - watchdogTimeoutMs x"
  shows "length (filter (\<lambda>(t, v). is_stuck sb v) (stuck_candidates sb h)) = length (filter (task_stuck x h) (tasks h))"
    and "[dispatch_job (t_id t). (t, v) \<leftarrow> stuck_candidates sb h, is_stuck sb v \<and> \<not> gives_up x h (t_id t)] =
      map (\<lambda>t. dispatch_job (t_id t)) (filter (\<lambda>t. task_stuck x h t \<and> int (timed_out_count h (t_id t)) < watchdogMaxRequeues x) (tasks h))"
proof -
  show "length (filter (\<lambda>(t, v). is_stuck sb v) (stuck_candidates sb h)) = length (filter (task_stuck x h) (tasks h))"
    by (simp add: assms stuck_candidates_def filter_map comp_def task_stuck_def [abs_def] conj_commute conj_left_commute)
  have G: "[dispatch_job (t_id t). (t, v) \<leftarrow> map (\<lambda>t. (t, newest_attempt h (t_id t))) (filter Q ts), is_stuck sb v \<and> \<not> gives_up x h (t_id t)] =
      map (\<lambda>t. dispatch_job (t_id t)) (filter (\<lambda>t. (Q t \<and> is_stuck sb (newest_attempt h (t_id t))) \<and> \<not> gives_up x h (t_id t)) ts)" for Q ts
    by (induction ts) auto
  show "[dispatch_job (t_id t). (t, v) \<leftarrow> stuck_candidates sb h, is_stuck sb v \<and> \<not> gives_up x h (t_id t)] =
      map (\<lambda>t. dispatch_job (t_id t)) (filter (\<lambda>t. task_stuck x h t \<and> int (timed_out_count h (t_id t)) < watchdogMaxRequeues x) (tasks h))"
    unfolding stuck_candidates_def G by (simp add: assms task_stuck_def gives_up_def not_le conj_assoc)
qed

text \<open>C6. One scan of the watchdog: it never fails and counts the tasks it handled. A task is stuck
  when it is RUNNING, neither the task nor its newest attempt was updated within the timeout, and
  that attempt is active. Each stuck task gains one timed-out attempt and becomes QUEUED with exactly
  one new dispatch job, or FAILED with none once it had timed out the maximal number of times; every
  other task keeps its row.\<close>

theorem watchdog_scan:
  assumes "wf_hub y h"
  shows "\<exists>h'. scanStuckTasksOnce x h = (Inr (length (filter (task_stuck x h) (tasks h))), h') \<and>
    jobs h' = jobs h @ map (\<lambda>t. dispatch_job (t_id t))
      (filter (\<lambda>t. task_stuck x h t \<and> int (timed_out_count h (t_id t)) < watchdogMaxRequeues x) (tasks h)) \<and>
    (\<forall>t \<in> set (tasks h). if task_stuck x h t
       then \<exists>t'. find_row t_id (t_id t) (tasks h') = Some t' \<and>
         t_status t' = (if int (timed_out_count h (t_id t)) < watchdogMaxRequeues x then QUEUED else FAILED) \<and>
         timed_out_count h' (t_id t) = Suc (timed_out_count h (t_id t))
       else find_row t_id (t_id t) (tasks h') = Some t \<and> timed_out_count h' (t_id t) = timed_out_count h (t_id t))"
proof -
  let ?sb = "clock h - watchdogTimeoutMs x"
  let ?l = "stuck_candidates ?sb h"
  have ready: "scan_ready h ?l" by (rule scan_ready_candidates [OF assms])
  note lists = stuck_candidates_lists [OF refl, of h x]
  from scan_loop_effect [OF ready, of x ?sb 0] obtain h' where
    loop: "scan_loop x ?sb ?l 0 h = (Inr (length (filter (task_stuck x h) (tasks h))), h')" and scan: "scanned x ?sb h ?l h'"
    by (auto simp: lists)
  have stuck: "\<forall>(t, v) \<in> set ?l. is_stuck ?sb v \<longrightarrow> (\<exists>t'. find_row t_id (t_id t) (tasks h') = Some t' \<and>
        t_status t' = (if gives_up x h (t_id t) then FAILED else QUEUED) \<and>
        timed_out_count h' (t_id t) = Suc (timed_out_count h (t_id t)))"
    and frame: "\<forall>j. (\<forall>(t, v) \<in> set ?l. is_stuck ?sb v \<longrightarrow> t_id t \<noteq> j) \<longrightarrow>
       find_row t_id j (tasks h') = find_row t_id j (tasks h) \<and> timed_out_count h' j = timed_out_count h j"
    and jobs: "jobs h' = jobs h @ map (\<lambda>t. dispatch_job (t_id t))
      (filter (\<lambda>t. task_stuck x h t \<and> int (timed_out_count h (t_id t)) < watchdogMaxRequeues x) (tasks h))"
    using scan unfolding scanned_def lists by blast+
  have mem: "(t, newest_attempt h (t_id t)) \<in> set ?l \<and> is_stuck ?sb (newest_attempt h (t_id t)) \<longleftrightarrow> task_stuck x h t"
    if "t \<in> set (tasks h)" for t
    using that by (auto simp: stuck_candidates_def task_stuck_def)
  have "find_row t_id (t_id t) (tasks h') = Some t \<and> timed_out_count h' (t_id t) = timed_out_count h (t_id t)"
    if t: "t \<in> set (tasks h)" "\<not> task_stuck x h t" for t
  proof -
    have "t_id s \<noteq> t_id t" if "s \<in> set (tasks h)" "task_stuck x h s" for s
      using that t wf_hubD(3) [OF assms] by (auto simp: keyed_def distinct_map dest: inj_onD)
    then have "\<forall>(s, v) \<in> set ?l. is_stuck ?sb v \<longrightarrow> t_id s \<noteq> t_id t"
      by (auto simp: stuck_candidates_def task_stuck_def)
    then show ?thesis using frame t(1) wf_hubD(3) [OF assms] by (simp add: find_row_Some_iff)
  qed
  moreover have "\<exists>t'. find_row t_id (t_id t) (tasks h') = Some t' \<and>
         t_status t' = (if int (timed_out_count h (t_id t)) < watchdogMaxRequeues x then QUEUED else FAILED) \<and>
         timed_out_count h' (t_id t) = Suc (timed_out_count h (t_id t))"
    if "t \<in> set (tasks h)" "task_stuck x h t" for t
    using stuck mem [OF that(1)] that(2) by (auto simp: gives_up_def not_le [symmetric] split: if_splits)
  ultimately show ?thesis
    using loop jobs by (auto simp: scanStuckTasksOnce_def bindE_apply now_apply getS_apply Let_def)
qed

subsection \<open>Witnesses\<close>

definition demo_queued_hub :: hub where
  "demo_queued_hub = demo_task_hub\<lparr>tasks := [demo_task\<lparr>t_status := QUEUED\<rparr>], attempts := []\<rparr>"

definition demo_c1 :: WorkerDispatchCandidate where
  "demo_c1 = \<lparr>wc_serverId = ''iii'', wc_serverName = ''srv'', wc_provider = P_CODEX, wc_profileName = ''default''\<rparr>"

definition demo_c2 :: WorkerDispatchCandidate where
  "demo_c2 = \<lparr>wc_serverId = ''iiiii'', wc_serverName = ''backup'', wc_provider = P_CODEX, wc_profileName = ''default''\<rparr>"

lemma wf_demo_queued_hub: "wf_hub demo_ext (demo_queued_hub\<lparr>daemonSockets := d\<rparr>)"
  unfolding wf_hub_def
proof (intro conjI)
  show "wf_ids demo_ext (demo_queued_hub\<lparr>daemonSockets := d\<rparr>)"
    by (simp add: wf_ids_def ids_ok_def keyed_def demo_queued_hub_def demo_task_defs demo_id)
  show "wf_refs (demo_queued_hub\<lparr>daemonSockets := d\<rparr>)" "wf_uniq (demo_queued_hub\<lparr>daemonSockets := d\<rparr>)"
    by (simp_all add: wf_refs_def wf_uniq_def refs_def keyed_def demo_queued_hub_def demo_task_defs)
qed

lemma demo_queued_facts:
  "find_row t_id ''iiiiiii'' (tasks (demo_queued_hub\<lparr>daemonSockets := d\<rparr>)) = Some (demo_task\<lparr>t_status := QUEUED\<rparr>)"
  "t_status (demo_task\<lparr>t_status := QUEUED\<rparr>) = QUEUED"
  "fst (retryExcludedServerIds ''iiiiiii'' (demo_queued_hub\<lparr>daemonSockets := d\<rparr>)) = Inr []"
  "getDispatchCandidates demo_ext (t_workerType (demo_task\<lparr>t_status := QUEUED\<rparr>)) (t_serverId (demo_task\<lparr>t_status := QUEUED\<rparr>)) []
     (demo_queued_hub\<lparr>daemonSockets := d\<rparr>) = (Inr [demo_c1, demo_c2], demo_queued_hub\<lparr>daemonSockets := d\<rparr>)"
  by (simp_all add: find_row_def retryExcludedServerIds_def getDispatchCandidates_apply getS_apply candidate_list_def dispatchable_def
      toCandidate_def js_sort_def candidate_order_def profile_order_def demo_collate demo_c1_def demo_c2_def
      demo_queued_hub_def demo_task_defs)

text \<open>Only the second server's daemon is connected.\<close>

theorem process_dispatches_once_witness:
  "\<exists>h' fs a. process demo_ext (dispatch_job ''iiiiiii'') (demo_queued_hub\<lparr>daemonSockets := [demo_daemon ''d2'' ''iiiii'']\<rparr>) = (Inr (), h') \<and>
    daemonOut h' = [(''d2'', TASK_SUBMIT ''iiiiiii'' (t_input demo_task))] \<and>
    attempts h' = fs @ [a] \<and> map at_serverId fs = [''iii''] \<and> at_serverId a = ''iiiii'' \<and> at_status a = A_RUNNING"
proof -
  let ?h = "demo_queued_hub\<lparr>daemonSockets := [demo_daemon ''d2'' ''iiiii'']\<rparr>"
  have rooms: "\<forall>p \<in> set [demo_c1]. daemon_room ?h p = []" "daemon_room ?h demo_c2 = [demo_daemon ''d2'' ''iiiii'']"
    by (simp_all add: daemon_room_def in_room_def demo_daemon_def demo_c1_def demo_c2_def)
  have "getDispatchCandidates demo_ext (t_workerType (demo_task\<lparr>t_status := QUEUED\<rparr>)) (t_serverId (demo_task\<lparr>t_status := QUEUED\<rparr>)) [] ?h =
      (Inr ([demo_c1] @ demo_c2 # []), ?h)"
    using demo_queued_facts(4) by simp
  moreover have "''iiiiiii'' \<noteq> []" "daemon_room ?h demo_c2 \<noteq> []" using rooms(2) by simp_all
  ultimately obtain h' fs a where r: "process demo_ext (dispatch_job ''iiiiiii'') ?h = (Inr (), h')"
    "daemonOut h' = daemonOut ?h @ map (\<lambda>s. (so_id s, TASK_SUBMIT ''iiiiiii'' (t_input (demo_task\<lparr>t_status := QUEUED\<rparr>)))) (daemon_room ?h demo_c2)"
    "attempts h' = attempts ?h @ fs @ [a]" "map at_serverId fs = map wc_serverId [demo_c1]"
    "at_serverId a = wc_serverId demo_c2" "at_status a = A_RUNNING"
    using process_dispatches_once [OF wf_demo_queued_hub demo_inj _ demo_queued_facts(1,2,3) _ rooms(1)] by blast
  have "daemonOut ?h = []" "attempts ?h = []" "so_id (demo_daemon ''d2'' ''iiiii'') = ''d2''"
    "wc_serverId demo_c1 = ''iii''" "wc_serverId demo_c2 = ''iiiii''"
    by (simp_all add: demo_queued_hub_def demo_task_hub_def demo_pool_hub_def demo_server_hub_def demo_user_hub_def
        demo_hub_def demo_daemon_def demo_c1_def demo_c2_def)
  with r rooms(2) show ?thesis by auto
qed

theorem process_exhausted_stays_queued_witness:
  "\<exists>e h' t. process demo_ext (dispatch_job ''iiiiiii'') (demo_queued_hub\<lparr>daemonSockets := []\<rparr>) = (Inl e, h') \<and>
    find_row t_id ''iiiiiii'' (tasks h') = Some t \<and> t_status t = QUEUED"
proof -
  let ?h = "demo_queued_hub\<lparr>daemonSockets := []\<rparr>"
  have "\<forall>c \<in> set [demo_c1, demo_c2]. daemon_room ?h c = []" by (simp add: daemon_room_def in_room_def)
  from process_exhausted_stays_queued [OF wf_demo_queued_hub demo_inj _ demo_queued_facts(1,2,3,4) _ this]
  have "\<exists>e h' logs c. process demo_ext (dispatch_job ''iiiiiii'') ?h = (Inl e, h') \<and>
      find_row t_id ''iiiiiii'' (tasks h') = Some (demo_task\<lparr>t_status := QUEUED, t_logs := logs, t_updatedAt := c\<rparr>)"
    by fastforce
  then show ?thesis by fastforce
qed

theorem watchdog_scan_witness:
  "\<exists>h'. scanStuckTasksOnce demo_ext (demo_task_hub\<lparr>clock := 1000000\<rparr>) = (Inr 1, h') \<and>
    jobs h' = [dispatch_job ''iiiiiii''] \<and> timed_out_count h' ''iiiiiii'' = 1"
proof -
  let ?h = "demo_task_hub\<lparr>clock := 1000000\<rparr>"
  have wd: "watchdogTimeoutMs demo_ext = 1" "watchdogMaxRequeues demo_ext = 1"
    by (simp_all add: watchdogTimeoutMs_def watchdogMaxRequeues_def positiveIntFromEnv_def demo_ext_def parseInt_def
        Let_def ws_def code_of_def startsWith_def is_digit_def read_nat_def digit_val_def)
  have st: "task_stuck demo_ext ?h demo_task" "timed_out_count ?h ''iiiiiii'' = 0" "tasks ?h = [demo_task]" "jobs ?h = []" "t_id demo_task = ''iiiiiii''"
    by (simp_all add: task_stuck_def is_stuck_def newest_attempt_def at_active_def timed_out_count_def wd demo_task_defs)
  have "wf_hub demo_ext ?h" by (simp add: wf_demo_task_hub)
  from watchdog_scan [OF this, of demo_ext] show ?thesis by (auto simp: st wd)
qed

end
