(* ===== verification/Registrations.thy ===== *)
theory Registrations
  imports Servers Auth
begin

text \<open>
  \<^verbatim>\<open>hub-api/src/server-registrations/server-registrations.service.ts\<close>: a machine asks to be
  registered under a user's e-mail address, the user approves or rejects the request before it
  expires, and the machine collects its API key, once, with the secret it was given.
\<close>

section \<open>Definitions\<close>

definition REQUEST_TTL_MS :: int where
  "REQUEST_TTL_MS = 10 * 60 * 1000"

record create_reg_dto =
  crd_ownerEmail :: string
  crd_name :: string
  crd_osType :: OsType
  crd_tailscaleIp :: string
  crd_fingerprint :: string
  crd_profileName :: "string option"

record public_reg =
  pr_id :: string
  pr_name :: string
  pr_osType :: OsType
  pr_tailscaleIp :: string
  pr_fingerprint :: string
  pr_verificationCode :: string
  pr_status :: ServerRegistrationStatus
  pr_expiresAt :: int
  pr_serverId :: "string option"
  pr_createdAt :: int

definition reg_toPublic :: "reg_request \<Rightarrow> public_reg" where
  "reg_toPublic r = \<lparr>pr_id = rr_id r, pr_name = rr_name r, pr_osType = rr_osType r,
     pr_tailscaleIp = rr_tailscaleIp r, pr_fingerprint = rr_fingerprint r,
     pr_verificationCode = rr_verificationCode r, pr_status = rr_status r, pr_expiresAt = rr_expiresAt r,
     pr_serverId = rr_serverId r, pr_createdAt = rr_createdAt r\<rparr>"

text \<open>The answer to the daemon: the fields of \<open>toDaemonResult\<close>, and the key when it is delivered.\<close>

record daemon_result =
  dr_id :: string
  dr_status :: ServerRegistrationStatus
  dr_verificationCode :: string
  dr_expiresAt :: int
  dr_serverId :: "string option"
  dr_apiKey :: "string option"

definition toDaemonResult :: "reg_request \<Rightarrow> daemon_result" where
  "toDaemonResult r = \<lparr>dr_id = rr_id r, dr_status = rr_status r, dr_verificationCode = rr_verificationCode r,
     dr_expiresAt = rr_expiresAt r, dr_serverId = rr_serverId r, dr_apiKey = None\<rparr>"

definition reg_defaultWorkerProfiles :: "profile_data list" where
  "reg_defaultWorkerProfiles =
    [(P_CODEX, ''default'', True,
      JObj [(''taskExecution'', JBool True), (''approvals'', JBool True), (''shell'', JBool True), (''codeEditing'', JBool True)]),
     (P_CLAUDE_CODE, ''future'', False, JObj [(''taskExecution'', JBool True), (''approvals'', JBool True)]),
     (P_ANTIGRAVITY, ''future'', False, JObj [(''taskExecution'', JBool True), (''approvals'', JBool True)]),
     (P_OPENCODE, ''future'', False, JObj [(''taskExecution'', JBool True), (''approvals'', JBool True)])]"

definition reg_create :: "ext \<Rightarrow> create_reg_dto \<Rightarrow> (public_reg \<times> string) hub_prog" where
  "reg_create x dto =
    bindE (getS (\<lambda>h. find_row u_email (crd_ownerEmail dto) (users h))) (\<lambda>v.
    bindE (someE (NotFoundException ko_owner_not_found) v) (\<lambda>owner.
    bindE (generateSecret x) (\<lambda>requestSecret.
    bindE (generateVerificationCode x) (\<lambda>code.
    bindE now (\<lambda>t.
    bindE (regRequest_create x (u_id owner) (crd_name dto) (crd_osType dto) (crd_tailscaleIp dto)
        (crd_fingerprint dto) code (hashApiKey x requestSecret) (t + REQUEST_TTL_MS)) (\<lambda>request.
      ret (reg_toPublic request, requestSecret)))))))"

definition expirePendingRequests :: "unit hub_prog" where
  "expirePendingRequests =
    bindE now (\<lambda>t. regRequest_updateMany (\<lambda>r. rr_status r = R_PENDING \<and> rr_expiresAt r < t)
      (\<lambda>r. r\<lparr>rr_status := R_EXPIRED\<rparr>))"

definition reg_created_desc :: "reg_request \<Rightarrow> reg_request \<Rightarrow> int" where
  "reg_created_desc a b = rr_createdAt b - rr_createdAt a"

definition findPendingForOwner :: "string \<Rightarrow> public_reg list hub_prog" where
  "findPendingForOwner ownerId =
    thenE expirePendingRequests
     (getS (\<lambda>h. map reg_toPublic (js_sort reg_created_desc
        (filter (\<lambda>r. rr_ownerId r = ownerId \<and> rr_status r = R_PENDING) (regRequests h)))))"

definition expireIfNeeded :: "reg_request \<Rightarrow> reg_request hub_prog" where
  "expireIfNeeded request =
    bindE now (\<lambda>t.
      if rr_status request \<noteq> R_PENDING \<or> rr_expiresAt request \<ge> t then ret request
      else regRequest_update (rr_id request) (\<lambda>r. r\<lparr>rr_status := R_EXPIRED\<rparr>))"

definition reg_approve :: "ext \<Rightarrow> string \<Rightarrow> reg_request \<Rightarrow> public_reg hub_prog" where
  "reg_approve x ownerId request =
    bindE (generateApiKey x) (\<lambda>apiKey.
    bindE (encryptForRequestSecret x apiKey (rr_requestSecretHash request)) (\<lambda>encrypted.
    bindE (transaction
        (bindE (server_create x ownerId (rr_name request) (rr_osType request) (rr_tailscaleIp request)
            (hashApiKey x apiKey) reg_defaultWorkerProfiles) (\<lambda>server.
          regRequest_connect (rr_id request) (s_id server) (\<lambda>r. r\<lparr>rr_status := R_APPROVED,
            rr_apiKeyCiphertext := Some (ep_ciphertext encrypted), rr_apiKeyIv := Some (ep_iv encrypted),
            rr_apiKeyAuthTag := Some (ep_authTag encrypted)\<rparr>)))) (\<lambda>approved.
      ret (reg_toPublic approved))))"

definition reg_decide :: "ext \<Rightarrow> string \<Rightarrow> string \<Rightarrow> bool \<Rightarrow> public_reg hub_prog" where
  "reg_decide x ownerId requestId approve =
    bindE (getS (\<lambda>h. find_row rr_id requestId (regRequests h))) (\<lambda>v.
      case v of
        None \<Rightarrow> throw (NotFoundException ko_request_not_found)
      | Some request \<Rightarrow>
          if rr_ownerId request \<noteq> ownerId then throw (ForbiddenException ko_request_forbidden)
          else bindE (expireIfNeeded request) (\<lambda>current.
            if rr_status current \<noteq> R_PENDING then ret (reg_toPublic current)
            else if \<not> approve
            then bindE (regRequest_update requestId (\<lambda>r. r\<lparr>rr_status := R_REJECTED\<rparr>)) (\<lambda>rejected.
                   ret (reg_toPublic rejected))
            else reg_approve x ownerId request))"

definition falsy :: "string option \<Rightarrow> bool" where
  "falsy v = (case v of None \<Rightarrow> True | Some s \<Rightarrow> s = [])"

definition reg_getResult :: "ext \<Rightarrow> string \<Rightarrow> string \<Rightarrow> daemon_result hub_prog" where
  "reg_getResult x requestId requestSecret =
    (if requestSecret = [] then throw (UnauthorizedException ko_secret_missing)
     else bindE (getS (\<lambda>h. find_row rr_id requestId (regRequests h))) (\<lambda>v.
       case v of
         None \<Rightarrow> throw (NotFoundException ko_request_not_found)
       | Some request \<Rightarrow>
           if rr_requestSecretHash request \<noteq> hashApiKey x requestSecret
           then throw (UnauthorizedException ko_secret_wrong)
           else bindE (expireIfNeeded request) (\<lambda>current.
             if rr_status current \<noteq> R_APPROVED then ret (toDaemonResult current)
             else if falsy (rr_serverId current) \<or> falsy (rr_apiKeyCiphertext current) \<or>
                falsy (rr_apiKeyIv current) \<or> falsy (rr_apiKeyAuthTag current)
             then ret (toDaemonResult current)
             else
               bindE (liftE (decryptForRequestSecret x
                   \<lparr>ep_ciphertext = the (rr_apiKeyCiphertext current), ep_iv = the (rr_apiKeyIv current),
                    ep_authTag = the (rr_apiKeyAuthTag current)\<rparr> (rr_requestSecretHash current))) (\<lambda>apiKey.
               bindE (regRequest_update requestId (\<lambda>r. r\<lparr>rr_status := R_CREDENTIAL_DELIVERED,
                   rr_apiKeyCiphertext := None, rr_apiKeyIv := None, rr_apiKeyAuthTag := None\<rparr>)) (\<lambda>delivered.
                 ret ((toDaemonResult delivered)\<lparr>dr_status := R_APPROVED, dr_serverId := rr_serverId current,
                   dr_apiKey := Some apiKey\<rparr>))))))"

section \<open>Lemmas\<close>

interpretation regOrder: js_comparator reg_created_desc
  unfolding reg_created_desc_def by (rule js_comparator_desc)

lemma regRequest_update_apply [prog_simps]:
  "regRequest_update i f h =
    (case find_row rr_id i (regRequests h) of
       None \<Rightarrow> (Inl RecordNotFound, h)
     | Some r \<Rightarrow> (Inr ((f r)\<lparr>rr_updatedAt := clock h\<rparr>),
         h\<lparr>regRequests := update_row rr_id i (\<lambda>r. (f r)\<lparr>rr_updatedAt := clock h\<rparr>) (regRequests h)\<rparr>))"
  by (simp add: regRequest_update_def prog_simps split: option.splits)

lemma keeps_reg_create [keeps_rules]: "inj (x_uuid x) \<Longrightarrow> keeps (wf_hub x) (reg_create x d)"
  unfolding reg_create_def by (intro keeps_rules)

lemma keeps_expireIfNeeded [keeps_rules]: "keeps (wf_hub x) (expireIfNeeded r)"
  unfolding expireIfNeeded_def by (intro keeps_rules) simp_all

lemma keeps_findPendingForOwner [keeps_rules]: "keeps (wf_hub x) (findPendingForOwner u)"
  unfolding findPendingForOwner_def expirePendingRequests_def by (intro keeps_rules) simp_all

lemma keeps_reg_getResult [keeps_rules]: "keeps (wf_hub x) (reg_getResult y i s)"
  unfolding reg_getResult_def by (intro keeps_rules) simp_all

subsection \<open>Creating the server of a request\<close>

lemma draws_up_transaction: "draws_up m \<Longrightarrow> draws_up (transaction m)"
  by (auto simp: draws_up_def transaction_def split: prod.splits sum.splits) (metis snd_conv)+

lemma draws_up_regRequest_connect: "draws_up (regRequest_connect i s f)"
  by (simp add: draws_up_def regRequest_connect_def prog_simps split: option.splits)

lemma draws_up_server_create: "draws_up (server_create x a b c d e ps)"
  unfolding server_create_def
  by (intro draws_up_transaction draws_up_bindE draws_up_thenE draws_up_forE draws_up_server_insert
      draws_up_profile_create draws_up_ret)

lemma keeps_reg_approve [keeps_rules]: "inj (x_uuid x) \<Longrightarrow> keeps (wf_hub x) (reg_approve x u r)"
  unfolding reg_approve_def
  by (intro keeps_rules draws_up_bindE draws_up_server_create draws_up_regRequest_connect) simp_all

lemma keeps_reg_decide [keeps_rules]: "inj (x_uuid x) \<Longrightarrow> keeps (wf_hub x) (reg_decide x u i a)"
  unfolding reg_decide_def by (intro keeps_rules) simp_all

lemma profile_creates:
  assumes "sid \<in> s_id ` set (servers h)" and "\<forall>d \<in> set ps. \<not> profile_taken sid d (profiles h)"
    and "distinct (map (\<lambda>d. (fst d, fst (snd d))) ps)"
  shows "\<exists>rows. forE (profile_create x sid) ps h = (Inr (), h\<lparr>draws := draws h + length ps, profiles := profiles h @ rows\<rparr>) \<and>
    map (\<lambda>r. (wp_serverId r, wp_provider r, wp_enabled r)) rows = map (\<lambda>d. (sid, fst d, fst (snd (snd d)))) ps"
  using assms
proof (induction ps arbitrary: h)
  case Nil
  then show ?case by (auto simp: prog_simps intro!: exI [of _ "[]"])
next
  case (Cons d ps)
  let ?r = "profile_row (x_uuid x (draws h)) sid (clock h) d"
  let ?h = "h\<lparr>draws := Suc (draws h), profiles := profiles h @ [?r]\<rparr>"
  have one: "profile_create x sid d h = (Inr (), ?h)"
    using Cons.prems by (simp add: profile_create_def prog_simps insert_row_def)
  have r: "wp_serverId ?r = sid" "wp_provider ?r = fst d" "wp_profileName ?r = fst (snd d)" "wp_enabled ?r = fst (snd (snd d))"
    by (simp_all add: profile_row_def split: prod.splits)
  have "\<not> profile_taken sid e (profiles ?h)" if "e \<in> set ps" for e
    using Cons.prems(2,3) that by (auto simp: profile_taken_def r)
  with Cons.IH [of ?h] Cons.prems obtain rows where
    "forE (profile_create x sid) ps ?h = (Inr (), ?h\<lparr>draws := draws ?h + length ps, profiles := profiles ?h @ rows\<rparr>)"
    "map (\<lambda>r. (wp_serverId r, wp_provider r, wp_enabled r)) rows = map (\<lambda>d. (sid, fst d, fst (snd (snd d)))) ps"
    by auto
  then show ?case using one r by (intro exI [of _ "?r # rows"]) (simp add: prog_simps)
qed

lemma server_create_ok:
  assumes "wf_hub x h" and "inj (x_uuid x)" and "u \<in> u_id ` set (users h)"
    and "distinct (map (\<lambda>d. (fst d, fst (snd d))) ps)"
  shows "\<exists>s rows. server_create x u n os ip hash ps h = (Inr s,
      h\<lparr>draws := draws h + Suc (length ps), servers := servers h @ [s], profiles := profiles h @ rows\<rparr>) \<and>
    s_id s = x_uuid x (draws h) \<and> s_ownerId s = u \<and> s_apiKeyHash s = hash \<and> s_status s = OFFLINE \<and> s_name s = n \<and>
    map (\<lambda>r. (wp_serverId r, wp_provider r, wp_enabled r)) rows = map (\<lambda>d. (s_id s, fst d, fst (snd (snd d)))) ps"
proof -
  let ?s = "\<lparr>s_id = x_uuid x (draws h), s_ownerId = u, s_name = n, s_osType = os, s_tailscaleIp = ip, s_apiKeyHash = hash,
    s_status = OFFLINE, s_lastHeartbeatAt = None, s_createdAt = clock h, s_updatedAt = clock h\<rparr>"
  let ?h = "h\<lparr>draws := Suc (draws h), servers := servers h @ [?s]\<rparr>"
  have ins: "server_insert x u n os ip hash h = (Inr ?s, ?h)"
    using assms(3) by (simp add: server_insert_def prog_simps Let_def insert_row_def)
  have "x_uuid x (draws h) \<notin> s_id ` set (servers h)" by (rule wf_fresh [OF assms(1,2) order_refl])
  then have "x_uuid x (draws h) \<notin> wp_serverId ` set (profiles h)"
    using wf_hubD(13) [OF assms(1)] by (auto simp: refs_def)
  then have "\<forall>d \<in> set ps. \<not> profile_taken (s_id ?s) d (profiles ?h)"
    by (auto simp: profile_taken_def rev_image_eqI)
  from profile_creates [OF _ this assms(4), of x] obtain rows where
    "forE (profile_create x (s_id ?s)) ps ?h = (Inr (), ?h\<lparr>draws := draws ?h + length ps, profiles := profiles ?h @ rows\<rparr>)"
    "map (\<lambda>r. (wp_serverId r, wp_provider r, wp_enabled r)) rows = map (\<lambda>d. (s_id ?s, fst d, fst (snd (snd d)))) ps"
    by auto
  then show ?thesis
    using ins by (intro exI [of _ ?s] exI [of _ rows]) (simp add: server_create_def transaction_def prog_simps)
qed

text \<open>Approving: the new server, and the request with the key encrypted in it.\<close>

lemma distinct_default_profiles: "distinct (map (\<lambda>d. (fst d, fst (snd d))) reg_defaultWorkerProfiles)"
  by (simp add: reg_defaultWorkerProfiles_def)

lemma encryptForRequestSecret_apply:
  "\<exists>e. encryptForRequestSecret x p k h = (Inr e, h\<lparr>draws := Suc (draws h)\<rparr>) \<and>
    (gcm_ok x \<longrightarrow> decryptForRequestSecret x e k = Inr p) \<and>
    e = \<lparr>ep_ciphertext = toHex (fst (x_gcm_enc x (x_sha256 x k) (x_random x (draws h) 12) p)),
         ep_iv = toHex (x_random x (draws h) 12),
         ep_authTag = toHex (snd (x_gcm_enc x (x_sha256 x k) (x_random x (draws h) 12) p))\<rparr>"
proof -
  let ?e = "\<lparr>ep_ciphertext = toHex (fst (x_gcm_enc x (x_sha256 x k) (x_random x (draws h) 12) p)),
         ep_iv = toHex (x_random x (draws h) 12),
         ep_authTag = toHex (snd (x_gcm_enc x (x_sha256 x k) (x_random x (draws h) 12) p))\<rparr>"
  have r: "encryptForRequestSecret x p k h = (Inr ?e, h\<lparr>draws := Suc (draws h)\<rparr>)"
    by (simp add: encryptForRequestSecret_def prog_simps Let_def split: prod.splits)
  then show ?thesis using decryptForRequestSecret_encrypt [OF _ r] by blast
qed

lemma reg_approve_apply:
  assumes "wf_hub x h" and "inj (x_uuid x)" and "u \<in> u_id ` set (users h)"
    and "find_row rr_id (rr_id r) (regRequests h) = Some r"
  shows "\<exists>s rows e r' h'. reg_approve x u r h = (Inr (reg_toPublic r'), h') \<and>
    servers h' = servers h @ [s] \<and> s_ownerId s = u \<and> s_name s = rr_name r \<and> s_status s = OFFLINE \<and> s_id s = x_uuid x (draws h + 2) \<and>
    s_apiKeyHash s = hashApiKey x (toHex (x_random x (draws h) 32)) \<and>
    profiles h' = profiles h @ rows \<and>
    map (\<lambda>r. (wp_serverId r, wp_provider r, wp_enabled r)) rows = map (\<lambda>d. (s_id s, fst d, fst (snd (snd d)))) reg_defaultWorkerProfiles \<and>
    encryptForRequestSecret x (toHex (x_random x (draws h) 32)) (rr_requestSecretHash r) (h\<lparr>draws := Suc (draws h)\<rparr>) =
      (Inr e, h\<lparr>draws := Suc (Suc (draws h))\<rparr>) \<and>
    regRequests h' = update_row rr_id (rr_id r) (\<lambda>r. r\<lparr>rr_status := R_APPROVED,
            rr_apiKeyCiphertext := Some (ep_ciphertext e), rr_apiKeyIv := Some (ep_iv e),
            rr_apiKeyAuthTag := Some (ep_authTag e), rr_serverId := Some (s_id s), rr_updatedAt := clock h\<rparr>) (regRequests h) \<and>
    find_row rr_id (rr_id r) (regRequests h') = Some r' \<and> clock h' = clock h"
proof -
  let ?k = "toHex (x_random x (draws h) 32)"
  let ?h1 = "h\<lparr>draws := Suc (draws h)\<rparr>" and ?h2 = "h\<lparr>draws := Suc (Suc (draws h))\<rparr>"
  obtain e where e: "encryptForRequestSecret x ?k (rr_requestSecretHash r) ?h1 = (Inr e, ?h2)"
    using encryptForRequestSecret_apply [of x ?k "rr_requestSecretHash r" ?h1] by auto
  have wf2: "wf_hub x ?h2" using assms(1) by simp
  from server_create_ok [OF wf2 assms(2) _ distinct_default_profiles, of u "rr_name r" "rr_osType r" "rr_tailscaleIp r" "hashApiKey x ?k"] assms(3)
  obtain s rows where s: "server_create x u (rr_name r) (rr_osType r) (rr_tailscaleIp r) (hashApiKey x ?k) reg_defaultWorkerProfiles ?h2 =
      (Inr s, ?h2\<lparr>draws := draws ?h2 + Suc (length reg_defaultWorkerProfiles), servers := servers h @ [s], profiles := profiles h @ rows\<rparr>)"
    "s_id s = x_uuid x (draws h + 2)" "s_ownerId s = u" "s_apiKeyHash s = hashApiKey x ?k" "s_status s = OFFLINE" "s_name s = rr_name r"
    "map (\<lambda>r. (wp_serverId r, wp_provider r, wp_enabled r)) rows = map (\<lambda>d. (s_id s, fst d, fst (snd (snd d)))) reg_defaultWorkerProfiles"
    by auto
  let ?f = "\<lambda>r. r\<lparr>rr_status := R_APPROVED, rr_apiKeyCiphertext := Some (ep_ciphertext e), rr_apiKeyIv := Some (ep_iv e),
            rr_apiKeyAuthTag := Some (ep_authTag e), rr_serverId := Some (s_id s), rr_updatedAt := clock h\<rparr>"
  have "find_row rr_id (rr_id r) (update_row rr_id (rr_id r) ?f (regRequests h)) = Some (?f r)"
    using assms(4) by (simp add: find_row_update_row)
  with s e assms(4) show ?thesis
    by (simp add: reg_approve_def bindE_apply generateApiKey_apply transaction_def regRequest_connect_def getS_apply thenE_apply
        guardE_apply regRequest_update_apply ret_apply)
qed

text \<open>What the code relies on of the identifiers, random bytes, digests and ciphertexts: none is empty.\<close>

definition lengths_ok :: "ext \<Rightarrow> bool" where
  "lengths_ok x \<longleftrightarrow> (\<forall>n. x_uuid x n \<noteq> []) \<and> (\<forall>k n. 0 < n \<longrightarrow> x_random x k n \<noteq> []) \<and>
    (\<forall>s. s \<noteq> [] \<longrightarrow> x_sha256 x s \<noteq> []) \<and>
    (\<forall>k iv p. k \<noteq> [] \<and> p \<noteq> [] \<longrightarrow> fst (x_gcm_enc x k iv p) \<noteq> [] \<and> snd (x_gcm_enc x k iv p) \<noteq> [])"

lemma toHex_eq_Nil [simp]: "toHex b = [] \<longleftrightarrow> b = []"
  by (cases b) simp_all

lemma reg_create_apply:
  assumes "find_row u_email (crd_ownerEmail dto) (users h) = Some owner"
  shows "\<exists>r h1. reg_create x dto h = (Inr (reg_toPublic r, toHex (x_random x (draws h) 32)), h1) \<and>
    h1 = h\<lparr>draws := draws h + 3, regRequests := regRequests h @ [r]\<rparr> \<and> rr_id r = x_uuid x (draws h + 2) \<and>
    rr_ownerId r = u_id owner \<and> rr_status r = R_PENDING \<and> rr_expiresAt r = clock h + REQUEST_TTL_MS \<and>
    rr_requestSecretHash r = hashApiKey x (toHex (x_random x (draws h) 32)) \<and> rr_serverId r = None"
proof -
  let ?r = "\<lparr>rr_id = x_uuid x (draws h + 2), rr_ownerId = u_id owner, rr_name = crd_name dto, rr_osType = crd_osType dto,
    rr_tailscaleIp = crd_tailscaleIp dto, rr_fingerprint = crd_fingerprint dto,
    rr_verificationCode = verification_code (x_random x (draws h + 1) 3),
    rr_requestSecretHash = hashApiKey x (toHex (x_random x (draws h) 32)), rr_status = R_PENDING,
    rr_expiresAt = clock h + REQUEST_TTL_MS, rr_serverId = None, rr_apiKeyCiphertext = None, rr_apiKeyIv = None,
    rr_apiKeyAuthTag = None, rr_createdAt = clock h, rr_updatedAt = clock h\<rparr>"
  have "u_id owner \<in> u_id ` set (users h)" using find_row_SomeD [OF assms] by auto
  then have "reg_create x dto h = (Inr (reg_toPublic ?r, toHex (x_random x (draws h) 32)),
      h\<lparr>draws := draws h + 3, regRequests := regRequests h @ [?r]\<rparr>)" using assms
    by (simp add: reg_create_def regRequest_create_def prog_simps Let_def insert_row_def eval_nat_numeral)
  then show ?thesis by (intro exI [of _ ?r]) simp
qed

lemma reg_getResult_delivers:
  assumes "find_row rr_id i (regRequests h) = Some r" and "rr_status r = R_APPROVED"
    and "rr_requestSecretHash r = hashApiKey x sec" and "sec \<noteq> []"
    and "rr_serverId r = Some sid" "sid \<noteq> []" and "rr_apiKeyCiphertext r = Some c" "c \<noteq> []"
    and "rr_apiKeyIv r = Some iv" "iv \<noteq> []" and "rr_apiKeyAuthTag r = Some tag" "tag \<noteq> []"
    and "decryptForRequestSecret x \<lparr>ep_ciphertext = c, ep_iv = iv, ep_authTag = tag\<rparr> (rr_requestSecretHash r) = Inr k"
  shows "\<exists>d. reg_getResult x i sec h = (Inr d, h\<lparr>regRequests := update_row rr_id i (\<lambda>r. r\<lparr>rr_status := R_CREDENTIAL_DELIVERED,
        rr_apiKeyCiphertext := None, rr_apiKeyIv := None, rr_apiKeyAuthTag := None, rr_updatedAt := clock h\<rparr>) (regRequests h)\<rparr>) \<and>
    dr_status d = R_APPROVED \<and> dr_serverId d = Some sid \<and> dr_apiKey d = Some k"
  using assms by (simp add: reg_getResult_def expireIfNeeded_def falsy_def prog_simps)

lemma reg_getResult_delivered:
  assumes "find_row rr_id i (regRequests h) = Some r" and "rr_status r = R_CREDENTIAL_DELIVERED"
    and "rr_requestSecretHash r = hashApiKey x sec" and "sec \<noteq> []"
  shows "reg_getResult x i sec h = (Inr (toDaemonResult r), h)"
  using assms by (simp add: reg_getResult_def expireIfNeeded_def prog_simps)

text \<open>After an approval the request holds the key of the new server, encrypted under the digest of its
  own secret hash.\<close>

lemma approved_request:
  assumes "wf_hub x h" and "inj (x_uuid x)" and "gcm_ok x" and "lengths_ok x"
    and "u \<in> u_id ` set (users h)" and "find_row rr_id i (regRequests h) = Some r"
    and "rr_ownerId r = u" "rr_status r = R_PENDING" "clock h \<le> rr_expiresAt r" "rr_requestSecretHash r \<noteq> []"
  shows "\<exists>s r' h2 c iv tag. reg_decide x u i True h = (Inr (reg_toPublic r'), h2) \<and> find_row rr_id i (regRequests h2) = Some r' \<and>
    servers h2 = servers h @ [s] \<and> s_ownerId s = u \<and> s_id s \<noteq> [] \<and>
    s_apiKeyHash s = hashApiKey x (toHex (x_random x (draws h) 32)) \<and>
    r' = r\<lparr>rr_status := R_APPROVED, rr_apiKeyCiphertext := Some c, rr_apiKeyIv := Some iv, rr_apiKeyAuthTag := Some tag,
        rr_serverId := Some (s_id s), rr_updatedAt := clock h\<rparr> \<and> c \<noteq> [] \<and> iv \<noteq> [] \<and> tag \<noteq> [] \<and>
    decryptForRequestSecret x \<lparr>ep_ciphertext = c, ep_iv = iv, ep_authTag = tag\<rparr> (rr_requestSecretHash r) =
      Inr (toHex (x_random x (draws h) 32))"
proof -
  let ?k = "toHex (x_random x (draws h) 32)"
  have find: "find_row rr_id (rr_id r) (regRequests h) = Some r" and id: "rr_id r = i"
    using assms(6) find_row_SomeD [OF assms(6)] by auto
  obtain s rows r' h2 and e :: enc_payload where
    ap: "reg_approve x u r h = (Inr (reg_toPublic r'), h2)"
    and s: "servers h2 = servers h @ [s]" "s_ownerId s = u" "s_id s = x_uuid x (draws h + 2)" "s_apiKeyHash s = hashApiKey x ?k"
    and e: "encryptForRequestSecret x ?k (rr_requestSecretHash r) (h\<lparr>draws := Suc (draws h)\<rparr>) = (Inr e, h\<lparr>draws := Suc (Suc (draws h))\<rparr>)"
    and reqs: "regRequests h2 = update_row rr_id (rr_id r) (\<lambda>r. r\<lparr>rr_status := R_APPROVED,
            rr_apiKeyCiphertext := Some (ep_ciphertext e), rr_apiKeyIv := Some (ep_iv e),
            rr_apiKeyAuthTag := Some (ep_authTag e), rr_serverId := Some (s_id s), rr_updatedAt := clock h\<rparr>) (regRequests h)"
      "find_row rr_id (rr_id r) (regRequests h2) = Some r'"
    using reg_approve_apply [OF assms(1,2,5) find] by (elim exE conjE) (rule that; assumption)
  have dec: "reg_decide x u i True h = (Inr (reg_toPublic r'), h2)"
    using assms(6-9) ap by (simp add: reg_decide_def expireIfNeeded_def prog_simps)
  have r': "r' = r\<lparr>rr_status := R_APPROVED, rr_apiKeyCiphertext := Some (ep_ciphertext e), rr_apiKeyIv := Some (ep_iv e),
      rr_apiKeyAuthTag := Some (ep_authTag e), rr_serverId := Some (s_id s), rr_updatedAt := clock h\<rparr>"
    using reqs find by (simp add: find_row_update_row)
  have "?k \<noteq> []" "x_sha256 x (rr_requestSecretHash r) \<noteq> []" "x_random x (Suc (draws h)) 12 \<noteq> []" "s_id s \<noteq> []"
    using assms(4,10) s(3) by (simp_all add: lengths_ok_def)
  moreover have "e = \<lparr>ep_ciphertext = toHex (fst (x_gcm_enc x (x_sha256 x (rr_requestSecretHash r)) (x_random x (Suc (draws h)) 12) ?k)),
         ep_iv = toHex (x_random x (Suc (draws h)) 12),
         ep_authTag = toHex (snd (x_gcm_enc x (x_sha256 x (rr_requestSecretHash r)) (x_random x (Suc (draws h)) 12) ?k))\<rparr>"
    using encryptForRequestSecret_apply [of x ?k "rr_requestSecretHash r" "h\<lparr>draws := Suc (draws h)\<rparr>"] e by auto
  ultimately have ne: "ep_ciphertext e \<noteq> []" "ep_iv e \<noteq> []" "ep_authTag e \<noteq> []" "s_id s \<noteq> []"
    using assms(4) by (simp_all add: lengths_ok_def)
  have key: "decryptForRequestSecret x \<lparr>ep_ciphertext = ep_ciphertext e, ep_iv = ep_iv e, ep_authTag = ep_authTag e\<rparr>
      (rr_requestSecretHash r) = Inr ?k"
    using decryptForRequestSecret_encrypt [OF assms(3) e] by (cases e) simp
  show ?thesis
    by (rule exI [of _ s], rule exI [of _ r'], rule exI [of _ h2], rule exI [of _ "ep_ciphertext e"],
        rule exI [of _ "ep_iv e"], rule exI [of _ "ep_authTag e"])
      (use dec reqs(2) id s(1,2,4) ne key r' in \<open>simp\<close>)
qed

text \<open>The server an approval creates and its profiles.\<close>

lemma reg_approve_new_server:
  assumes "wf_hub x h" and "inj (x_uuid x)" and "u \<in> u_id ` set (users h)" and "find_row rr_id (rr_id r) (regRequests h) = Some r"
  shows "\<exists>s r' h'. reg_approve x u r h = (Inr (reg_toPublic r'), h') \<and> servers h' = servers h @ [s] \<and>
    s_ownerId s = u \<and> s_name s = rr_name r \<and> s_status s = OFFLINE \<and>
    find_row rr_id (rr_id r) (regRequests h') = Some r' \<and> rr_status r' = R_APPROVED \<and> rr_serverId r' = Some (s_id s) \<and>
    (\<forall>w \<in> set (profiles h'). wp_serverId w = s_id s \<and> wp_enabled w \<longrightarrow> wp_provider w = P_CODEX) \<and>
    (\<exists>w \<in> set (profiles h'). wp_serverId w = s_id s \<and> wp_enabled w)"
proof -
  obtain s rows r' h' and e :: enc_payload where
    run: "reg_approve x u r h = (Inr (reg_toPublic r'), h')"
    and s: "servers h' = servers h @ [s]" "s_ownerId s = u" "s_name s = rr_name r" "s_status s = OFFLINE" "s_id s = x_uuid x (draws h + 2)"
    and rows: "profiles h' = profiles h @ rows" "map (\<lambda>r. (wp_serverId r, wp_provider r, wp_enabled r)) rows =
      map (\<lambda>d. (s_id s, fst d, fst (snd (snd d)))) reg_defaultWorkerProfiles"
    and reqs: "regRequests h' = update_row rr_id (rr_id r) (\<lambda>r. r\<lparr>rr_status := R_APPROVED,
          rr_apiKeyCiphertext := Some (ep_ciphertext e), rr_apiKeyIv := Some (ep_iv e),
          rr_apiKeyAuthTag := Some (ep_authTag e), rr_serverId := Some (s_id s), rr_updatedAt := clock h\<rparr>) (regRequests h)"
      "find_row rr_id (rr_id r) (regRequests h') = Some r'"
    using reg_approve_apply [OF assms] by (elim exE conjE) (rule that; assumption)
  have r': "rr_status r' = R_APPROVED" "rr_serverId r' = Some (s_id s)"
    using reqs assms(4) by (auto simp: find_row_update_row)
  have "x_uuid x (draws h + 2) \<notin> s_id ` set (servers h)" by (rule wf_fresh [OF assms(1,2)]) simp
  then have "s_id s \<notin> wp_serverId ` set (profiles h)"
    using wf_hubD(13) [OF assms(1)] s(5) by (auto simp: refs_def)
  then have old: "wp_serverId w \<noteq> s_id s" if "w \<in> set (profiles h)" for w using that by (auto simp: rev_image_eqI)
  have new: "(wp_serverId w, wp_provider w, wp_enabled w) \<in> set (map (\<lambda>d. (s_id s, fst d, fst (snd (snd d)))) reg_defaultWorkerProfiles)"
    if "w \<in> set rows" for w
    unfolding rows(2) [symmetric] using that by auto
  then have "wp_provider w = P_CODEX" if "w \<in> set rows" "wp_enabled w" for w
    using that by (fastforce simp: reg_defaultWorkerProfiles_def)
  moreover have "(s_id s, P_CODEX, True) \<in> set (map (\<lambda>r. (wp_serverId r, wp_provider r, wp_enabled r)) rows)"
    unfolding rows(2) by (simp add: reg_defaultWorkerProfiles_def)
  then have "\<exists>w \<in> set rows. wp_serverId w = s_id s \<and> wp_enabled w" by auto
  ultimately show ?thesis using run s(1-4) reqs(2) r' old rows(1)
    by (intro exI [of _ s] exI [of _ r'] exI [of _ h']) auto
qed

text \<open>A stored request, found again under its identifier.\<close>

lemma reg_created:
  assumes "wf_hub x h" and "inj (x_uuid x)" and "find_row u_email (crd_ownerEmail dto) (users h) = Some owner"
  shows "\<exists>r h1. reg_create x dto h = (Inr (reg_toPublic r, toHex (x_random x (draws h) 32)), h1) \<and> wf_hub x h1 \<and>
    h1 = h\<lparr>draws := draws h + 3, regRequests := regRequests h @ [r]\<rparr> \<and> find_row rr_id (rr_id r) (regRequests h1) = Some r \<and>
    rr_ownerId r = u_id owner \<and> rr_status r = R_PENDING \<and> rr_expiresAt r = clock h + REQUEST_TTL_MS \<and>
    rr_requestSecretHash r = hashApiKey x (toHex (x_random x (draws h) 32))"
proof -
  obtain r h1 where c: "reg_create x dto h = (Inr (reg_toPublic r, toHex (x_random x (draws h) 32)), h1)"
    and h1: "h1 = h\<lparr>draws := draws h + 3, regRequests := regRequests h @ [r]\<rparr>" and id: "rr_id r = x_uuid x (draws h + 2)"
    and r: "rr_ownerId r = u_id owner" "rr_status r = R_PENDING" "rr_expiresAt r = clock h + REQUEST_TTL_MS"
      "rr_requestSecretHash r = hashApiKey x (toHex (x_random x (draws h) 32))"
    using reg_create_apply [OF assms(3)] by blast
  have "wf_hub x h1" using keepsD [OF keeps_reg_create [OF assms(2)] assms(1), of dto] c by simp
  moreover have "rr_id r \<notin> rr_id ` set (regRequests h)" unfolding id by (rule wf_fresh [OF assms(1,2)]) simp
  then have "find_row rr_id (rr_id r) (regRequests h) = None" by (simp add: find_row_None)
  then have "find_row rr_id (rr_id r) (regRequests h1) = Some r"
    using find_row_insert_row [of rr_id "rr_id r" r "regRequests h"] by (simp add: h1 insert_row_def)
  ultimately show ?thesis using c h1 r by blast
qed

text \<open>The run of a registration that is approved in time, with the states in between.\<close>

lemma registration_run:
  assumes "wf_hub x h" and "inj (x_uuid x)" and "gcm_ok x" and "lengths_ok x"
    and "find_row u_email (crd_ownerEmail dto) (users h) = Some owner" and "t1 \<le> clock h + REQUEST_TTL_MS"
    and "hashApiKey x (toHex (x_random x (draws h + 3) 32)) \<notin> s_apiKeyHash ` set (servers h)"
    and "sec = toHex (x_random x (draws h) 32)" and "k = toHex (x_random x (draws h + 3) 32)"
  shows "\<exists>r h1 r' h2 s. reg_create x dto h = (Inr (reg_toPublic r, sec), h1) \<and> find_row rr_id (rr_id r) (regRequests h1) = Some r \<and>
    rr_status r = R_PENDING \<and> rr_expiresAt r = clock h + REQUEST_TTL_MS \<and> rr_requestSecretHash r = hashApiKey x sec \<and> sec \<noteq> [] \<and>
    reg_decide x (u_id owner) (rr_id r) True (h1\<lparr>clock := t1\<rparr>) = (Inr (reg_toPublic r'), h2) \<and> rr_status r' = R_APPROVED \<and>
    wf_hub x h2 \<and> (\<forall>h. servers h = servers h2 \<longrightarrow> findByApiKey x k h = (Inr (Some s), h)) \<and> s_ownerId s = u_id owner \<and> s_id s \<noteq> [] \<and> k \<noteq> [] \<and>
    s \<in> set (servers h2) \<and>
    (\<forall>t2. \<exists>d h3. reg_getResult x (rr_id r) sec (h2\<lparr>clock := t2\<rparr>) = (Inr d, h3) \<and> servers h3 = servers h2 \<and>
       dr_status d = R_APPROVED \<and> dr_serverId d = Some (s_id s) \<and> dr_apiKey d = Some k \<and>
       (\<exists>r''. find_row rr_id (rr_id r) (regRequests h3) = Some r'' \<and> rr_status r'' = R_CREDENTIAL_DELIVERED \<and>
          rr_requestSecretHash r'' = hashApiKey x sec))"
proof -
  obtain r h1 where c: "reg_create x dto h = (Inr (reg_toPublic r, sec), h1)"
    and h1: "h1 = h\<lparr>draws := draws h + 3, regRequests := regRequests h @ [r]\<rparr>"
    and r: "rr_ownerId r = u_id owner" "rr_status r = R_PENDING" "rr_expiresAt r = clock h + REQUEST_TTL_MS"
      "rr_requestSecretHash r = hashApiKey x sec"
    and st1: "wf_hub x h1" "find_row rr_id (rr_id r) (regRequests h1) = Some r"
    using reg_created [OF assms(1,2,5)] unfolding assms(8) by blast
  let ?h1 = "h1\<lparr>clock := t1\<rparr>"
  have wf1: "wf_hub x ?h1" and find1: "find_row rr_id (rr_id r) (regRequests ?h1) = Some r" using st1 by simp_all
  have own: "u_id owner \<in> u_id ` set (users ?h1)" using find_row_SomeD [OF assms(5)] by (auto simp: h1)
  have sec: "sec \<noteq> []" "rr_requestSecretHash r \<noteq> []" "k \<noteq> []" using assms(4,8,9) r(4) by (simp_all add: lengths_ok_def hashApiKey_def)
  obtain s r' h2 cc iv tag where dec: "reg_decide x (u_id owner) (rr_id r) True ?h1 = (Inr (reg_toPublic r'), h2)"
    and find2: "find_row rr_id (rr_id r) (regRequests h2) = Some r'"
    and s: "servers h2 = servers h @ [s]" "s_ownerId s = u_id owner" "s_id s \<noteq> []" "s_apiKeyHash s = hashApiKey x k"
    and r': "r' = r\<lparr>rr_status := R_APPROVED, rr_apiKeyCiphertext := Some cc, rr_apiKeyIv := Some iv, rr_apiKeyAuthTag := Some tag,
        rr_serverId := Some (s_id s), rr_updatedAt := t1\<rparr>" and ne: "cc \<noteq> []" "iv \<noteq> []" "tag \<noteq> []"
    and key: "decryptForRequestSecret x \<lparr>ep_ciphertext = cc, ep_iv = iv, ep_authTag = tag\<rparr> (rr_requestSecretHash r) = Inr k"
    using approved_request [OF wf1 assms(2-4) own find1 r(1,2) _ sec(2)] assms(6) r(3) by (auto simp: h1 assms(9))
  have wf2: "wf_hub x h2" using keepsD [OF keeps_reg_decide [OF assms(2)] wf1] dec by (metis snd_conv)
  have "find (\<lambda>s. s_apiKeyHash s = hashApiKey x k) (servers h) = None"
    using assms(7,9) by (auto simp: find_None_conv rev_image_eqI)
  then have look: "findByApiKey x k g = (Inr (Some s), g)" if "servers g = servers h2" for g
    using s(1,4) that by (simp add: findByApiKey_def prog_simps find_append)
  have "\<exists>d h3. reg_getResult x (rr_id r) sec (h2\<lparr>clock := t2\<rparr>) = (Inr d, h3) \<and> servers h3 = servers h2 \<and>
       dr_status d = R_APPROVED \<and> dr_serverId d = Some (s_id s) \<and> dr_apiKey d = Some k \<and>
       (\<exists>r''. find_row rr_id (rr_id r) (regRequests h3) = Some r'' \<and> rr_status r'' = R_CREDENTIAL_DELIVERED \<and>
          rr_requestSecretHash r'' = hashApiKey x sec)" for t2
  proof -
    have "find_row rr_id (rr_id r) (regRequests (h2\<lparr>clock := t2\<rparr>)) = Some r'" using find2 by simp
    from reg_getResult_delivers [OF this _ _ sec(1) _ s(3) _ ne(1) _ ne(2) _ ne(3), of x] obtain d where
      "reg_getResult x (rr_id r) sec (h2\<lparr>clock := t2\<rparr>) = (Inr d, h2\<lparr>clock := t2, regRequests := update_row rr_id (rr_id r)
        (\<lambda>r. r\<lparr>rr_status := R_CREDENTIAL_DELIVERED, rr_apiKeyCiphertext := None, rr_apiKeyIv := None,
          rr_apiKeyAuthTag := None, rr_updatedAt := t2\<rparr>) (regRequests h2)\<rparr>)"
      "dr_status d = R_APPROVED" "dr_serverId d = Some (s_id s)" "dr_apiKey d = Some k"
      using r key by (auto simp: r')
    then show ?thesis using find2 r(4) by (simp add: r' find_row_update_row)
  qed
  then show ?thesis
    by (intro exI [of _ r] exI [of _ h1] exI [of _ r'] exI [of _ h2] exI [of _ s])
      (use c st1 r sec dec wf2 look s r' in simp)
qed

section \<open>Properties\<close>

text \<open>C18. The owner's decision on a registration request: a missing and a foreign request are refused;
  a request that expired is marked EXPIRED and one that was decided before is returned as it is, in
  both cases without a server being created; a rejection only changes the status; an approval before
  the deadline creates exactly one offline server of the owner, with CODEX as its only enabled
  profile, and links the request to it.\<close>

theorem reg_decide_spec:
  assumes "wf_hub x h" and "inj (x_uuid x)"
  shows "case find_row rr_id i (regRequests h) of
      None \<Rightarrow> reg_decide x u i b h = (Inl (NotFoundException ko_request_not_found), h)
    | Some r \<Rightarrow>
        if rr_ownerId r \<noteq> u then reg_decide x u i b h = (Inl (ForbiddenException ko_request_forbidden), h)
        else if rr_status r \<noteq> R_PENDING then reg_decide x u i b h = (Inr (reg_toPublic r), h)
        else \<exists>r' h'. reg_decide x u i b h = (Inr (reg_toPublic r'), h') \<and> find_row rr_id i (regRequests h') = Some r' \<and>
          rr_status r' = (if rr_expiresAt r < clock h then R_EXPIRED else if b then R_APPROVED else R_REJECTED) \<and>
          (if rr_status r' = R_APPROVED
           then \<exists>s. servers h' = servers h @ [s] \<and> rr_serverId r' = Some (s_id s) \<and> s_ownerId s = u \<and> s_name s = rr_name r \<and>
             s_status s = OFFLINE \<and>
             (\<forall>w \<in> set (profiles h'). wp_serverId w = s_id s \<and> wp_enabled w \<longrightarrow> wp_provider w = P_CODEX) \<and>
             (\<exists>w \<in> set (profiles h'). wp_serverId w = s_id s \<and> wp_enabled w)
           else servers h' = servers h \<and> profiles h' = profiles h)"
proof (cases "find_row rr_id i (regRequests h)")
  case (Some r)
  then have r: "r \<in> set (regRequests h)" "rr_id r = i" using find_row_SomeD [OF Some] by auto
  have upd: "find_row rr_id i (update_row rr_id i f (regRequests h)) = Some (f r)" if "\<And>r. rr_id (f r) = rr_id r" for f
    using Some that by (simp add: find_row_update_row)
  show ?thesis
  proof (cases "rr_ownerId r = u \<and> rr_status r = R_PENDING \<and> clock h \<le> rr_expiresAt r \<and> b")
    case False
    then show ?thesis using Some r upd
      by (auto simp: reg_decide_def expireIfNeeded_def prog_simps)
  next
    case True
    have "u \<in> u_id ` set (users h)" using assms(1) r True by (auto simp: wf_defs refs_def)
    moreover have "find_row rr_id (rr_id r) (regRequests h) = Some r" using Some r by simp
    ultimately obtain s r' h' where run: "reg_approve x u r h = (Inr (reg_toPublic r'), h')"
      and new: "servers h' = servers h @ [s]" "s_ownerId s = u" "s_name s = rr_name r" "s_status s = OFFLINE"
      "find_row rr_id i (regRequests h') = Some r'" "rr_status r' = R_APPROVED" "rr_serverId r' = Some (s_id s)"
      "\<forall>w \<in> set (profiles h'). wp_serverId w = s_id s \<and> wp_enabled w \<longrightarrow> wp_provider w = P_CODEX"
      "\<exists>w \<in> set (profiles h'). wp_serverId w = s_id s \<and> wp_enabled w"
      using reg_approve_new_server [OF assms, of u r] unfolding r(2) by blast
    moreover have "reg_decide x u i b h = (Inr (reg_toPublic r'), h')"
      using True Some run by (simp add: reg_decide_def expireIfNeeded_def prog_simps)
    ultimately show ?thesis using True Some by auto
  qed
qed (simp add: reg_decide_def prog_simps)

text \<open>A key is only handed out for the right secret and only once: when a result carries an API key,
  the request was approved and the caller's secret has the stored digest; afterwards the request is
  marked as delivered and holds no ciphertext. Every other outcome leaves the servers and the keys
  alone: only an expired request's status may change.\<close>

theorem reg_getResult_guarded:
  assumes "reg_getResult x i sec h = (v, h')"
  shows "servers h' = servers h \<and>
   (case v of
      Inl e \<Rightarrow> (\<forall>r. find_row rr_id i (regRequests h) = Some r \<and> rr_requestSecretHash r \<noteq> hashApiKey x sec \<longrightarrow> h' = h)
    | Inr d \<Rightarrow> \<exists>r. find_row rr_id i (regRequests h) = Some r \<and> sec \<noteq> [] \<and> rr_requestSecretHash r = hashApiKey x sec \<and>
        (if dr_apiKey d \<noteq> None
         then rr_status r = R_APPROVED \<and> (\<exists>r'. find_row rr_id i (regRequests h') = Some r' \<and>
            rr_status r' = R_CREDENTIAL_DELIVERED \<and> rr_apiKeyCiphertext r' = None \<and> rr_apiKeyIv r' = None \<and> rr_apiKeyAuthTag r' = None)
         else h' = h \<or> rr_status r = R_PENDING \<and> rr_expiresAt r < clock h \<and> dr_status d = R_EXPIRED))"
proof (cases "find_row rr_id i (regRequests h)")
  case None
  then show ?thesis using assms by (auto simp: reg_getResult_def prog_simps split: if_splits)
next
  case (Some r)
  then have id: "rr_id r = i" using find_row_SomeD by metis
  have upd: "find_row rr_id i (update_row rr_id i f (regRequests h)) = Some (f r)" if "\<And>r. rr_id (f r) = rr_id r" for f
    using Some that by (simp add: find_row_update_row)
  consider "sec = [] \<or> rr_requestSecretHash r \<noteq> hashApiKey x sec"
    | "sec \<noteq> []" "rr_requestSecretHash r = hashApiKey x sec" "rr_status r = R_PENDING" "rr_expiresAt r < clock h"
    | "sec \<noteq> []" "rr_requestSecretHash r = hashApiKey x sec" "rr_status r \<noteq> R_PENDING \<or> rr_expiresAt r \<ge> clock h"
    by linarith
  then show ?thesis
  proof cases
    case 1
    then show ?thesis using assms Some by (auto simp: reg_getResult_def prog_simps split: if_splits)
  next
    case 2
    then show ?thesis using assms Some id
      by (auto simp: reg_getResult_def expireIfNeeded_def prog_simps toDaemonResult_def)
  next
    case 3
    then have e: "expireIfNeeded r h = (Inr r, h)" by (auto simp: expireIfNeeded_def prog_simps)
    show ?thesis using assms Some 3(1,2) upd
      by (auto simp: reg_getResult_def e bindE_apply getS_apply ret_apply liftE_apply regRequest_update_apply toDaemonResult_def
          split: if_splits sum.splits)
  qed
qed

text \<open>C27. The encryption of the key at rest protects nothing: its key is derived from the secret's
  digest, which is stored in the same row, so an approved row alone yields the API key of the new
  server.\<close>

theorem approved_row_reveals_key:
  assumes "wf_hub x h" and "inj (x_uuid x)" and "gcm_ok x" and "lengths_ok x"
    and "u \<in> u_id ` set (users h)" and "find_row rr_id i (regRequests h) = Some r"
    and "rr_ownerId r = u" and "rr_status r = R_PENDING" and "clock h \<le> rr_expiresAt r" and "rr_requestSecretHash r \<noteq> []"
  shows "\<exists>h2 row c iv tag k s. snd (reg_decide x u i True h) = h2 \<and> find_row rr_id i (regRequests h2) = Some row \<and>
    rr_apiKeyCiphertext row = Some c \<and> rr_apiKeyIv row = Some iv \<and> rr_apiKeyAuthTag row = Some tag \<and>
    decryptForRequestSecret x \<lparr>ep_ciphertext = c, ep_iv = iv, ep_authTag = tag\<rparr> (rr_requestSecretHash row) = Inr k \<and>
    s \<in> set (servers h2) \<and> rr_serverId row = Some (s_id s) \<and> s_apiKeyHash s = hashApiKey x k"
proof -
  obtain s r' h2 c iv tag where "reg_decide x u i True h = (Inr (reg_toPublic r'), h2)" "find_row rr_id i (regRequests h2) = Some r'"
    "servers h2 = servers h @ [s]" "s_apiKeyHash s = hashApiKey x (toHex (x_random x (draws h) 32))"
    and r': "r' = r\<lparr>rr_status := R_APPROVED, rr_apiKeyCiphertext := Some c, rr_apiKeyIv := Some iv, rr_apiKeyAuthTag := Some tag,
        rr_serverId := Some (s_id s), rr_updatedAt := clock h\<rparr>"
    and "decryptForRequestSecret x \<lparr>ep_ciphertext = c, ep_iv = iv, ep_authTag = tag\<rparr> (rr_requestSecretHash r) =
      Inr (toHex (x_random x (draws h) 32))"
    using approved_request [OF assms] by (elim exE conjE) (rule that; assumption)
  then show ?thesis
    by (intro exI [of _ h2] exI [of _ r'] exI [of _ c] exI [of _ iv] exI [of _ tag]
        exI [of _ "toHex (x_random x (draws h) 32)"] exI [of _ s]) (simp add: r')
qed

subsection \<open>Witnesses\<close>

definition demo_reg_dto :: create_reg_dto where
  "demo_reg_dto = \<lparr>crd_ownerEmail = ''a@b.c'', crd_name = ''box'', crd_osType = UBUNTU, crd_tailscaleIp = ''100.1.1.1'',
     crd_fingerprint = ''finger'', crd_profileName = None\<rparr>"

definition demo_request :: reg_request where
  "demo_request = \<lparr>rr_id = ''ii'', rr_ownerId = ''i'', rr_name = ''box'', rr_osType = UBUNTU, rr_tailscaleIp = ''100.1.1.1'',
     rr_fingerprint = ''finger'', rr_verificationCode = ''000000'', rr_requestSecretHash = hashApiKey demo_ext ''sec'',
     rr_status = R_PENDING, rr_expiresAt = 601000, rr_serverId = None, rr_apiKeyCiphertext = None, rr_apiKeyIv = None,
     rr_apiKeyAuthTag = None, rr_createdAt = 1000, rr_updatedAt = 1000\<rparr>"

definition demo_reg_hub :: hub where
  "demo_reg_hub = demo_user_hub\<lparr>regRequests := [demo_request], draws := 2\<rparr>"

lemma demo_lengths_ok: "lengths_ok demo_ext"
  by (auto simp: lengths_ok_def demo_ext_def)

lemma wf_demo_reg_hub: "wf_hub demo_ext demo_reg_hub"
  using wf_demo_user_hub
  by (auto simp: wf_defs demo_reg_hub_def demo_user_hub_def demo_hub_def demo_request_def ids_ok_def keyed_def refs_def
      demo_uuid numeral_2_eq_2 less_Suc_eq)

lemma demo_request_find:
  "find_row rr_id ''ii'' (regRequests demo_reg_hub) = Some demo_request" "''i'' \<in> u_id ` set (users demo_reg_hub)"
  "clock demo_reg_hub = 1000"
  by (simp_all add: find_row_def demo_reg_hub_def demo_request_def demo_user_hub_def demo_hub_def)

theorem reg_decide_spec_witness:
  "\<exists>r' h'. reg_decide demo_ext ''i'' ''ii'' False demo_reg_hub = (Inr (reg_toPublic r'), h') \<and> rr_status r' = R_REJECTED"
  using reg_decide_spec [OF wf_demo_reg_hub demo_inj, of "''i''" "''ii''" False]
  by (auto simp: demo_request_find demo_request_def)

theorem reg_getResult_guarded_witness:
  "\<exists>e. reg_getResult demo_ext ''ii'' ''bad'' demo_reg_hub = (Inl e, demo_reg_hub)"
proof -
  have bad: "rr_requestSecretHash demo_request \<noteq> hashApiKey demo_ext ''bad''"
    by (simp add: demo_request_def hashApiKey_def demo_ext_def hex_digit_def code_of_def)
  then obtain e h' where r: "reg_getResult demo_ext ''ii'' ''bad'' demo_reg_hub = (Inl e, h')"
    by (simp add: reg_getResult_def prog_simps demo_request_find)
  from reg_getResult_guarded [OF r] bad demo_request_find(1) have "h' = demo_reg_hub" by simp
  with r show ?thesis by blast
qed

theorem approved_row_reveals_key_witness:
  "\<exists>h2 row c iv tag k. snd (reg_decide demo_ext ''i'' ''ii'' True demo_reg_hub) = h2 \<and> find_row rr_id ''ii'' (regRequests h2) = Some row \<and>
    rr_apiKeyCiphertext row = Some c \<and> rr_apiKeyIv row = Some iv \<and> rr_apiKeyAuthTag row = Some tag \<and>
    decryptForRequestSecret demo_ext \<lparr>ep_ciphertext = c, ep_iv = iv, ep_authTag = tag\<rparr> (rr_requestSecretHash row) = Inr k"
proof -
  have f: "rr_ownerId demo_request = ''i''" "rr_status demo_request = R_PENDING" "clock demo_reg_hub \<le> rr_expiresAt demo_request"
    "rr_requestSecretHash demo_request \<noteq> []"
    by (simp_all add: demo_request_find) (simp_all add: demo_request_def hashApiKey_def demo_ext_def)
  from approved_row_reveals_key [OF wf_demo_reg_hub demo_inj demo_gcm_ok demo_lengths_ok demo_request_find(2,1) f]
  show ?thesis by (elim exE conjE) (intro exI conjI; assumption)
qed

end
