(* ===== verification/Routes.thy ===== *)
theory Routes
  imports Gateway Task_Processor Approvals Registrations
begin

text \<open>
  The HTTP layer of the hub: the controllers under \<^verbatim>\<open>hub-api/src\<close>, the validation their DTO classes
  declare, and the bearer guard. A guard runs before the validation pipe and the pipe before the
  handler. The string checks of the validation library are parameters (\<open>validators\<close>).
\<close>

section \<open>Validation of the DTOs\<close>

record validators =
  v_isEmail :: "string \<Rightarrow> bool"
  v_isIP :: "string \<Rightarrow> bool"
  v_isUUID :: "string \<Rightarrow> bool"

record login_dto =
  ld_email :: string
  ld_password :: string

definition valid_login :: "validators \<Rightarrow> login_dto \<Rightarrow> bool" where
  "valid_login v d \<longleftrightarrow> v_isEmail v (ld_email d) \<and> length (ld_password d) \<ge> 8"

definition valid_create_server :: "validators \<Rightarrow> create_server_dto \<Rightarrow> bool" where
  "valid_create_server v d \<longleftrightarrow> length (csd_name d) \<ge> 1 \<and> v_isIP v (csd_tailscaleIp d)"

fun not_empty_object :: "json \<Rightarrow> bool" where
  "not_empty_object (JObj kvs) \<longleftrightarrow> kvs \<noteq> []"
| "not_empty_object _ \<longleftrightarrow> False"

definition valid_create_task :: "validators \<Rightarrow> create_task_dto \<Rightarrow> bool" where
  "valid_create_task v d \<longleftrightarrow> v_isUUID v (ctd_serverId d) \<and> not_empty_object (ctd_input d)"

definition valid_create_reg :: "validators \<Rightarrow> create_reg_dto \<Rightarrow> bool" where
  "valid_create_reg v d \<longleftrightarrow> v_isEmail v (crd_ownerEmail d) \<and> length (crd_name d) \<ge> 1 \<and>
    v_isIP v (crd_tailscaleIp d) \<and> length (crd_fingerprint d) \<ge> 12"

definition valid_push_token :: "register_push_token_dto \<Rightarrow> bool" where
  "valid_push_token d \<longleftrightarrow> length (rpt_token d) \<ge> 1"

definition pipe :: "bool \<Rightarrow> unit hub_prog" where
  "pipe ok = guardE ok (BadRequestException ''Bad Request Exception'')"

section \<open>Requests and responses\<close>

datatype auth_request = LoginReq login_dto | RefreshReq string | LogoutReq string

datatype servers_request =
  CreateServer create_server_dto | ListServers | GetServer string | ServerHealth string | DeleteServer string

datatype tasks_request = SubmitTask create_task_dto | ListTasks | GetTask string | CancelTask string

datatype approvals_request = ListApprovals "string option" | DecideApproval string decide_approval_dto

datatype reg_public_request = CreateRegistration create_reg_dto | RegistrationResult string string

datatype reg_owner_request = ListRegistrations | DecideRegistration string bool

datatype http_request =
  AuthReq auth_request
| ServersReq servers_request
| TasksReq tasks_request
| ApprovalsReq approvals_request
| RegPublicReq reg_public_request
| RegOwnerReq reg_owner_request
| PushTokenReq register_push_token_dto

datatype http_response =
  TokensR token_pair | NoContent
| ServerCreatedR public_server string | ServersR "public_server list" | ServerR public_server
| HealthR ServerStatus "int option"
| TaskR task | TasksR "task list"
| ApprovalsR "(approval \<times> task) list" | ApprovalR approval
| RegCreatedR public_reg string | RegResultR daemon_result | RegsR "public_reg list" | RegR public_reg

section \<open>Controllers\<close>

fun auth_controller :: "ext \<Rightarrow> validators \<Rightarrow> auth_request \<Rightarrow> http_response hub_prog" where
  "auth_controller x v (LoginReq d) =
    thenE (pipe (valid_login v d)) (bindE (login x (ld_email d) (ld_password d)) (\<lambda>t. ret (TokensR t)))"
| "auth_controller x v (RefreshReq t) = bindE (refresh x t) (\<lambda>t. ret (TokensR t))"
| "auth_controller x v (LogoutReq t) = thenE (logout x t) (ret NoContent)"

fun servers_controller :: "ext \<Rightarrow> validators \<Rightarrow> string \<Rightarrow> servers_request \<Rightarrow> http_response hub_prog" where
  "servers_controller x v u (CreateServer d) =
    thenE (pipe (valid_create_server v d)) (bindE (srv_create x u d) (\<lambda>(s, k). ret (ServerCreatedR s k)))"
| "servers_controller x v u ListServers = bindE (srv_findAllForOwner u) (\<lambda>l. ret (ServersR l))"
| "servers_controller x v u (GetServer i) = bindE (srv_findOneForOwner u i) (\<lambda>s. ret (ServerR s))"
| "servers_controller x v u (ServerHealth i) = bindE (getHealth u i) (\<lambda>(s, t). ret (HealthR s t))"
| "servers_controller x v u (DeleteServer i) = thenE (srv_remove u i) (ret NoContent)"

fun tasks_controller :: "ext \<Rightarrow> validators \<Rightarrow> string \<Rightarrow> tasks_request \<Rightarrow> http_response hub_prog" where
  "tasks_controller x v u (SubmitTask d) =
    thenE (pipe (valid_create_task v d)) (bindE (submit x u d) (\<lambda>t. ret (TaskR t)))"
| "tasks_controller x v u ListTasks = bindE (tsk_findAllForOwner u) (\<lambda>l. ret (TasksR l))"
| "tasks_controller x v u (GetTask i) = bindE (tsk_findOneForOwner u i) (\<lambda>t. ret (TaskR t))"
| "tasks_controller x v u (CancelTask i) = bindE (cancel u i) (\<lambda>t. ret (TaskR t))"

text \<open>The status filter is upper-cased and cast; an unknown value is refused by the database client.\<close>

definition approval_filter :: "string option \<Rightarrow> ApprovalStatus option hub_prog" where
  "approval_filter status =
    (case status of
       None \<Rightarrow> ret None
     | Some s \<Rightarrow>
         let n = toUpperCase s in
         if n = [] then ret None
         else if n = ''PENDING'' then ret (Some PENDING)
         else if n = ''APPROVED'' then ret (Some APPROVED)
         else if n = ''REJECTED'' then ret (Some REJECTED)
         else throw (JsError ''PrismaClientValidationError''))"

fun approvals_controller :: "string \<Rightarrow> approvals_request \<Rightarrow> http_response hub_prog" where
  "approvals_controller u (ListApprovals status) =
    bindE (approval_filter status) (\<lambda>f. bindE (listForOwner u f) (\<lambda>l. ret (ApprovalsR l)))"
| "approvals_controller u (DecideApproval i d) = bindE (decide u i d) (\<lambda>a. ret (ApprovalR a))"

fun reg_public_controller :: "ext \<Rightarrow> validators \<Rightarrow> reg_public_request \<Rightarrow> http_response hub_prog" where
  "reg_public_controller x v (CreateRegistration d) =
    thenE (pipe (valid_create_reg v d)) (bindE (reg_create x d) (\<lambda>(r, s). ret (RegCreatedR r s)))"
| "reg_public_controller x v (RegistrationResult i s) = bindE (reg_getResult x i s) (\<lambda>d. ret (RegResultR d))"

fun reg_owner_controller :: "ext \<Rightarrow> string \<Rightarrow> reg_owner_request \<Rightarrow> http_response hub_prog" where
  "reg_owner_controller x u ListRegistrations = bindE (findPendingForOwner u) (\<lambda>l. ret (RegsR l))"
| "reg_owner_controller x u (DecideRegistration i b) = bindE (reg_decide x u i b) (\<lambda>r. ret (RegR r))"

definition notifications_controller :: "ext \<Rightarrow> string \<Rightarrow> register_push_token_dto \<Rightarrow> http_response hub_prog" where
  "notifications_controller x u d = thenE (pipe (valid_push_token d)) (thenE (registerPushToken x u d) (ret NoContent))"

text \<open>The handlers behind the guard receive the user of the token (\<open>@CurrentUser()\<close>).\<close>

definition CurrentUser :: "string \<times> string \<Rightarrow> string" where
  "CurrentUser user = fst user"

definition guarded :: "ext \<Rightarrow> string option \<Rightarrow> (string \<Rightarrow> http_response hub_prog) \<Rightarrow> http_response hub_prog" where
  "guarded x bearer f = bindE (jwtAuthGuard x bearer) (\<lambda>user. f (CurrentUser user))"

fun handle_http :: "ext \<Rightarrow> validators \<Rightarrow> string option \<Rightarrow> http_request \<Rightarrow> http_response hub_prog" where
  "handle_http x v bearer (AuthReq r) = auth_controller x v r"
| "handle_http x v bearer (ServersReq r) = guarded x bearer (\<lambda>u. servers_controller x v u r)"
| "handle_http x v bearer (TasksReq r) = guarded x bearer (\<lambda>u. tasks_controller x v u r)"
| "handle_http x v bearer (ApprovalsReq r) = guarded x bearer (\<lambda>u. approvals_controller u r)"
| "handle_http x v bearer (RegPublicReq r) = reg_public_controller x v r"
| "handle_http x v bearer (RegOwnerReq r) = guarded x bearer (\<lambda>u. reg_owner_controller x u r)"
| "handle_http x v bearer (PushTokenReq d) = guarded x bearer (\<lambda>u. notifications_controller x u d)"

section \<open>Lemmas\<close>

lemma keeps_case_prod [keeps_rules]: "(\<And>a b. keeps I (f a b)) \<Longrightarrow> keeps I (case p of (a, b) \<Rightarrow> f a b)"
  by (cases p) simp

lemma keeps_pipe [keeps_rules]: "keeps I (pipe b)"
  by (simp add: pipe_def keeps_guardE)

lemma keeps_jwtAuthGuard [keeps_rules]: "keeps I (jwtAuthGuard x b)"
  unfolding jwtAuthGuard_def by (intro keeps_rules)

lemma keeps_reads [keeps_rules]:
  "keeps I (srv_findAllForOwner u)" "keeps I (getHealth u i)" "keeps I (tsk_findAllForOwner u)"
  "keeps I (tsk_findOneForOwner u i)" "keeps I (listForOwner u f)"
  unfolding srv_findAllForOwner_def getHealth_def tsk_findAllForOwner_def tsk_findOneForOwner_def listForOwner_def
  by (intro keeps_rules)+

lemma keeps_approval_filter [keeps_rules]: "keeps I (approval_filter s)"
  unfolding approval_filter_def Let_def by (intro keeps_rules)

lemma keeps_handle_http [keeps_rules]:
  assumes "inj (x_uuid x)"
  shows "keeps (wf_hub x) (handle_http x v bearer req)"
proof (cases req)
  case (AuthReq r) then show ?thesis by (cases r) (auto intro!: keeps_rules assms)
next
  case (ServersReq r) then show ?thesis by (cases r) (auto simp: guarded_def intro!: keeps_rules assms)
next
  case (TasksReq r) then show ?thesis by (cases r) (auto simp: guarded_def intro!: keeps_rules assms)
next
  case (ApprovalsReq r) then show ?thesis by (cases r) (auto simp: guarded_def intro!: keeps_rules assms)
next
  case (RegPublicReq r) then show ?thesis by (cases r) (auto intro!: keeps_rules assms)
next
  case (RegOwnerReq r) then show ?thesis by (cases r) (auto simp: guarded_def intro!: keeps_rules assms)
next
  case (PushTokenReq d) then show ?thesis by (auto simp: guarded_def notifications_controller_def intro!: keeps_rules assms)
qed

end
