(* ===== verification/Frames.thy ===== *)
theory Frames
  imports Routes
begin

text \<open>
  Which handlers leave the work of the hub (servers, tasks, attempts and approvals) alone. An
  invariant that reads nothing else is \<open>quiet\<close>; every operation on the other tables, the sockets and
  the outboxes keeps it, and so do the handlers built from them.
\<close>

named_theorems quiet_rules \<comment> \<open>programs that keep a quiet invariant\<close>

definition quiet :: "(hub \<Rightarrow> bool) \<Rightarrow> bool" where
  "quiet I \<longleftrightarrow>
    (\<forall>h n. I (h\<lparr>draws := n\<rparr>) = I h) \<and> (\<forall>h n. I (h\<lparr>users := n\<rparr>) = I h) \<and>
    (\<forall>h n. I (h\<lparr>refreshTokens := n\<rparr>) = I h) \<and> (\<forall>h n. I (h\<lparr>regRequests := n\<rparr>) = I h) \<and>
    (\<forall>h n. I (h\<lparr>profiles := n\<rparr>) = I h) \<and> (\<forall>h n. I (h\<lparr>pushTokens := n\<rparr>) = I h) \<and>
    (\<forall>h n. I (h\<lparr>jobs := n\<rparr>) = I h) \<and> (\<forall>h n. I (h\<lparr>daemonSockets := n\<rparr>) = I h) \<and>
    (\<forall>h n. I (h\<lparr>appSockets := n\<rparr>) = I h) \<and> (\<forall>h n. I (h\<lparr>daemonOut := n\<rparr>) = I h) \<and>
    (\<forall>h n. I (h\<lparr>appOut := n\<rparr>) = I h) \<and> (\<forall>h n. I (h\<lparr>pushOut := n\<rparr>) = I h) \<and>
    (\<forall>h n. I (h\<lparr>fcmApp := n\<rparr>) = I h) \<and> (\<forall>h n. I (h\<lparr>clock := n\<rparr>) = I h)"

lemma quietD:
  assumes "quiet I"
  shows "I (h\<lparr>draws := n0\<rparr>) = I h" "I (h\<lparr>users := n1\<rparr>) = I h" "I (h\<lparr>refreshTokens := n2\<rparr>) = I h"
    "I (h\<lparr>regRequests := n3\<rparr>) = I h" "I (h\<lparr>profiles := n4\<rparr>) = I h" "I (h\<lparr>pushTokens := n5\<rparr>) = I h"
    "I (h\<lparr>jobs := n6\<rparr>) = I h" "I (h\<lparr>daemonSockets := n7\<rparr>) = I h" "I (h\<lparr>appSockets := n8\<rparr>) = I h"
    "I (h\<lparr>daemonOut := n9\<rparr>) = I h" "I (h\<lparr>appOut := m1\<rparr>) = I h" "I (h\<lparr>pushOut := m2\<rparr>) = I h"
    "I (h\<lparr>fcmApp := m3\<rparr>) = I h" "I (h\<lparr>clock := m4\<rparr>) = I h"
  using assms by (simp_all add: quiet_def)

section \<open>Operations\<close>

lemma quiet_ops [quiet_rules]:
  assumes "quiet I"
  shows "keeps I draw" "keeps I (newId x)" "keeps I (user_create x a b)" "keeps I (refreshToken_create x a b ex)"
    "keeps I (refreshToken_revoke i)" "keeps I (refreshToken_revokeMany P)" "keeps I (profile_create x s d)"
    "keeps I (regRequest_create x a b os c e f g ex)" "keeps I (regRequest_update i rf)" "keeps I (regRequest_connect i j rf)"
    "keeps I (regRequest_updateMany Q rf)" "keeps I (pushToken_upsert x u t pf)" "keeps I (randomBytes x n)"
    "keeps I (generateApiKey x)" "keeps I (generateSecret x)" "keeps I (generateVerificationCode x)"
    "keeps I (encryptSecret x k s)" "keeps I (encryptForRequestSecret x k s)" "keeps I (queue_add jb)"
    "keeps I (dispatchToServer sid dm)" "keeps I (notifyUser u am)" "keeps I (sendPush x u t s)"
    "keeps I (ntf_onModuleInit x)" "keeps I (app_connect x s otok)" "keeps I (app_disconnect s)"
  unfolding keeps_def user_create_def refreshToken_create_def refreshToken_revoke_def refreshToken_revokeMany_def
    profile_create_def regRequest_create_def regRequest_connect_def regRequest_updateMany_def pushToken_upsert_def
    encryptSecret_def encryptForRequestSecret_def sendPush_def ntf_onModuleInit_def app_connect_def app_disconnect_def Let_def
  by (simp_all add: prog_simps quietD [OF assms] split: option.splits prod.splits sum.splits)

lemma quiet_transaction:
  assumes "quiet I" and "keeps I m"
  shows "keeps I (transaction m)"
proof (rule keepsI)
  fix h assume "I h"
  moreover from this have "I (snd (m h))" by (rule keepsD [OF assms(2)])
  ultimately show "I (snd (transaction m h))"
    by (auto simp: transaction_def quietD [OF assms(1)] split: prod.splits sum.splits)
qed

section \<open>Handlers\<close>

lemma quiet_auth [quiet_rules]:
  assumes "quiet I"
  shows "keeps I (issueTokenPair x u e)" "keeps I (verifyRefreshToken x t)" "keeps I (seed x)"
  unfolding issueTokenPair_def verifyRefreshToken_def seed_def Let_def
  by (intro quiet_rules keeps_rules assms)+

lemma quiet_auth_controller [quiet_rules]:
  assumes "quiet I"
  shows "keeps I (auth_controller x v r)"
  by (cases r) (auto simp: login_def refresh_def logout_def Let_def intro!: quiet_rules keeps_rules assms)

lemma quiet_registration [quiet_rules]:
  assumes "quiet I"
  shows "keeps I (reg_create x d)" "keeps I (expirePendingRequests)" "keeps I (expireIfNeeded r)"
    "keeps I (findPendingForOwner u)" "keeps I (reg_getResult x i s)" "keeps I (registerPushToken x u p)"
  unfolding reg_create_def findPendingForOwner_def reg_getResult_def registerPushToken_def
    expirePendingRequests_def expireIfNeeded_def
  by (intro quiet_rules keeps_rules assms)+

lemma quiet_reg_public_controller [quiet_rules]:
  assumes "quiet I"
  shows "keeps I (reg_public_controller x v r)"
  by (cases r) (auto intro!: quiet_rules keeps_rules assms)

lemma quiet_notifications_controller [quiet_rules]:
  assumes "quiet I"
  shows "keeps I (notifications_controller x u d)"
  unfolding notifications_controller_def by (intro quiet_rules keeps_rules assms)

text \<open>Creating a server, for an invariant that a new server of this owner keeps.\<close>

lemma quiet_server_create:
  assumes "quiet I" and "keeps I (server_insert x u n os ip hash)"
  shows "keeps I (server_create x u n os ip hash ps)"
  unfolding server_create_def by (intro quiet_transaction quiet_rules keeps_rules assms)

lemma quiet_reg_decide:
  assumes "quiet I" and "\<And>n os ip hash. keeps I (server_insert x u n os ip hash)"
  shows "keeps I (reg_decide x u i b)"
  unfolding reg_decide_def reg_approve_def
  by (intro quiet_transaction quiet_server_create quiet_rules keeps_rules assms)

lemma quiet_srv_create:
  assumes "quiet I" and "\<And>n os ip hash. keeps I (server_insert x u n os ip hash)"
  shows "keeps I (srv_create x u d)"
  unfolding srv_create_def by (intro quiet_server_create quiet_rules keeps_rules assms)

end
