(* ===== verification/Isolation.thy ===== *)
theory Isolation
  imports Frames
begin

text \<open>
  Tenant isolation at the HTTP layer. The foreign view of a user is what belongs to everybody else:
  their servers, the tasks on them and the approvals of those tasks. A request that passed the guard
  as a user cannot change it, and what the response carries is the user's own.
\<close>

section \<open>The foreign view\<close>

definition foreign_servers :: "string \<Rightarrow> hub \<Rightarrow> server list" where
  "foreign_servers u h = filter (\<lambda>s. s_ownerId s \<noteq> u) (servers h)"

definition foreign_tasks :: "string \<Rightarrow> hub \<Rightarrow> task list" where
  "foreign_tasks u h = filter (\<lambda>t. t_serverId t \<in> s_id ` set (foreign_servers u h)) (tasks h)"

definition foreign_approvals :: "string \<Rightarrow> hub \<Rightarrow> approval list" where
  "foreign_approvals u h = filter (\<lambda>a. ap_taskId a \<in> t_id ` set (foreign_tasks u h)) (approvals h)"

definition foreign_view :: "string \<Rightarrow> hub \<Rightarrow> server list \<times> task list \<times> approval list" where
  "foreign_view u h = (foreign_servers u h, foreign_tasks u h, foreign_approvals u h)"

lemma foreign_view_cong:
  assumes "foreign_servers u h' = foreign_servers u h" and "tasks h' = tasks h" and "approvals h' = approvals h"
  shows "foreign_view u h' = foreign_view u h"
  using assms by (simp add: foreign_view_def foreign_tasks_def foreign_approvals_def)

lemma filter_map_same:
  assumes "\<And>r. r \<in> set t \<Longrightarrow> P (g r) = P r" and "\<And>r. r \<in> set t \<Longrightarrow> P r \<Longrightarrow> g r = r"
  shows "filter P (map g t) = filter P t"
  using assms by (induction t) auto

lemma find_row_mem: "find_row key k t = Some r \<Longrightarrow> k \<in> key ` set t"
  by (auto dest: find_row_SomeD)

lemma keyed_eq: "keyed key t \<Longrightarrow> a \<in> set t \<Longrightarrow> b \<in> set t \<Longrightarrow> key a = key b \<Longrightarrow> a = b"
  by (auto simp: keyed_def distinct_map dest: inj_onD)

lemma own_server_not_foreign:
  assumes "keyed s_id (servers h)" and "find_row s_id i (servers h) = Some s" and "s_ownerId s = u"
  shows "i \<notin> s_id ` set (foreign_servers u h)"
proof
  assume "i \<in> s_id ` set (foreign_servers u h)"
  then obtain q where "q \<in> set (servers h)" "s_id q = i" "s_ownerId q \<noteq> u" by (auto simp: foreign_servers_def)
  with assms show False by (simp add: find_row_Some_iff) (metis find_row_Some_iff option.inject)
qed

lemma own_task_not_foreign:
  assumes "wf_hub x h" and "task_with_owner h i = Some (t, u)"
  shows "i \<notin> t_id ` set (foreign_tasks u h)"
proof
  assume "i \<in> t_id ` set (foreign_tasks u h)"
  then obtain q where q: "q \<in> set (tasks h)" "t_id q = i" "t_serverId q \<in> s_id ` set (foreign_servers u h)"
    by (auto simp: foreign_tasks_def)
  then have "find_row t_id i (tasks h) = Some q" using wf_hubD(3) [OF assms(1)] by (simp add: find_row_Some_iff)
  with assms(2) obtain s where "find_row s_id (t_serverId q) (servers h) = Some s" "s_ownerId s = u"
    by (auto simp: task_with_owner_iff)
  with own_server_not_foreign [OF wf_hubD(2) [OF assms(1)] this] q(3) show False by simp
qed

text \<open>Updating one's own task or approval, adding a server of one's own.\<close>

lemma foreign_view_own_update:
  assumes "wf_hub x h" and "task_with_owner h i = Some (t, u)"
    and "servers h' = servers h" and "tasks h' = update_row t_id i f (tasks h)"
    and "\<And>r. t_serverId (f r) = t_serverId r"
    and "approvals h' = map (\<lambda>a. if ap_taskId a = i then g a else a) (approvals h)" and "\<And>a. ap_taskId (g a) = ap_taskId a"
  shows "foreign_view u h' = foreign_view u h"
proof -
  have no: "i \<notin> t_id ` set (foreign_tasks u h)" by (rule own_task_not_foreign [OF assms(1,2)])
  have servers: "foreign_servers u h' = foreign_servers u h" by (simp add: foreign_servers_def assms(3))
  have tasks: "foreign_tasks u h' = foreign_tasks u h"
    unfolding foreign_tasks_def servers assms(4) update_row_def
  proof (rule filter_map_same)
    fix r assume r: "r \<in> set (tasks h)"
    show "(t_serverId (if t_id r = i then f r else r) \<in> s_id ` set (foreign_servers u h)) = (t_serverId r \<in> s_id ` set (foreign_servers u h))"
      using assms(5) by simp
    show "t_serverId r \<in> s_id ` set (foreign_servers u h) \<Longrightarrow> (if t_id r = i then f r else r) = r"
      using no r by (auto simp: foreign_tasks_def)
  qed
  have "foreign_approvals u h' = foreign_approvals u h"
    unfolding foreign_approvals_def tasks assms(6)
    by (rule filter_map_same) (use no assms(7) in auto)
  with servers tasks show ?thesis by (simp add: foreign_view_def)
qed

lemma foreign_server_insert:
  "keeps (\<lambda>h. foreign_servers u h = S \<and> tasks h = T \<and> approvals h = A) (server_insert x u n os ip hash)"
  by (simp add: keeps_def server_insert_def prog_simps Let_def insert_row_def foreign_servers_def)

text \<open>A program that keeps the foreign servers, the tasks and the approvals keeps the view.\<close>

lemma foreign_view_keeps:
  assumes "\<And>S T A. keeps (\<lambda>h. foreign_servers u h = S \<and> tasks h = T \<and> approvals h = A) m"
  shows "foreign_view u (snd (m h)) = foreign_view u h"
  using keepsD [OF assms, of h "foreign_servers u h" "tasks h" "approvals h"] by (intro foreign_view_cong) simp_all

lemma quiet_view: "quiet (\<lambda>h. foreign_servers u h = S \<and> tasks h = T \<and> approvals h = A)"
  unfolding quiet_def foreign_servers_def by simp

lemmas view_rules = quiet_srv_create [OF quiet_view foreign_server_insert] quiet_reg_decide [OF quiet_view foreign_server_insert]
  quiet_rules [OF quiet_view]

section \<open>The operations on servers, tasks and approvals\<close>

lemma foreign_view_remove:
  assumes "wf_hub x h"
  shows "foreign_view u (snd (srv_remove u i h)) = foreign_view u h"
proof (cases "\<exists>s. find_row s_id i (servers h) = Some s \<and> s_ownerId s = u")
  case False
  then have "snd (srv_remove u i h) = h"
    by (cases "find_row s_id i (servers h)") (simp_all add: srv_remove_def prog_simps)
  then show ?thesis by simp
next
  case True
  then obtain s where s: "find_row s_id i (servers h) = Some s" "s_ownerId s = u" by blast
  let ?h = "snd (srv_remove u i h)"
  have i: "i \<in> s_id ` set (servers h)" by (rule find_row_mem [OF s(1)])
  have no: "i \<notin> s_id ` set (foreign_servers u h)" by (rule own_server_not_foreign [OF wf_hubD(2) [OF assms] s])
  have eqs: "servers ?h = filter (\<lambda>r. s_id r \<noteq> i) (servers h)" "tasks ?h = filter (\<lambda>r. t_serverId r \<noteq> i) (tasks h)"
    "approvals ?h = filter (\<lambda>r. ap_taskId r \<notin> t_id ` {r \<in> set (tasks h). t_serverId r = i}) (approvals h)"
    using s i by (simp_all add: srv_remove_def server_delete_def prog_simps Let_def delete_row_def)
  have servers: "foreign_servers u ?h = foreign_servers u h"
    using no unfolding foreign_servers_def eqs by (auto intro: filter_cong)
  have tasks: "foreign_tasks u ?h = foreign_tasks u h"
    using no unfolding foreign_tasks_def servers eqs by (auto intro!: filter_cong)
  have gone: "t_id t \<notin> t_id ` {r \<in> set (tasks h). t_serverId r = i}" if "t \<in> set (foreign_tasks u h)" for t
  proof
    assume "t_id t \<in> t_id ` {r \<in> set (tasks h). t_serverId r = i}"
    then obtain r where "r \<in> set (tasks h)" "t_serverId r = i" "t_id r = t_id t" by auto
    moreover have "t \<in> set (tasks h)" "t_serverId t \<in> s_id ` set (foreign_servers u h)" using that by (auto simp: foreign_tasks_def)
    ultimately have "r = t" using keyed_eq [OF wf_hubD(3) [OF assms]] by blast
    with \<open>t_serverId r = i\<close> \<open>t_serverId t \<in> _\<close> no show False by simp
  qed
  have absorb: "(a \<notin> t_id ` {r \<in> set (tasks h). t_serverId r = i} \<and> a \<in> t_id ` set (foreign_tasks u h)) =
      (a \<in> t_id ` set (foreign_tasks u h))" for a
  proof (cases "a \<in> t_id ` set (foreign_tasks u h)")
    case True
    then obtain t where "t \<in> set (foreign_tasks u h)" "a = t_id t" by (elim imageE)
    then show ?thesis using gone by (simp del: mem_Collect_eq)
  qed simp
  have "foreign_approvals u ?h = foreign_approvals u h"
    unfolding foreign_approvals_def tasks eqs filter_filter by (simp only: absorb)
  with servers tasks show ?thesis by (simp add: foreign_view_def)
qed

lemma foreign_view_submit:
  assumes "wf_hub x h" and "inj (x_uuid x)"
  shows "foreign_view u (snd (submit x u d h)) = foreign_view u h"
proof (cases "\<exists>s. find_row s_id (ctd_serverId d) (servers h) = Some s \<and> s_ownerId s = u")
  case False
  then have "snd (submit x u d h) = h"
    by (cases "find_row s_id (ctd_serverId d) (servers h)") (simp_all add: submit_def prog_simps)
  then show ?thesis by simp
next
  case True
  then obtain s where s: "find_row s_id (ctd_serverId d) (servers h) = Some s" "s_ownerId s = u" by blast
  let ?h = "snd (submit x u d h)"
  have i: "ctd_serverId d \<in> s_id ` set (servers h)" by (rule find_row_mem [OF s(1)])
  have no: "ctd_serverId d \<notin> s_id ` set (foreign_servers u h)" by (rule own_server_not_foreign [OF wf_hubD(2) [OF assms(1)] s])
  have t: "\<exists>t. t_serverId t = ctd_serverId d \<and> tasks ?h = tasks h @ [t]" "servers ?h = servers h" "approvals ?h = approvals h"
    using s i by (simp_all add: submit_def task_create_def prog_simps Let_def insert_row_def ensureWatchdogScheduled_def)
  then obtain t where "t_serverId t = ctd_serverId d" "tasks ?h = tasks h @ [t]" by blast
  with t show ?thesis using no by (simp add: foreign_view_def foreign_approvals_def foreign_tasks_def foreign_servers_def)
qed

lemma foreign_view_cancel:
  assumes "wf_hub x h"
  shows "foreign_view u (snd (cancel u i h)) = foreign_view u h"
proof (cases "task_with_owner h i")
  case None
  then show ?thesis by (simp add: cancel_def prog_simps)
next
  case (Some p)
  then obtain t w where tw: "task_with_owner h i = Some (t, w)" by (cases p) auto
  have "foreign_view u (snd (cancel u i h)) = foreign_view u h" if "w = u" "snd (cancel u i h) \<noteq> h"
    by (rule foreign_view_own_update [where g = "\<lambda>a. a" and f = "\<lambda>r. r\<lparr>t_status := CANCELLED, t_updatedAt := clock h\<rparr>",
          OF assms tw [unfolded that(1)]])
      (use that in \<open>simp_all add: cancel_apply [OF tw] split: if_splits\<close>)
  moreover have "snd (cancel u i h) = h" if "w \<noteq> u" using that by (simp add: cancel_apply [OF tw])
  ultimately show ?thesis by metis
qed

lemma foreign_view_decide:
  assumes "wf_hub x h"
  shows "foreign_view u (snd (decide u i d h)) = foreign_view u h"
proof (cases "approval_with_task h i")
  case None
  then show ?thesis by (simp add: decide_def prog_simps)
next
  case (Some p)
  then obtain a t w where tw: "approval_with_task h i = Some (a, t, w)" by (cases p) auto
  then have a: "find_row ap_id i (approvals h) = Some a" "task_with_owner h (ap_taskId a) = Some (t, w)" "t_id t = ap_taskId a"
    by (auto simp: approval_with_task_iff dest: task_with_owner_id)
  have "ap_id r = i \<longleftrightarrow> ap_taskId r = ap_taskId a" if "r \<in> set (approvals h)" for r
    using keyed_eq [OF wf_hubD(5) [OF assms] that] keyed_eq [OF wf_hubD(7) [OF assms] that] find_row_SomeD [OF a(1)]
    by auto
  then have upd: "update_row ap_id i f (approvals h) = map (\<lambda>r. if ap_taskId r = ap_taskId a then f r else r) (approvals h)" for f
    by (auto simp: update_row_def)
  have "foreign_view u (snd (decide u i d h)) = foreign_view u h" if "w = u" "ap_status a = PENDING"
    by (rule foreign_view_own_update [where g = "decided h d" and
          f = "\<lambda>r. r\<lparr>t_status := (if dad_approve d then RUNNING else CANCELLED), t_updatedAt := clock h\<rparr>", OF assms a(2) [unfolded that(1)]])
      (use that in \<open>simp_all add: decide_apply [OF tw] a(3) upd decided_def\<close>)
  then show ?thesis by (cases "w = u \<and> ap_status a = PENDING") (auto simp: decide_apply [OF tw])
qed

lemma snd_bindE_ret [simp]: "snd (bindE m (\<lambda>a. ret (f a)) h) = snd (m h)"
  by (simp add: bindE_apply ret_apply split: prod.splits sum.splits)

lemma snd_thenE_ret [simp]: "snd (thenE m (ret c) h) = snd (m h)"
  by (simp add: thenE_apply ret_apply split: prod.splits sum.splits)

lemma foreign_view_piped:
  "foreign_view u (snd (m h)) = foreign_view u h \<Longrightarrow> foreign_view u (snd (thenE (pipe b) m h)) = foreign_view u h"
  by (simp add: thenE_apply pipe_def guardE_apply)

section \<open>Properties\<close>

fun guarded_request :: "http_request \<Rightarrow> bool" where
  "guarded_request (AuthReq _) \<longleftrightarrow> False"
| "guarded_request (RegPublicReq _) \<longleftrightarrow> False"
| "guarded_request _ \<longleftrightarrow> True"

text \<open>C8. Tenant isolation: whatever a user asks for behind the guard, and whether it succeeds or fails,
  the servers of every other user, the tasks on those servers and the approvals of those tasks are
  exactly as they were. Without a valid token such a request changes nothing at all.\<close>

theorem http_tenant_isolation:
  assumes "wf_hub x h" and "inj (x_uuid x)" and "guarded_request req"
  shows "case fst (jwtAuthGuard x bearer h) of
      Inl e \<Rightarrow> handle_http x v bearer req h = (Inl e, h)
    | Inr user \<Rightarrow> foreign_view (fst user) (snd (handle_http x v bearer req h)) = foreign_view (fst user) h"
proof -
  have g: "snd (jwtAuthGuard x bearer h) = h"
    by (simp add: jwtAuthGuard_def prog_simps split: option.splits)
  show ?thesis
  proof (cases "fst (jwtAuthGuard x bearer h)")
    case (Inl e)
    then have "jwtAuthGuard x bearer h = (Inl e, h)" using g by (metis prod.collapse)
    then show ?thesis using assms(3) by (cases req) (simp_all add: guarded_def bindE_apply)
  next
    case (Inr user)
    then have run: "guarded x bearer f h = f (fst user) h" for f
      using g by (metis (no_types, lifting) guarded_def CurrentUser_def bindE_apply case_prod_conv prod.collapse sum.simps(6))
    note pass = foreign_view_keeps [where u = "fst user"]
    show ?thesis
    proof (cases req)
      case (ServersReq r)
      then show ?thesis using foreign_view_remove [OF assms(1)] Inr
        by (cases r) (auto simp: run intro!: pass view_rules keeps_rules)
    next
      case (TasksReq r)
      then show ?thesis using foreign_view_submit [OF assms(1,2)] foreign_view_cancel [OF assms(1)] Inr
        by (cases r) (auto simp: run intro!: foreign_view_piped pass [of "tsk_findAllForOwner u" for u]
            pass [of "tsk_findOneForOwner u i" for u i] keeps_rules)
    next
      case (ApprovalsReq r)
      then show ?thesis using foreign_view_decide [OF assms(1)] Inr
        by (cases r) (auto simp: run intro!: pass [of "bindE (approval_filter s) f" for s f] keeps_rules)
    next
      case (RegOwnerReq r)
      then show ?thesis using Inr by (cases r) (auto simp: run intro!: pass view_rules keeps_rules)
    next
      case (PushTokenReq d)
      then show ?thesis using Inr by (auto simp: run intro!: pass view_rules keeps_rules)
    qed (use assms(3) in simp_all)
  qed
qed

definition demo_validators :: validators where
  "demo_validators = \<lparr>v_isEmail = (\<lambda>_. True), v_isIP = (\<lambda>_. True), v_isUUID = (\<lambda>_. True)\<rparr>"

definition demo_bearer :: "string option" where
  "demo_bearer = Some (demo_token \<lparr>jwt_sub = ''zz'', jwt_email = ''z@b.c'', jwt_jti = None\<rparr>)"

lemma demo_guard: "jwtAuthGuard demo_ext demo_bearer h = (Inr (''zz'', ''z@b.c''), h)"
proof -
  have "x_env demo_ext ''JWT_ACCESS_SECRET'' = Some ''1d''" by (simp add: demo_ext_def)
  then show ?thesis
    by (simp add: jwtAuthGuard_def demo_bearer_def config_getOrThrow_def prog_simps demo_jwt jwt_validate_def)
qed

theorem http_tenant_isolation_witness:
  "foreign_view ''zz'' (snd (handle_http demo_ext demo_validators demo_bearer (TasksReq (CancelTask ''iiiiiii'')) demo_task_hub)) =
     foreign_view ''zz'' demo_task_hub \<and> foreign_tasks ''zz'' demo_task_hub = [demo_task]"
proof
  show "foreign_view ''zz'' (snd (handle_http demo_ext demo_validators demo_bearer (TasksReq (CancelTask ''iiiiiii'')) demo_task_hub)) =
     foreign_view ''zz'' demo_task_hub"
    using http_tenant_isolation [OF wf_demo_task_hub demo_inj, where req = "TasksReq (CancelTask ''iiiiiii'')"
        and bearer = demo_bearer and v = demo_validators]
    by (simp add: demo_guard)
  show "foreign_tasks ''zz'' demo_task_hub = [demo_task]"
    by (simp add: foreign_tasks_def foreign_servers_def demo_task_defs)
qed

end
