(* ===== verification/Hub_System.thy ===== *)
theory Hub_System
  imports Isolation
begin

text \<open>
  The hub as a whole: the events that reach it (HTTP requests, socket connections and messages, queue
  jobs, the passing of time) and its steps. Here a handler runs to its end before the next event is
  taken; the theory \<open>Awaits\<close> takes the handlers apart. What events that do not overlap keep: the
  integrity of the database, rooms that match the sockets' identities, and the discipline of the
  dispatch attempts, that a task has at most one active attempt and a queued task has none.
\<close>

section \<open>Events and steps\<close>

datatype daemon_event =
  Heartbeat string
| StatusUpdate status_payload
| LogChunk log_payload
| Result result_payload
| ApprovalReq approval_payload

datatype hub_event =
  Boot
| Seed
| Http "string option" http_request
| AppConnect string "string option"
| AppDisconnect string
| DaemonConnect string "string option"
| DaemonDisconnect string
| Daemon daemon_event
| RunJob job
| Tick int

text \<open>The daemon gateway re-emits each message as an internal event, and the services subscribe to
  these.\<close>

fun daemon_message :: "ext \<Rightarrow> daemon_event \<Rightarrow> unit hub_prog" where
  "daemon_message x (Heartbeat so) = onHeartbeat so"
| "daemon_message x (StatusUpdate p) = handleDaemonTaskStatus p"
| "daemon_message x (LogChunk p) = handleDaemonTaskLog p"
| "daemon_message x (Result p) = handleDaemonTaskResult x p"
| "daemon_message x (ApprovalReq p) = handleDaemonApprovalRequest x p"

fun handle_event :: "ext \<Rightarrow> validators \<Rightarrow> hub_event \<Rightarrow> unit hub_prog" where
  "handle_event x v Boot = thenE (ntf_onModuleInit x) (tsk_onModuleInit x)"
| "handle_event x v Seed = seed x"
| "handle_event x v (Http bearer req) = thenE (handle_http x v bearer req) (ret ())"
| "handle_event x v (AppConnect so tok) = app_connect x so tok"
| "handle_event x v (AppDisconnect so) = app_disconnect so"
| "handle_event x v (DaemonConnect so k) = daemon_connect x so k"
| "handle_event x v (DaemonDisconnect so) = daemon_disconnect so"
| "handle_event x v (Daemon e) = daemon_message x e"
| "handle_event x v (RunJob j) = process x j"
| "handle_event x v (Tick d) = modS (\<lambda>h. h\<lparr>clock := clock h + \<bar>d\<bar>\<rparr>)"

definition empty_hub :: "int \<Rightarrow> hub" where
  "empty_hub t = \<lparr>users = [], refreshTokens = [], servers = [], regRequests = [], profiles = [], tasks = [],
    attempts = [], approvals = [], pushTokens = [], jobs = [], daemonSockets = [], appSockets = [],
    daemonOut = [], appOut = [], pushOut = [], fcmApp = False, clock = t, draws = 0\<rparr>"

text \<open>Events that are handled one after the other; an event that fails leaves the state it failed in.\<close>

fun run_events :: "ext \<Rightarrow> validators \<Rightarrow> hub_event list \<Rightarrow> hub \<Rightarrow> hub" where
  "run_events x v [] h = h"
| "run_events x v (e # es) h = run_events x v es (snd (handle_event x v e h))"

text \<open>Whatever every event keeps holds after any events.\<close>

lemma run_events_keeps:
  assumes "\<And>e. keeps I (handle_event x v e)" and "I h"
  shows "I (run_events x v es h)"
  using assms(2) by (induction es arbitrary: h) (auto intro: keepsD [OF assms(1)])

section \<open>Integrity\<close>

lemma keeps_app_disconnect [keeps_rules]: "keeps (wf_hub x) (app_disconnect s)"
  by (simp add: keeps_def app_disconnect_def prog_simps)

lemma keeps_handle_event:
  assumes "inj (x_uuid x)"
  shows "keeps (wf_hub x) (handle_event x v e)"
proof (cases e)
  case (Daemon d)
  then show ?thesis by (cases d) (auto intro!: keeps_rules assms)
next
  case (Tick d)
  then show ?thesis by (simp add: keeps_def prog_simps)
qed (auto simp: tsk_onModuleInit_def ensureWatchdogScheduled_def intro!: keeps_rules assms)

section \<open>The discipline of the attempts\<close>

definition active_of :: "task_attempt list \<Rightarrow> string \<Rightarrow> task_attempt list" where
  "active_of as i = filter (\<lambda>a. at_taskId a = i \<and> at_active a) as"

definition att_ok :: "hub \<Rightarrow> bool" where
  "att_ok h \<longleftrightarrow> (\<forall>i. length (active_of (attempts h) i) \<le> 1) \<and>
    (\<forall>t \<in> set (tasks h). t_status t = QUEUED \<longrightarrow> active_of (attempts h) (t_id t) = [])"

lemma att_okI:
  assumes "att_ok h" and "\<And>i. length (active_of (attempts h') i) \<le> length (active_of (attempts h) i)"
    and "\<And>t. t \<in> set (tasks h') \<Longrightarrow> t_status t = QUEUED \<Longrightarrow>
      active_of (attempts h') (t_id t) = [] \<or> (\<exists>s \<in> set (tasks h). t_id s = t_id t \<and> t_status s = QUEUED)"
  shows "att_ok h'"
proof -
  have "length (active_of (attempts h') i) \<le> 1" for i
    using assms(1) assms(2) [of i] order_trans unfolding att_ok_def by blast
  moreover have "active_of (attempts h') (t_id t) = []" if t: "t \<in> set (tasks h')" "t_status t = QUEUED" for t
  proof (cases "active_of (attempts h') (t_id t) = []")
    case False
    then obtain s where "s \<in> set (tasks h)" "t_id s = t_id t" "t_status s = QUEUED" using assms(3) [OF t] by blast
    then have "active_of (attempts h) (t_id t) = []" using assms(1) by (metis att_ok_def)
    then show ?thesis using assms(2) [of "t_id t"] by simp
  qed
  ultimately show ?thesis by (simp add: att_ok_def)
qed

lemma quiet_att_ok: "quiet att_ok"
  unfolding quiet_def att_ok_def by simp

lemma att_ok_other [simp]: "att_ok (h\<lparr>servers := s\<rparr>) = att_ok h" "att_ok (h\<lparr>approvals := a\<rparr>) = att_ok h"
  by (simp_all add: att_ok_def)

lemma active_of_update:
  assumes "\<And>a. at_taskId (f a) = at_taskId a" and "\<And>a. at_active (f a) \<Longrightarrow> at_active a"
  shows "length (active_of (update_row at_id k f as) i) \<le> length (active_of as i)"
  using assms(1) by (induction as) (auto simp: active_of_def update_row_def le_SucI dest: assms(2))

named_theorems att_rules \<comment> \<open>programs that keep the discipline of the attempts\<close>

lemma att_task_update [att_rules]:
  assumes "\<And>t. t_id (f t) = t_id t" and "\<And>t. t_status (f t) = QUEUED \<Longrightarrow> t_status t = QUEUED"
  shows "keeps att_ok (task_update i f)"
proof (rule keepsI)
  fix h assume ok: "att_ok h"
  then show "att_ok (snd (task_update i f h))"
  proof (cases "find_row t_id i (tasks h)")
    case None
    then show ?thesis using ok by (simp add: prog_simps)
  next
    case (Some t0)
    have "\<exists>s \<in> set (tasks h). t_id s = t_id t \<and> t_status s = QUEUED"
      if "t \<in> set (update_row t_id i (\<lambda>r. (f r)\<lparr>t_updatedAt := clock h\<rparr>) (tasks h))" "t_status t = QUEUED" for t
      using that assms by (auto simp: set_update_row split: if_splits)
    then show ?thesis using ok Some by (intro att_okI [OF ok]) (auto simp: prog_simps)
  qed
qed

lemma att_attempt_update [att_rules]:
  assumes "\<And>c a. at_taskId (f c a) = at_taskId a" and "\<And>c a. at_active (f c a) \<Longrightarrow> at_active a"
  shows "keeps att_ok (taskAttempt_update i f)"
  using active_of_update [of "f c" for c, OF assms] by (auto simp: keeps_def prog_simps intro: att_okI)

lemma att_server_ops [att_rules]:
  "keeps att_ok (server_insert x u n os ip hash)" "keeps att_ok (server_update i f)"
  "keeps att_ok (approval_create x j r)" "keeps att_ok (approval_update k g)"
  by (simp_all add: keeps_def server_insert_def approval_create_def prog_simps Let_def quietD [OF quiet_att_ok] split: option.splits)

lemma att_server_delete [att_rules]: "keeps att_ok (server_delete i)"
proof (rule keepsI)
  fix h assume ok: "att_ok h"
  have "length (active_of (filter P as) j) \<le> length (active_of as j)" for P as j
    by (induction as) (auto simp: active_of_def le_SucI)
  then show "att_ok (snd (server_delete i h))"
    using ok by (auto simp: server_delete_def prog_simps Let_def intro!: att_okI [OF ok])
qed

lemma att_update_and_notify [att_rules]:
  assumes "\<And>t. t_id (f t) = t_id t" and "\<And>t. t_status (f t) = QUEUED \<Longrightarrow> t_status t = QUEUED"
  shows "keeps att_ok (update_and_notify i f)"
  unfolding update_and_notify_def
  by (rule keeps_bindE, rule att_task_update [OF assms], assumption) (intro quiet_rules [OF quiet_att_ok] keeps_rules)

lemma att_updateStatus [att_rules]: "st \<noteq> QUEUED \<Longrightarrow> keeps att_ok (updateStatus i st r)"
  unfolding updateStatus_def by (intro att_rules) (auto split: option.splits)

text \<open>Touching needs the keys of the attempts to be unique: it makes the found attempt running again.\<close>

definition sys_ok :: "ext \<Rightarrow> hub \<Rightarrow> bool" where
  "sys_ok x h \<longleftrightarrow> wf_hub x h \<and> att_ok h"

lemma sys_keepsI: "keeps (wf_hub x) m \<Longrightarrow> keeps att_ok m \<Longrightarrow> keeps (sys_ok x) m"
  by (simp add: keeps_def sys_ok_def)

lemma att_ok_touched:
  assumes "sys_ok x h"
  shows "att_ok (touched h i)"
proof (cases "running_attempt h i")
  case None
  then show ?thesis using assms by (simp add: touched_def sys_ok_def)
next
  case (Some a)
  let ?f = "\<lambda>a. a\<lparr>at_status := A_RUNNING, at_lastSeenAt := clock h\<rparr>"
  have key: "keyed at_id (attempts h)" using assms wf_hubD(4) by (auto simp: sys_ok_def)
  have "find_row at_id (at_id a) (attempts h) = Some a"
    using running_attempt_SomeD(1) [OF Some] by (simp add: find_row_Some_iff [OF key])
  from count_update_row [OF key this, of "\<lambda>b. at_taskId b = j \<and> at_active b" ?f for j]
  have "length (active_of (update_row at_id (at_id a) ?f (attempts h)) j) = length (active_of (attempts h) j)" for j
    using running_attempt_SomeD(3) [OF Some] by (simp add: active_of_def at_active_def)
  then show ?thesis using assms Some by (auto simp: touched_def sys_ok_def intro!: att_okI [of h])
qed

lemma sys_touch: "keeps (sys_ok x) (touchRunningAttempt i)"
proof (rule keepsI)
  fix h assume "sys_ok x h"
  then show "sys_ok x (snd (touchRunningAttempt i h))"
    using att_ok_touched [of x h i] keepsD [OF keeps_touchRunningAttempt, of x h i] by (simp add: sys_ok_def prog_simps)
qed

subsection \<open>The handlers of the tasks\<close>

lemmas att_quiet = quiet_rules [OF quiet_att_ok]

lemma att_decide [att_rules]: "keeps att_ok (decide u i d)"
  unfolding decide_def by (intro att_rules att_quiet keeps_rules) (simp_all split: if_splits)

lemma att_approval_request [att_rules]: "keeps att_ok (handleDaemonApprovalRequest x p)"
  unfolding handleDaemonApprovalRequest_def by (intro att_rules att_quiet keeps_rules) simp_all

lemma att_cancel [att_rules]: "keeps att_ok (cancel u i)"
  unfolding cancel_def registry_get_bind
  by (intro att_rules codex.cancel_keeps att_quiet keeps_rules) (simp_all add: quietD [OF quiet_att_ok])

lemma cast_status_not_queued: "cast_status s \<noteq> QUEUED"
  by (cases s) simp_all

lemma sys_task_status: "keeps (sys_ok x) (handleDaemonTaskStatus p)"
  unfolding handleDaemonTaskStatus_def
  by (intro keeps_thenE sys_touch keeps_ret sys_keepsI keeps_updateStatus att_updateStatus cast_status_not_queued)

lemma sys_task_log: "keeps (sys_ok x) (handleDaemonTaskLog p)"
  unfolding handleDaemonTaskLog_def
proof (intro keeps_bindE keeps_getS keeps_option_pair keeps_ret keeps_thenE sys_touch)
  fix t :: task and u :: string and w :: task
  show "keeps (sys_ok x) (task_update (t_id t) (\<lambda>r. r\<lparr>t_logs := t_logs t @ lp_chunk p\<rparr>))"
    by (intro sys_keepsI task_update_wf att_task_update) simp_all
  show "keeps (sys_ok x) (notifyUser u (TASK_UPDATED w))"
    by (intro sys_keepsI keeps_notifyUser att_quiet)
qed

text \<open>Finishing leaves the task without an active attempt.\<close>

lemma active_finished:
  assumes "att_ok h" and "st \<noteq> A_DISPATCHING" "st \<noteq> A_RUNNING"
  shows "active_of (attempts (finished h i st r)) i = []" "att_ok (finished h i st r)"
proof -
  let ?f = "\<lambda>a. a\<lparr>at_status := st, at_failureReason := (case r of None \<Rightarrow> at_failureReason a | Some r \<Rightarrow> Some r),
      at_lastSeenAt := clock h, at_finishedAt := Some (clock h)\<rparr>"
  have down: "\<not> at_active (?f a)" for a using assms(2,3) by (simp add: at_active_def)
  show "att_ok (finished h i st r)"
  proof (cases "running_attempt h i")
    case (Some a)
    have "length (active_of (update_row at_id (at_id a) ?f (attempts h)) j) \<le> length (active_of (attempts h) j)" for j
      by (rule active_of_update) (use down in auto)
    then show ?thesis using assms(1) Some by (auto simp: finished_def intro!: att_okI [of h])
  qed (use assms(1) in \<open>simp add: finished_def\<close>)
  show "active_of (attempts (finished h i st r)) i = []"
  proof (cases "running_attempt h i")
    case None
    then have "attempts (finished h i st r) = attempts h" by (simp add: finished_def)
    then show ?thesis using None by (simp add: active_of_def running_attempt_None)
  next
    case (Some a)
    have "length (active_of (attempts h) i) \<le> 1" using assms(1) by (simp add: att_ok_def)
    moreover have "a \<in> set (active_of (attempts h) i)" using running_attempt_SomeD [OF Some] by (simp add: active_of_def)
    ultimately have "active_of (attempts h) i = [a]" by (cases "active_of (attempts h) i") auto
    then have only: "b = a" if "b \<in> set (attempts h)" "at_taskId b = i" "at_active b" for b
    proof -
      have "b \<in> set (active_of (attempts h) i)" using that by (simp add: active_of_def)
      then show ?thesis by (simp add: \<open>active_of (attempts h) i = [a]\<close>)
    qed
    have "\<not> (at_taskId c = i \<and> at_active c)" if "c \<in> set (update_row at_id (at_id a) ?f (attempts h))" for c
      using that only down by (auto simp: set_update_row split: if_splits)
    then show ?thesis using Some by (simp add: finished_def active_of_def filter_empty_conv)
  qed
qed

text \<open>A task without an active attempt may be queued again.\<close>

definition idle :: "string \<Rightarrow> hub \<Rightarrow> bool" where
  "idle i h \<longleftrightarrow> att_ok h \<and> active_of (attempts h) i = []"

lemma quiet_idle: "quiet (idle i)"
  unfolding quiet_def idle_def att_ok_def by simp

lemma idle_task_update:
  assumes "\<And>t. t_id (f t) = t_id t"
  shows "keeps (idle i) (task_update i f)"
proof (rule keepsI)
  fix h assume idle: "idle i h"
  show "idle i (snd (task_update i f h))"
  proof (cases "find_row t_id i (tasks h)")
    case (Some t0)
    let ?h = "snd (task_update i f h)"
    have h': "attempts ?h = attempts h" "tasks ?h = update_row t_id i (\<lambda>r. (f r)\<lparr>t_updatedAt := clock h\<rparr>) (tasks h)"
      using Some by (simp_all add: prog_simps)
    have "att_ok ?h"
    proof (rule att_okI [of h])
      fix t assume "t \<in> set (tasks ?h)" "t_status t = QUEUED"
      then obtain r where "r \<in> set (tasks h)" "t = (if t_id r = i then (f r)\<lparr>t_updatedAt := clock h\<rparr> else r)" "t_status t = QUEUED"
        by (auto simp: h' set_update_row)
      then show "active_of (attempts ?h) (t_id t) = [] \<or> (\<exists>s \<in> set (tasks h). t_id s = t_id t \<and> t_status s = QUEUED)"
        using idle assms by (cases "t_id r = i") (auto simp: h' idle_def)
    qed (use idle in \<open>simp_all add: idle_def h'\<close>)
    then show ?thesis using idle by (simp add: idle_def h')
  qed (use idle in \<open>simp add: prog_simps\<close>)
qed

lemma idle_updateTaskAndNotify: "keeps (idle i) (updateTaskAndNotify i d)"
  unfolding updateTaskAndNotify_def update_and_notify_def
  by (rule keeps_bindE, rule idle_task_update) (simp, intro quiet_rules [OF quiet_idle] keeps_rules)

lemma att_ok_capacity:
  assumes "att_ok h"
  shows "att_ok (snd (handleRetryableCapacityFailure x p h))"
proof (cases "task_with_owner h (rp_taskId p)")
  case None
  then show ?thesis using assms by (simp add: handleRetryableCapacityFailure_def prog_simps)
next
  case (Some tu)
  then obtain t u where tu: "task_with_owner h (rp_taskId p) = Some (t, u)" by (cases tu) auto
  let ?h = "finished h (t_id t) A_FAILED (Some (formatStructuredFailureReason p))"
  have "idle (t_id t) ?h" using active_finished [OF assms, of A_FAILED] by (simp add: idle_def)
  moreover have "\<exists>m. handleRetryableCapacityFailure x p h = m ?h \<and> keeps (idle (t_id t)) m"
    unfolding handleRetryableCapacityFailure_def bindE_apply [of "getS f" for f] getS_apply prod.case sum.case tu option.case
      thenE_apply [of "finishRunningAttempt a b c" for a b c] finishRunningAttempt_apply
    by (rule exI, rule conjI, rule refl)
      (unfold retryExcludedServerIds_def requeueTask_def,
       intro idle_updateTaskAndNotify quiet_rules [OF quiet_idle] keeps_rules)
  ultimately have "idle (t_id t) (snd (handleRetryableCapacityFailure x p h))" by (metis keepsD)
  then show ?thesis by (simp add: idle_def)
qed

lemma att_task_result [att_rules]: "keeps att_ok (handleDaemonTaskResult x p)"
proof (rule keepsI)
  fix h assume ok: "att_ok h"
  have rest: "keeps att_ok (bindE (updateStatus (rp_taskId p) (cast_result (rp_status p)) (rp_result p)) (\<lambda>task.
          let title = (if rp_status p = RS_COMPLETED then ko_task_completed else ko_task_failed)
          in sendPush x (snd task) title (ko_task_open @ t_id (fst task) @ ko_task_subject @ title @ ko_task_became)))"
    unfolding Let_def by (intro keeps_bindE att_updateStatus att_quiet) (cases "rp_status p", simp_all)
  show "att_ok (snd (handleDaemonTaskResult x p h))"
  proof (cases "isRetryableCapacityFailure p")
    case True
    then show ?thesis using att_ok_capacity [OF ok] by (simp add: handleDaemonTaskResult_def)
  next
    case False
    then show ?thesis using keepsD [OF rest] active_finished(2) [OF ok]
      by (simp add: handleDaemonTaskResult_def thenE_apply finishRunningAttempt_apply)
  qed
qed

lemma sys_submit:
  assumes "inj (x_uuid x)"
  shows "keeps (sys_ok x) (submit x u d)"
proof (rule keepsI)
  fix h assume ok: "sys_ok x h"
  then have wf: "wf_hub x h" and att: "att_ok h" by (simp_all add: sys_ok_def)
  have "x_uuid x (draws h) \<notin> t_id ` set (tasks h)" by (rule wf_fresh [OF wf assms order_refl])
  then have "x_uuid x (draws h) \<notin> at_taskId ` set (attempts h)"
    using wf_hubD(10) [OF wf] by (auto simp: refs_def)
  then have "active_of (attempts h) (x_uuid x (draws h)) = []"
    by (auto simp: active_of_def filter_empty_conv rev_image_eqI)
  then have "att_ok (snd (submit x u d h))"
    using att by (auto simp: submit_def task_create_def prog_simps Let_def insert_row_def ensureWatchdogScheduled_def
        quietD [OF quiet_att_ok] split: option.splits intro!: att_okI [OF att])
  then show "sys_ok x (snd (submit x u d h))"
    using keepsD [OF keeps_submit [OF assms] wf] by (simp add: sys_ok_def)
qed

subsection \<open>The processor\<close>

lemma active_of_append: "active_of (as @ bs) i = active_of as i @ active_of bs i"
  by (simp add: active_of_def)

lemma att_dispatch_loop:
  assumes "wf_hub x h" and "inj (x_uuid x)" and "find_row t_id (t_id task) (tasks h) = Some t" and "t_workerType t = CODEX"
    and "\<forall>c \<in> set cs. wc_serverId c \<in> s_id ` set (servers h)" and "idle (t_id task) h"
  shows "att_ok (snd (dispatch_loop x task cs lines h))"
  using assms
proof (induction cs arbitrary: h lines)
  case Nil
  then show ?case by (simp add: ret_apply idle_def)
next
  case (Cons c cs)
  have att: "att_ok h" and none: "active_of (attempts h) (t_id task) = []"
    using Cons.prems(6) by (simp_all add: idle_def)
  have wf: "wf_hub x (snd (dispatch_one x task c h))" by (rule keepsD [OF keeps_dispatch_one [OF Cons.prems(2)] Cons.prems(1)])
  show ?case
  proof (cases "daemon_room h c = []")
    case True
    obtain h' where one: "dispatch_one x task c h = (Inr (Some (offline_line c)), h')"
      and h': "tasks h' = tasks h" "servers h' = servers h" "\<And>i. active_of (attempts h') i = active_of (attempts h) i"
      using dispatch_one_offline [OF Cons.prems(1-4) _ True] Cons.prems(5)
      by (simp add: active_of_append) (simp add: active_of_def at_active_def)
    have "idle (t_id task) h'" using Cons.prems(6) by (simp add: idle_def att_ok_def h')
    then have "att_ok (snd (dispatch_loop x task cs (lines @ [offline_line c]) h'))"
      using Cons.prems wf by (intro Cons.IH) (simp_all add: h' one)
    with one show ?thesis by (simp add: bindE_apply)
  next
    case False
    let ?a = "(new_attempt x h task c)\<lparr>at_status := A_RUNNING, at_lastSeenAt := clock h\<rparr>"
    obtain h' where one: "dispatch_one x task c h = (Inr None, h')"
      and h': "tasks h' = update_row t_id (t_id task)
        (\<lambda>r. r\<lparr>t_status := RUNNING, t_serverId := wc_serverId c, t_updatedAt := clock h\<rparr>) (tasks h)"
      "attempts h' = attempts h @ [?a]"
      using dispatch_one_online [OF Cons.prems(1-4) _ False] Cons.prems(5) by simp
    have act: "active_of (attempts h') i = (if i = t_id task then [?a] else active_of (attempts h) i)" for i
      using none by (simp add: h'(2) active_of_append) (auto simp: active_of_def at_active_def new_attempt_def)
    have "att_ok h'"
      using att unfolding att_ok_def act by (auto simp: h'(1) set_update_row split: if_splits)
    with one show ?thesis by (simp add: bindE_apply ret_apply)
  qed
qed

lemma att_dispatch_task:
  assumes "wf_hub x h" and "inj (x_uuid x)" and "find_row t_id i (tasks h) = Some t" and "idle i h"
  shows "att_ok (snd (dispatch_task x t h))"
proof -
  have t: "t_id t = i" using find_row_SomeD [OF assms(3)] by simp
  have ok: "att_ok h" using assms(4) by (simp add: idle_def)
  obtain ex where ex: "retryExcludedServerIds i h = (Inr ex, h)" by (simp add: retryExcludedServerIds_def getS_apply)
  obtain r where r: "getDispatchCandidates x (t_workerType t) (t_serverId t) ex h = (r, h)"
    by (cases "getDispatchCandidates x (t_workerType t) (t_serverId t) ex h")
      (auto simp: getDispatchCandidates_apply split: option.splits if_splits)
  show ?thesis
  proof (cases r)
    case (Inl e)
    then show ?thesis using ex r ok by (simp add: dispatch_task_def tp_retryExcludedServerIds_eq bindE_apply t)
  next
    case (Inr cs)
    show ?thesis
    proof (cases "cs = []")
      case True
      then show ?thesis using ex r ok Inr by (simp add: dispatch_task_def tp_retryExcludedServerIds_eq bindE_apply throw_apply t)
    next
      case False
      have "att_ok (snd (dispatch_loop x t cs [] h))"
        using assms candidates_known [OF r [unfolded Inr]] by (intro att_dispatch_loop) (simp_all add: t)
      moreover have "keeps att_ok (case v of None \<Rightarrow> ret () | Some failures \<Rightarrow>
            thenE (task_update i (\<lambda>r. r\<lparr>t_logs := t_logs t @ formatFailoverLog failures\<rparr>)) (throw (e failures)))" for v e
        by (cases v) (auto intro!: att_task_update keeps_rules)
      ultimately show ?thesis
        unfolding dispatch_task_loop [OF t _ r [unfolded Inr] False, unfolded ex, simplified]
        by (auto simp: bindE_apply split: prod.splits sum.splits intro: keepsD)
    qed
  qed
qed

lemma sys_time_out_task:
  assumes "sys_ok y h" and "scan_ready h ((t, Some a) # l)" and "at_active a"
  shows "\<exists>h'. time_out_task x t a h = (Inr (), h') \<and> sys_ok y h' \<and> scan_ready h' l"
proof -
  let ?f = "\<lambda>a. a\<lparr>at_status := A_TIMED_OUT, at_failureReason := Some (stale_reason x), at_finishedAt := Some (clock h)\<rparr>"
  have ok: "wf_hub y h" "att_ok h" using assms(1) by (simp_all add: sys_ok_def)
  have key: "keyed at_id (attempts h)" and a: "find_row t_id (t_id t) (tasks h) = Some t"
    "find_row at_id (at_id a) (attempts h) = Some a" "at_taskId a = t_id t"
    using assms(2) unfolding scan_ready_Cons by (auto simp: scan_ready_def)
  from time_out_task_effect [OF key a assms(3), of x] obtain h' t' where
    run: "time_out_task x t a h = (Inr (), h')"
    and att: "attempts h' = update_row at_id (at_id a) ?f (attempts h)"
    and find': "\<forall>j. find_row t_id j (tasks h') = (if j = t_id t then Some t' else find_row t_id j (tasks h))"
    by (elim exE conjE) (rule that; assumption)
  have ready: "scan_ready h' l" using scan_ready_step [OF assms(2) find' refl att] by simp
  have wf: "wf_hub y h'" using keepsD [OF keeps_time_out_task ok(1), of x t a] by (simp add: run)
  have count: "length (active_of (attempts h') j) + of_bool (j = t_id t) = length (active_of (attempts h) j)" for j
    using count_update_row [OF key a(2), of "\<lambda>b. at_taskId b = j \<and> at_active b" ?f] a(3) assms(3)
    by (auto simp: active_of_def att at_active_def)
  have "att_ok h'"
  proof (rule att_okI [OF ok(2)])
    show "length (active_of (attempts h') i) \<le> length (active_of (attempts h) i)" for i using count [of i] by simp
    fix s assume s: "s \<in> set (tasks h')" "t_status s = QUEUED"
    then have row: "find_row t_id (t_id s) (tasks h') = Some s" using find_row_Some_iff [OF wf_hubD(3) [OF wf]] by simp
    have "length (active_of (attempts h) (t_id t)) \<le> 1" using ok(2) by (simp add: att_ok_def)
    moreover have "Suc (length (active_of (attempts h') (t_id t))) = length (active_of (attempts h) (t_id t))"
      using count [of "t_id t"] by simp
    ultimately have "length (active_of (attempts h') (t_id t)) = 0" by linarith
    then have none: "active_of (attempts h') (t_id t) = []" by simp
    then show "active_of (attempts h') (t_id s) = [] \<or> (\<exists>r \<in> set (tasks h). t_id r = t_id s \<and> t_status r = QUEUED)"
      using find' row s(2) by (cases "t_id s = t_id t") (auto dest: find_row_SomeD)
  qed
  with run ready wf show ?thesis by (simp add: sys_ok_def)
qed

lemma sys_scan_loop: "sys_ok y h \<Longrightarrow> scan_ready h l \<Longrightarrow> sys_ok y (snd (scan_loop x sb l n h))"
proof (induction l arbitrary: h n)
  case (Cons p l)
  obtain t v where p: "p = (t, v)" by (cases p)
  show ?case
  proof (cases "is_stuck sb v")
    case True
    then obtain a where v: "v = Some a" "at_active a" by (blast dest: is_stuckD)
    from sys_time_out_task [of y h t a l x] Cons.prems v obtain h' where
      "time_out_task x t a h = (Inr (), h')" "sys_ok y h'" "scan_ready h' l" by (auto simp: p)
    then show ?thesis using True v Cons.IH by (simp add: p thenE_apply)
  next
    case False
    then show ?thesis using Cons by (simp add: p scan_ready_Cons)
  qed
qed (simp add: ret_apply)

lemma sys_process:
  assumes "inj (x_uuid x)"
  shows "keeps (sys_ok x) (process x j)"
proof (rule keepsI)
  fix h assume ok: "sys_ok x h"
  then have wf: "wf_hub x h" and att: "att_ok h" by (simp_all add: sys_ok_def)
  have "att_ok (snd (process x j h))"
  proof (cases "j_name j = TASK_WATCHDOG_JOB")
    case True
    then show ?thesis
      using sys_scan_loop [OF ok scan_ready_candidates [OF wf]]
      by (simp add: process_def scanStuckTasksOnce_def snd_thenE_ret Let_def bindE_apply getS_apply now_apply sys_ok_def)
  next
    case False
    have "att_ok (snd (dispatch_task x t h))" if "find_row t_id i (tasks h) = Some t" "t_status t = QUEUED" for i t
      using that att by (intro att_dispatch_task [OF wf assms]) (auto simp: idle_def att_ok_def dest!: find_row_SomeD)
    then show ?thesis using False att
      by (auto simp: process_def bindE_apply getS_apply ret_apply split: option.splits)
  qed
  then show "sys_ok x (snd (process x j h))" using keepsD [OF keeps_process [OF assms] wf] by (simp add: sys_ok_def)
qed

subsection \<open>Every event\<close>

lemma att_server_create: "keeps att_ok (srv_create x u d)" "keeps att_ok (reg_decide x u i b)"
  by (intro quiet_srv_create quiet_reg_decide quiet_att_ok att_rules)+

lemma att_heartbeat [att_rules]: "keeps att_ok (markHeartbeat i)" "keeps att_ok (markOffline i)" "keeps att_ok (srv_remove u i)"
  unfolding markHeartbeat_def markOffline_def srv_remove_def by (intro att_rules att_quiet keeps_rules)+

lemma sys_handle_http:
  assumes "inj (x_uuid x)"
  shows "keeps (sys_ok x) (handle_http x v bearer req)"
proof (cases "\<exists>d. req = TasksReq (SubmitTask d)")
  case True
  then show ?thesis by (auto simp: guarded_def intro!: keeps_rules sys_submit assms)
next
  case False
  have "keeps att_ok (handle_http x v bearer req)"
  proof (cases req)
    case (ServersReq r)
    then show ?thesis by (cases r) (auto simp: guarded_def srv_findOneForOwner_def intro!: att_rules att_server_create keeps_rules)
  next
    case (TasksReq r)
    then show ?thesis using False by (cases r) (auto simp: guarded_def intro!: att_rules keeps_rules)
  next
    case (ApprovalsReq r)
    then show ?thesis by (cases r) (auto simp: guarded_def intro!: att_rules keeps_rules)
  next
    case (RegOwnerReq r)
    then show ?thesis by (cases r) (auto simp: guarded_def intro!: att_server_create att_quiet keeps_rules)
  qed (auto simp: guarded_def intro!: att_quiet keeps_rules)
  then show ?thesis by (intro sys_keepsI keeps_handle_http assms)
qed

lemma att_gateway [att_rules]:
  "keeps att_ok (onHeartbeat s)" "keeps att_ok (daemon_connect x s k)" "keeps att_ok (daemon_disconnect s)"
  unfolding onHeartbeat_def daemon_connect_def daemon_disconnect_def findByApiKey_def
  by (intro att_rules keeps_rules keepsI; simp add: modS_apply quietD [OF quiet_att_ok])+

lemma sys_handle_event:
  assumes "inj (x_uuid x)"
  shows "keeps (sys_ok x) (handle_event x v e)"
proof -
  have quiet: "keeps (sys_ok x) (handle_event x v e)" if "keeps att_ok (handle_event x v e)"
    using that by (intro sys_keepsI keeps_handle_event assms)
  show ?thesis
  proof (cases e)
    case (Http b r)
    then show ?thesis by (auto intro!: keeps_rules sys_handle_http assms)
  next
    case (Daemon d)
    then show ?thesis using quiet by (cases d) (auto intro: sys_task_status sys_task_log att_rules)
  next
    case (RunJob j)
    then show ?thesis by (simp add: sys_process assms)
  next
    case (Tick d)
    then show ?thesis by (intro quiet) (simp add: keeps_def modS_apply quietD [OF quiet_att_ok])
  qed (rule quiet, (auto simp: tsk_onModuleInit_def ensureWatchdogScheduled_def intro!: att_rules att_quiet keeps_rules)[1])+
qed

section \<open>Properties\<close>

text \<open>Keys stay unique and references point to rows; what would break them makes the operation fail.\<close>

lemma run_events_wf: "inj (x_uuid x) \<Longrightarrow> wf_hub x h \<Longrightarrow> wf_hub x (run_events x v es h)"
  by (rule run_events_keeps) (rule keeps_handle_event)

text \<open>An empty database has the discipline.\<close>

lemma sys_ok_empty: "sys_ok x (empty_hub t)"
  by (simp add: sys_ok_def att_ok_def active_of_def wf_defs empty_hub_def keyed_def ids_ok_def refs_def)

text \<open>C9. Dispatching is disciplined as long as no two handlers of the hub overlap: whatever requests,
  connections, daemon messages and queue jobs are handled one after the other, each to its end, a task
  has at most one attempt that is being dispatched or running, and a task that is QUEUED, so that a
  job may dispatch it, has none. Handlers that overlap at their awaits can break it.\<close>

theorem attempts_disciplined:
  assumes "wf_hub x h" and "inj (x_uuid x)"
    and "\<forall>i. length (filter (\<lambda>a. at_taskId a = i \<and> at_active a) (attempts h)) \<le> 1"
    and "\<forall>t \<in> set (tasks h). t_status t = QUEUED \<longrightarrow> \<not> (\<exists>a \<in> set (attempts h). at_taskId a = t_id t \<and> at_active a)"
  shows "length (filter (\<lambda>a. at_taskId a = i \<and> at_active a) (attempts (run_events x v es h))) \<le> 1 \<and>
    (\<forall>t \<in> set (tasks (run_events x v es h)). t_status t = QUEUED \<longrightarrow>
      \<not> (\<exists>a \<in> set (attempts (run_events x v es h)). at_taskId a = t_id t \<and> at_active a))"
proof -
  have "sys_ok x h" using assms(1,3,4) by (auto simp: sys_ok_def att_ok_def active_of_def filter_empty_conv)
  from run_events_keeps [OF sys_handle_event [OF assms(2)] this]
  show ?thesis by (auto simp: sys_ok_def att_ok_def active_of_def filter_empty_conv)
qed

text \<open>A task whose one attempt runs, and a chunk of its output.\<close>

theorem attempts_disciplined_witness:
  "length (filter (\<lambda>a. at_taskId a = ''iiiiiii'' \<and> at_active a) (attempts demo_task_hub)) = 1 \<and>
   length (filter (\<lambda>a. at_taskId a = ''iiiiiii'' \<and> at_active a)
     (attempts (run_events demo_ext demo_validators [Daemon (LogChunk \<lparr>lp_taskId = ''iiiiiii'', lp_chunk = ''a''\<rparr>)] demo_task_hub))) \<le> 1"
proof -
  have "\<forall>i. length (filter (\<lambda>a. at_taskId a = i \<and> at_active a) (attempts demo_task_hub)) \<le> 1"
    "\<forall>t \<in> set (tasks demo_task_hub). t_status t = QUEUED \<longrightarrow> \<not> (\<exists>a \<in> set (attempts demo_task_hub). at_taskId a = t_id t \<and> at_active a)"
    "length (filter (\<lambda>a. at_taskId a = ''iiiiiii'' \<and> at_active a) (attempts demo_task_hub)) = 1"
    by (simp_all add: demo_task_defs at_active_def)
  with attempts_disciplined [OF wf_demo_task_hub demo_inj this(1,2)] show ?thesis by blast
qed

end
