(* ===== verification/Awaits.thy ===== *)
theory Awaits
  imports Threads Hub_System
begin

text \<open>
  The hub's handlers cut at their awaits. Node runs one handler at a time, but at every \<open>await\<close> of a
  database or socket operation other handlers run. Each awaited operation is one atomic step, with the
  code up to the next await; consecutive reads that nothing is decided between are one step, and so
  is a push notification. The event emitter does not wait for its handlers, so two messages of one
  daemon may be handled at the same time.
\<close>

section \<open>Sending to a daemon (realtime.service.ts)\<close>

definition dispatchToServer_await :: "string \<Rightarrow> daemon_msg \<Rightarrow> (hub, hub_error, unit) thread" where
  "dispatchToServer_await serverId m =
    bindT (atomic (isServerOnline serverId)) (\<lambda>online.
      if \<not> online
      then throwT (ServiceUnavailableException (ko_server_open @ serverId @ ko_daemon_offline))
      else atomic (gw_dispatchToServer serverId m))"

section \<open>Tasks (tasks.service.ts)\<close>

definition touchRunningAttempt_await :: "string \<Rightarrow> (hub, hub_error, unit) thread" where
  "touchRunningAttempt_await taskId =
    bindT (atomic (getS (\<lambda>h. running_attempt h taskId))) (\<lambda>v.
      case v of
        None \<Rightarrow> retT ()
      | Some a \<Rightarrow> atomic (taskAttempt_update (at_id a) (\<lambda>now a. a\<lparr>at_status := A_RUNNING, at_lastSeenAt := now\<rparr>)))"

definition finishRunningAttempt_await ::
  "string \<Rightarrow> TaskAttemptStatus \<Rightarrow> string option \<Rightarrow> (hub, hub_error, unit) thread" where
  "finishRunningAttempt_await taskId status reason =
    bindT (atomic (getS (\<lambda>h. running_attempt h taskId))) (\<lambda>v.
      case v of
        None \<Rightarrow> retT ()
      | Some a \<Rightarrow> atomic (taskAttempt_update (at_id a) (\<lambda>now a.
          a\<lparr>at_status := status,
            at_failureReason := (case reason of None \<Rightarrow> at_failureReason a | Some r \<Rightarrow> Some r),
            at_lastSeenAt := now, at_finishedAt := Some now\<rparr>)))"

text \<open>The row is updated and read with its owner in one query; the notification follows when the handler
  goes on.\<close>

definition update_and_notify_await :: "string \<Rightarrow> (task \<Rightarrow> task) \<Rightarrow> (hub, hub_error, task \<times> string) thread" where
  "update_and_notify_await taskId f =
    bindT (atomic (bindE (task_update taskId f) (\<lambda>task.
        bindE (getS (\<lambda>h. find_row s_id (t_serverId task) (servers h))) (\<lambda>v.
        bindE (someE RecordNotFound v) (\<lambda>server. ret (task, s_ownerId server)))))) (\<lambda>(task, ownerId).
      atomic (thenE (notifyUser ownerId (TASK_UPDATED task)) (ret (task, ownerId))))"

definition updateStatus_await :: "string \<Rightarrow> TaskStatus \<Rightarrow> json option \<Rightarrow> (hub, hub_error, task \<times> string) thread" where
  "updateStatus_await taskId status result =
    update_and_notify_await taskId (\<lambda>t. case result of
        None \<Rightarrow> t\<lparr>t_status := status\<rparr>
      | Some r \<Rightarrow> t\<lparr>t_status := status, t_result := Some r\<rparr>)"

definition cancel_await :: "string \<Rightarrow> string \<Rightarrow> (hub, hub_error, task) thread" where
  "cancel_await ownerId taskId =
    bindT (atomic (bindE (getOwnedTask ownerId taskId) (\<lambda>t. thenE (registry_get (t_workerType (fst t))) (ret t)))) (\<lambda>t.
    bindT (atomic (findTaskOrThrow (t_id (fst t)))) (\<lambda>u.
    thenT (dispatchToServer_await (t_serverId u) (TASK_CANCEL (t_id u)))
     (bindT (updateStatus_await (t_id (fst t)) CANCELLED None) (\<lambda>r. retT (fst r)))))"

definition handleDaemonTaskStatus_await :: "status_payload \<Rightarrow> (hub, hub_error, unit) thread" where
  "handleDaemonTaskStatus_await payload =
    thenT (touchRunningAttempt_await (sp_taskId payload))
     (thenT (updateStatus_await (sp_taskId payload) (cast_status (sp_status payload)) None) (retT ()))"

definition handleDaemonTaskLog_await :: "log_payload \<Rightarrow> (hub, hub_error, unit) thread" where
  "handleDaemonTaskLog_await payload =
    bindT (atomic (getS (\<lambda>h. task_with_owner h (lp_taskId payload)))) (\<lambda>v.
      case v of
        None \<Rightarrow> retT ()
      | Some (task, ownerId) \<Rightarrow>
          thenT (touchRunningAttempt_await (t_id task))
           (bindT (atomic (task_update (t_id task) (\<lambda>t. t\<lparr>t_logs := t_logs task @ lp_chunk payload\<rparr>))) (\<lambda>updated.
              atomic (notifyUser ownerId (TASK_UPDATED updated)))))"

definition handleRetryableCapacityFailure_await :: "ext \<Rightarrow> result_payload \<Rightarrow> (hub, hub_error, unit) thread" where
  "handleRetryableCapacityFailure_await x payload =
    bindT (atomic (getS (\<lambda>h. task_with_owner h (rp_taskId payload)))) (\<lambda>v.
      case v of
        None \<Rightarrow> retT ()
      | Some (task, _) \<Rightarrow>
          thenT (finishRunningAttempt_await (t_id task) A_FAILED (Some (formatStructuredFailureReason payload)))
           (bindT (atomic (retryExcludedServerIds (t_id task))) (\<lambda>excluded.
            bindT (atomic (getDispatchCandidates x (t_workerType task) (t_serverId task) excluded)) (\<lambda>candidates.
              case candidates of
                [] \<Rightarrow>
                  bindT (update_and_notify_await (t_id task) (apply_patch \<lparr>tp_status = Some FAILED, tp_result = rp_result payload,
                      tp_logs = Some (t_logs task @ capacity_log task payload @
                        ''[hub] Capacity failover exhausted: no remaining online compatible worker candidates.'' @ newline)\<rparr>))
                    (\<lambda>failed. atomic (sendPush x (snd failed) ko_task_failed
                       (ko_task_open @ t_id (fst failed) @ ko_task_capacity)))
              | c # _ \<Rightarrow>
                  thenT (update_and_notify_await (t_id task) (apply_patch \<lparr>tp_status = Some QUEUED, tp_result = None,
                      tp_logs = Some (t_logs task @ capacity_log task payload @
                        ''[hub] Requeued after capacity failure; next candidate: '' @ wc_serverName c @ ''/'' @
                        wc_profileName c @ ''.'' @ newline)\<rparr>))
                    (atomic (requeueTask (t_id task)))))))"

definition handleDaemonTaskResult_await :: "ext \<Rightarrow> result_payload \<Rightarrow> (hub, hub_error, unit) thread" where
  "handleDaemonTaskResult_await x payload =
    (if isRetryableCapacityFailure payload then handleRetryableCapacityFailure_await x payload
     else
       thenT (finishRunningAttempt_await (rp_taskId payload)
           (if rp_status payload = RS_COMPLETED then A_SUCCEEDED else A_FAILED)
           (if rp_status payload = RS_FAILED then Some ''Daemon reported task failure.'' else None))
        (bindT (updateStatus_await (rp_taskId payload) (cast_result (rp_status payload)) (rp_result payload)) (\<lambda>task.
          let title = (if rp_status payload = RS_COMPLETED then ko_task_completed else ko_task_failed)
          in atomic (sendPush x (snd task) title
               (ko_task_open @ t_id (fst task) @ ko_task_subject @ title @ ko_task_became)))))"

section \<open>Dispatch (tasks.processor.ts)\<close>

definition dispatchToCandidate_await :: "string \<Rightarrow> json \<Rightarrow> WorkerDispatchCandidate \<Rightarrow> (hub, hub_error, unit) thread" where
  "dispatchToCandidate_await taskId inp candidate =
    bindT (atomic (bindE (getS (\<lambda>h. find_row t_id taskId (tasks h))) (\<lambda>v. bindE (someE RecordNotFound v) (\<lambda>task.
        thenE (registry_get (t_workerType task)) (ret task))))) (\<lambda>task.
      dispatchToServer_await (wc_serverId candidate) (TASK_SUBMIT (t_id task) inp))"

definition dispatch_sent_await :: "task \<Rightarrow> WorkerDispatchCandidate \<Rightarrow> task_attempt \<Rightarrow> (hub, hub_error, string option) thread" where
  "dispatch_sent_await task candidate attempt =
    thenT (atomic (task_connect (t_id task) (wc_serverId candidate) (\<lambda>t. t\<lparr>t_status := RUNNING\<rparr>)))
     (thenT (atomic (taskAttempt_update (at_id attempt) (\<lambda>now a. a\<lparr>at_status := A_RUNNING, at_lastSeenAt := now\<rparr>)))
       (retT None))"

definition dispatch_failed_await ::
  "ext \<Rightarrow> WorkerDispatchCandidate \<Rightarrow> task_attempt \<Rightarrow> hub_error \<Rightarrow> (hub, hub_error, string option) thread" where
  "dispatch_failed_await x candidate attempt e =
    thenT (atomic (taskAttempt_update (at_id attempt) (\<lambda>now a. a\<lparr>at_status := A_FAILED,
        at_failureReason := Some (error_message x e), at_finishedAt := Some now, at_lastSeenAt := now\<rparr>)))
      (retT (Some (wc_serverName candidate @ ''/'' @ wc_profileName candidate @ '': '' @ error_message x e)))"

definition dispatch_one_await ::
  "ext \<Rightarrow> task \<Rightarrow> WorkerDispatchCandidate \<Rightarrow> (hub, hub_error, string option) thread" where
  "dispatch_one_await x task candidate =
    bindT (atomic (taskAttempt_create x (t_id task) (wc_serverId candidate))) (\<lambda>attempt.
      catchT
        (thenT (dispatchToCandidate_await (t_id task) (t_input task) candidate) (dispatch_sent_await task candidate attempt))
        (dispatch_failed_await x candidate attempt))"

fun dispatch_loop_await ::
  "ext \<Rightarrow> task \<Rightarrow> WorkerDispatchCandidate list \<Rightarrow> string list \<Rightarrow> (hub, hub_error, string list option) thread" where
  "dispatch_loop_await x task [] failures = retT (Some failures)"
| "dispatch_loop_await x task (candidate # candidates) failures =
    bindT (dispatch_one_await x task candidate) (\<lambda>r.
      case r of None \<Rightarrow> retT None | Some failure \<Rightarrow> dispatch_loop_await x task candidates (failures @ [failure]))"

definition dispatch_task_await :: "ext \<Rightarrow> task \<Rightarrow> (hub, hub_error, unit) thread" where
  "dispatch_task_await x task =
    bindT (atomic (tp_retryExcludedServerIds (t_id task))) (\<lambda>excluded.
    bindT (atomic (getDispatchCandidates x (t_workerType task) (t_serverId task) excluded)) (\<lambda>candidates.
      if candidates = []
      then throwT (JsError (''No online '' @ show_workerType (t_workerType task) @ '' worker candidates for task '' @
             t_id task @ ''.''))
      else bindT (dispatch_loop_await x task candidates []) (\<lambda>r.
        case r of
          None \<Rightarrow> retT ()
        | Some failures \<Rightarrow>
            thenT (atomic (task_update (t_id task) (\<lambda>t. t\<lparr>t_logs := t_logs task @ formatFailoverLog failures\<rparr>)))
             (throwT (JsError (''Task '' @ t_id task @ '' dispatch failed on all candidates: '' @
                join '' | '' failures))))))"

text \<open>A dispatch job; the identifier is not empty.\<close>

definition process_await :: "ext \<Rightarrow> string \<Rightarrow> (hub, hub_error, unit) thread" where
  "process_await x taskId =
    (if taskId = [] then retT ()
     else bindT (atomic (getS (\<lambda>h. find_row t_id taskId (tasks h)))) (\<lambda>v.
       case v of
         None \<Rightarrow> retT ()
       | Some task \<Rightarrow> if t_status task \<noteq> QUEUED then retT () else dispatch_task_await x task))"

section \<open>Approvals (approvals.service.ts)\<close>

definition decide_await :: "string \<Rightarrow> string \<Rightarrow> decide_approval_dto \<Rightarrow> (hub, hub_error, approval) thread" where
  "decide_await ownerId approvalId dto =
    bindT (atomic (getS (\<lambda>h. approval_with_task h approvalId))) (\<lambda>v.
      case v of
        None \<Rightarrow> throwT (NotFoundException ko_approval_not_found)
      | Some (approval, task, owner) \<Rightarrow>
          if owner \<noteq> ownerId then throwT (ForbiddenException ko_approval_forbidden)
          else if ap_status approval \<noteq> PENDING then throwT (BadRequestException ko_approval_decided)
          else
            bindT (atomic (approval_update approvalId (\<lambda>now a. a\<lparr>ap_status := (if dad_approve dto then APPROVED else REJECTED),
                ap_decidedAt := Some now,
                ap_reason := (case dad_reason dto of None \<Rightarrow> ap_reason a | Some r \<Rightarrow> Some r)\<rparr>))) (\<lambda>updated.
            thenT (atomic (task_update (ap_taskId approval)
                (\<lambda>t. t\<lparr>t_status := (if dad_approve dto then RUNNING else CANCELLED)\<rparr>)))
             (thenT (catchT (dispatchToServer_await (t_serverId task)
                  (APPROVAL_DECISION (ap_taskId approval) (dad_approve dto) (dad_reason dto))) (\<lambda>_. retT ()))
               (atomic (thenE (notifyUser ownerId (APPROVAL_RESOLVED updated)) (ret updated))))))"

definition handleDaemonApprovalRequest_await :: "ext \<Rightarrow> approval_payload \<Rightarrow> (hub, hub_error, unit) thread" where
  "handleDaemonApprovalRequest_await x payload =
    bindT (atomic (getS (\<lambda>h. task_with_owner h (pl_taskId payload)))) (\<lambda>v.
      case v of
        None \<Rightarrow> retT ()
      | Some (task, ownerId) \<Rightarrow>
          bindT (atomic (approval_create x (pl_taskId payload) (pl_reason payload))) (\<lambda>approval.
          thenT (atomic (task_update (pl_taskId payload) (\<lambda>t. t\<lparr>t_status := AWAITING_APPROVAL\<rparr>)))
           (thenT (atomic (notifyUser ownerId (APPROVAL_PENDING approval)))
             (atomic (sendPush x ownerId ko_approval_needed (pl_reason payload))))))"

section \<open>Sessions and credentials (auth.service.ts, server-registrations.service.ts)\<close>

definition refresh_await :: "ext \<Rightarrow> string \<Rightarrow> (hub, hub_error, token_pair) thread" where
  "refresh_await x refreshToken =
    bindT (atomic (bindE (verifyRefreshToken x refreshToken) (\<lambda>payload.
        bindE (getS (\<lambda>h. find (live_token (jwt_sub payload) (hashToken x refreshToken) (clock h)) (refreshTokens h))) (\<lambda>stored.
          ret (payload, stored))))) (\<lambda>(payload, stored).
      case stored of
        None \<Rightarrow> throwT (UnauthorizedException ko_bad_refresh)
      | Some r \<Rightarrow>
          thenT (atomic (refreshToken_revoke (rt_id r)))
            (atomic (issueTokenPair x (jwt_sub payload) (jwt_email payload))))"

definition reg_getResult_await :: "ext \<Rightarrow> string \<Rightarrow> string \<Rightarrow> (hub, hub_error, daemon_result) thread" where
  "reg_getResult_await x requestId requestSecret =
    (if requestSecret = [] then throwT (UnauthorizedException ko_secret_missing)
     else bindT (atomic (getS (\<lambda>h. find_row rr_id requestId (regRequests h)))) (\<lambda>v.
       case v of
         None \<Rightarrow> throwT (NotFoundException ko_request_not_found)
       | Some request \<Rightarrow>
           if rr_requestSecretHash request \<noteq> hashApiKey x requestSecret
           then throwT (UnauthorizedException ko_secret_wrong)
           else bindT (atomic (expireIfNeeded request)) (\<lambda>current.
             if rr_status current \<noteq> R_APPROVED then retT (toDaemonResult current)
             else if falsy (rr_serverId current) \<or> falsy (rr_apiKeyCiphertext current) \<or>
                falsy (rr_apiKeyIv current) \<or> falsy (rr_apiKeyAuthTag current)
             then retT (toDaemonResult current)
             else
               bindT (atomic (bindE (liftE (decryptForRequestSecret x
                   \<lparr>ep_ciphertext = the (rr_apiKeyCiphertext current), ep_iv = the (rr_apiKeyIv current),
                    ep_authTag = the (rr_apiKeyAuthTag current)\<rparr> (rr_requestSecretHash current))) (\<lambda>apiKey.
                 bindE (regRequest_update requestId (\<lambda>r. r\<lparr>rr_status := R_CREDENTIAL_DELIVERED,
                   rr_apiKeyCiphertext := None, rr_apiKeyIv := None, rr_apiKeyAuthTag := None\<rparr>)) (\<lambda>delivered.
                   ret (apiKey, delivered))))) (\<lambda>(apiKey, delivered).
                 retT ((toDaemonResult delivered)\<lparr>dr_status := R_APPROVED, dr_serverId := rr_serverId current,
                   dr_apiKey := Some apiKey\<rparr>)))))"

section \<open>Alone, each thread is its sequential handler\<close>

lemmas run_congs = option.case_cong prod.case_cong list.case_cong if_cong

lemma run_dispatchToServer [run_simps]: "run (dispatchToServer_await i m) = dispatchToServer i m"
  by (simp add: dispatchToServer_await_def dispatchToServer_def run_simps cong: if_cong)

lemma run_touch [run_simps]: "run (touchRunningAttempt_await i) = touchRunningAttempt i"
  by (simp add: touchRunningAttempt_await_def touchRunningAttempt_def run_simps cong: run_congs)

lemma run_finish [run_simps]: "run (finishRunningAttempt_await i s r) = finishRunningAttempt i s r"
  by (simp add: finishRunningAttempt_await_def finishRunningAttempt_def run_simps cong: run_congs)

lemma run_update_and_notify [run_simps]: "run (update_and_notify_await i f) = update_and_notify i f"
  by (simp add: update_and_notify_await_def update_and_notify_def run_simps bindE_assoc bindE_ret_left split_def cong: run_congs)

lemma run_updateStatus [run_simps]: "run (updateStatus_await i s r) = updateStatus i s r"
  by (simp add: updateStatus_await_def updateStatus_def run_simps cong: run_congs)

lemma run_status: "run (handleDaemonTaskStatus_await p) = handleDaemonTaskStatus p"
  by (simp add: handleDaemonTaskStatus_await_def handleDaemonTaskStatus_def run_simps cong: run_congs)

lemma run_log: "run (handleDaemonTaskLog_await p) = handleDaemonTaskLog p"
  by (simp add: handleDaemonTaskLog_await_def handleDaemonTaskLog_def run_simps cong: run_congs)

lemma run_capacity [run_simps]: "run (handleRetryableCapacityFailure_await x p) = handleRetryableCapacityFailure x p"
  by (simp add: handleRetryableCapacityFailure_await_def handleRetryableCapacityFailure_def run_simps updateTaskAndNotify_def cong: run_congs)

lemma run_result: "run (handleDaemonTaskResult_await x p) = handleDaemonTaskResult x p"
  by (simp add: handleDaemonTaskResult_await_def handleDaemonTaskResult_def run_simps Let_def cong: run_congs)

lemma run_decide: "run (decide_await u i d) = decide u i d"
  by (simp add: decide_await_def decide_def run_simps cong: run_congs)

lemma run_approval: "run (handleDaemonApprovalRequest_await x p) = handleDaemonApprovalRequest x p"
  by (simp add: handleDaemonApprovalRequest_await_def handleDaemonApprovalRequest_def run_simps cong: run_congs)

lemma run_refresh: "run (refresh_await x t) = refresh x t"
  by (simp add: refresh_await_def refresh_def run_simps bindE_assoc bindE_ret_left Let_def cong: run_congs)

lemma run_getResult: "run (reg_getResult_await x i s) = reg_getResult x i s"
  by (simp add: reg_getResult_await_def reg_getResult_def run_simps bindE_assoc bindE_ret_left cong: run_congs)

lemma run_cancel: "run (cancel_await u i) = cancel u i"
  by (simp add: cancel_await_def cancel_def run_simps bindE_assoc thenE_def bindE_ret_left registry_get_bind
      if_distrib [of "\<lambda>m. bindE m f" for f] codexAdapter_def codex_cancelTask_def cong: if_cong)

lemma run_dispatchToCandidate [run_simps]: "run (dispatchToCandidate_await i v c) = dispatchToCandidate i v c"
  by (simp add: dispatchToCandidate_await_def dispatchToCandidate_def run_simps bindE_assoc thenE_def bindE_ret_left bindE_ret_right
      registry_get_bind if_distrib [of "\<lambda>m. bindE m f" for f] codexAdapter_def codex_submitTask_def cong: if_cong)

lemma run_dispatch_one [run_simps]: "run (dispatch_one_await x t c) = dispatch_one x t c"
  by (simp add: dispatch_one_await_def dispatch_sent_await_def dispatch_failed_await_def dispatch_one_def run_simps)

lemma run_dispatch_loop [run_simps]: "run (dispatch_loop_await x t cs fs) = dispatch_loop x t cs fs"
  by (induction cs arbitrary: fs) (simp_all add: run_simps cong: run_congs)

lemma run_dispatch_task [run_simps]: "run (dispatch_task_await x t) = dispatch_task x t"
  by (simp add: dispatch_task_await_def tp_retryExcludedServerIds_eq dispatch_task_def tp_retryExcludedServerIds_eq run_simps cong: run_congs)

lemma run_process: "run (process_await x i) = process x (dispatch_job i)"
  by (simp add: process_await_def process_def dispatch_job_def TASK_WATCHDOG_JOB_def run_simps cong: run_congs)

section \<open>Requests\<close>

datatype hub_request =
    Refresh string
  | Status status_payload
  | Log log_payload
  | TaskResult result_payload
  | AskApproval approval_payload
  | Decide string string decide_approval_dto
  | Collect string string
  | Cancel string string
  | Dispatch string

datatype answer = Tokens token_pair | Row approval | Credential daemon_result | TaskRow task | Nothing

fun thread_of :: "ext \<Rightarrow> hub_request \<Rightarrow> (hub, hub_error, answer) thread" where
  "thread_of x (Refresh t) = bindT (refresh_await x t) (\<lambda>p. retT (Tokens p))"
| "thread_of x (Status p) = thenT (handleDaemonTaskStatus_await p) (retT Nothing)"
| "thread_of x (Log p) = thenT (handleDaemonTaskLog_await p) (retT Nothing)"
| "thread_of x (TaskResult p) = thenT (handleDaemonTaskResult_await x p) (retT Nothing)"
| "thread_of x (AskApproval p) = thenT (handleDaemonApprovalRequest_await x p) (retT Nothing)"
| "thread_of x (Decide u i d) = bindT (decide_await u i d) (\<lambda>a. retT (Row a))"
| "thread_of x (Collect i s) = bindT (reg_getResult_await x i s) (\<lambda>r. retT (Credential r))"
| "thread_of x (Cancel u i) = bindT (cancel_await u i) (\<lambda>t. retT (TaskRow t))"
| "thread_of x (Dispatch i) = thenT (process_await x i) (retT Nothing)"

fun handler_of :: "ext \<Rightarrow> hub_request \<Rightarrow> answer hub_prog" where
  "handler_of x (Refresh t) = bindE (refresh x t) (\<lambda>p. ret (Tokens p))"
| "handler_of x (Status p) = thenE (handleDaemonTaskStatus p) (ret Nothing)"
| "handler_of x (Log p) = thenE (handleDaemonTaskLog p) (ret Nothing)"
| "handler_of x (TaskResult p) = thenE (handleDaemonTaskResult x p) (ret Nothing)"
| "handler_of x (AskApproval p) = thenE (handleDaemonApprovalRequest x p) (ret Nothing)"
| "handler_of x (Decide u i d) = bindE (decide u i d) (\<lambda>a. ret (Row a))"
| "handler_of x (Collect i s) = bindE (reg_getResult x i s) (\<lambda>r. ret (Credential r))"
| "handler_of x (Cancel u i) = bindE (cancel u i) (\<lambda>t. ret (TaskRow t))"
| "handler_of x (Dispatch i) = thenE (process x (dispatch_job i)) (ret Nothing)"

lemma run_thread_of: "run (thread_of x r) = handler_of x r"
  by (cases r) (simp_all add: run_simps run_refresh run_status run_log run_result run_approval run_decide run_getResult run_cancel run_process)

lemma keepsT_dispatchToServer [keepsT_rules]: "keepsT (wf_hub x) (dispatchToServer_await i m)"
  unfolding dispatchToServer_await_def isServerOnline_def gw_dispatchToServer_def
  by (intro keepsT_rules keeps_rules) (simp add: keeps_def modS_apply)

lemma keepsT_touch [keepsT_rules]: "keepsT (wf_hub x) (touchRunningAttempt_await i)"
  unfolding touchRunningAttempt_await_def by (intro keepsT_rules keeps_rules) simp_all

lemma keepsT_finish [keepsT_rules]: "keepsT (wf_hub x) (finishRunningAttempt_await i st r)"
  unfolding finishRunningAttempt_await_def by (intro keepsT_rules keeps_rules) simp_all

lemma keepsT_update_and_notify [keepsT_rules]:
  "(\<And>r. t_id (f r) = t_id r) \<Longrightarrow> (\<And>r. t_serverId (f r) = t_serverId r) \<Longrightarrow> keepsT (wf_hub x) (update_and_notify_await i f)"
  unfolding update_and_notify_await_def by (intro keepsT_rules keeps_rules) simp_all

lemma keepsT_updateStatus [keepsT_rules]: "keepsT (wf_hub x) (updateStatus_await i st r)"
  unfolding updateStatus_await_def by (intro keepsT_rules) (simp_all split: option.split)

lemma keepsT_cancel [keepsT_rules]: "keepsT (wf_hub x) (cancel_await u i)"
  unfolding cancel_await_def findTaskOrThrow_def by (intro keepsT_rules keeps_rules)

lemma keepsT_task_events [keepsT_rules]: "keepsT (wf_hub x) (handleDaemonTaskStatus_await sp)" "keepsT (wf_hub x) (handleDaemonTaskLog_await lp)"
  unfolding handleDaemonTaskStatus_await_def handleDaemonTaskLog_await_def by (intro keepsT_rules keeps_rules; simp)+

lemma keepsT_capacity [keepsT_rules]: "keepsT (wf_hub x) (handleRetryableCapacityFailure_await y p)"
  unfolding handleRetryableCapacityFailure_await_def requeueTask_def retryExcludedServerIds_def
  by (intro keepsT_rules keeps_rules) simp_all

lemma keepsT_result [keepsT_rules]: "keepsT (wf_hub x) (handleDaemonTaskResult_await y p)"
  unfolding handleDaemonTaskResult_await_def Let_def by (intro keepsT_rules keeps_rules)

lemma keepsT_dispatch_one [keepsT_rules]: "inj (x_uuid x) \<Longrightarrow> keepsT (wf_hub x) (dispatch_one_await x t c)"
  unfolding dispatch_one_await_def dispatchToCandidate_await_def dispatch_sent_await_def dispatch_failed_await_def
  by (intro keepsT_rules keeps_rules) simp_all

lemma keepsT_dispatch_loop [keepsT_rules]: "inj (x_uuid x) \<Longrightarrow> keepsT (wf_hub x) (dispatch_loop_await x t cs fs)"
  by (induction cs arbitrary: fs) (auto intro!: keepsT_rules)

lemma keepsT_process [keepsT_rules]: "inj (x_uuid x) \<Longrightarrow> keepsT (wf_hub x) (process_await x i)"
  unfolding process_await_def dispatch_task_await_def tp_retryExcludedServerIds_eq retryExcludedServerIds_def by (intro keepsT_rules keeps_rules) simp_all

lemma keepsT_decide [keepsT_rules]: "keepsT (wf_hub x) (decide_await u i d)"
  unfolding decide_await_def by (intro keepsT_rules keeps_rules) simp_all

lemma keepsT_approval [keepsT_rules]: "inj (x_uuid x) \<Longrightarrow> keepsT (wf_hub x) (handleDaemonApprovalRequest_await x p)"
  unfolding handleDaemonApprovalRequest_await_def by (intro keepsT_rules keeps_rules) simp_all

lemma keepsT_refresh [keepsT_rules]: "inj (x_uuid x) \<Longrightarrow> keepsT (wf_hub x) (refresh_await x t)"
  unfolding refresh_await_def by (intro keepsT_rules keeps_rules)

lemma keepsT_getResult [keepsT_rules]: "keepsT (wf_hub x) (reg_getResult_await y i sec)"
  unfolding reg_getResult_await_def by (intro keepsT_rules keeps_rules) simp_all

lemma keepsT_thread_of: "inj (x_uuid x) \<Longrightarrow> keepsT (wf_hub x) (thread_of x r)"
  by (cases r) (auto intro!: keepsT_rules)

interpretation hubPool: await_handlers "thread_of x" "handler_of x" "\<lambda>h. inj (x_uuid x) \<longrightarrow> wf_hub x h" for x
proof
  show "run (thread_of x r) = handler_of x r" for r by (rule run_thread_of)
  show "keepsT (\<lambda>h. inj (x_uuid x) \<longrightarrow> wf_hub x h) (thread_of x r)" for r
  proof (cases "inj (x_uuid x)")
    case True
    then show ?thesis using keepsT_thread_of by simp
  next
    case False
    then show ?thesis by (simp add: keepsT_True)
  qed
qed

text \<open>A dispatch job up to the moment at which its first candidate has been sent the task, and the rest
  of it.\<close>

lemma dispatch_until_sent:
  assumes "i \<noteq> []" and "find_row t_id i (tasks h) = Some t" and "t_status t = QUEUED"
    and "fst (retryExcludedServerIds i h) = Inr ex"
    and "getDispatchCandidates x (t_workerType t) (t_serverId t) ex h = (Inr (c # others), h)" and "daemon_room h c \<noteq> []"
    and "h1 = h\<lparr>draws := Suc (draws h), attempts := attempts h @ [new_attempt x h t c],
      daemonOut := daemonOut h @ map (\<lambda>s. (so_id s, TASK_SUBMIT i (t_input t))) (daemon_room h c)\<rparr>"
  shows "\<exists>u. thread_steps (process_await x i, h) (u, h1) \<and>
    (\<forall>g r g1 g2. task_connect i (wc_serverId c) (\<lambda>t. t\<lparr>t_status := RUNNING\<rparr>) g = (Inr r, g1) \<longrightarrow>
      taskAttempt_update (x_uuid x (draws h)) (\<lambda>now a. a\<lparr>at_status := A_RUNNING, at_lastSeenAt := now\<rparr>) g1 = (Inr (), g2) \<longrightarrow>
      run u g = (Inr (), g2)) \<and>
    (\<forall>g r g1. task_connect i (wc_serverId c) (\<lambda>t. t\<lparr>t_status := RUNNING\<rparr>) g = (Inr r, g1) \<longrightarrow>
      (\<exists>w. thread_steps (u, g) (w, g1) \<and> (\<forall>k k'. taskAttempt_update (x_uuid x (draws h))
        (\<lambda>now a. a\<lparr>at_status := A_RUNNING, at_lastSeenAt := now\<rparr>) k = (Inr (), k') \<longrightarrow> run w k = (Inr (), k'))))"
proof -
  have id: "t_id t = i" using find_row_SomeD [OF assms(2)] by simp
  have codex: "t_workerType t = CODEX" and srv: "wc_serverId c \<in> s_id ` set (servers h)" using candidates_known [OF assms(5)] by simp_all
  let ?g = "h\<lparr>draws := Suc (draws h), attempts := attempts h @ [new_attempt x h t c]\<rparr>"
  have create: "taskAttempt_create x (t_id t) (wc_serverId c) h = (Inr (new_attempt x h t c), ?g)"
    using assms(2) srv id by (intro taskAttempt_create_apply) (metis find_row_None option.distinct(1))+
  have sent: "run (dispatchToCandidate_await (t_id t) (t_input t) c) ?g = (Inr (), h1)"
    using dispatchToCandidate_apply [of "t_id t" ?g t "t_input t" c] assms(2,6,7) codex id by (simp add: run_simps daemon_room_def)
  let ?a = "new_attempt x h t c"
  let ?u = "catchT (dispatch_sent_await t c ?a) (dispatch_failed_await x c ?a)"
  have "thread_steps (dispatch_one_await x t c, h)
      (catchT (thenT (dispatchToCandidate_await (t_id t) (t_input t) c) (dispatch_sent_await t c ?a)) (dispatch_failed_await x c ?a), ?g)"
    unfolding dispatch_one_await_def by (rule steps_prefix(1)) (simp add: run_simps create)
  also have "thread_steps \<dots> (?u, h1)" by (rule steps_catchT [OF steps_prefix(2) [OF sent]])
  finally have one: "thread_steps (dispatch_one_await x t c, h) (?u, h1)" .
  let ?k = "\<lambda>r. case r of None \<Rightarrow> retT None | Some failure \<Rightarrow> dispatch_loop_await x t others ([] @ [failure])"
  let ?l = "\<lambda>r. case r of None \<Rightarrow> retT () | Some failures \<Rightarrow>
      thenT (atomic (task_update (t_id t) (\<lambda>r. r\<lparr>t_logs := t_logs t @ formatFailoverLog failures\<rparr>)))
        (throwT (JsError (''Task '' @ t_id t @ '' dispatch failed on all candidates: '' @ join '' | '' failures)))"
  have one1: "thread_steps (process_await x i, h) (dispatch_task_await x t, h)"
    using steps_prefix(1) [of "atomic (getS (\<lambda>h. find_row t_id i (tasks h)))" h "Some t" h
      "\<lambda>v. case v of None \<Rightarrow> retT () | Some task \<Rightarrow> if t_status task \<noteq> QUEUED then retT () else dispatch_task_await x task"] assms(1-3)
    by (simp add: process_await_def run_simps getS_apply)
  have one2: "thread_steps (dispatch_task_await x t, h) (bindT (bindT (dispatch_one_await x t c) ?k) ?l, h)"
  proof -
    have "retryExcludedServerIds i h = (Inr ex, h)" using assms(4) by (simp add: retryExcludedServerIds_def getS_apply)
    then have ex: "retryExcludedServerIds (t_id t) h = (Inr ex, h)" by (simp add: id)
    show ?thesis unfolding dispatch_task_await_def tp_retryExcludedServerIds_eq
      by (rule rtranclp_trans, rule steps_read, rule ex, rule refl, rule steps_read, rule assms(5))
        (simp only: list.distinct if_False dispatch_loop_await.simps)
  qed
  have "thread_steps (bindT (bindT (dispatch_one_await x t c) ?k) ?l, h) (bindT (bindT ?u ?k) ?l, h1)" by (intro steps_bindT one)
  from rtranclp_trans [OF rtranclp_trans [OF one1 one2] this] have "thread_steps (process_await x i, h) (bindT (bindT ?u ?k) ?l, h1)" .
  moreover have "run (bindT (bindT ?u ?k) ?l) g = (Inr (), g2)"
    if "task_connect i (wc_serverId c) (\<lambda>t. t\<lparr>t_status := RUNNING\<rparr>) g = (Inr r, g1)"
      "taskAttempt_update (x_uuid x (draws h)) (\<lambda>now a. a\<lparr>at_status := A_RUNNING, at_lastSeenAt := now\<rparr>) g1 = (Inr (), g2)" for g r g1 g2
    using that by (simp add: run_simps dispatch_sent_await_def bindE_apply thenE_apply catchE_apply ret_apply id new_attempt_def)
  moreover have "\<exists>w. thread_steps (bindT (bindT ?u ?k) ?l, g) (w, g1) \<and> (\<forall>k k'. taskAttempt_update (x_uuid x (draws h))
        (\<lambda>now a. a\<lparr>at_status := A_RUNNING, at_lastSeenAt := now\<rparr>) k = (Inr (), k') \<longrightarrow> run w k = (Inr (), k'))"
    if con: "task_connect i (wc_serverId c) (\<lambda>t. t\<lparr>t_status := RUNNING\<rparr>) g = (Inr r, g1)" for g r g1
  proof -
    let ?w = "catchT (thenT (atomic (taskAttempt_update (at_id ?a) (\<lambda>now a. a\<lparr>at_status := A_RUNNING, at_lastSeenAt := now\<rparr>)))
       (retT None)) (dispatch_failed_await x c ?a)"
    have "run (atomic (task_connect (t_id t) (wc_serverId c) (\<lambda>t. t\<lparr>t_status := RUNNING\<rparr>))) g = (Inr r, g1)"
      using con by (simp add: run_simps id)
    then have "thread_steps (?u, g) (?w, g1)" unfolding dispatch_sent_await_def by (intro steps_catchT steps_prefix(2))
    then have "thread_steps (bindT (bindT ?u ?k) ?l, g) (bindT (bindT ?w ?k) ?l, g1)" by (intro steps_bindT)
    moreover have "run (bindT (bindT ?w ?k) ?l) k = (Inr (), k')"
      if "taskAttempt_update (x_uuid x (draws h)) (\<lambda>now a. a\<lparr>at_status := A_RUNNING, at_lastSeenAt := now\<rparr>) k = (Inr (), k')" for k k'
      using that by (simp add: run_simps bindE_apply thenE_apply catchE_apply ret_apply new_attempt_def)
    ultimately show ?thesis by blast
  qed
  ultimately show ?thesis by blast
qed


lemma jwt_fresh_sign: "jwt_fresh x \<Longrightarrow> jwt_jti p \<noteq> jwt_jti q \<Longrightarrow> x_jwt_sign x a b c p \<noteq> x_jwt_sign x a' b' c' q"
  unfolding jwt_fresh_def by metis

lemma issueTokenPair_again:
  assumes "issueTokenPair x u e h = (Inr pair, h')" and "u \<in> u_id ` set (users g)"
  shows "\<exists>p g'. issueTokenPair x u e g = (Inr p, g') \<and> users g' = users g \<and> clock g' = clock g \<and>
    rt_id ` set (refreshTokens g) \<subseteq> rt_id ` set (refreshTokens g') \<and>
    (\<exists>sec. tp_refreshToken p = x_jwt_sign x sec (config_get x ''JWT_REFRESH_EXPIRES_IN'' ''30d'') (clock g)
      \<lparr>jwt_sub = u, jwt_email = e, jwt_jti = Some (x_uuid x (draws g))\<rparr>) \<and> draws g < draws g'"
  using assms by (auto simp: issueTokenPair_def refreshToken_create_def insert_row_def prog_simps Let_def
      split: option.splits sum.splits prod.splits if_splits)

section \<open>Properties\<close>

text \<open>C17. A key can be handed out twice: when a poll for a registration would deliver the API key, two polls at
  the same time can both deliver it, because both read the approved request before either has marked
  it as delivered.\<close>

theorem key_delivered_twice:
  assumes "reg_getResult x i sec h = (Inr d, h1)" and "dr_apiKey d = Some k"
  shows "\<exists>p q h'. pool_steps (map (thread_of x) [Collect i sec, Collect i sec], h)
      ([Done (Inr (Credential p)), Done (Inr (Credential q))], h') \<and> dr_apiKey p = Some k \<and> dr_apiKey q = Some k"
proof -
  have sec: "sec \<noteq> []" using assms(1) by (auto simp: reg_getResult_def prog_simps)
  obtain r where r: "find_row rr_id i (regRequests h) = Some r" "rr_requestSecretHash r = hashApiKey x sec"
    using assms(1) sec by (auto simp: reg_getResult_def prog_simps split: option.splits if_splits)
  have id: "rr_id r = i" using find_row_SomeD [OF r(1)] by simp
  have ap: "rr_status r = R_APPROVED" "\<not> (falsy (rr_serverId r) \<or> falsy (rr_apiKeyCiphertext r) \<or> falsy (rr_apiKeyIv r) \<or> falsy (rr_apiKeyAuthTag r))"
    using assms sec r id by (auto simp: reg_getResult_def expireIfNeeded_def toDaemonResult_def prog_simps split: if_splits)
  let ?dec = "decryptForRequestSecret x \<lparr>ep_ciphertext = the (rr_apiKeyCiphertext r), ep_iv = the (rr_apiKeyIv r),
      ep_authTag = the (rr_apiKeyAuthTag r)\<rparr> (rr_requestSecretHash r)"
  have key: "?dec = Inr k"
    using assms sec r ap by (auto simp: reg_getResult_def expireIfNeeded_def prog_simps split: if_splits sum.splits)
  define rest where "rest = bindT (bindT (atomic (bindE (liftE ?dec) (\<lambda>apiKey.
        bindE (regRequest_update i (\<lambda>r. r\<lparr>rr_status := R_CREDENTIAL_DELIVERED,
          rr_apiKeyCiphertext := None, rr_apiKeyIv := None, rr_apiKeyAuthTag := None\<rparr>)) (\<lambda>delivered. ret (apiKey, delivered)))))
      (\<lambda>(apiKey, delivered). retT ((toDaemonResult delivered)\<lparr>dr_status := R_APPROVED, dr_serverId := rr_serverId r, dr_apiKey := Some apiKey\<rparr>)))
    (\<lambda>r. retT (Credential r))"
  have keep: "expireIfNeeded r h = (Inr r, h)" using ap by (simp add: expireIfNeeded_def prog_simps)
  have found: "getS (\<lambda>h. find_row rr_id i (regRequests h)) h = (Inr (Some r), h)" using r by (simp add: getS_apply)
  have read: "thread_steps (thread_of x (Collect i sec), h) (rest, h)"
    unfolding thread_of.simps reg_getResult_await_def rest_def if_not_P [OF sec]
    by (rule rtranclp_trans, rule steps_first(1), rule found, rule refl, simp only: option.case r(2) simp_thms if_False,
        rule steps_first(1), rule keep) (simp only: ap r(2) simp_thms if_False)
  have upd: "\<exists>p g'. run rest g = (Inr (Credential p), g') \<and> dr_apiKey p = Some k \<and> (\<exists>r'. find_row rr_id i (regRequests g') = Some r')"
    if "find_row rr_id i (regRequests g) = Some r'" for g r'
    using that key by (simp add: rest_def run_simps prog_simps find_row_update_row)
  obtain p g1 r1 where one: "run rest h = (Inr (Credential p), g1)" "dr_apiKey p = Some k" "find_row rr_id i (regRequests g1) = Some r1"
    using upd [OF r(1)] by blast
  obtain q g2 where two: "run rest g1 = (Inr (Credential q), g2)" "dr_apiKey q = Some k" using upd [OF one(3)] by blast
  show ?thesis using pool_read_then_write [OF read read one(1) two(1)] one(2) two(2) by auto
qed

theorem key_delivered_twice_witness:
  "\<exists>h r k p q h'. reg_decide demo_ext ''i'' ''ii'' True demo_reg_hub = (Inr r, h) \<and>
    pool_steps (map (thread_of demo_ext) [Collect ''ii'' ''sec'', Collect ''ii'' ''sec''], h)
      ([Done (Inr (Credential p)), Done (Inr (Credential q))], h') \<and> dr_apiKey p = Some k \<and> dr_apiKey q = Some k"
proof -
  have f: "rr_ownerId demo_request = ''i''" "rr_status demo_request = R_PENDING" "clock demo_reg_hub \<le> rr_expiresAt demo_request"
    "rr_requestSecretHash demo_request \<noteq> []" "rr_requestSecretHash demo_request = hashApiKey demo_ext ''sec''" "''sec'' \<noteq> []"
    by (simp_all add: demo_request_find) (simp_all add: demo_request_def hashApiKey_def demo_ext_def)
  obtain s :: server and r' h2 c iv tag where d: "reg_decide demo_ext ''i'' ''ii'' True demo_reg_hub = (Inr (reg_toPublic r'), h2)"
    "find_row rr_id ''ii'' (regRequests h2) = Some r'" "s_id s \<noteq> []"
    and r': "r' = demo_request\<lparr>rr_status := R_APPROVED, rr_apiKeyCiphertext := Some c, rr_apiKeyIv := Some iv, rr_apiKeyAuthTag := Some tag,
        rr_serverId := Some (s_id s), rr_updatedAt := clock demo_reg_hub\<rparr>" "c \<noteq> []" "iv \<noteq> []" "tag \<noteq> []"
    and key: "decryptForRequestSecret demo_ext \<lparr>ep_ciphertext = c, ep_iv = iv, ep_authTag = tag\<rparr> (rr_requestSecretHash demo_request) =
      Inr (toHex (x_random demo_ext (draws demo_reg_hub) 32))"
    using approved_request [OF wf_demo_reg_hub demo_inj demo_gcm_ok demo_lengths_ok demo_request_find(2,1) f(1-4)] by blast
  obtain e h3 where "reg_getResult demo_ext ''ii'' ''sec'' h2 = (Inr e, h3)" "dr_apiKey e = Some (toHex (x_random demo_ext (draws demo_reg_hub) 32))"
    using reg_getResult_delivers [OF d(2) _ _ f(6) _ d(3) _ r'(2) _ r'(3) _ r'(4), of demo_ext] f(5) key by (auto simp: r'(1))
  from key_delivered_twice [OF this] d(1) show ?thesis by blast
qed

text \<open>C10. Output can be lost: the log handler reads the log and writes it back with the chunk at its end,
  so when two chunks of a task are handled at the same time, there is an order of their steps in
  which both handlers succeed and the first chunk is not in the log.\<close>

theorem log_chunk_lost:
  assumes "task_with_owner h i = Some (t, u)"
  shows "\<exists>h' c. pool_steps (map (thread_of x) [Log \<lparr>lp_taskId = i, lp_chunk = a\<rparr>, Log \<lparr>lp_taskId = i, lp_chunk = b\<rparr>], h)
      ([Done (Inr Nothing), Done (Inr Nothing)], h') \<and>
    find_row t_id i (tasks h') = Some (t\<lparr>t_logs := t_logs t @ b, t_updatedAt := c\<rparr>)"
proof -
  have id: "t_id t = i" and find: "find_row t_id i (tasks h) = Some t" using assms by (auto simp: task_with_owner_id task_with_owner_iff)
  define rest where "rest chunk = thenT (thenT (touchRunningAttempt_await i)
    (bindT (atomic (task_update i (\<lambda>r. r\<lparr>t_logs := t_logs t @ chunk\<rparr>))) (\<lambda>updated. atomic (notifyUser u (TASK_UPDATED updated)))))
      (retT Nothing)" for chunk
  have read: "thread_steps (thread_of x (Log \<lparr>lp_taskId = i, lp_chunk = chunk\<rparr>), h) (rest chunk, h)" for chunk
    unfolding thread_of.simps handleDaemonTaskLog_await_def rest_def by (rule steps_first(2), simp add: getS_apply assms, simp add: id)
  have upd: "\<exists>h2. run (rest chunk) h1 = (Inr Nothing, h2) \<and>
      find_row t_id i (tasks h2) = Some (r\<lparr>t_logs := t_logs t @ chunk, t_updatedAt := clock h1\<rparr>)"
    if "find_row t_id i (tasks h1) = Some r" for chunk h1 r
    using that by (simp add: rest_def run_simps prog_simps touchRunningAttempt_apply task_update_apply notifyUser_apply find_row_update_row)
  obtain h1 where one: "run (rest a) h = (Inr Nothing, h1)"
    and r1: "find_row t_id i (tasks h1) = Some (t\<lparr>t_logs := t_logs t @ a, t_updatedAt := clock h\<rparr>)"
    using upd [OF find, of a] by blast
  obtain h2 where two: "run (rest b) h1 = (Inr Nothing, h2)"
    and r2: "find_row t_id i (tasks h2) = Some (t\<lparr>t_logs := t_logs t @ b, t_updatedAt := clock h1\<rparr>)"
    using upd [OF r1, of b] by auto
  have "pool_steps ([thread_of x (Log \<lparr>lp_taskId = i, lp_chunk = a\<rparr>), thread_of x (Log \<lparr>lp_taskId = i, lp_chunk = b\<rparr>)], h)
      ([Done (Inr Nothing), Done (Inr Nothing)], h2)"
    by (rule pool_read_then_write [OF read read one two])
  then show ?thesis using r2 by auto
qed

theorem log_chunk_lost_witness:
  "\<exists>h' c. pool_steps (map (thread_of demo_ext) [Log \<lparr>lp_taskId = ''iiiiiii'', lp_chunk = ''a''\<rparr>, Log \<lparr>lp_taskId = ''iiiiiii'', lp_chunk = ''b''\<rparr>],
      demo_task_hub) ([Done (Inr Nothing), Done (Inr Nothing)], h') \<and>
    find_row t_id ''iiiiiii'' (tasks h') = Some (demo_task\<lparr>t_logs := ''logb'', t_updatedAt := c\<rparr>)"
  using log_chunk_lost [OF demo_task_find(2), of demo_ext "''a''" "''b''"] by (simp add: demo_task_def)

text \<open>C13. A refresh token is not single-use under concurrency: when a refresh with a token succeeds, two
  refreshes with it at the same time can both succeed, because both look the token up before either
  has revoked it. Each is answered with a token pair of its own.\<close>

theorem refresh_race:
  assumes "refresh x tok h = (Inr pair, h1)" and "jwt_fresh x" and "inj (x_uuid x)"
  shows "\<exists>p q h'. pool_steps (map (thread_of x) [Refresh tok, Refresh tok], h) ([Done (Inr (Tokens p)), Done (Inr (Tokens q))], h') \<and>
    tp_refreshToken p \<noteq> tp_refreshToken q"
proof -
  from assms(1) obtain sec p r where a: "x_env x ''JWT_REFRESH_SECRET'' = Some sec" "x_jwt_verify x sec (clock h) tok = Some p"
    and f: "find (live_token (jwt_sub p) (hashToken x tok) (clock h)) (refreshTokens h) = Some r"
    by (auto simp: refresh_def prog_simps Let_def split: option.splits)
  define rest where "rest = bindT (thenT (atomic (refreshToken_revoke (rt_id r))) (atomic (issueTokenPair x (jwt_sub p) (jwt_email p))))
    (\<lambda>p. retT (Tokens p))"
  have read: "thread_steps (thread_of x (Refresh tok), h) (rest, h)"
    unfolding thread_of.simps refresh_await_def rest_def
    by (rule steps_first(1) [where a = "(p, Some r)"], simp add: prog_simps a f, simp)
  let ?t = "\<lambda>g. update_row rt_id (rt_id r) (\<lambda>r. r\<lparr>rt_revoked := True\<rparr>) (refreshTokens g)"
  have r: "rt_id r \<in> rt_id ` set (refreshTokens h)" using f by (auto simp: find_Some_iff)
  have iss: "issueTokenPair x (jwt_sub p) (jwt_email p) (h\<lparr>refreshTokens := ?t h\<rparr>) = (Inr pair, h1)"
    using assms(1) a f r by (simp add: refresh_def refreshToken_revoke_def prog_simps Let_def)
  have sub: "jwt_sub p \<in> u_id ` set (users h)" by (rule issueTokenPair_InrE [OF iss]) simp
  have upd: "\<exists>q g'. run rest g = (Inr (Tokens q), g') \<and> users g' = users g \<and> rt_id ` set (refreshTokens g) \<subseteq> rt_id ` set (refreshTokens g') \<and>
      (\<exists>sec t. tp_refreshToken q = x_jwt_sign x sec (config_get x ''JWT_REFRESH_EXPIRES_IN'' ''30d'') t
        \<lparr>jwt_sub = jwt_sub p, jwt_email = jwt_email p, jwt_jti = Some (x_uuid x (draws g))\<rparr>) \<and> draws g < draws g'"
    if "users g = users h" "rt_id r \<in> rt_id ` set (refreshTokens g)" for g
  proof -
    have "jwt_sub p \<in> u_id ` set (users (g\<lparr>refreshTokens := ?t g\<rparr>))" using that(1) sub by simp
    moreover have "rt_id ` set (?t g) = rt_id ` set (refreshTokens g)" by (rule keys_update_row) simp
    ultimately show ?thesis using issueTokenPair_again [OF iss, of "g\<lparr>refreshTokens := ?t g\<rparr>"] that(2)
      by (fastforce simp: rest_def run_simps refreshToken_revoke_def prog_simps)
  qed
  obtain p1 g1 sec1 t1 where one: "run rest h = (Inr (Tokens p1), g1)" "users g1 = users h" "rt_id r \<in> rt_id ` set (refreshTokens g1)"
    and p1: "tp_refreshToken p1 = x_jwt_sign x sec1 (config_get x ''JWT_REFRESH_EXPIRES_IN'' ''30d'') t1
        \<lparr>jwt_sub = jwt_sub p, jwt_email = jwt_email p, jwt_jti = Some (x_uuid x (draws h))\<rparr>" "draws h < draws g1"
    using upd [OF refl r] r by blast
  obtain p2 g2 sec2 t2 where two: "run rest g1 = (Inr (Tokens p2), g2)"
    and p2: "tp_refreshToken p2 = x_jwt_sign x sec2 (config_get x ''JWT_REFRESH_EXPIRES_IN'' ''30d'') t2
        \<lparr>jwt_sub = jwt_sub p, jwt_email = jwt_email p, jwt_jti = Some (x_uuid x (draws g1))\<rparr>"
    using upd [OF one(2,3)] by blast
  have "x_uuid x (draws h) \<noteq> x_uuid x (draws g1)" using assms(3) p1(2) by (auto dest: injD)
  then have "tp_refreshToken p1 \<noteq> tp_refreshToken p2" unfolding p1(1) p2 by (intro jwt_fresh_sign [OF assms(2)]) simp
  then show ?thesis using pool_read_then_write [OF read read one(1) two] by auto
qed

theorem refresh_race_witness:
  "\<exists>p q h'. pool_steps (map (thread_of demo_ext) [Refresh demo_refresh, Refresh demo_refresh], demo_login_hub)
      ([Done (Inr (Tokens p)), Done (Inr (Tokens q))], h') \<and> tp_refreshToken p \<noteq> tp_refreshToken q"
  using demo_refresh_ok refresh_race [OF _ demo_jwt_fresh demo_inj] by blast

text \<open>C14. An approval can be both approved and rejected: when both decisions on a pending approval are
  handled at the same time, both can succeed; the daemon is then sent both, and the row keeps the one
  that was written last.\<close>

theorem decide_race:
  assumes "approval_with_task h i = Some (a, t, u)" and "ap_status a = PENDING" and "dad_approve yes" and "\<not> dad_approve no"
  shows "\<exists>p q h' b. pool_steps (map (thread_of x) [Decide u i yes, Decide u i no], h) ([Done (Inr (Row p)), Done (Inr (Row q))], h') \<and>
    ap_status p = APPROVED \<and> ap_status q = REJECTED \<and> find_row ap_id i (approvals h') = Some b \<and> ap_status b = REJECTED \<and>
    daemonOut h' = daemonOut h @ decision_out h t yes @ decision_out h t no"
proof -
  have ap: "find_row ap_id i (approvals h) = Some a" and "task_with_owner h (ap_taskId a) = Some (t, u)"
    using assms(1) by (simp_all add: approval_with_task_iff)
  then have tk: "find_row t_id (ap_taskId a) (tasks h) = Some t" and id: "t_id t = ap_taskId a"
    by (auto simp: task_with_owner_iff task_with_owner_id)
  define rest where "rest dto = bindT (bindT (atomic (approval_update i (\<lambda>now a. a\<lparr>ap_status := (if dad_approve dto then APPROVED else REJECTED),
                ap_decidedAt := Some now,
                ap_reason := (case dad_reason dto of None \<Rightarrow> ap_reason a | Some r \<Rightarrow> Some r)\<rparr>))) (\<lambda>updated.
            thenT (atomic (task_update (ap_taskId a)
                (\<lambda>t. t\<lparr>t_status := (if dad_approve dto then RUNNING else CANCELLED)\<rparr>)))
             (thenT (catchT (dispatchToServer_await (t_serverId t)
                  (APPROVAL_DECISION (ap_taskId a) (dad_approve dto) (dad_reason dto))) (\<lambda>_. retT ()))
               (atomic (thenE (notifyUser u (APPROVAL_RESOLVED updated)) (ret updated))))))
      (\<lambda>a. retT (Row a))" for dto :: decide_approval_dto
  have read: "thread_steps (thread_of x (Decide u i dto), h) (rest dto, h)" for dto
    unfolding thread_of.simps decide_await_def rest_def
    by (rule steps_first(1), simp add: getS_apply assms(1), simp add: assms(2))
  have upd: "\<exists>p g'. run (rest dto) g = (Inr (Row p), g') \<and> ap_status p = (if dad_approve dto then APPROVED else REJECTED) \<and>
      find_row ap_id i (approvals g') = Some p \<and> (\<exists>t'. find_row t_id (ap_taskId a) (tasks g') = Some t') \<and>
      daemonSockets g' = daemonSockets g \<and> daemonOut g' = daemonOut g @ decision_out g t dto"
    if "find_row ap_id i (approvals g) = Some b" "find_row t_id (ap_taskId a) (tasks g) = Some t'" for dto g b t'
    using that id by (auto simp: rest_def run_simps prog_simps find_row_update_row decision_out_def)
  obtain p g1 t1 where one: "run (rest yes) h = (Inr (Row p), g1)" "ap_status p = APPROVED" "find_row ap_id i (approvals g1) = Some p"
    "find_row t_id (ap_taskId a) (tasks g1) = Some t1" "daemonSockets g1 = daemonSockets h" "daemonOut g1 = daemonOut h @ decision_out h t yes"
    using upd [OF ap tk, of yes] assms(3) by auto
  obtain q g2 where two: "run (rest no) g1 = (Inr (Row q), g2)" "ap_status q = REJECTED" "find_row ap_id i (approvals g2) = Some q"
    "daemonOut g2 = daemonOut g1 @ decision_out g1 t no"
    using upd [OF one(3,4), of no] assms(4) by auto
  have "decision_out g1 t no = decision_out h t no" using one(5) by (simp add: decision_out_def)
  then show ?thesis using pool_read_then_write [OF read read one(1) two(1)] one two by auto
qed

theorem decide_race_witness:
  "\<exists>p q h'. pool_steps (map (thread_of demo_ext) [Decide ''i'' ''iiiiiiiii'' \<lparr>dad_approve = True, dad_reason = None\<rparr>,
      Decide ''i'' ''iiiiiiiii'' \<lparr>dad_approve = False, dad_reason = None\<rparr>], demo_approval_hub)
      ([Done (Inr (Row p)), Done (Inr (Row q))], h') \<and> ap_status p = APPROVED \<and> ap_status q = REJECTED"
  using decide_race [OF demo_approval_find, of "\<lparr>dad_approve = True, dad_reason = None\<rparr>"
      "\<lparr>dad_approve = False, dad_reason = None\<rparr>" demo_ext] by (fastforce simp: demo_pending_def)

text \<open>C11. A fast worker can be overtaken by its own dispatch: the daemon is sent the task before the hub
  marks it as running, so when the daemon's result is handled in between, the result is stored and the
  attempt closed, and then the dispatch sets the task to RUNNING and its attempt to active again. The
  finished task looks as if it ran, until the watchdog dispatches it a second time.\<close>

theorem fast_result_overwritten:
  assumes "wf_hub x h" and "inj (x_uuid x)" and "i \<noteq> []" and "task_with_owner h i = Some (t, u)" and "t_status t = QUEUED"
    and "running_attempt h i = None" and "fst (retryExcludedServerIds i h) = Inr ex"
    and "getDispatchCandidates x (t_workerType t) (t_serverId t) ex h = (Inr (c # others), h)" and "daemon_room h c \<noteq> []"
    and "rp_taskId p = i" and "\<not> isRetryableCapacityFailure p" and "rp_result p = Some v"
  shows "\<exists>q h' r a. pool_steps (map (thread_of x) [Dispatch i, TaskResult p], h) ([Done (Inr Nothing), Done q], h') \<and>
    find_row t_id i (tasks h') = Some r \<and> t_status r = RUNNING \<and> t_result r = Some v \<and>
    a \<in> set (attempts h') \<and> at_taskId a = i \<and> at_active a \<and> at_finishedAt a \<noteq> None"
proof -
  have find: "find_row t_id i (tasks h) = Some t" using assms(4) by (auto simp: task_with_owner_iff)
  let ?a = "new_attempt x h t c"
  define h1 where "h1 = h\<lparr>draws := Suc (draws h), attempts := attempts h @ [?a],
      daemonOut := daemonOut h @ map (\<lambda>s. (so_id s, TASK_SUBMIT i (t_input t))) (daemon_room h c)\<rparr>"
  obtain w where pre: "thread_steps (process_await x i, h) (w, h1)"
    and post: "\<And>g r g1 g2. task_connect i (wc_serverId c) (\<lambda>t. t\<lparr>t_status := RUNNING\<rparr>) g = (Inr r, g1) \<Longrightarrow>
      taskAttempt_update (x_uuid x (draws h)) (\<lambda>now a. a\<lparr>at_status := A_RUNNING, at_lastSeenAt := now\<rparr>) g1 = (Inr (), g2) \<Longrightarrow>
      run w g = (Inr (), g2)"
    using dispatch_until_sent [OF assms(3) find assms(5,7,8,9) h1_def] by blast
  define h2 where "h2 = snd (handleDaemonTaskResult x p h1)"
  have own: "task_with_owner h1 (rp_taskId p) = Some (t, u)" using assms(4,10) by (simp add: h1_def task_with_owner_def cong: option.case_cong)
  note final = result_final [OF own assms(11) refl, of x, folded h2_def]
  have at: "update_row at_id (at_id ?a) f (attempts h @ [?a]) = attempts h @ [f ?a]" for f
    using wf_fresh(3) [OF assms(1,2) order_refl] by (simp add: update_row_fresh new_attempt_def)
  have "running_attempt h1 i = Some ?a"
    using assms(6) find_row_SomeD [OF find] by (simp add: running_attempt_None) (simp add: running_attempt_def h1_def new_attempt_def at_active_def)
  then obtain b where b: "attempts h2 = attempts h @ [b]" "at_id b = at_id ?a" "at_taskId b = i" "at_finishedAt b \<noteq> None"
    using final(3) at find_row_SomeD [OF find] by (auto simp: assms(10) finished_def h1_def new_attempt_def)
  define b' where "b' = b\<lparr>at_status := A_RUNNING, at_lastSeenAt := clock h2\<rparr>"
  obtain r g1 where con: "task_connect i (wc_serverId c) (\<lambda>t. t\<lparr>t_status := RUNNING\<rparr>) h2 = (Inr r, g1)"
    and g1: "find_row t_id i (tasks g1) = Some r" "t_status r = RUNNING" "t_result r = Some v" "attempts g1 = attempts h2" "clock g1 = clock h2"
    using final(1,4) candidates_known(2) [OF assms(8)]
    by (auto simp: task_connect_def prog_simps h1_def assms(10,12) find_row_update_row)
  have att: "taskAttempt_update (x_uuid x (draws h)) (\<lambda>now a. a\<lparr>at_status := A_RUNNING, at_lastSeenAt := now\<rparr>) g1 =
      (Inr (), g1\<lparr>attempts := attempts h @ [b']\<rparr>)"
    using b g1(4,5) wf_fresh(3) [OF assms(1,2) order_refl]
    by (simp add: taskAttempt_update_def prog_simps update_row_fresh new_attempt_def b'_def)
  define q where "q = fst (handler_of x (TaskResult p) h1)"
  have "handler_of x (TaskResult p) h1 = (q, h2)" by (simp add: q_def h2_def thenE_apply ret_apply split: prod.split sum.split)
  then have res: "run (thread_of x (TaskResult p)) h1 = (q, h2)" by (simp only: run_thread_of)
  have "pool_steps ([thread_of x (Dispatch i), thread_of x (TaskResult p)], h) ([thenT w (retT Nothing), thread_of x (TaskResult p)], h1)"
    unfolding thread_of.simps thenT_def by (intro pool_first steps_bindT pre)
  also note pool_second [OF steps_run [OF res], of "thenT w (retT Nothing)"]
  also have "pool_steps ([thenT w (retT Nothing), Done q], h2) ([Done (Inr Nothing), Done q], g1\<lparr>attempts := attempts h @ [b']\<rparr>)"
    using post [OF con att] by (intro pool_first steps_run) (simp add: run_simps thenE_apply ret_apply)
  finally show ?thesis using g1 b
    by (intro exI [of _ q] exI [of _ "g1\<lparr>attempts := attempts h @ [b']\<rparr>"] exI [of _ r] exI [of _ b']) (simp add: b'_def at_active_def)
qed

theorem fast_result_overwritten_witness:
  "\<exists>q h' r. pool_steps (map (thread_of demo_ext) [Dispatch ''iiiiiii'',
      TaskResult \<lparr>rp_taskId = ''iiiiiii'', rp_status = RS_COMPLETED, rp_failure = None, rp_result = Some JNull\<rparr>],
      demo_queued_hub\<lparr>daemonSockets := [demo_daemon ''d1'' ''iii'']\<rparr>) ([Done (Inr Nothing), Done q], h') \<and>
    find_row t_id ''iiiiiii'' (tasks h') = Some r \<and> t_status r = RUNNING \<and> t_result r = Some JNull"
proof -
  let ?h = "demo_queued_hub\<lparr>daemonSockets := [demo_daemon ''d1'' ''iii'']\<rparr>"
  let ?p = "\<lparr>rp_taskId = ''iiiiiii'', rp_status = RS_COMPLETED, rp_failure = None, rp_result = Some JNull\<rparr>"
  have h: "task_with_owner ?h ''iiiiiii'' = Some (demo_task\<lparr>t_status := QUEUED\<rparr>, ''i'')" "running_attempt ?h ''iiiiiii'' = None"
    "daemon_room ?h demo_c1 \<noteq> []"
    by (simp_all add: task_with_owner_def running_attempt_None find_row_def daemon_room_def in_room_def demo_c1_def demo_queued_hub_def demo_task_defs)
  have "''iiiiiii'' \<noteq> []" "rp_taskId ?p = ''iiiiiii''" "\<not> isRetryableCapacityFailure ?p" "rp_result ?p = Some JNull"
    by (simp_all add: isRetryableCapacityFailure_def)
  from fast_result_overwritten [OF wf_demo_queued_hub demo_inj this(1) h(1) demo_queued_facts(2) h(2) demo_queued_facts(3,4) h(3) this(2-4)]
  show ?thesis by blast
qed



end
