(* ===== verification/Delivery.thy ===== *)
theory Delivery
  imports Hub_System
begin

text \<open>
  A delivered credential stays delivered: the rows of \<^verbatim>\<open>server-registrations.service.ts\<close> that no later
  event of the hub changes back. With it, a registration from end to end. The events do not overlap
  here; what two overlapping polls do is shown in \<open>Awaits\<close>.
\<close>

section \<open>Delivered requests\<close>

definition delivered :: "string \<Rightarrow> hub \<Rightarrow> bool" where
  "delivered i h \<longleftrightarrow> (\<exists>r. find_row rr_id i (regRequests h) = Some r \<and> rr_status r = R_CREDENTIAL_DELIVERED)"

named_theorems delivered_rules \<comment> \<open>programs that leave a delivered request delivered\<close>

text \<open>What does not touch the requests.\<close>

lemma delivered_same: "(\<And>h. regRequests (snd (m h)) = regRequests h) \<Longrightarrow> keeps (delivered i) m"
  by (simp add: keeps_def delivered_def)

lemma delivered_ops [delivered_rules]:
  "keeps (delivered i) draw" "keeps (delivered i) (newId x)" "keeps (delivered i) (user_create x a b)"
  "keeps (delivered i) (refreshToken_create x a b ex)" "keeps (delivered i) (refreshToken_revoke j)"
  "keeps (delivered i) (refreshToken_revokeMany P)" "keeps (delivered i) (profile_create x s d)"
  "keeps (delivered i) (pushToken_upsert x u t pf)" "keeps (delivered i) (randomBytes x n)" "keeps (delivered i) (generateApiKey x)"
  "keeps (delivered i) (generateSecret x)" "keeps (delivered i) (generateVerificationCode x)"
  "keeps (delivered i) (encryptSecret x k s)" "keeps (delivered i) (encryptForRequestSecret x k s)" "keeps (delivered i) (queue_add jb)"
  "keeps (delivered i) (dispatchToServer sid dm)" "keeps (delivered i) (notifyUser u am)" "keeps (delivered i) (sendPush x u t s)"
  "keeps (delivered i) (ntf_onModuleInit x)" "keeps (delivered i) (app_connect x s otok)" "keeps (delivered i) (app_disconnect s)"
  by (rule delivered_same; simp add: user_create_def refreshToken_create_def refreshToken_revoke_def refreshToken_revokeMany_def
      profile_create_def pushToken_upsert_def encryptSecret_def encryptForRequestSecret_def sendPush_def ntf_onModuleInit_def
      app_connect_def app_disconnect_def Let_def prog_simps split: option.splits prod.splits sum.splits)+

lemma delivered_work [delivered_rules]:
  "keeps (delivered i) (server_insert x u n os ip hash)" "keeps (delivered i) (server_update j sf)"
  "keeps (delivered i) (task_create x s wt inp)" "keeps (delivered i) (task_update j tf)" "keeps (delivered i) (task_connect j s tf)"
  "keeps (delivered i) (taskAttempt_create x j s)" "keeps (delivered i) (taskAttempt_update j af)"
  "keeps (delivered i) (approval_create x j r)" "keeps (delivered i) (approval_update j pf)"
  by (rule delivered_same; simp add: server_insert_def task_create_def task_connect_def taskAttempt_create_def approval_create_def
      Let_def prog_simps split: option.splits prod.splits sum.splits)+

text \<open>What touches the requests, but not a delivered one.\<close>

lemma delivered_update: "j \<noteq> i \<Longrightarrow> (\<And>r. rr_id (f r) = rr_id r) \<Longrightarrow> keeps (delivered i) (regRequest_update j f)"
  by (auto simp: keeps_def delivered_def prog_simps find_row_update_row split: option.splits)

lemma delivered_connect: "j \<noteq> i \<Longrightarrow> (\<And>r. rr_id (f r) = rr_id r) \<Longrightarrow> keeps (delivered i) (regRequest_connect j s f)"
  unfolding regRequest_connect_def by (intro keeps_rules delivered_update) simp_all

lemma find_row_map: "(\<And>r. key (g r) = key r) \<Longrightarrow> find_row key k (map g t) = map_option g (find_row key k t)"
  by (induction t) (simp_all add: find_row_def)

lemma delivered_map:
  assumes "delivered i h" and "regRequests h' = map g (regRequests h)" and "\<And>r. rr_id (g r) = rr_id r"
    and "\<And>r. rr_status r = R_CREDENTIAL_DELIVERED \<Longrightarrow> rr_status (g r) = R_CREDENTIAL_DELIVERED"
  shows "delivered i h'"
  using assms by (auto simp: delivered_def find_row_map)

lemma delivered_rest [delivered_rules]:
  "keeps (delivered i) (regRequest_create x a b os c e f g ex)" "keeps (delivered i) expirePendingRequests" "keeps (delivered i) (server_delete j)"
proof -
  show "keeps (delivered i) (regRequest_create x a b os c e f g ex)"
    by (auto simp: keeps_def delivered_def regRequest_create_def Let_def prog_simps insert_row_def find_row_def find_append)
  show "keeps (delivered i) expirePendingRequests"
  proof (rule keepsI)
    fix h assume "delivered i h"
    then show "delivered i (snd (expirePendingRequests h))"
      by (rule delivered_map [where g = "\<lambda>r. if rr_status r = R_PENDING \<and> rr_expiresAt r < clock h
            then r\<lparr>rr_status := R_EXPIRED, rr_updatedAt := clock h\<rparr> else r"])
        (simp_all add: expirePendingRequests_def regRequest_updateMany_def prog_simps)
  qed
  show "keeps (delivered i) (server_delete j)"
  proof (rule keepsI)
    fix h assume "delivered i h"
    then show "delivered i (snd (server_delete j h))"
      by (rule delivered_map [where g = "\<lambda>r. if j \<in> s_id ` set (servers h) \<and> rr_serverId r = Some j then r\<lparr>rr_serverId := None\<rparr> else r"])
        (simp_all add: server_delete_def Let_def prog_simps)
  qed
qed

lemma delivered_transaction [delivered_rules]: "keeps (delivered i) m \<Longrightarrow> keeps (delivered i) (transaction m)"
  by (auto simp: keeps_def transaction_def delivered_def split: prod.splits sum.splits)

lemma delivered_server_create [delivered_rules]: "keeps (delivered i) (server_create x u n os ip hash ps)"
  unfolding server_create_def by (intro delivered_rules keeps_rules)

lemma delivered_expireIfNeeded: "rr_id r \<noteq> i \<Longrightarrow> keeps (delivered i) (expireIfNeeded r)"
  unfolding expireIfNeeded_def by (intro keeps_rules delivered_update) simp_all

lemma delivered_approve: "rr_id r \<noteq> i \<Longrightarrow> keeps (delivered i) (reg_approve x u r)"
  unfolding reg_approve_def by (intro delivered_rules keeps_rules delivered_connect) simp_all

text \<open>A handler that begins by reading a request: either it is another one or it is found delivered.\<close>

lemma delivered_found:
  assumes "keeps (delivered i) (k None)"
    and "\<And>r. rr_id r \<noteq> i \<Longrightarrow> j \<noteq> i \<Longrightarrow> keeps (delivered i) (k (Some r))"
    and "\<And>r h. rr_status r = R_CREDENTIAL_DELIVERED \<Longrightarrow> snd (k (Some r) h) = h"
  shows "keeps (delivered i) (bindE (getS (\<lambda>h. find_row rr_id j (regRequests h))) k)"
proof (rule keepsI)
  fix h assume d: "delivered i h"
  show "delivered i (snd (bindE (getS (\<lambda>h. find_row rr_id j (regRequests h))) k h))"
  proof (cases "find_row rr_id j (regRequests h)")
    case None
    then show ?thesis using keepsD [OF assms(1) d] by (simp add: bindE_apply getS_apply)
  next
    case (Some r)
    then have "rr_id r = j" using find_row_SomeD by metis
    then have "rr_id r \<noteq> i \<and> j \<noteq> i \<or> rr_status r = R_CREDENTIAL_DELIVERED" using d Some by (auto simp: delivered_def)
    then show ?thesis using keepsD [OF assms(2) d] assms(3) d Some by (auto simp: bindE_apply getS_apply)
  qed
qed

lemma delivered_decide [delivered_rules]: "keeps (delivered i) (reg_decide x u j b)"
  unfolding reg_decide_def
  by (rule delivered_found)
    (simp_all add: keeps_rules delivered_expireIfNeeded delivered_update delivered_approve expireIfNeeded_def prog_simps)

lemma delivered_getResult [delivered_rules]: "keeps (delivered i) (reg_getResult x j sec)"
proof -
  have "keeps (delivered i) (bindE (getS (\<lambda>h. find_row rr_id j (regRequests h))) (\<lambda>v. case v of
         None \<Rightarrow> throw (NotFoundException ko_request_not_found)
       | Some request \<Rightarrow> if rr_requestSecretHash request \<noteq> hashApiKey x sec then throw (UnauthorizedException ko_secret_wrong)
           else bindE (expireIfNeeded request) k))"
    if "\<And>r. j \<noteq> i \<Longrightarrow> keeps (delivered i) (k r)" "\<And>r h. rr_status r = R_CREDENTIAL_DELIVERED \<Longrightarrow> snd (k r h) = h" for k
    by (rule delivered_found) (use that in \<open>auto intro!: keeps_rules delivered_update simp: expireIfNeeded_def prog_simps\<close>)
  note body = this
  show ?thesis unfolding reg_getResult_def
    by (intro keeps_rules body) ((intro keeps_rules delivered_update; simp)?, simp_all add: ret_apply)
qed

section \<open>Every handler\<close>

lemma delivered_sessions [delivered_rules]:
  "keeps (delivered i) (issueTokenPair x u e)" "keeps (delivered i) (verifyRefreshToken x t)" "keeps (delivered i) (seed x)"
  "keeps (delivered i) (reg_create x d)" "keeps (delivered i) (findPendingForOwner u)" "keeps (delivered i) (registerPushToken x u p)"
  unfolding issueTokenPair_def verifyRefreshToken_def seed_def Let_def reg_create_def findPendingForOwner_def registerPushToken_def
  by (intro delivered_rules keeps_rules)+

lemma delivered_servers [delivered_rules]:
  "keeps (delivered i) (srv_create x u d)" "keeps (delivered i) (srv_remove u j)" "keeps (delivered i) (markHeartbeat j)"
  "keeps (delivered i) (markOffline j)" "keeps (delivered i) (onHeartbeat s)"
  unfolding srv_create_def srv_remove_def markHeartbeat_def markOffline_def onHeartbeat_def by (intro delivered_rules keeps_rules)+

lemma delivered_gateway [delivered_rules]: "keeps (delivered i) (daemon_connect x s k)" "keeps (delivered i) (daemon_disconnect s)"
  unfolding daemon_connect_def daemon_disconnect_def findByApiKey_def
  by (intro delivered_rules keeps_rules delivered_same; simp add: modS_apply)+

lemma delivered_tasks [delivered_rules]:
  "keeps (delivered i) (update_and_notify j f)" "keeps (delivered i) (touchRunningAttempt j)" "keeps (delivered i) (finishRunningAttempt j st r)"
  unfolding update_and_notify_def touchRunningAttempt_def finishRunningAttempt_def by (intro delivered_rules keeps_rules)+

lemma delivered_task_handlers [delivered_rules]:
  "keeps (delivered i) (submit x u d)" "keeps (delivered i) (cancel u j)" "keeps (delivered i) (decide u j dto)"
  "keeps (delivered i) (daemon_message x m)"
proof -
  show "keeps (delivered i) (submit x u d)" "keeps (delivered i) (decide u j dto)"
    unfolding submit_def ensureWatchdogScheduled_def decide_def by (intro delivered_rules keeps_rules)+
  show "keeps (delivered i) (cancel u j)" unfolding cancel_def updateStatus_def registry_get_bind
    by (intro codex.cancel_keeps delivered_rules keeps_rules) (simp add: delivered_def)
  show "keeps (delivered i) (daemon_message x m)"
    by (cases m) (auto simp: handleDaemonTaskStatus_def handleDaemonTaskLog_def handleDaemonTaskResult_def
        handleRetryableCapacityFailure_def handleDaemonApprovalRequest_def updateStatus_def updateTaskAndNotify_def
        requeueTask_def retryExcludedServerIds_def Let_def intro!: delivered_rules keeps_rules)
qed

lemma delivered_process [delivered_rules]: "keeps (delivered i) (process x j)"
proof -
  have one: "keeps (delivered i) (dispatch_one x t c)" for t c
    unfolding dispatch_one_def dispatchToCandidate_def registry_get_bind
    by (intro codex.submit_keeps delivered_rules keeps_rules) (simp add: delivered_def)
  have "keeps (delivered i) (dispatch_loop x t cs fs)" for t cs fs
    by (induction cs arbitrary: fs) (auto intro!: keeps_rules one)
  moreover have "keeps (delivered i) (scan_loop x sb l n)" for sb l n
    by (induction x sb l n rule: scan_loop.induct) (auto simp: time_out_task_def requeueTask_def intro!: delivered_rules keeps_rules)
  ultimately show ?thesis
    unfolding process_def scanStuckTasksOnce_def dispatch_task_def tp_retryExcludedServerIds_eq retryExcludedServerIds_def Let_def
    by (intro delivered_rules keeps_rules)
qed

lemma delivered_http [delivered_rules]: "keeps (delivered i) (handle_http x v bearer req)"
proof (cases req)
  case (AuthReq r)
  then show ?thesis by (cases r) (auto simp: login_def refresh_def logout_def Let_def intro!: delivered_rules keeps_rules)
next
  case (ServersReq r)
  then show ?thesis by (cases r) (auto simp: guarded_def intro!: delivered_rules keeps_rules)
next
  case (TasksReq r)
  then show ?thesis by (cases r) (auto simp: guarded_def intro!: delivered_rules keeps_rules)
next
  case (ApprovalsReq r)
  then show ?thesis by (cases r) (auto simp: guarded_def intro!: delivered_rules keeps_rules)
next
  case (RegPublicReq r)
  then show ?thesis by (cases r) (auto intro!: delivered_rules keeps_rules)
next
  case (RegOwnerReq r)
  then show ?thesis by (cases r) (auto simp: guarded_def intro!: delivered_rules keeps_rules)
next
  case (PushTokenReq d)
  then show ?thesis by (auto simp: guarded_def notifications_controller_def intro!: delivered_rules keeps_rules)
qed

lemma delivered_events: "delivered i h \<Longrightarrow> delivered i (run_events x v es h)"
proof (rule run_events_keeps)
  show "keeps (delivered i) (handle_event x v e)" for e
  proof (cases e)
    case (Tick d)
    then show ?thesis by (auto intro!: delivered_same simp: modS_apply)
  qed (auto simp: tsk_onModuleInit_def ensureWatchdogScheduled_def intro!: delivered_rules keeps_rules)
qed

lemma delivered_result: "delivered i h \<Longrightarrow> reg_getResult x i sec h = (Inr d, h') \<Longrightarrow> dr_status d = R_CREDENTIAL_DELIVERED \<and> dr_apiKey d = None"
  by (auto simp: delivered_def reg_getResult_def expireIfNeeded_def toDaemonResult_def prog_simps split: if_splits)

section \<open>Properties\<close>

text \<open>C16. Registration from end to end, with handlers that do not overlap: a machine's request is stored; the
  owner approves it before the deadline; the machine then collects, with its secret and at any later
  time, an API key that authenticates as the owner's new server. Whatever events the hub handles after
  that, one after the other, no poll for the request, with whatever secret, returns a key again.\<close>

theorem registration_delivers_key_once:
  assumes "wf_hub x h" and "inj (x_uuid x)" and "gcm_ok x" and "lengths_ok x"
    and "find_row u_email (crd_ownerEmail dto) (users h) = Some owner"
    and "t1 \<le> clock h + REQUEST_TTL_MS"
    and "hashApiKey x (toHex (x_random x (draws h + 3) 32)) \<notin> s_apiKeyHash ` set (servers h)"
  shows "\<exists>p secret h1 q h2 d h3 k s. reg_create x dto h = (Inr (p, secret), h1) \<and>
    reg_decide x (u_id owner) (pr_id p) True (h1\<lparr>clock := t1\<rparr>) = (Inr q, h2) \<and> pr_status q = R_APPROVED \<and>
    reg_getResult x (pr_id p) secret (h2\<lparr>clock := t2\<rparr>) = (Inr d, h3) \<and> dr_status d = R_APPROVED \<and> dr_apiKey d = Some k \<and>
    findByApiKey x k h3 = (Inr (Some s), h3) \<and> dr_serverId d = Some (s_id s) \<and> s_ownerId s = u_id owner \<and>
    (\<exists>d'. reg_getResult x (pr_id p) secret (h3\<lparr>clock := t3\<rparr>) = (Inr d', h3\<lparr>clock := t3\<rparr>) \<and>
       dr_status d' = R_CREDENTIAL_DELIVERED \<and> dr_apiKey d' = None) \<and>
    (\<forall>es sec d' h'. reg_getResult x (pr_id p) sec (run_events x v es h3) = (Inr d', h') \<longrightarrow> dr_apiKey d' = None)"
proof -
  let ?sec = "toHex (x_random x (draws h) 32)" and ?k = "toHex (x_random x (draws h + 3) 32)"
  obtain r h1 r' h2 s where c: "reg_create x dto h = (Inr (reg_toPublic r, ?sec), h1)" and sec: "?sec \<noteq> []"
    and dec: "reg_decide x (u_id owner) (rr_id r) True (h1\<lparr>clock := t1\<rparr>) = (Inr (reg_toPublic r'), h2)" "rr_status r' = R_APPROVED"
    and look: "\<forall>h. servers h = servers h2 \<longrightarrow> findByApiKey x ?k h = (Inr (Some s), h)" and own: "s_ownerId s = u_id owner"
    and get: "\<forall>t2. \<exists>d h3. reg_getResult x (rr_id r) ?sec (h2\<lparr>clock := t2\<rparr>) = (Inr d, h3) \<and> servers h3 = servers h2 \<and>
       dr_status d = R_APPROVED \<and> dr_serverId d = Some (s_id s) \<and> dr_apiKey d = Some ?k \<and>
       (\<exists>r''. find_row rr_id (rr_id r) (regRequests h3) = Some r'' \<and> rr_status r'' = R_CREDENTIAL_DELIVERED \<and>
          rr_requestSecretHash r'' = hashApiKey x ?sec)"
    using registration_run [OF assms refl refl] by (elim exE conjE) (rule that; assumption)
  from get obtain d h3 r'' where d: "reg_getResult x (rr_id r) ?sec (h2\<lparr>clock := t2\<rparr>) = (Inr d, h3)" "servers h3 = servers h2"
      "dr_status d = R_APPROVED" "dr_serverId d = Some (s_id s)" "dr_apiKey d = Some ?k"
    and r'': "find_row rr_id (rr_id r) (regRequests h3) = Some r''" "rr_status r'' = R_CREDENTIAL_DELIVERED"
      "rr_requestSecretHash r'' = hashApiKey x ?sec" by blast
  have again: "reg_getResult x (rr_id r) ?sec (h3\<lparr>clock := t3\<rparr>) = (Inr (toDaemonResult r''), h3\<lparr>clock := t3\<rparr>)"
    by (rule reg_getResult_delivered) (use r'' sec in simp_all)
  have "delivered (rr_id r) h3" using r'' by (simp add: delivered_def)
  then have "\<forall>es sec d' h'. reg_getResult x (rr_id r) sec (run_events x v es h3) = (Inr d', h') \<longrightarrow> dr_apiKey d' = None"
    using delivered_events delivered_result by blast
  with c dec d look own r''(2) again show ?thesis
    by (intro exI [of _ "reg_toPublic r"] exI [of _ ?sec] exI [of _ h1] exI [of _ "reg_toPublic r'"] exI [of _ h2] exI [of _ d]
        exI [of _ h3] exI [of _ ?k] exI [of _ s]) (simp add: reg_toPublic_def toDaemonResult_def)
qed

theorem registration_delivers_key_once_witness:
  "\<exists>p secret h1 q h2 d h3 k. reg_create demo_ext demo_reg_dto demo_user_hub = (Inr (p, secret), h1) \<and>
    reg_decide demo_ext ''i'' (pr_id p) True (h1\<lparr>clock := 5000\<rparr>) = (Inr q, h2) \<and>
    reg_getResult demo_ext (pr_id p) secret (h2\<lparr>clock := 6000\<rparr>) = (Inr d, h3) \<and> dr_apiKey d = Some k"
proof -
  obtain owner where o: "find_row u_email (crd_ownerEmail demo_reg_dto) (users demo_user_hub) = Some owner" "u_id owner = ''i''"
    by (simp add: find_row_def demo_reg_dto_def demo_user_hub_def)
  have "5000 \<le> clock demo_user_hub + REQUEST_TTL_MS"
    "hashApiKey demo_ext (toHex (x_random demo_ext (draws demo_user_hub + 3) 32)) \<notin> s_apiKeyHash ` set (servers demo_user_hub)"
    by (simp_all add: demo_user_hub_def demo_hub_def REQUEST_TTL_MS_def)
  from registration_delivers_key_once [OF wf_demo_user_hub demo_inj demo_gcm_ok demo_lengths_ok o(1) this, of 6000 0 demo_validators]
  show ?thesis unfolding o(2) by (elim exE conjE) (intro exI conjI; assumption)
qed

end
