(* ===== verification/Mobile_Format.thy ===== *)
theory Mobile_Format
  imports Messages Js_Json
begin

text \<open>
  What the mobile app shows: the formatting functions at the top of \<^verbatim>\<open>mobile-app/App.tsx\<close>. The
  platform's reading of a date and its local formatting are parameters.
\<close>

section \<open>Times\<close>

record dates =
  dt_getTime :: "string \<Rightarrow> int option"
  dt_toLocaleString :: "string \<Rightarrow> string"

definition blank :: "string option \<Rightarrow> bool" where
  "blank v \<longleftrightarrow> v = None \<or> v = Some []"

definition formatDate :: "dates \<Rightarrow> string option \<Rightarrow> string" where
  "formatDate dt v = (if blank v then ko_no_record else dt_toLocaleString dt (the v))"

text \<open>An unreadable date has no time; every comparison with it is false.\<close>

definition formatRelativeTime :: "dates \<Rightarrow> int \<Rightarrow> string option \<Rightarrow> string" where
  "formatRelativeTime dt clk v =
    (if blank v then ko_no_record
     else case dt_getTime dt (the v) of
       None \<Rightarrow> formatDate dt v
     | Some t \<Rightarrow>
         let diffMinutes = (clk - t) div 60000 in
         if diffMinutes < 1 then ko_just_now
         else if diffMinutes < 60 then show_int diffMinutes @ ko_minutes_ago
         else let diffHours = diffMinutes div 60 in
           if diffHours < 24 then show_int diffHours @ ko_hours_ago
           else formatDate dt v)"

section \<open>Inputs and results\<close>

definition summarize :: "json option \<Rightarrow> string" where
  "summarize v =
    (if nullish v then []
     else case the v of JStr s \<Rightarrow> s | j \<Rightarrow> stringify j)"

definition extractPrompt :: "json option \<Rightarrow> string" where
  "extractPrompt input =
    (case input of
       Some (JObj kvs) \<Rightarrow> if ''prompt'' \<in> fst ` set kvs then summarize (map_of kvs ''prompt'') else summarize input
     | _ \<Rightarrow> summarize input)"

definition backtick3 :: string where
  "backtick3 = replicate 3 (char_of (96 :: nat))"

definition fence_char :: "char \<Rightarrow> bool" where
  "fence_char c \<longleftrightarrow> is_word c \<or> c = CHR ''-''"

definition readableText :: "string \<Rightarrow> string" where
  "readableText v =
    (let bs = [CHR 0x5C];
         a = rx_replace (lit (bs @ ''r'' @ bs @ ''n'')) [char_of (10 :: nat)] v;
         b = rx_replace (lit (bs @ ''n'')) [char_of (10 :: nat)] a;
         c = rx_replace (lit (bs @ ''t'')) [char_of (9 :: nat)] b;
         d = rx_replace (seqs [LineStart, lit backtick3, Many fence_char, Many ws]) [] c;
         e = rx_replace (seqs [lit backtick3, LineEnd]) [] d
     in trim e)"

text \<open>\<open>a ?? b\<close>, for properties.\<close>

definition coalesce :: "json option list \<Rightarrow> json option" where
  "coalesce vs = (case List.find (\<lambda>v. \<not> nullish v) vs of None \<Rightarrow> None | Some v \<Rightarrow> v)"

definition extractResult :: "json option \<Rightarrow> string" where
  "extractResult result =
    (if \<not> truthy result then ko_no_result
     else case the result of
       JStr s \<Rightarrow> readableText s
     | JObj kvs \<Rightarrow>
         (case coalesce [map_of kvs ''lastChunk'', map_of kvs ''output'', map_of kvs ''text'', map_of kvs ''result''] of
            Some (JStr s) \<Rightarrow> readableText s
          | _ \<Rightarrow> readableText (summarize result))
     | _ \<Rightarrow> readableText (summarize result))"

section \<open>Identifiers and states\<close>

definition compactId :: "string option \<Rightarrow> string" where
  "compactId v =
    (if blank v then ''n/a''
     else if length (the v) \<le> 14 then the v
     else slice_to 8 (the v) @ ''...'' @ slice_last 4 (the v))"

datatype tone = Success | Info | Warning | Danger | Neutral

definition normalizeStatus :: "string \<Rightarrow> string \<times> tone" where
  "normalizeStatus v =
    (let status = toUpperCase v; has = str_includes status in
     if has ''CONNECTED'' then (''Connected'', Success)
     else if has ''ONLINE'' then (''Online'', Success)
     else if has ''RUNNING'' \<or> has ''QUEUED'' then (if has ''QUEUED'' then ko_waiting else ko_running, Info)
     else if has ''AWAITING_APPROVAL'' \<or> has ''PENDING'' then (ko_awaiting, Warning)
     else if has ''COMPLETED'' \<or> has ''APPROVED'' then (if has ''APPROVED'' then ko_approved else ko_done, Success)
     else if has ''FAILED'' \<or> has ''ERROR'' then (ko_failure, Danger)
     else if has ''OFFLINE'' \<or> has ''DISCONNECTED'' \<or> has ''CANCELLED'' \<or> has ''REJECTED''
     then (if has ''REJECTED'' then ko_rejected else if has ''CANCELLED'' then ko_cancelled else ''Offline'', Neutral)
     else (v, Neutral))"

fun replace_first :: "string \<Rightarrow> string \<Rightarrow> string \<Rightarrow> string" where
  "replace_first sub t [] = (if sub = [] then t else [])"
| "replace_first sub t (c # s) = (if startsWith (c # s) sub then t @ drop (length sub) (c # s) else c # replace_first sub t s)"

definition pushSummary :: "string \<Rightarrow> string \<times> string \<times> tone" where
  "pushSummary pushState =
    (if startsWith pushState ''registered'' then (ko_push_on, replace_first ''registered '' ko_push_token pushState, Success)
     else if str_includes pushState ''requesting'' then (ko_push_registering, ko_push_checking, Info)
     else if str_includes pushState ''unavailable'' then (ko_push_unavailable, ko_push_check_config, Warning)
     else (ko_push_off, ko_push_hint, Neutral))"

section \<open>Properties\<close>

text \<open>Every state of a task, an approval and a server is shown with its own label and the right
  colour, in either case; but a socket state that says DISCONNECTED reads as connected, because that
  word contains CONNECTED, which is looked for first.\<close>

theorem normalizeStatus_states:
  "map normalizeStatus [''QUEUED'', ''RUNNING'', ''AWAITING_APPROVAL'', ''COMPLETED'', ''FAILED'', ''CANCELLED'',
      ''PENDING'', ''APPROVED'', ''REJECTED'', ''ONLINE'', ''OFFLINE'', ''offline'', ''connected''] =
    [(ko_waiting, Info), (ko_running, Info), (ko_awaiting, Warning), (ko_done, Success), (ko_failure, Danger), (ko_cancelled, Neutral),
     (ko_awaiting, Warning), (ko_approved, Success), (ko_rejected, Neutral), (''Online'', Success), (''Offline'', Neutral),
     (''Offline'', Neutral), (''Connected'', Success)] \<and>
   (str_includes (toUpperCase s) ''DISCONNECTED'' \<longrightarrow> normalizeStatus s = (''Connected'', Success))"
proof
  show "map normalizeStatus [''QUEUED'', ''RUNNING'', ''AWAITING_APPROVAL'', ''COMPLETED'', ''FAILED'', ''CANCELLED'',
      ''PENDING'', ''APPROVED'', ''REJECTED'', ''ONLINE'', ''OFFLINE'', ''offline'', ''connected''] =
    [(ko_waiting, Info), (ko_running, Info), (ko_awaiting, Warning), (ko_done, Success), (ko_failure, Danger), (ko_cancelled, Neutral),
     (ko_awaiting, Warning), (ko_approved, Success), (ko_rejected, Neutral), (''Online'', Success), (''Offline'', Neutral),
     (''Offline'', Neutral), (''Connected'', Success)]"
    by code_simp
  have "str_includes (toUpperCase s) ''CONNECTED''" if "str_includes (toUpperCase s) ''DISCONNECTED''"
  proof -
    from that obtain a b where "toUpperCase s = a @ ''DISCONNECTED'' @ b" by (auto simp: includes_iff)
    then have "toUpperCase s = (a @ ''DIS'') @ ''CONNECTED'' @ b" by simp
    then show ?thesis unfolding includes_iff by blast
  qed
  then show "str_includes (toUpperCase s) ''DISCONNECTED'' \<longrightarrow> normalizeStatus s = (''Connected'', Success)"
    by (simp add: normalizeStatus_def Let_def)
qed

theorem normalizeStatus_states_witness: "normalizeStatus ''disconnected'' = (''Connected'', Success)"
proof -
  have "str_includes (toUpperCase ''disconnected'') ''DISCONNECTED''" by code_simp
  then show ?thesis using normalizeStatus_states [of "''disconnected''"] by blast
qed

text \<open>A shortened identifier never has more than fifteen characters and keeps the first eight and the
  last four.\<close>

lemma compactId_length: "length (compactId v) \<le> 15"
  by (auto simp: compactId_def slice_to_def length_slice_last blank_def)

end
