(* ===== verification/Mobile_App.thy ===== *)
theory Mobile_App
  imports Mobile_Format Workers
begin

text \<open>
  The mobile app's session and data: the state hooks and handlers of \<open>CodeCallerApp\<close> in
  \<^verbatim>\<open>mobile-app/App.tsx\<close>. A handler is a program over the state; the hub is a parameter that answers the
  \<open>n\<close>th call. As in the source, a handler sees the session and the address of its render (its
  closure), also after it has changed them. A handler runs to its end before the next event.
\<close>

section \<open>State\<close>

definition API_BASE_URLS :: "string list" where
  "API_BASE_URLS = [''http://172.30.1.83:3000'', ''http://100.92.64.11:3000'']"

definition PRIMARY_API_BASE_URL :: string where
  "PRIMARY_API_BASE_URL = hd API_BASE_URLS"

record auth_tokens =
  tk_accessToken :: string
  tk_refreshToken :: string

datatype Tab = ServersTab | NewTaskTab | TasksTab | ApprovalsTab

record http_call =
  hc_method :: string
  hc_path :: string
  hc_bearer :: "string option"
  hc_body :: "json option"

record app =
  ui_tokens :: "auth_tokens option"
  ui_email :: string
  ui_password :: string
  ui_booting :: bool
  ui_busy :: bool
  ui_error :: "string option"
  ui_tab :: Tab
  ui_servers :: "json list"
  ui_regs :: "json list"
  ui_tasks :: "json list"
  ui_approvals :: "json list"
  ui_selectedServerId :: "string option"
  ui_selectedTaskId :: "string option"
  ui_workerType :: WorkerType
  ui_prompt :: string
  ui_socketState :: string
  ui_pushState :: string
  ui_activeApiBaseUrl :: string
  ui_socket :: "(string \<times> string) option"
  ui_stored :: "string option"
  ui_calls :: "(string \<times> http_call) list"

text \<open>The first render; \<open>stored\<close> is what the device's storage holds.\<close>

definition initial_app :: "string option \<Rightarrow> app" where
  "initial_app stored = \<lparr>ui_tokens = None, ui_email = ''admin@example.com'', ui_password = [], ui_booting = True, ui_busy = False,
     ui_error = None, ui_tab = ServersTab, ui_servers = [], ui_regs = [], ui_tasks = [], ui_approvals = [],
     ui_selectedServerId = None, ui_selectedTaskId = None, ui_workerType = CODEX, ui_prompt = [], ui_socketState = ''offline'',
     ui_pushState = ''not registered'', ui_activeApiBaseUrl = PRIMARY_API_BASE_URL, ui_socket = None, ui_stored = stored, ui_calls = []\<rparr>"

type_synonym 'a app_prog = "(app, string, 'a) prog"
type_synonym net = "nat \<Rightarrow> string \<Rightarrow> http_call \<Rightarrow> string + http_resp"

record closure =
  cl_tokens :: "auth_tokens option"
  cl_base :: string

definition closure_of :: "app \<Rightarrow> closure" where
  "closure_of s = \<lparr>cl_tokens = ui_tokens s, cl_base = ui_activeApiBaseUrl s\<rparr>"

section \<open>Calling the hub\<close>

definition parseJson :: "http_resp \<Rightarrow> json app_prog" where
  "parseJson response = (case hr_body response of None \<Rightarrow> ret JNull | Some v \<Rightarrow> liftE v)"

text \<open>The session and the token on the device. The device's storage is taken to accept what is written to it,
  and a refresh token that the hub did not send is stored as the text \<open>undefined\<close>.\<close>

definition saveTokens :: "auth_tokens option \<Rightarrow> unit app_prog" where
  "saveTokens nextTokens =
    modS (\<lambda>s. s\<lparr>ui_tokens := nextTokens, ui_stored := map_option tk_refreshToken nextTokens\<rparr>)"

text \<open>The addresses in order, the current one first; the first that answers becomes the current one.\<close>

definition orderedUrls :: "string \<Rightarrow> string list" where
  "orderedUrls active = active # filter (\<lambda>url. url \<noteq> active) API_BASE_URLS"

fun fetch_loop :: "net \<Rightarrow> string \<Rightarrow> http_call \<Rightarrow> string list \<Rightarrow> string option \<Rightarrow> http_resp app_prog" where
  "fetch_loop net active call [] lastError =
    throw (case lastError of Some e \<Rightarrow> e | None \<Rightarrow> hc_path call @ '' failed: Hub API is unreachable'')"
| "fetch_loop net active call (baseUrl # urls) lastError =
    bindE (getS (\<lambda>s. net (length (ui_calls s)) baseUrl call)) (\<lambda>answer.
    thenE (modS (\<lambda>s. s\<lparr>ui_calls := ui_calls s @ [(baseUrl, call)]\<rparr>))
     (case answer of
        Inr response \<Rightarrow>
          thenE (modS (\<lambda>s. if baseUrl \<noteq> active then s\<lparr>ui_activeApiBaseUrl := baseUrl\<rparr> else s)) (ret response)
      | Inl err \<Rightarrow> fetch_loop net active call urls (Some err)))"

definition fetchHub :: "net \<Rightarrow> closure \<Rightarrow> http_call \<Rightarrow> http_resp app_prog" where
  "fetchHub net cl call = fetch_loop net (cl_base cl) call (orderedUrls (cl_base cl)) None"

definition post :: "string \<Rightarrow> json \<Rightarrow> http_call" where
  "post path body = \<lparr>hc_method = ''POST'', hc_path = path, hc_bearer = None, hc_body = Some body\<rparr>"

definition get :: "string \<Rightarrow> http_call" where
  "get path = \<lparr>hc_method = ''GET'', hc_path = path, hc_bearer = None, hc_body = None\<rparr>"

text \<open>The body of a token response, and what is undefined in a template literal.\<close>

definition field_text :: "json option \<Rightarrow> string" where
  "field_text v = (case v of None \<Rightarrow> ''undefined'' | Some j \<Rightarrow> js_String j)"

definition as_tokens :: "json \<Rightarrow> auth_tokens option" where
  "as_tokens j =
    (if truthy_json j
     then Some \<lparr>tk_accessToken = field_text (getProp ''accessToken'' j), tk_refreshToken = field_text (getProp ''refreshToken'' j)\<rparr>
     else None)"

definition refreshSession :: "net \<Rightarrow> closure \<Rightarrow> string \<Rightarrow> auth_tokens option app_prog" where
  "refreshSession net cl refreshToken =
    bindE (fetchHub net cl (post ''/auth/refresh'' (JObj [(''refreshToken'', JStr refreshToken)]))) (\<lambda>response.
      if \<not> hr_ok response then throw (''refresh failed ('' @ show_int (hr_status response) @ '')'')
      else bindE (parseJson response) (\<lambda>j. thenE (saveTokens (as_tokens j)) (ret (as_tokens j))))"

definition run_as :: "net \<Rightarrow> closure \<Rightarrow> http_call \<Rightarrow> string \<Rightarrow> http_resp app_prog" where
  "run_as net cl call accessToken = fetchHub net cl (call\<lparr>hc_bearer := Some (''Bearer '' @ accessToken)\<rparr>)"

definition request :: "net \<Rightarrow> closure \<Rightarrow> http_call \<Rightarrow> json app_prog" where
  "request net cl call =
    (case cl_tokens cl of
       None \<Rightarrow> throw ''not authenticated''
     | Some tokens \<Rightarrow>
         bindE (run_as net cl call (tk_accessToken tokens)) (\<lambda>first.
         bindE (if hr_status first = 401
                then bindE (refreshSession net cl (tk_refreshToken tokens)) (\<lambda>refreshed.
                  case refreshed of
                    None \<Rightarrow> throw ''Cannot read properties of null''
                  | Some t \<Rightarrow> run_as net cl call (tk_accessToken t))
                else ret first) (\<lambda>response.
           if \<not> hr_ok response
           then bindE (catchE (parseJson response) (\<lambda>_. ret JNull)) (\<lambda>body.
             throw (trim (hc_path call @ '' failed ('' @ show_int (hr_status response) @ '') '' @ summarize (Some body))))
           else parseJson response)))"

section \<open>Loading\<close>

text \<open>\<open>Promise.all\<close>: every request is made, and the first that failed decides.\<close>

definition attempt :: "'a app_prog \<Rightarrow> (string + 'a) app_prog" where
  "attempt m = (\<lambda>s. let (r, s') = m s in (Inr r, s'))"

fun run_all :: "json app_prog list \<Rightarrow> (string + json) list app_prog" where
  "run_all [] = ret []"
| "run_all (m # ms) = bindE (attempt m) (\<lambda>r. bindE (run_all ms) (\<lambda>rs. ret (r # rs)))"

definition promise_all :: "json app_prog list \<Rightarrow> json list app_prog" where
  "promise_all ms =
    bindE (run_all ms) (\<lambda>rs. case List.find isl rs of Some (Inl e) \<Rightarrow> throw e | _ \<Rightarrow> ret (map projr rs))"

text \<open>The elements of an array; the lists of the hub are arrays.\<close>

fun json_items :: "json \<Rightarrow> json list" where
  "json_items (JArr vs) = vs"
| "json_items _ = []"

definition item_id :: "json \<Rightarrow> string option" where
  "item_id j = (case getProp ''id'' j of Some (JStr i) \<Rightarrow> Some i | _ \<Rightarrow> None)"

definition pickServer :: "json list \<Rightarrow> string option \<Rightarrow> string option" where
  "pickServer serverData current =
    (if \<not> blank current \<and> (\<exists>s \<in> set serverData. item_id s = current) then current
     else case List.find (\<lambda>s. getProp ''name'' s = Some (JStr ''MacBook-Local'')) serverData of
       Some s \<Rightarrow> (case item_id s of Some i \<Rightarrow> Some i
                  | None \<Rightarrow> (case serverData of [] \<Rightarrow> None | t # _ \<Rightarrow> item_id t))
     | None \<Rightarrow> (case serverData of [] \<Rightarrow> None | t # _ \<Rightarrow> item_id t))"

definition begin_work :: "unit app_prog" where
  "begin_work = modS (\<lambda>s. s\<lparr>ui_busy := True, ui_error := None\<rparr>)"

definition end_work :: "unit app_prog" where
  "end_work = modS (\<lambda>s. s\<lparr>ui_busy := False\<rparr>)"

text \<open>\<open>try m catch (err) setError(err.message) finally setBusy(false)\<close>.\<close>

definition guarded_work :: "unit app_prog \<Rightarrow> unit app_prog" where
  "guarded_work m =
    thenE begin_work (thenE (catchE m (\<lambda>e. modS (\<lambda>s. s\<lparr>ui_error := Some e\<rparr>))) end_work)"

definition loadAll :: "net \<Rightarrow> closure \<Rightarrow> unit app_prog" where
  "loadAll net cl =
    (if cl_tokens cl = None then ret ()
     else guarded_work
       (bindE (promise_all [request net cl (get ''/servers''), request net cl (get ''/server-registration-requests''),
           request net cl (get ''/tasks''), request net cl (get ''/approvals?status=PENDING'')]) (\<lambda>data.
         case map json_items data of
           [serverData, regData, taskData, approvalData] \<Rightarrow>
             modS (\<lambda>s. s\<lparr>ui_servers := serverData, ui_regs := regData,
               ui_selectedServerId := pickServer serverData (ui_selectedServerId s), ui_tasks := taskData, ui_approvals := approvalData\<rparr>)
         | _ \<Rightarrow> ret ())))"

section \<open>Handlers\<close>

definition app_login :: "net \<Rightarrow> unit app_prog" where
  "app_login net =
    bindE (getS (\<lambda>s. (closure_of s, ui_email s, ui_password s))) (\<lambda>(cl, email, password).
      guarded_work
        (bindE (fetchHub net cl (post ''/auth/login'' (JObj [(''email'', JStr (trim email)), (''password'', JStr password)]))) (\<lambda>response.
          if \<not> hr_ok response then throw (''login failed ('' @ show_int (hr_status response) @ '')'')
          else bindE (parseJson response) (\<lambda>j.
            thenE (saveTokens (as_tokens j)) (modS (\<lambda>s. s\<lparr>ui_password := []\<rparr>))))))"

definition app_logout :: "net \<Rightarrow> unit app_prog" where
  "app_logout net =
    bindE (getS closure_of) (\<lambda>cl.
    thenE (saveTokens None)
    (thenE (modS (\<lambda>s. s\<lparr>ui_servers := [], ui_regs := [], ui_tasks := [], ui_approvals := [], ui_selectedServerId := None,
        ui_selectedTaskId := None, ui_prompt := []\<rparr>))
     (case cl_tokens cl of
        None \<Rightarrow> ret ()
      | Some t \<Rightarrow>
          if tk_refreshToken t = [] then ret ()
          else catchE (thenE (fetchHub net cl (post ''/auth/logout'' (JObj [(''refreshToken'', JStr (tk_refreshToken t))]))) (ret ()))
            (\<lambda>_. ret ()))))"

definition decision_body :: "bool \<Rightarrow> json" where
  "decision_body approve = JObj [(''approve'', JBool approve),
     (''reason'', JStr (if approve then ''Approved from Android app'' else ''Rejected from Android app''))]"

definition decideApproval :: "net \<Rightarrow> string \<Rightarrow> bool \<Rightarrow> unit app_prog" where
  "decideApproval net approvalId approve =
    bindE (getS closure_of) (\<lambda>cl.
      guarded_work (thenE (request net cl (post (''/approvals/'' @ approvalId @ ''/decision'') (decision_body approve))) (loadAll net cl)))"

definition decideServerRegistration :: "net \<Rightarrow> string \<Rightarrow> bool \<Rightarrow> unit app_prog" where
  "decideServerRegistration net requestId approve =
    bindE (getS closure_of) (\<lambda>cl.
      guarded_work (thenE (request net cl (post (''/server-registration-requests/'' @ requestId @ ''/decision'') (decision_body approve)))
        (loadAll net cl)))"

text \<open>An item at the front, in place of the one with its identifier.\<close>

definition upsert_item :: "json \<Rightarrow> json list \<Rightarrow> json list" where
  "upsert_item item current = item # filter (\<lambda>i. getProp ''id'' i \<noteq> getProp ''id'' item) current"

definition createTask :: "net \<Rightarrow> unit app_prog" where
  "createTask net =
    bindE (getS (\<lambda>s. (closure_of s, ui_selectedServerId s, trim (ui_prompt s), ui_workerType s))) (\<lambda>(cl, serverId, trimmedPrompt, workerType).
      if blank serverId \<or> trimmedPrompt = [] then ret ()
      else guarded_work
        (bindE (request net cl (post ''/tasks'' (JObj [(''serverId'', JStr (the serverId)), (''workerType'', JStr (show_workerType workerType)),
            (''input'', JObj [(''prompt'', JStr trimmedPrompt)])]))) (\<lambda>task.
          thenE (modS (\<lambda>s. s\<lparr>ui_tasks := (if task = JNull then ui_tasks s else upsert_item task (ui_tasks s)), ui_prompt := [],
              ui_workerType := CODEX, ui_tab := TasksTab\<rparr>))
            (if task = JNull then throw ''Cannot read properties of null''
             else thenE (modS (\<lambda>s. s\<lparr>ui_selectedTaskId := item_id task\<rparr>)) (loadAll net cl)))))"

text \<open>The device's messaging service is a parameter: its token or an error.\<close>

definition app_registerPushToken :: "net \<Rightarrow> string + string \<Rightarrow> unit app_prog" where
  "app_registerPushToken net fcm =
    bindE (getS closure_of) (\<lambda>cl.
      if cl_tokens cl = None then ret ()
      else thenE (modS (\<lambda>s. s\<lparr>ui_pushState := ''requesting token'', ui_error := None\<rparr>))
        (catchE
          (bindE (liftE fcm) (\<lambda>token.
            thenE (request net cl (post ''/notifications/push-token'' (JObj [(''token'', JStr token), (''platform'', JStr ''ANDROID'')])))
              (modS (\<lambda>s. s\<lparr>ui_pushState := ''registered '' @ slice_to 12 token @ ''...''\<rparr>))))
          (\<lambda>e. modS (\<lambda>s. s\<lparr>ui_pushState := ''registration unavailable'', ui_error := Some (''FCM registration failed: '' @ e)\<rparr>))))"

text \<open>Restoring the session when the app starts.\<close>

definition restoreSession :: "net \<Rightarrow> unit app_prog" where
  "restoreSession net =
    bindE (getS (\<lambda>s. (closure_of s, ui_stored s))) (\<lambda>(cl, stored).
    thenE (catchE
        (if blank stored then ret () else thenE (refreshSession net cl (the stored)) (ret ()))
        (\<lambda>_. modS (\<lambda>s. s\<lparr>ui_stored := None\<rparr>)))
      (modS (\<lambda>s. s\<lparr>ui_booting := False\<rparr>)))"

text \<open>The effect of a new session or address: without a session the socket is dropped, with one the
  data is loaded and a socket opened with the access token, in place of the one before.\<close>

definition sessionEffect :: "net \<Rightarrow> unit app_prog" where
  "sessionEffect net =
    bindE (getS closure_of) (\<lambda>cl.
      case cl_tokens cl of
        None \<Rightarrow> modS (\<lambda>s. s\<lparr>ui_socket := None, ui_socketState := ''offline''\<rparr>)
      | Some tokens \<Rightarrow>
          thenE (modS (\<lambda>s. s\<lparr>ui_socket := Some (cl_base cl @ ''/app'', tk_accessToken tokens)\<rparr>)) (loadAll net cl))"

section \<open>Socket messages\<close>

datatype socket_event = SockUp | SockDown | SockError string

fun onSocketEvent :: "socket_event \<Rightarrow> app \<Rightarrow> app" where
  "onSocketEvent SockUp s = s\<lparr>ui_socketState := ''connected''\<rparr>"
| "onSocketEvent SockDown s = s\<lparr>ui_socketState := ''offline''\<rparr>"
| "onSocketEvent (SockError message) s = s\<lparr>ui_socketState := ''error: '' @ message\<rparr>"

definition onTaskUpdated :: "json \<Rightarrow> app \<Rightarrow> app" where
  "onTaskUpdated task s = s\<lparr>ui_tasks := upsert_item task (ui_tasks s)\<rparr>"

definition onApprovalPending :: "json \<Rightarrow> app \<Rightarrow> app" where
  "onApprovalPending approval s = s\<lparr>ui_approvals := upsert_item approval (ui_approvals s), ui_tab := ApprovalsTab\<rparr>"

definition onApprovalResolved :: "json \<Rightarrow> app \<Rightarrow> app" where
  "onApprovalResolved approval s =
    s\<lparr>ui_approvals := map (\<lambda>i. if getProp ''id'' i = getProp ''id'' approval then approval else i) (ui_approvals s)\<rparr>"

section \<open>What is shown\<close>

definition find_item :: "string option \<Rightarrow> json list \<Rightarrow> json option" where
  "find_item i items = (if blank i then None else List.find (\<lambda>j. item_id j = i) items)"

definition selectedTask :: "app \<Rightarrow> json option" where
  "selectedTask s = find_item (ui_selectedTaskId s) (ui_tasks s)"

definition selectedTaskServer :: "app \<Rightarrow> json option" where
  "selectedTaskServer s =
    (case selectedTask s of None \<Rightarrow> None
     | Some t \<Rightarrow> List.find (\<lambda>j. getProp ''id'' j = getProp ''serverId'' t) (ui_servers s))"

definition is_pending :: "json \<Rightarrow> bool" where
  "is_pending a \<longleftrightarrow> getProp ''status'' a = Some (JStr ''PENDING'')"

definition selectedTaskApproval :: "app \<Rightarrow> json option" where
  "selectedTaskApproval s =
    (case selectedTask s of None \<Rightarrow> None
     | Some t \<Rightarrow> List.find (\<lambda>a. getProp ''taskId'' a = getProp ''id'' t \<and> is_pending a) (ui_approvals s))"

definition canSubmit :: "app \<Rightarrow> bool" where
  "canSubmit s \<longleftrightarrow> \<not> blank (ui_selectedServerId s) \<and> trim (ui_prompt s) \<noteq> [] \<and> \<not> ui_busy s"

definition isLive :: "string \<Rightarrow> bool" where
  "isLive status \<longleftrightarrow> toUpperCase status \<in> {''QUEUED'', ''RUNNING'', ''AWAITING_APPROVAL''}"

definition shownApprovals :: "app \<Rightarrow> json list" where
  "shownApprovals s = filter is_pending (ui_approvals s)"

text \<open>The badge of a tab: no badge for zero, at most two digits.\<close>

definition tab_count :: "app \<Rightarrow> Tab \<Rightarrow> nat option" where
  "tab_count s tab =
    (case tab of ServersTab \<Rightarrow> Some (length (ui_servers s)) | NewTaskTab \<Rightarrow> None | TasksTab \<Rightarrow> Some (length (ui_tasks s))
     | ApprovalsTab \<Rightarrow> Some (length (ui_approvals s)))"

definition badge :: "app \<Rightarrow> Tab \<Rightarrow> string option" where
  "badge s tab =
    (case tab_count s tab of
       None \<Rightarrow> None
     | Some n \<Rightarrow> if n > 0 then Some (if n > 99 then ''99+'' else show_nat n) else None)"

section \<open>Lemmas\<close>

lemma fetch_loop_Inr:
  "fetch_loop net active call urls lastError s = (Inr r, s') \<Longrightarrow>
    \<exists>n u. length (ui_calls s) \<le> n \<and> n < length (ui_calls s') \<and> net n u call = Inr r"
proof (induction urls arbitrary: s lastError)
  case (Cons u urls)
  show ?case
  proof (cases "net (length (ui_calls s)) u call")
    case (Inl e)
    then have "fetch_loop net active call urls (Some e) (s\<lparr>ui_calls := ui_calls s @ [(u, call)]\<rparr>) = (Inr r, s')"
      using Cons.prems by (simp add: prog_simps)
    from Cons.IH [OF this] show ?thesis by (auto dest: Suc_leD)
  next
    case (Inr q)
    then show ?thesis using Cons.prems by (auto simp: prog_simps split: if_splits)
  qed
qed (simp add: prog_simps)

lemma fetch_loop_calls:
  "length (ui_calls s) \<le> length (ui_calls (snd (fetch_loop net active call urls lastError s))) \<and>
   length (ui_calls (snd (fetch_loop net active call urls lastError s))) \<le> length (ui_calls s) + length urls"
proof (induction urls arbitrary: s lastError)
  case (Cons u urls)
  show ?case
  proof (cases "net (length (ui_calls s)) u call")
    case (Inl e)
    then show ?thesis
      using Cons.IH [of "s\<lparr>ui_calls := ui_calls s @ [(u, call)]\<rparr>" "Some e"] by (simp add: prog_simps)
  qed (simp add: prog_simps)
qed (simp add: prog_simps)

lemma orderedUrls_length: "a \<in> set API_BASE_URLS \<Longrightarrow> length (orderedUrls a) = 2"
  by (auto simp: orderedUrls_def API_BASE_URLS_def)

lemma fetchHub_calls:
  assumes "cl_base cl \<in> set API_BASE_URLS"
  shows "length (ui_calls s) \<le> length (ui_calls (snd (fetchHub net cl call s)))"
    "length (ui_calls (snd (fetchHub net cl call s))) \<le> length (ui_calls s) + 2"
  using fetch_loop_calls [of s net "cl_base cl" call "orderedUrls (cl_base cl)" None] orderedUrls_length [OF assms]
  by (simp_all add: fetchHub_def)

text \<open>Programs that make at most a given number of calls.\<close>

definition makes :: "nat \<Rightarrow> 'a app_prog \<Rightarrow> bool" where
  "makes n m \<longleftrightarrow> (\<forall>s. length (ui_calls s) \<le> length (ui_calls (snd (m s))) \<and> length (ui_calls (snd (m s))) \<le> length (ui_calls s) + n)"

lemma makes_bindE:
  assumes "makes a m" and "\<And>x. makes b (f x)" and "a + b \<le> n"
  shows "makes n (bindE m f)"
  unfolding makes_def
proof
  fix s
  obtain r t where m: "m s = (r, t)" by (cases "m s")
  have "length (ui_calls s) \<le> length (ui_calls t)" "length (ui_calls t) \<le> length (ui_calls s) + a"
    using assms(1) unfolding makes_def by (metis m snd_conv)+
  moreover have "length (ui_calls t) \<le> length (ui_calls (snd (f x t)))" "length (ui_calls (snd (f x t))) \<le> length (ui_calls t) + b" for x
    using assms(2) unfolding makes_def by blast+
  moreover have "snd (bindE m f s) = (case r of Inl e \<Rightarrow> t | Inr x \<Rightarrow> snd (f x t))" by (simp add: bindE_apply m split: sum.split)
  ultimately show "length (ui_calls s) \<le> length (ui_calls (snd (bindE m f s))) \<and> length (ui_calls (snd (bindE m f s))) \<le> length (ui_calls s) + n"
    using assms(3) by (cases r) (force intro: order_trans)+
qed

lemma makes_simple: "makes n (ret x)" "makes n (throw e)" "makes n (liftE v)" "makes n (parseJson r)" "makes n (saveTokens t)"
  "makes n (catchE (parseJson r) (\<lambda>_. ret j))"
  by (auto simp: makes_def prog_simps parseJson_def saveTokens_def split: option.splits sum.splits)

lemma makes_fetchHub: "cl_base cl \<in> set API_BASE_URLS \<Longrightarrow> makes 2 (fetchHub net cl call)"
  unfolding makes_def using fetchHub_calls by blast

lemma makes_refreshSession:
  assumes "cl_base cl \<in> set API_BASE_URLS"
  shows "makes 2 (refreshSession net cl t)"
proof -
  have "makes 0 (if \<not> hr_ok response then throw e else bindE (parseJson response) (\<lambda>j. thenE (saveTokens (as_tokens j)) (ret (as_tokens j))))" for response e
    by (auto simp: thenE_def intro!: makes_simple makes_bindE [where a = 0 and b = 0])
  then show ?thesis unfolding refreshSession_def by (intro makes_bindE [OF makes_fetchHub [OF assms]]) simp_all
qed

lemma refreshSession_InrD:
  assumes "refreshSession net cl t s = (Inr v, s')"
  shows "\<exists>n u r. length (ui_calls s) \<le> n \<and> n < length (ui_calls s') \<and>
    net n u (post ''/auth/refresh'' (JObj [(''refreshToken'', JStr t)])) = Inr r \<and> hr_ok r"
proof -
  let ?call = "post ''/auth/refresh'' (JObj [(''refreshToken'', JStr t)])"
  obtain q s1 where f: "fetchHub net cl ?call s = (q, s1)" by (cases "fetchHub net cl ?call s")
  then obtain r where r: "q = Inr r" "hr_ok r"
    using assms by (cases q) (auto simp: refreshSession_def bindE_apply throw_apply split: if_splits)
  have "ui_calls s' = ui_calls s1"
    using assms f r by (auto simp: refreshSession_def bindE_apply thenE_apply parseJson_def saveTokens_def ret_apply liftE_apply modS_apply
        split: option.splits sum.splits)
  moreover from fetch_loop_Inr [OF f [unfolded fetchHub_def r(1)]] obtain n u where
    "length (ui_calls s) \<le> n" "n < length (ui_calls s1)" "net n u ?call = Inr r" by blast
  ultimately show ?thesis using r(2) by auto
qed

text \<open>What calling the hub leaves alone.\<close>

lemma keeps_fetchHub:
  assumes "\<And>s c. I (s\<lparr>ui_calls := c\<rparr>) = I s" and "\<And>s u. I (s\<lparr>ui_activeApiBaseUrl := u\<rparr>) = I s"
  shows "keeps I (fetchHub net cl call)"
proof -
  have "I s \<Longrightarrow> I (snd (fetch_loop net a call urls e s))" for a urls e s
    by (induction urls arbitrary: e s) (auto simp: prog_simps assms split: sum.split)
  then show ?thesis by (simp add: keeps_def fetchHub_def)
qed

lemma keeps_app_request:
  assumes "\<And>s c. I (s\<lparr>ui_calls := c\<rparr>) = I s" and "\<And>s u. I (s\<lparr>ui_activeApiBaseUrl := u\<rparr>) = I s"
    and "\<And>s t st. I (s\<lparr>ui_tokens := t, ui_stored := st\<rparr>) = I s"
  shows "keeps I (request net cl call)"
proof -
  note fetch = keeps_fetchHub [of I, OF assms(1,2)]
  have "keeps I (parseJson r)" for r unfolding parseJson_def by (intro keeps_rules)
  moreover have "keeps I (saveTokens t)" for t by (simp add: keeps_def saveTokens_def modS_apply assms(3))
  ultimately show ?thesis unfolding request_def run_as_def refreshSession_def
    by (intro keeps_rules fetch) assumption+
qed

lemma run_all_spec:
  assumes "\<And>m. m \<in> set ms \<Longrightarrow> keeps I m" and "I s"
  shows "\<exists>rs s'. run_all ms s = (Inr rs, s') \<and> length rs = length ms \<and> I s'"
  using assms
proof (induction ms arbitrary: s)
  case (Cons m ms)
  obtain r s1 where m: "m s = (r, s1)" by (cases "m s")
  then have "I s1" using keepsD [of I m s] Cons.prems by simp
  with Cons obtain rs s2 where "run_all ms s1 = (Inr rs, s2)" "length rs = length ms" "I s2" by (metis list.set_intros(2))
  then show ?case using m by (simp add: bindE_apply attempt_def ret_apply)
qed (simp add: ret_apply)

lemma promise_all_fails:
  assumes "run_all ms s = (Inr rs, s')" and "\<exists>r \<in> set rs. isl r"
  shows "\<exists>e. promise_all ms s = (Inl e, s')"
proof -
  have "List.find isl rs \<noteq> None" using assms(2) by (auto simp: find_None_iff)
  then obtain r where r: "List.find isl rs = Some r" by blast
  then have "isl r" by (auto simp: find_Some_iff)
  then obtain e where "r = Inl e" by (cases r) auto
  then show ?thesis using assms(1) r by (simp add: promise_all_def bindE_apply throw_apply)
qed

text \<open>A request whose access token has expired succeeds only through a successful refresh.\<close>

definition refresh_call :: "string \<Rightarrow> http_call" where
  "refresh_call t = post ''/auth/refresh'' (JObj [(''refreshToken'', JStr t)])"

definition expired :: "net \<Rightarrow> auth_tokens \<Rightarrow> bool" where
  "expired net tokens \<longleftrightarrow> (\<forall>n u call r. hc_bearer call = Some (''Bearer '' @ tk_accessToken tokens) \<longrightarrow> net n u call = Inr r \<longrightarrow> hr_status r = 401)"

lemma run_as_InrD:
  assumes "run_as net cl call t s = (Inr r, s')"
  shows "\<exists>n u. net n u (call\<lparr>hc_bearer := Some (''Bearer '' @ t)\<rparr>) = Inr r"
  using fetch_loop_Inr assms unfolding run_as_def fetchHub_def by blast

lemma calls_mono:
  assumes "cl_base cl \<in> set API_BASE_URLS"
  shows "length (ui_calls s) \<le> length (ui_calls (snd (run_as net cl call t s)))"
  using fetchHub_calls(1) [OF assms] by (simp add: run_as_def)

lemma request_expired:
  assumes "expired net tokens" and "cl_tokens cl = Some tokens" and "cl_base cl \<in> set API_BASE_URLS"
    and "request net cl call s = (Inr j, s')"
  shows "\<exists>n u r. length (ui_calls s) \<le> n \<and> n < length (ui_calls s') \<and>
    net n u (refresh_call (tk_refreshToken tokens)) = Inr r \<and> hr_ok r"
proof -
  obtain q s1 where one: "run_as net cl call (tk_accessToken tokens) s = (q, s1)" by (cases "run_as net cl call (tk_accessToken tokens) s")
  then obtain first where q: "q = Inr first" using assms(2,4) by (cases q) (auto simp: request_def bindE_apply)
  obtain n u where "net n u (call\<lparr>hc_bearer := Some (''Bearer '' @ tk_accessToken tokens)\<rparr>) = Inr first"
    using run_as_InrD [OF one [unfolded q]] by blast
  from assms(1) [unfolded expired_def, rule_format, OF _ this] have "hr_status first = 401" by simp
  moreover obtain v s2 where two: "refreshSession net cl (tk_refreshToken tokens) s1 = (v, s2)"
    by (cases "refreshSession net cl (tk_refreshToken tokens) s1")
  ultimately obtain t where v: "v = Inr (Some t)"
    using assms(2,4) one q by (cases v) (auto simp: request_def bindE_apply throw_apply split: option.splits)
  have le: "length (ui_calls s) \<le> length (ui_calls s1)" using calls_mono [OF assms(3), of s net call "tk_accessToken tokens"] one by simp
  have "length (ui_calls s2) \<le> length (ui_calls s')"
  proof -
    obtain w s3 where three: "run_as net cl call (tk_accessToken t) s2 = (w, s3)" by (cases "run_as net cl call (tk_accessToken t) s2")
    then have "length (ui_calls s2) \<le> length (ui_calls s3)" using calls_mono [OF assms(3), of s2 net call "tk_accessToken t"] by simp
    moreover have "ui_calls s' = ui_calls s3"
      using assms(2,4) one q two v three \<open>hr_status first = 401\<close>
      by (cases w) (auto simp: request_def bindE_apply catchE_apply parseJson_def ret_apply liftE_apply throw_apply split: if_splits option.splits sum.splits)
    ultimately show ?thesis by simp
  qed
  with refreshSession_InrD [OF two [unfolded v]] le show ?thesis unfolding refresh_call_def by (meson le_trans less_le_trans)
qed

text \<open>A hub whose access token \<open>a\<close> has expired and which renews the session once.\<close>

definition demo_net :: net where
  "demo_net n url call =
    (if hc_bearer call = Some ''Bearer a'' then Inr \<lparr>hr_status = 401, hr_ok = False, hr_body = None\<rparr>
     else if hc_path call = ''/auth/refresh'' \<and> n \<noteq> 1 then Inr \<lparr>hr_status = 401, hr_ok = False, hr_body = None\<rparr>
     else if hc_path call = ''/auth/refresh''
     then Inr \<lparr>hr_status = 201, hr_ok = True, hr_body = Some (Inr (JObj [(''accessToken'', JStr ''b''), (''refreshToken'', JStr ''s'')]))\<rparr>
     else Inr \<lparr>hr_status = 200, hr_ok = True, hr_body = Some (Inr (JArr []))\<rparr>)"

definition demo_session :: auth_tokens where
  "demo_session = \<lparr>tk_accessToken = ''a'', tk_refreshToken = ''r''\<rparr>"

definition demo_closure :: closure where
  "demo_closure = \<lparr>cl_tokens = Some demo_session, cl_base = PRIMARY_API_BASE_URL\<rparr>"

lemma demo_base [simp]: "cl_base demo_closure \<in> set API_BASE_URLS"
  by (simp add: demo_closure_def PRIMARY_API_BASE_URL_def API_BASE_URLS_def)

lemma demo_expired: "expired demo_net demo_session"
  by (auto simp: expired_def demo_net_def demo_session_def)

lemma demo_net_refresh: "demo_net n u (refresh_call t) = Inr r \<Longrightarrow> hr_ok r \<Longrightarrow> n = 1"
  by (auto simp: demo_net_def refresh_call_def post_def split: if_splits)

section \<open>Properties\<close>

text \<open>Failover between the hub's two addresses: the current address is asked first and the other one
  exactly when it does not answer; the one that answers is the current one afterwards; when neither
  does, the last error is reported and the address stays. Each address is asked at most once.\<close>

theorem fetchHub_failover:
  assumes "cl_base cl = a" and "a \<noteq> b" and "{a, b} = set API_BASE_URLS"
  shows "fetchHub net cl call s =
    (let n = length (ui_calls s) in
     case net n a call of
       Inr r \<Rightarrow> (Inr r, s\<lparr>ui_calls := ui_calls s @ [(a, call)]\<rparr>)
     | Inl _ \<Rightarrow>
         (case net (Suc n) b call of
            Inr r \<Rightarrow> (Inr r, s\<lparr>ui_calls := ui_calls s @ [(a, call), (b, call)], ui_activeApiBaseUrl := b\<rparr>)
          | Inl e \<Rightarrow> (Inl e, s\<lparr>ui_calls := ui_calls s @ [(a, call), (b, call)]\<rparr>)))"
proof -
  have "orderedUrls a = [a, b]" using assms(2,3) by (auto simp: orderedUrls_def API_BASE_URLS_def doubleton_eq_iff)
  then show ?thesis using assms(1,2) by (simp add: fetchHub_def prog_simps split: sum.split)
qed

theorem fetchHub_failover_witness:
  "fetchHub (\<lambda>n u call. if n = 0 then Inl ''aborted'' else demo_net n u call) demo_closure (get ''/tasks'') (initial_app None) =
    (Inr \<lparr>hr_status = 200, hr_ok = True, hr_body = Some (Inr (JArr []))\<rparr>,
     (initial_app None)\<lparr>ui_calls := [(''http://172.30.1.83:3000'', get ''/tasks''), (''http://100.92.64.11:3000'', get ''/tasks'')],
       ui_activeApiBaseUrl := ''http://100.92.64.11:3000''\<rparr>)"
  using fetchHub_failover [of demo_closure "''http://172.30.1.83:3000''" "''http://100.92.64.11:3000''"
      "\<lambda>n u call. if n = 0 then Inl ''aborted'' else demo_net n u call" "get ''/tasks''" "initial_app None"]
  by (simp add: demo_closure_def PRIMARY_API_BASE_URL_def API_BASE_URLS_def demo_net_def get_def initial_app_def)

text \<open>C40. A request never loops: whatever the hub answers, it makes at most six calls, two for the first
  try, two for one refresh of the session and two for one retry.\<close>

theorem request_bounded:
  assumes "cl_base cl \<in> set API_BASE_URLS"
  shows "length (ui_calls (snd (request net cl call s))) \<le> length (ui_calls s) + 6"
proof (cases "cl_tokens cl")
  case (Some tokens)
  note fetch = makes_fetchHub [OF assms]
  have retry: "makes 4 (if b then bindE (refreshSession net cl t) (\<lambda>refreshed. case refreshed of
        None \<Rightarrow> throw e | Some t \<Rightarrow> run_as net cl call (tk_accessToken t)) else ret first)" for b t e first
    using makes_refreshSession [OF assms] fetch
    by (auto simp: run_as_def intro!: makes_simple makes_bindE [where a = 2 and b = 2] split: option.split)
  have last: "makes 0 (if c then bindE (catchE (parseJson r) (\<lambda>_. ret JNull)) (\<lambda>body. throw (e body)) else parseJson r)" for c r e
    by (auto intro!: makes_simple makes_bindE [where a = 0 and b = 0])
  have "makes 6 (request net cl call)"
    unfolding request_def Some option.case run_as_def [of net cl call "tk_accessToken tokens"]
    by (rule makes_bindE [OF fetch _ order_refl, where b = 4, simplified]) (rule makes_bindE [OF retry last], simp)
  then show ?thesis by (simp add: makes_def)
qed (simp add: request_def throw_apply)

theorem request_bounded_witness:
  "length (ui_calls (snd (request demo_net demo_closure (get ''/tasks'') (initial_app None)))) \<le> 6"
  using request_bounded [OF demo_base, of demo_net "get ''/tasks''" "initial_app None"] by (simp add: initial_app_def)

text \<open>Loading with an expired access token fails although the session could be renewed: the four
  requests of a load each refresh with the same refresh token, which the hub accepts only once, so at
  least one of them fails; an error is shown and the lists keep their old contents.\<close>

theorem loadAll_expired_fails:
  assumes "cl_tokens cl = Some tokens" and "cl_base cl \<in> set API_BASE_URLS" and "expired net tokens"
    and "\<And>n m u v r q. n < m \<Longrightarrow> net n u (refresh_call (tk_refreshToken tokens)) = Inr r \<Longrightarrow> hr_ok r \<Longrightarrow>
      net m v (refresh_call (tk_refreshToken tokens)) = Inr q \<Longrightarrow> \<not> hr_ok q"
    and "loadAll net cl s = (v, s')"
  shows "ui_error s' \<noteq> None \<and> ui_servers s' = ui_servers s \<and> ui_tasks s' = ui_tasks s \<and> ui_approvals s' = ui_approvals s"
proof -
  let ?I = "\<lambda>t. ui_servers t = ui_servers s \<and> ui_tasks t = ui_tasks s \<and> ui_approvals t = ui_approvals s"
  let ?m = "\<lambda>p. request net cl (get p)"
  let ?ms = "[?m ''/servers'', ?m ''/server-registration-requests'', ?m ''/tasks'', ?m ''/approvals?status=PENDING'']"
  define s0 where "s0 = s\<lparr>ui_busy := True, ui_error := None\<rparr>"
  have keeps: "keeps ?I (?m p)" for p by (rule keeps_app_request) simp_all
  then obtain rs s4 where all: "run_all ?ms s0 = (Inr rs, s4)" "?I s4"
    using run_all_spec [of ?ms ?I s0] by (auto simp: s0_def)
  obtain r1 s1 r2 s2 where run: "?m ''/servers'' s0 = (r1, s1)" "?m ''/server-registration-requests'' s1 = (r2, s2)"
    by (metis surj_pair)
  have rs: "\<exists>l. rs = r1 # r2 # l" using all(1) run by (auto simp: bindE_apply attempt_def ret_apply split: prod.splits sum.splits)
  have "isl r1 \<or> isl r2"
  proof (rule ccontr)
    assume "\<not> (isl r1 \<or> isl r2)"
    then obtain j1 j2 where "r1 = Inr j1" "r2 = Inr j2" by (cases r1; cases r2) auto
    with request_expired [OF assms(3,1,2)] run obtain n u r m v q where
      "n < length (ui_calls s1)" "net n u (refresh_call (tk_refreshToken tokens)) = Inr r" "hr_ok r"
      "length (ui_calls s1) \<le> m" "net m v (refresh_call (tk_refreshToken tokens)) = Inr q" "hr_ok q" by metis
    then show False using assms(4) [of n m u r v q] by simp
  qed
  then obtain e where "promise_all ?ms s0 = (Inl e, s4)" using promise_all_fails [OF all(1)] rs by auto
  then have "s' = s4\<lparr>ui_error := Some e, ui_busy := False\<rparr>"
    using assms(1,5) by (simp add: loadAll_def guarded_work_def begin_work_def end_work_def thenE_apply catchE_apply bindE_apply modS_apply s0_def)
  then show ?thesis using all(2) by simp
qed

theorem loadAll_expired_fails_witness:
  "ui_error (snd (loadAll demo_net demo_closure (initial_app None))) \<noteq> None"
  using loadAll_expired_fails [of demo_closure demo_session demo_net "initial_app None", OF _ demo_base demo_expired _ surjective_pairing]
  by (force simp: demo_closure_def dest: demo_net_refresh)

text \<open>What holds of the cleared state and is kept by a call holds after logging out.\<close>

lemma app_logout_keeps:
  assumes "I (s\<lparr>ui_tokens := None, ui_stored := None, ui_servers := [], ui_regs := [], ui_tasks := [], ui_approvals := [],
      ui_selectedServerId := None, ui_selectedTaskId := None, ui_prompt := []\<rparr>)"
    and "\<And>s c. I (s\<lparr>ui_calls := c\<rparr>) = I s" and "\<And>s u. I (s\<lparr>ui_activeApiBaseUrl := u\<rparr>) = I s"
  shows "\<exists>s'. app_logout net s = (Inr (), s') \<and> I s'"
proof -
  define t where "t = s\<lparr>ui_tokens := None, ui_stored := None, ui_servers := [], ui_regs := [], ui_tasks := [], ui_approvals := [],
    ui_selectedServerId := None, ui_selectedTaskId := None, ui_prompt := []\<rparr>"
  have "I t" using assms(1) by (simp add: t_def)
  then have after: "I (snd (fetchHub net cl call t))" for cl call by (rule keepsD [OF keeps_fetchHub [OF assms(2,3)]])
  have "\<exists>s'. app_logout net s = (Inr (), s') \<and> (s' = t \<or> (\<exists>cl call. s' = snd (fetchHub net cl call t)))"
    by (auto simp: app_logout_def saveTokens_def bindE_apply thenE_apply getS_apply modS_apply catchE_apply ret_apply t_def
        split: option.split prod.split sum.split) (metis snd_conv)+
  then show ?thesis using \<open>I t\<close> after by metis
qed

text \<open>Logging out leaves nothing behind: whatever the hub answers, also when it cannot be reached,
  the session and the stored refresh token are gone and every list, selection and draft is empty.\<close>

theorem app_logout_clears:
  "\<exists>s'. app_logout net s = (Inr (), s') \<and> ui_tokens s' = None \<and> ui_stored s' = None \<and> ui_servers s' = [] \<and> ui_regs s' = [] \<and>
     ui_tasks s' = [] \<and> ui_approvals s' = [] \<and> ui_selectedServerId s' = None \<and> ui_selectedTaskId s' = None \<and> ui_prompt s' = []"
  by (rule app_logout_keeps) simp_all

text \<open>Live updates: after any sequence of task messages the list has each task once, in its latest
  version: the last message about it, or the old entry when there was none.\<close>

theorem live_updates_last_wins:
  assumes "distinct (map (getProp ''id'') (ui_tasks s))"
  shows "distinct (map (getProp ''id'') (ui_tasks (fold onTaskUpdated ms s))) \<and>
    List.find (\<lambda>j. getProp ''id'' j = i) (ui_tasks (fold onTaskUpdated ms s)) =
      (case List.find (\<lambda>j. getProp ''id'' j = i) (rev ms) of
         Some m \<Rightarrow> Some m | None \<Rightarrow> List.find (\<lambda>j. getProp ''id'' j = i) (ui_tasks s))"
proof (induction ms rule: rev_induct)
  case (snoc m ms)
  let ?l = "ui_tasks (fold onTaskUpdated ms s)"
  have "List.find (\<lambda>j. getProp ''id'' j = i) (filter (\<lambda>j. getProp ''id'' j \<noteq> getProp ''id'' m) l) =
      (if i = getProp ''id'' m then None else List.find (\<lambda>j. getProp ''id'' j = i) l)" for l
    by (induction l) auto
  moreover have "ui_tasks (fold onTaskUpdated (ms @ [m]) s) = upsert_item m ?l" by (simp add: onTaskUpdated_def)
  ultimately show ?case using snoc by (auto simp: upsert_item_def distinct_map_filter)
qed (use assms in simp)

theorem live_updates_last_wins_witness:
  "List.find (\<lambda>j. getProp ''id'' j = Some (JStr ''1'')) (ui_tasks (fold onTaskUpdated
      [JObj [(''id'', JStr ''1''), (''status'', JStr ''RUNNING'')], JObj [(''id'', JStr ''2'')],
       JObj [(''id'', JStr ''1''), (''status'', JStr ''COMPLETED'')]] (initial_app None))) =
    Some (JObj [(''id'', JStr ''1''), (''status'', JStr ''COMPLETED'')])"
  using live_updates_last_wins [of "initial_app None" "[JObj [(''id'', JStr ''1''), (''status'', JStr ''RUNNING'')],
      JObj [(''id'', JStr ''2'')], JObj [(''id'', JStr ''1''), (''status'', JStr ''COMPLETED'')]]" "Some (JStr ''1'')"]
  by (simp add: initial_app_def)

end
