(* ===== verification/Mobile_System.thy ===== *)
theory Mobile_System
  imports Mobile_App
begin

text \<open>
  The mobile app as a transition system: every handler, effect, socket message and input of
  \<^verbatim>\<open>mobile-app/App.tsx\<close> is an event. The two effects may run at any time, which includes every moment
  at which React runs them. The invariant holds between events.
\<close>

section \<open>Events\<close>

datatype app_event =
    RestoreEffect | SessionEffect | Login | Logout | Reload | CreateTask
  | DecideApproval string bool | DecideServerRegistration string bool
  | RegisterPush "string + string"
  | SocketEvent socket_event | TaskUpdated json | ApprovalPending json | ApprovalResolved json
  | SetEmail string | SetPassword string | SetPrompt string | SetTab Tab | SetWorkerType WorkerType
  | SetSelectedServerId string | SetSelectedTaskId "string option"

fun app_step :: "net \<Rightarrow> app_event \<Rightarrow> app \<Rightarrow> app" where
  "app_step net RestoreEffect s = snd (restoreSession net s)"
| "app_step net SessionEffect s = snd (sessionEffect net s)"
| "app_step net Login s = snd (app_login net s)"
| "app_step net Logout s = snd (app_logout net s)"
| "app_step net Reload s = snd (loadAll net (closure_of s) s)"
| "app_step net CreateTask s = snd (createTask net s)"
| "app_step net (DecideApproval i b) s = snd (decideApproval net i b s)"
| "app_step net (DecideServerRegistration i b) s = snd (decideServerRegistration net i b s)"
| "app_step net (RegisterPush fcm) s = snd (app_registerPushToken net fcm s)"
| "app_step net (SocketEvent e) s = onSocketEvent e s"
| "app_step net (TaskUpdated j) s = onTaskUpdated j s"
| "app_step net (ApprovalPending j) s = onApprovalPending j s"
| "app_step net (ApprovalResolved j) s = onApprovalResolved j s"
| "app_step net (SetEmail v) s = s\<lparr>ui_email := v\<rparr>"
| "app_step net (SetPassword v) s = s\<lparr>ui_password := v\<rparr>"
| "app_step net (SetPrompt v) s = s\<lparr>ui_prompt := v\<rparr>"
| "app_step net (SetTab v) s = s\<lparr>ui_tab := v\<rparr>"
| "app_step net (SetWorkerType v) s = s\<lparr>ui_workerType := v\<rparr>"
| "app_step net (SetSelectedServerId v) s = s\<lparr>ui_selectedServerId := Some v\<rparr>"
| "app_step net (SetSelectedTaskId v) s = s\<lparr>ui_selectedTaskId := v\<rparr>"

inductive app_reachable :: "net \<Rightarrow> app \<Rightarrow> bool" for net where
  started: "app_reachable net (initial_app stored)"
| stepped: "app_reachable net s \<Longrightarrow> app_reachable net (app_step net ev s)"

section \<open>Invariant\<close>

text \<open>The address is one of the hub's. A stored refresh token is that of the session, once the session
  has been restored.\<close>

definition stored_ok :: "app \<Rightarrow> bool" where
  "stored_ok s \<longleftrightarrow> blank (ui_stored s) \<or> map_option tk_refreshToken (ui_tokens s) = ui_stored s"

definition app_core :: "app \<Rightarrow> bool" where
  "app_core s \<longleftrightarrow> ui_activeApiBaseUrl s \<in> set API_BASE_URLS \<and> (ui_booting s \<or> stored_ok s)"

lemma app_core_simps [simp]:
  "app_core (s\<lparr>ui_calls := c\<rparr>) = app_core s" "app_core (s\<lparr>ui_busy := b\<rparr>) = app_core s" "app_core (s\<lparr>ui_error := e\<rparr>) = app_core s"
  by (simp_all add: app_core_def stored_ok_def)

lemma keeps_core_mod:
  assumes "\<And>s. ui_activeApiBaseUrl (f s) = ui_activeApiBaseUrl s" "\<And>s. ui_stored (f s) = ui_stored s"
    "\<And>s. ui_tokens (f s) = ui_tokens s" "\<And>s. ui_booting (f s) = ui_booting s"
  shows "keeps app_core (modS f)"
  by (simp add: keeps_def modS_apply app_core_def stored_ok_def assms)

lemma keeps_core_saveTokens: "keeps app_core (saveTokens t)"
  by (simp add: keeps_def saveTokens_def modS_apply app_core_def stored_ok_def)

lemma keeps_core_parseJson: "keeps app_core (parseJson r)"
  unfolding parseJson_def by (intro keeps_rules)

lemma keeps_core_fetchHub:
  assumes "cl_base cl \<in> set API_BASE_URLS"
  shows "keeps app_core (fetchHub net cl call)"
proof -
  have "set urls \<subseteq> set API_BASE_URLS \<Longrightarrow> app_core s \<Longrightarrow> app_core (snd (fetch_loop net a call urls e s))" for a urls e s
    by (induction urls arbitrary: e s) (auto simp: prog_simps app_core_def stored_ok_def split: sum.split)
  moreover have "set (orderedUrls (cl_base cl)) \<subseteq> set API_BASE_URLS" using assms by (auto simp: orderedUrls_def)
  ultimately show ?thesis by (simp add: keeps_def fetchHub_def)
qed

lemma keeps_core_refreshSession: "cl_base cl \<in> set API_BASE_URLS \<Longrightarrow> keeps app_core (refreshSession net cl t)"
  unfolding refreshSession_def by (intro keeps_rules keeps_core_fetchHub keeps_core_saveTokens keeps_core_parseJson)

lemma keeps_core_request: "cl_base cl \<in> set API_BASE_URLS \<Longrightarrow> keeps app_core (request net cl call)"
  unfolding request_def run_as_def
  by (intro keeps_rules keeps_core_fetchHub keeps_core_refreshSession keeps_core_parseJson)

lemma keeps_attempt: "keeps I m \<Longrightarrow> keeps I (attempt m)"
  by (auto simp: keeps_def attempt_def split: prod.split)

lemma keeps_promise_all:
  assumes "\<And>m. m \<in> set ms \<Longrightarrow> keeps I m"
  shows "keeps I (promise_all ms)"
proof -
  have "keeps I (run_all ms)" using assms by (induction ms) (auto intro!: keeps_rules keeps_attempt)
  then show ?thesis unfolding promise_all_def by (intro keeps_rules) (auto intro: keeps_rules split: sum.split)
qed

lemma keeps_core_guarded: "keeps app_core m \<Longrightarrow> keeps app_core (guarded_work m)"
  unfolding guarded_work_def begin_work_def end_work_def by (intro keeps_rules keeps_core_mod) simp_all

lemma keeps_core_loadAll: "cl_base cl \<in> set API_BASE_URLS \<Longrightarrow> keeps app_core (loadAll net cl)"
  unfolding loadAll_def
  by (intro keeps_rules keeps_core_guarded keeps_promise_all)
    (auto intro!: keeps_core_request keeps_core_mod keeps_rules split: list.split)

text \<open>A handler whose closure is taken from the state it starts in.\<close>

lemma core_bind_getS: "app_core s \<Longrightarrow> keeps app_core (f (g s)) \<Longrightarrow> app_core (snd (bindE (getS g) f s))"
  by (simp add: bindE_apply getS_apply keeps_def)

lemma core_base: "app_core s \<Longrightarrow> cl_base (closure_of s) \<in> set API_BASE_URLS"
  by (simp add: app_core_def closure_of_def)

lemmas keeps_core = keeps_core_guarded keeps_core_fetchHub keeps_core_saveTokens keeps_core_parseJson keeps_core_request
  keeps_core_refreshSession keeps_core_loadAll core_base

lemma core_restoreSession:
  assumes "app_core s"
  shows "app_core (snd (restoreSession net s))"
proof (cases "blank (ui_stored s)")
  case True
  then show ?thesis using assms by (simp add: restoreSession_def prog_simps app_core_def stored_ok_def)
next
  case False
  let ?m = "refreshSession net (closure_of s) (the (ui_stored s))"
  obtain r t where run: "?m s = (r, t)" by (cases "?m s")
  have core: "app_core t" using keepsD [OF keeps_core_refreshSession [OF core_base [OF assms]] assms] run by (metis snd_conv)
  have "stored_ok t" if "r = Inr v" for v
    using run that by (auto simp: refreshSession_def saveTokens_def bindE_apply thenE_apply modS_apply ret_apply throw_apply stored_ok_def
        split: sum.splits prod.splits if_splits)
  then show ?thesis using core run False
    by (cases r) (auto simp: restoreSession_def bindE_apply getS_apply thenE_apply catchE_apply modS_apply ret_apply app_core_def stored_ok_def blank_def)
qed

lemma core_handlers:
  assumes "app_core s"
  shows "app_core (snd (sessionEffect net s))" "app_core (snd (app_login net s))" "app_core (snd (app_logout net s))"
    "app_core (snd (createTask net s))" "app_core (snd (decideApproval net i b s))"
    "app_core (snd (decideServerRegistration net i b s))" "app_core (snd (app_registerPushToken net fcm s))"
    "app_core (snd (loadAll net (closure_of s) s))"
  unfolding sessionEffect_def app_login_def app_logout_def createTask_def decideApproval_def decideServerRegistration_def
    app_registerPushToken_def split_def
  by (rule core_bind_getS [OF assms] keepsD [OF keeps_core_loadAll [OF core_base [OF assms]] assms],
      (intro keeps_rules keeps_core(1-7) core_base [OF assms] keeps_core_mod; simp add: core_base [OF assms])?)+

lemma core_step:
  assumes "app_core s"
  shows "app_core (app_step net ev s)"
proof (cases ev)
  case (SocketEvent e)
  then show ?thesis using assms by (cases e) (simp_all add: app_core_def stored_ok_def)
qed (use assms core_handlers [OF assms] core_restoreSession [OF assms] in
    \<open>simp_all add: app_core_def stored_ok_def onTaskUpdated_def onApprovalPending_def onApprovalResolved_def\<close>)

section \<open>Nothing stays busy\<close>

lemma idle_guarded: "\<not> ui_busy (snd (guarded_work m s))"
  by (simp add: guarded_work_def begin_work_def end_work_def prog_simps split: prod.split sum.split)

lemma keeps_idle_guarded: "keeps (\<lambda>s. \<not> ui_busy s) (guarded_work m)"
  by (simp add: keeps_def idle_guarded)

lemma keeps_idle_request: "keeps (\<lambda>s. \<not> ui_busy s) (request net cl call)"
  by (rule keeps_app_request) simp_all

lemma keeps_idle_fetch: "keeps (\<lambda>s. \<not> ui_busy s) (fetchHub net cl call)"
  by (rule keeps_fetchHub) simp_all

lemma keeps_idle_mod: "(\<And>s. ui_busy (f s) = ui_busy s) \<Longrightarrow> keeps (\<lambda>s. \<not> ui_busy s) (modS f)"
  by (simp add: keeps_def modS_apply)

lemma keeps_idle_parse: "keeps (\<lambda>s. \<not> ui_busy s) (parseJson r)"
  unfolding parseJson_def by (intro keeps_rules)

lemma idle_step:
  assumes "\<not> ui_busy s"
  shows "\<not> ui_busy (app_step net ev s)"
proof -
  note unfolds = restoreSession_def sessionEffect_def app_login_def app_logout_def createTask_def decideApproval_def
    decideServerRegistration_def app_registerPushToken_def loadAll_def refreshSession_def saveTokens_def split_def
  have "keeps (\<lambda>s. \<not> ui_busy s) (restoreSession net)" "keeps (\<lambda>s. \<not> ui_busy s) (sessionEffect net)"
    "keeps (\<lambda>s. \<not> ui_busy s) (app_login net)" "keeps (\<lambda>s. \<not> ui_busy s) (app_logout net)" "keeps (\<lambda>s. \<not> ui_busy s) (createTask net)"
    "keeps (\<lambda>s. \<not> ui_busy s) (decideApproval net i b)" "keeps (\<lambda>s. \<not> ui_busy s) (decideServerRegistration net i b)"
    "keeps (\<lambda>s. \<not> ui_busy s) (app_registerPushToken net fcm)" "keeps (\<lambda>s. \<not> ui_busy s) (loadAll net cl)" for i b fcm cl
    unfolding unfolds
    by (intro keeps_rules keeps_idle_guarded keeps_idle_request keeps_idle_fetch keeps_idle_parse keeps_idle_mod; simp)+
  note keep = this [THEN keepsD, OF assms]
  show ?thesis
  proof (cases ev)
    case (SocketEvent e)
    then show ?thesis using assms by (cases e) simp_all
  qed (use assms keep in \<open>simp_all add: onTaskUpdated_def onApprovalPending_def onApprovalResolved_def\<close>)
qed

lemma app_reachable_core:
  assumes "app_reachable net s"
  shows "app_core s \<and> \<not> ui_busy s"
  using assms
proof induction
  case (started stored)
  show ?case by (simp add: initial_app_def app_core_def PRIMARY_API_BASE_URL_def API_BASE_URLS_def)
next
  case (stepped s ev)
  then show ?case using core_step idle_step by blast
qed

section \<open>Properties\<close>

text \<open>Between two handlers that do not overlap: the app is not busy and is at one of the hub's addresses, and
  a refresh token that is stored on the device once the session has been restored is that of the
  session. A session may have no stored token.\<close>

theorem app_reachable_invariant:
  assumes "app_reachable net s"
  shows "\<not> ui_busy s \<and> ui_activeApiBaseUrl s \<in> set API_BASE_URLS \<and>
    (\<not> ui_booting s \<and> ui_stored s \<notin> {None, Some []} \<longrightarrow> map_option tk_refreshToken (ui_tokens s) = ui_stored s)"
  using app_reachable_core [OF assms] by (auto simp: app_core_def stored_ok_def blank_def)

end
