(* ===== verification/Mobile_Labels.thy ===== *)
theory Mobile_Labels
  imports Main
begin

text \<open>
  The label literals of the mobile app's screens that are not ASCII, as the UTF-8 bytes of
  \<^verbatim>\<open>mobile-app/App.tsx\<close>. They are only shown.
\<close>

section \<open>Frame\<close>

definition ko_restoring :: string where
  "ko_restoring =
   [CHR 0xEC, CHR 0x84, CHR 0xB8, CHR 0xEC, CHR 0x85, CHR 0x98, CHR 0xEC, CHR 0x9D, CHR 0x84,
    CHR 0x20, CHR 0xEB, CHR 0xB3, CHR 0xB5, CHR 0xEC, CHR 0x9B, CHR 0x90, CHR 0xED, CHR 0x95,
    CHR 0x98, CHR 0xEB, CHR 0x8A, CHR 0x94, CHR 0x20, CHR 0xEC, CHR 0xA4, CHR 0x91]"

definition ko_register :: string where
  "ko_register =
   [CHR 0xEB, CHR 0x93, CHR 0xB1, CHR 0xEB, CHR 0xA1, CHR 0x9D]"

definition ko_error_title :: string where
  "ko_error_title =
   [CHR 0xEC, CHR 0x9A, CHR 0x94, CHR 0xEC, CHR 0xB2, CHR 0xAD, CHR 0xEC, CHR 0x9D, CHR 0x84,
    CHR 0x20, CHR 0xEC, CHR 0xB2, CHR 0x98, CHR 0xEB, CHR 0xA6, CHR 0xAC, CHR 0xED, CHR 0x95,
    CHR 0x98, CHR 0xEC, CHR 0xA7, CHR 0x80, CHR 0x20, CHR 0xEB, CHR 0xAA, CHR 0xBB, CHR 0xED,
    CHR 0x96, CHR 0x88, CHR 0xEC, CHR 0x8A, CHR 0xB5, CHR 0xEB, CHR 0x8B, CHR 0x88, CHR 0xEB,
    CHR 0x8B, CHR 0xA4]"

definition ko_empty_hint :: string where
  "ko_empty_hint =
   [CHR 0xEC, CHR 0x83, CHR 0x88, CHR 0xEB, CHR 0xA1, CHR 0x9C, CHR 0xEA, CHR 0xB3, CHR 0xA0,
    CHR 0xEC, CHR 0xB9, CHR 0xA8, CHR 0xED, CHR 0x95, CHR 0x98, CHR 0xEA, CHR 0xB1, CHR 0xB0,
    CHR 0xEB, CHR 0x82, CHR 0x98, CHR 0x20, CHR 0xEB, CHR 0x8B, CHR 0xA4, CHR 0xEB, CHR 0xA5,
    CHR 0xB8, CHR 0x20, CHR 0xED, CHR 0x99, CHR 0x94, CHR 0xEB, CHR 0xA9, CHR 0xB4, CHR 0xEC,
    CHR 0x97, CHR 0x90, CHR 0xEC, CHR 0x84, CHR 0x9C, CHR 0x20, CHR 0xEC, CHR 0x9E, CHR 0x91,
    CHR 0xEC, CHR 0x97, CHR 0x85, CHR 0xEC, CHR 0x9D, CHR 0x84, CHR 0x20, CHR 0xEC, CHR 0x83,
    CHR 0x9D, CHR 0xEC, CHR 0x84, CHR 0xB1, CHR 0xED, CHR 0x95, CHR 0x98, CHR 0xEC, CHR 0x84,
    CHR 0xB8, CHR 0xEC, CHR 0x9A, CHR 0x94, CHR 0x2E]"

section \<open>New task\<close>

definition ko_new_task :: string where
  "ko_new_task =
   [CHR 0xEC, CHR 0x83, CHR 0x88, CHR 0x20, CHR 0xEC, CHR 0x9E, CHR 0x91, CHR 0xEC, CHR 0x97,
    CHR 0x85]"

definition ko_new_task_hint :: string where
  "ko_new_task_hint =
   [CHR 0xEB, CHR 0xA8, CHR 0xBC, CHR 0xEC, CHR 0xA0, CHR 0x80, CHR 0x20, CHR 0xEB, CHR 0xAA,
    CHR 0xA9, CHR 0xED, CHR 0x91, CHR 0x9C, CHR 0xEB, CHR 0xA5, CHR 0xBC, CHR 0x20, CHR 0xEC,
    CHR 0xA0, CHR 0x81, CHR 0xEA, CHR 0xB3, CHR 0xA0, CHR 0x2C, CHR 0x20, CHR 0xEC, CHR 0x8B,
    CHR 0xA4, CHR 0xED, CHR 0x96, CHR 0x89, CHR 0x20, CHR 0xEB, CHR 0x8C, CHR 0x80, CHR 0xEC,
    CHR 0x83, CHR 0x81, CHR 0xEC, CHR 0x9D, CHR 0x80, CHR 0x20, CHR 0xED, CHR 0x95, CHR 0x84,
    CHR 0xEC, CHR 0x9A, CHR 0x94, CHR 0xED, CHR 0x95, CHR 0x9C, CHR 0x20, CHR 0xEB, CHR 0xA7,
    CHR 0x8C, CHR 0xED, CHR 0x81, CHR 0xBC, CHR 0x20, CHR 0xEC, CHR 0xA1, CHR 0xB0, CHR 0xEC,
    CHR 0xA0, CHR 0x95, CHR 0xED, CHR 0x95, CHR 0x98, CHR 0xEC, CHR 0x84, CHR 0xB8, CHR 0xEC,
    CHR 0x9A, CHR 0x94, CHR 0x2E]"

definition ko_goal :: string where
  "ko_goal =
   [CHR 0x31, CHR 0x2E, CHR 0x20, CHR 0xEC, CHR 0x9E, CHR 0x91, CHR 0xEC, CHR 0x97, CHR 0x85,
    CHR 0x20, CHR 0xEB, CHR 0xAA, CHR 0xA9, CHR 0xED, CHR 0x91, CHR 0x9C]"

definition ko_chars :: string where
  "ko_chars =
   [CHR 0xEC, CHR 0x9E, CHR 0x90]"

definition ko_prompt_example :: string where
  "ko_prompt_example =
   [CHR 0xEC, CHR 0x98, CHR 0x88, CHR 0x3A, CHR 0x20, CHR 0xEC, CHR 0x9D, CHR 0xB4, CHR 0x20,
    CHR 0xED, CHR 0x94, CHR 0x84, CHR 0xEB, CHR 0xA1, CHR 0x9C, CHR 0xEC, CHR 0xA0, CHR 0x9D,
    CHR 0xED, CHR 0x8A, CHR 0xB8, CHR 0xEC, CHR 0x9D, CHR 0x98, CHR 0x20, CHR 0xEB, CHR 0xA1,
    CHR 0x9C, CHR 0xEA, CHR 0xB7, CHR 0xB8, CHR 0xEC, CHR 0x9D, CHR 0xB8, CHR 0x20, CHR 0xED,
    CHR 0x99, CHR 0x94, CHR 0xEB, CHR 0xA9, CHR 0xB4, CHR 0xEC, CHR 0x9D, CHR 0x84, CHR 0x20,
    CHR 0xEB, CHR 0xAA, CHR 0xA8, CHR 0xEB, CHR 0xB0, CHR 0x94, CHR 0xEC, CHR 0x9D, CHR 0xBC,
    CHR 0xEC, CHR 0x97, CHR 0x90, CHR 0x20, CHR 0xEB, CHR 0xA7, CHR 0x9E, CHR 0xEA, CHR 0xB2,
    CHR 0x8C, CHR 0x20, CHR 0xEC, CHR 0xA0, CHR 0x95, CHR 0xEB, CHR 0xA6, CHR 0xAC, CHR 0xED,
    CHR 0x95, CHR 0xB4, CHR 0x20, CHR 0xEC, CHR 0xA4, CHR 0x98, CHR 0x2E]"

definition ko_ready :: string where
  "ko_ready =
   [CHR 0xEC, CHR 0x8B, CHR 0xA4, CHR 0xED, CHR 0x96, CHR 0x89, CHR 0x20, CHR 0xEC, CHR 0xA4,
    CHR 0x80, CHR 0xEB, CHR 0xB9, CHR 0x84]"

definition ko_on_server :: string where
  "ko_on_server =
   [CHR 0xEC, CHR 0x97, CHR 0x90, CHR 0xEC, CHR 0x84, CHR 0x9C, CHR 0x20]"

definition ko_will_run :: string where
  "ko_will_run =
   [CHR 0xEB, CHR 0xA1, CHR 0x9C, CHR 0x20, CHR 0xEC, CHR 0x8B, CHR 0xA4, CHR 0xED, CHR 0x96,
    CHR 0x89, CHR 0xEB, CHR 0x90, CHR 0xA9, CHR 0xEB, CHR 0x8B, CHR 0x88, CHR 0xEB, CHR 0x8B,
    CHR 0xA4, CHR 0x2E]"

definition ko_choose_server :: string where
  "ko_choose_server =
   [CHR 0xEC, CHR 0x84, CHR 0x9C, CHR 0xEB, CHR 0xB2, CHR 0x84, CHR 0xEB, CHR 0xA5, CHR 0xBC,
    CHR 0x20, CHR 0xED, CHR 0x95, CHR 0x98, CHR 0xEB, CHR 0x82, CHR 0x98, CHR 0x20, CHR 0xEC,
    CHR 0x84, CHR 0xA0, CHR 0xED, CHR 0x83, CHR 0x9D, CHR 0xED, CHR 0x95, CHR 0x98, CHR 0xEB,
    CHR 0xA9, CHR 0xB4, CHR 0x20, CHR 0xEC, CHR 0x9E, CHR 0x91, CHR 0xEC, CHR 0x97, CHR 0x85,
    CHR 0xEC, CHR 0x9D, CHR 0x84, CHR 0x20, CHR 0xEB, CHR 0xB3, CHR 0xB4, CHR 0xEB, CHR 0x82,
    CHR 0xBC, CHR 0x20, CHR 0xEC, CHR 0x88, CHR 0x98, CHR 0x20, CHR 0xEC, CHR 0x9E, CHR 0x88,
    CHR 0xEC, CHR 0x8A, CHR 0xB5, CHR 0xEB, CHR 0x8B, CHR 0x88, CHR 0xEB, CHR 0x8B, CHR 0xA4,
    CHR 0x2E]"

definition ko_exec_server :: string where
  "ko_exec_server =
   [CHR 0x32, CHR 0x2E, CHR 0x20, CHR 0xEC, CHR 0x8B, CHR 0xA4, CHR 0xED, CHR 0x96, CHR 0x89,
    CHR 0x20, CHR 0xEC, CHR 0x84, CHR 0x9C, CHR 0xEB, CHR 0xB2, CHR 0x84]"

definition ko_load_servers :: string where
  "ko_load_servers =
   [CHR 0xEC, CHR 0x84, CHR 0x9C, CHR 0xEB, CHR 0xB2, CHR 0x84, CHR 0xEB, CHR 0xA5, CHR 0xBC,
    CHR 0x20, CHR 0xEB, CHR 0xB6, CHR 0x88, CHR 0xEB, CHR 0x9F, CHR 0xAC, CHR 0xEC, CHR 0x98,
    CHR 0xA8, CHR 0x20, CHR 0xEB, CHR 0x92, CHR 0xA4, CHR 0x20, CHR 0xEC, CHR 0x9E, CHR 0x91,
    CHR 0xEC, CHR 0x97, CHR 0x85, CHR 0xEC, CHR 0x9D, CHR 0x84, CHR 0x20, CHR 0xEB, CHR 0xA7,
    CHR 0x8C, CHR 0xEB, CHR 0x93, CHR 0xA4, CHR 0x20, CHR 0xEC, CHR 0x88, CHR 0x98, CHR 0x20,
    CHR 0xEC, CHR 0x9E, CHR 0x88, CHR 0xEC, CHR 0x8A, CHR 0xB5, CHR 0xEB, CHR 0x8B, CHR 0x88,
    CHR 0xEB, CHR 0x8B, CHR 0xA4, CHR 0x2E]"

definition ko_selected :: string where
  "ko_selected =
   [CHR 0xEC, CHR 0x84, CHR 0xA0, CHR 0xED, CHR 0x83, CHR 0x9D, CHR 0xEB, CHR 0x90, CHR 0xA8,
    CHR 0x3A, CHR 0x20]"

section \<open>Servers\<close>

definition ko_servers :: string where
  "ko_servers =
   [CHR 0xEC, CHR 0x84, CHR 0x9C, CHR 0xEB, CHR 0xB2, CHR 0x84]"

definition ko_servers_hint :: string where
  "ko_servers_hint =
   [CHR 0xEC, CHR 0x9E, CHR 0x91, CHR 0xEC, CHR 0x97, CHR 0x85, CHR 0xEC, CHR 0x9D, CHR 0x84,
    CHR 0x20, CHR 0xEC, CHR 0x8B, CHR 0xA4, CHR 0xED, CHR 0x96, CHR 0x89, CHR 0xED, CHR 0x95,
    CHR 0xA0, CHR 0x20, CHR 0xEC, CHR 0x88, CHR 0x98, CHR 0x20, CHR 0xEC, CHR 0x9E, CHR 0x88,
    CHR 0xEB, CHR 0x8A, CHR 0x94, CHR 0x20, CHR 0xEC, CHR 0x9B, CHR 0x8C, CHR 0xEC, CHR 0xBB,
    CHR 0xA4, CHR 0x20, CHR 0xEC, CHR 0x84, CHR 0x9C, CHR 0xEB, CHR 0xB2, CHR 0x84, CHR 0x20,
    CHR 0xEC, CHR 0x83, CHR 0x81, CHR 0xED, CHR 0x83, CHR 0x9C, CHR 0xEC, CHR 0x9E, CHR 0x85,
    CHR 0xEB, CHR 0x8B, CHR 0x88, CHR 0xEB, CHR 0x8B, CHR 0xA4, CHR 0x2E]"

definition ko_servers_none :: string where
  "ko_servers_none =
   [CHR 0xEB, CHR 0x93, CHR 0xB1, CHR 0xEB, CHR 0xA1, CHR 0x9D, CHR 0xEB, CHR 0x90, CHR 0x9C,
    CHR 0x20, CHR 0xEC, CHR 0x84, CHR 0x9C, CHR 0xEB, CHR 0xB2, CHR 0x84, CHR 0xEA, CHR 0xB0,
    CHR 0x80, CHR 0x20, CHR 0xEC, CHR 0x97, CHR 0x86, CHR 0xEC, CHR 0x8A, CHR 0xB5, CHR 0xEB,
    CHR 0x8B, CHR 0x88, CHR 0xEB, CHR 0x8B, CHR 0xA4, CHR 0x2E]"

definition ko_last_seen :: string where
  "ko_last_seen =
   [CHR 0xEB, CHR 0xA7, CHR 0x88, CHR 0xEC, CHR 0xA7, CHR 0x80, CHR 0xEB, CHR 0xA7, CHR 0x89,
    CHR 0x20, CHR 0xEC, CHR 0x97, CHR 0xB0, CHR 0xEA, CHR 0xB2, CHR 0xB0, CHR 0x20]"

definition ko_default_target :: string where
  "ko_default_target =
   [CHR 0x20, CHR 0x2F, CHR 0x20, CHR 0xEA, CHR 0xB8, CHR 0xB0, CHR 0xEB, CHR 0xB3, CHR 0xB8,
    CHR 0x20, CHR 0xEC, CHR 0x8B, CHR 0xA4, CHR 0xED, CHR 0x96, CHR 0x89, CHR 0x20, CHR 0xEB,
    CHR 0x8C, CHR 0x80, CHR 0xEC, CHR 0x83, CHR 0x81]"

definition ko_reg_requests :: string where
  "ko_reg_requests =
   [CHR 0xEB, CHR 0x93, CHR 0xB1, CHR 0xEB, CHR 0xA1, CHR 0x9D, CHR 0x20, CHR 0xEC, CHR 0x9A,
    CHR 0x94, CHR 0xEC, CHR 0xB2, CHR 0xAD]"

definition ko_reg_hint :: string where
  "ko_reg_hint =
   [CHR 0xEC, CHR 0x84, CHR 0x9C, CHR 0xEB, CHR 0xB2, CHR 0x84, CHR 0x20, CHR 0xED, CHR 0x84,
    CHR 0xB0, CHR 0xEB, CHR 0xAF, CHR 0xB8, CHR 0xEB, CHR 0x84, CHR 0x90, CHR 0xEC, CHR 0x9D,
    CHR 0x98, CHR 0x20, CHR 0xEC, CHR 0xBD, CHR 0x94, CHR 0xEB, CHR 0x93, CHR 0x9C, CHR 0xEC,
    CHR 0x99, CHR 0x80, CHR 0x20, CHR 0xEC, CHR 0x95, CHR 0xB1, CHR 0xEC, CHR 0x9D, CHR 0x98,
    CHR 0x20, CHR 0xEC, CHR 0xBD, CHR 0x94, CHR 0xEB, CHR 0x93, CHR 0x9C, CHR 0xEB, CHR 0xA5,
    CHR 0xBC, CHR 0x20, CHR 0xED, CHR 0x99, CHR 0x95, CHR 0xEC, CHR 0x9D, CHR 0xB8, CHR 0xED,
    CHR 0x95, CHR 0x98, CHR 0xEC, CHR 0x84, CHR 0xB8, CHR 0xEC, CHR 0x9A, CHR 0x94, CHR 0x2E]"

definition ko_expires :: string where
  "ko_expires =
   [CHR 0x20, CHR 0x2F, CHR 0x20, CHR 0xEB, CHR 0xA7, CHR 0x8C, CHR 0xEB, CHR 0xA3, CHR 0x8C,
    CHR 0x20]"

definition ko_approve_server :: string where
  "ko_approve_server =
   [CHR 0xEC, CHR 0x84, CHR 0x9C, CHR 0xEB, CHR 0xB2, CHR 0x84, CHR 0x20, CHR 0xEC, CHR 0x8A,
    CHR 0xB9, CHR 0xEC, CHR 0x9D, CHR 0xB8]"

definition ko_reject :: string where
  "ko_reject =
   [CHR 0xEA, CHR 0xB1, CHR 0xB0, CHR 0xEC, CHR 0xA0, CHR 0x88]"

definition ko_reject_server_q :: string where
  "ko_reject_server_q =
   [CHR 0xEC, CHR 0x84, CHR 0x9C, CHR 0xEB, CHR 0xB2, CHR 0x84, CHR 0x20, CHR 0xEB, CHR 0x93,
    CHR 0xB1, CHR 0xEB, CHR 0xA1, CHR 0x9D, CHR 0xEC, CHR 0x9D, CHR 0x84, CHR 0x20, CHR 0xEA,
    CHR 0xB1, CHR 0xB0, CHR 0xEC, CHR 0xA0, CHR 0x88, CHR 0xED, CHR 0x95, CHR 0xA0, CHR 0xEA,
    CHR 0xB9, CHR 0x8C, CHR 0xEC, CHR 0x9A, CHR 0x94, CHR 0x3F]"

section \<open>Tasks\<close>

definition ko_tasks :: string where
  "ko_tasks =
   [CHR 0xEC, CHR 0x9E, CHR 0x91, CHR 0xEC, CHR 0x97, CHR 0x85]"

definition ko_tasks_hint :: string where
  "ko_tasks_hint =
   [CHR 0xEC, CHR 0xB5, CHR 0x9C, CHR 0xEA, CHR 0xB7, CHR 0xBC, CHR 0x20, CHR 0xEC, CHR 0x9E,
    CHR 0x91, CHR 0xEC, CHR 0x97, CHR 0x85, CHR 0xEC, CHR 0x9D, CHR 0x98, CHR 0x20, CHR 0xEC,
    CHR 0x83, CHR 0x81, CHR 0xED, CHR 0x83, CHR 0x9C, CHR 0xEC, CHR 0x99, CHR 0x80, CHR 0x20,
    CHR 0xEB, CHR 0xA7, CHR 0x88, CHR 0xEC, CHR 0xA7, CHR 0x80, CHR 0xEB, CHR 0xA7, CHR 0x89,
    CHR 0x20, CHR 0xEB, CHR 0xA1, CHR 0x9C, CHR 0xEA, CHR 0xB7, CHR 0xB8, CHR 0xEB, CHR 0xA5,
    CHR 0xBC, CHR 0x20, CHR 0xED, CHR 0x99, CHR 0x95, CHR 0xEC, CHR 0x9D, CHR 0xB8, CHR 0xED,
    CHR 0x95, CHR 0x98, CHR 0xEC, CHR 0x84, CHR 0xB8, CHR 0xEC, CHR 0x9A, CHR 0x94, CHR 0x2E]"

definition ko_tasks_none :: string where
  "ko_tasks_none =
   [CHR 0xEC, CHR 0x95, CHR 0x84, CHR 0xEC, CHR 0xA7, CHR 0x81, CHR 0x20, CHR 0xEC, CHR 0x83,
    CHR 0x9D, CHR 0xEC, CHR 0x84, CHR 0xB1, CHR 0xEB, CHR 0x90, CHR 0x9C, CHR 0x20, CHR 0xEC,
    CHR 0x9E, CHR 0x91, CHR 0xEC, CHR 0x97, CHR 0x85, CHR 0xEC, CHR 0x9D, CHR 0xB4, CHR 0x20,
    CHR 0xEC, CHR 0x97, CHR 0x86, CHR 0xEC, CHR 0x8A, CHR 0xB5, CHR 0xEB, CHR 0x8B, CHR 0x88,
    CHR 0xEB, CHR 0x8B, CHR 0xA4, CHR 0x2E]"

definition ko_prompt :: string where
  "ko_prompt =
   [CHR 0xED, CHR 0x94, CHR 0x84, CHR 0xEB, CHR 0xA1, CHR 0xAC, CHR 0xED, CHR 0x94, CHR 0x84,
    CHR 0xED, CHR 0x8A, CHR 0xB8]"

definition ko_recent_log :: string where
  "ko_recent_log =
   [CHR 0xEC, CHR 0xB5, CHR 0x9C, CHR 0xEA, CHR 0xB7, CHR 0xBC, CHR 0x20, CHR 0xEB, CHR 0xA1,
    CHR 0x9C, CHR 0xEA, CHR 0xB7, CHR 0xB8]"

definition ko_requested :: string where
  "ko_requested =
   [CHR 0xEC, CHR 0x9A, CHR 0x94, CHR 0xEC, CHR 0xB2, CHR 0xAD, CHR 0x20]"

definition ko_details :: string where
  "ko_details =
   [CHR 0xEC, CHR 0x83, CHR 0x81, CHR 0xEC, CHR 0x84, CHR 0xB8, CHR 0x20, CHR 0xEB, CHR 0xB3,
    CHR 0xB4, CHR 0xEA, CHR 0xB8, CHR 0xB0]"

section \<open>Approvals\<close>

definition ko_approval_request :: string where
  "ko_approval_request =
   [CHR 0xEC, CHR 0x8A, CHR 0xB9, CHR 0xEC, CHR 0x9D, CHR 0xB8, CHR 0x20, CHR 0xEC, CHR 0x9A,
    CHR 0x94, CHR 0xEC, CHR 0xB2, CHR 0xAD]"

definition ko_no_reason :: string where
  "ko_no_reason =
   [CHR 0xEC, CHR 0x8A, CHR 0xB9, CHR 0xEC, CHR 0x9D, CHR 0xB8, CHR 0x20, CHR 0xEC, CHR 0x9A,
    CHR 0x94, CHR 0xEC, CHR 0xB2, CHR 0xAD, CHR 0x20, CHR 0xEC, CHR 0x82, CHR 0xAC, CHR 0xEC,
    CHR 0x9C, CHR 0xA0, CHR 0xEA, CHR 0xB0, CHR 0x80, CHR 0x20, CHR 0xEC, CHR 0x97, CHR 0x86,
    CHR 0xEC, CHR 0x8A, CHR 0xB5, CHR 0xEB, CHR 0x8B, CHR 0x88, CHR 0xEB, CHR 0x8B, CHR 0xA4,
    CHR 0x2E]"

definition ko_approve :: string where
  "ko_approve =
   [CHR 0xEC, CHR 0x8A, CHR 0xB9, CHR 0xEC, CHR 0x9D, CHR 0xB8]"

definition ko_reject_q :: string where
  "ko_reject_q =
   [CHR 0xEC, CHR 0x8A, CHR 0xB9, CHR 0xEC, CHR 0x9D, CHR 0xB8, CHR 0x20, CHR 0xEC, CHR 0x9A,
    CHR 0x94, CHR 0xEC, CHR 0xB2, CHR 0xAD, CHR 0xEC, CHR 0x9D, CHR 0x84, CHR 0x20, CHR 0xEA,
    CHR 0xB1, CHR 0xB0, CHR 0xEC, CHR 0xA0, CHR 0x88, CHR 0xED, CHR 0x95, CHR 0xA0, CHR 0xEA,
    CHR 0xB9, CHR 0x8C, CHR 0xEC, CHR 0x9A, CHR 0x94, CHR 0x3F]"

definition ko_approvals_hint :: string where
  "ko_approvals_hint =
   [CHR 0xEB, CHR 0x8C, CHR 0x80, CHR 0xEA, CHR 0xB8, CHR 0xB0, CHR 0x20, CHR 0xEC, CHR 0xA4,
    CHR 0x91, CHR 0xEC, CHR 0x9D, CHR 0xB8, CHR 0x20, CHR 0xEC, CHR 0x8A, CHR 0xB9, CHR 0xEC,
    CHR 0x9D, CHR 0xB8, CHR 0x20, CHR 0xEC, CHR 0x9A, CHR 0x94, CHR 0xEC, CHR 0xB2, CHR 0xAD,
    CHR 0xEC, CHR 0x9D, CHR 0x84, CHR 0x20, CHR 0xEA, CHR 0xB2, CHR 0x80, CHR 0xED, CHR 0x86,
    CHR 0xA0, CHR 0xED, CHR 0x95, CHR 0x98, CHR 0xEA, CHR 0xB3, CHR 0xA0, CHR 0x20, CHR 0xEA,
    CHR 0xB2, CHR 0xB0, CHR 0xEC, CHR 0xA0, CHR 0x95, CHR 0xED, CHR 0x95, CHR 0x98, CHR 0xEC,
    CHR 0x84, CHR 0xB8, CHR 0xEC, CHR 0x9A, CHR 0x94, CHR 0x2E]"

definition ko_approvals_none :: string where
  "ko_approvals_none =
   [CHR 0xEB, CHR 0x8C, CHR 0x80, CHR 0xEA, CHR 0xB8, CHR 0xB0, CHR 0x20, CHR 0xEC, CHR 0xA4,
    CHR 0x91, CHR 0xEC, CHR 0x9D, CHR 0xB8, CHR 0x20, CHR 0xEC, CHR 0x8A, CHR 0xB9, CHR 0xEC,
    CHR 0x9D, CHR 0xB8, CHR 0x20, CHR 0xEC, CHR 0x9A, CHR 0x94, CHR 0xEC, CHR 0xB2, CHR 0xAD,
    CHR 0xEC, CHR 0x9D, CHR 0xB4, CHR 0x20, CHR 0xEC, CHR 0x97, CHR 0x86, CHR 0xEC, CHR 0x8A,
    CHR 0xB5, CHR 0xEB, CHR 0x8B, CHR 0x88, CHR 0xEB, CHR 0x8B, CHR 0xA4, CHR 0x2E]"

definition ko_request_text :: string where
  "ko_request_text =
   [CHR 0xEC, CHR 0x9A, CHR 0x94, CHR 0xEC, CHR 0xB2, CHR 0xAD, CHR 0x20, CHR 0xEB, CHR 0x82,
    CHR 0xB4, CHR 0xEC, CHR 0x9A, CHR 0xA9]"

definition ko_slash_requested :: string where
  "ko_slash_requested =
   [CHR 0x20, CHR 0x2F, CHR 0x20, CHR 0xEC, CHR 0x9A, CHR 0x94, CHR 0xEC, CHR 0xB2, CHR 0xAD,
    CHR 0x20]"

section \<open>Detail\<close>

definition ko_result :: string where
  "ko_result =
   [CHR 0xEA, CHR 0xB2, CHR 0xB0, CHR 0xEA, CHR 0xB3, CHR 0xBC]"

definition ko_log :: string where
  "ko_log =
   [CHR 0xEB, CHR 0xA1, CHR 0x9C, CHR 0xEA, CHR 0xB7, CHR 0xB8]"

definition ko_live_hint :: string where
  "ko_live_hint =
   [CHR 0xEC, CHR 0x8B, CHR 0xA4, CHR 0xED, CHR 0x96, CHR 0x89, CHR 0x20, CHR 0xEC, CHR 0xA4,
    CHR 0x91, CHR 0xEC, CHR 0x97, CHR 0x90, CHR 0xEB, CHR 0x8A, CHR 0x94, CHR 0x20, CHR 0xEC,
    CHR 0xB5, CHR 0x9C, CHR 0xEC, CHR 0x8B, CHR 0xA0, CHR 0x20, CHR 0xEB, CHR 0xA1, CHR 0x9C,
    CHR 0xEA, CHR 0xB7, CHR 0xB8, CHR 0xEB, CHR 0xA1, CHR 0x9C, CHR 0x20, CHR 0xEC, CHR 0x9E,
    CHR 0x90, CHR 0xEB, CHR 0x8F, CHR 0x99, CHR 0x20, CHR 0xEC, CHR 0x9D, CHR 0xB4, CHR 0xEB,
    CHR 0x8F, CHR 0x99, CHR 0xED, CHR 0x95, CHR 0xA9, CHR 0xEB, CHR 0x8B, CHR 0x88, CHR 0xEB,
    CHR 0x8B, CHR 0xA4, CHR 0x2E]"

end
