(* ===== verification/Mobile_Screens.thy ===== *)
theory Mobile_Screens
  imports Mobile_System Mobile_Labels
begin

text \<open>
  The screens of \<^verbatim>\<open>mobile-app/App.tsx\<close>: every component is a function from its props to the tree of
  elements it renders, and \<open>render\<close> is what \<open>CodeCallerApp\<close> returns. A press is an event of the app, or
  asks for a confirmation that leads to one. Keys, keyboard hints and the colour of placeholders are
  left out; the styles stand by their names in the style sheet, and a fragment is a view without style.
  The fields of items that the types declare as strings are read as strings; a missing one shows nothing.
\<close>

section \<open>Elements\<close>

datatype style = Style string | PaddingBottom int

text \<open>What a press does: it fires an event; or shows an alert with a title, a message, a button that
  dismisses it and one that fires the event; or fires an event with the answer of the messaging service.\<close>

datatype app_action =
    Fire app_event
  | Confirm string string app_event
  | WithToken "string + string \<Rightarrow> app_event"

text \<open>An auto scroll view is moved to its end when its content changes, if its flag is set.\<close>

datatype element =
    View "style list" "element list"
  | SafeAreaView "style list" "element list"
  | KeyboardAvoidingView "string option" "style list" "element list"
  | ScrollView "style list" "element list"
  | AutoScrollView bool "style list" "element list"
  | FlatList "style list" element element "element list"
  | Text "style list" "nat option" string
  | TextInput "style list" string bool string "string \<Rightarrow> app_event"
  | Pressable "style list" bool app_action "element list"
  | ActivityIndicator "style list"
  | StatusBar string

text \<open>The platform around the app: calendar, time, the display's bottom inset and the system's name.\<close>

record screen =
  sc_dates :: dates
  sc_now :: int
  sc_bottomInset :: int
  sc_os :: string

definition opt :: "bool \<Rightarrow> 'a \<Rightarrow> 'a list" where
  "opt b e = (if b then [e] else [])"

definition fld :: "string \<Rightarrow> json \<Rightarrow> string option" where
  "fld k j = (case getProp k j of Some (JStr v) \<Rightarrow> Some v | _ \<Rightarrow> None)"

definition txt_of :: "string \<Rightarrow> json \<Rightarrow> string" where
  "txt_of k j = (case fld k j of None \<Rightarrow> [] | Some v \<Rightarrow> v)"

text \<open>\<open>a || b\<close> and \<open>a ?? b\<close> for strings.\<close>

definition or_text :: "string option \<Rightarrow> string \<Rightarrow> string" where
  "or_text v d = (if blank v then d else the v)"

definition or_nullish :: "string option \<Rightarrow> string \<Rightarrow> string" where
  "or_nullish v d = (case v of None \<Rightarrow> d | Some t \<Rightarrow> t)"

section \<open>Small components\<close>

definition PrimaryButton :: "bool \<Rightarrow> string \<Rightarrow> app_action \<Rightarrow> element" where
  "PrimaryButton disabled label onPress =
    Pressable (Style ''primaryButton'' # opt disabled (Style ''disabled'')) disabled onPress
      [Text [Style ''primaryButtonText''] None label]"

definition DangerButton :: "bool \<Rightarrow> string \<Rightarrow> app_action \<Rightarrow> element" where
  "DangerButton disabled label onPress =
    Pressable (Style ''dangerButton'' # opt disabled (Style ''dangerButtonDisabled'')) disabled onPress
      [Text [Style ''dangerButtonText''] None label]"

definition EmptyState :: "string \<Rightarrow> element" where
  "EmptyState label =
    View [Style ''emptyCard''] [Text [Style ''emptyTitle''] None label, Text [Style ''emptyText''] None ko_empty_hint]"

fun tone_style :: "string \<Rightarrow> tone \<Rightarrow> style" where
  "tone_style pre Success = Style (pre @ ''Success'')"
| "tone_style pre Warning = Style (pre @ ''Warning'')"
| "tone_style pre Danger = Style (pre @ ''Danger'')"
| "tone_style pre Info = Style (pre @ ''Info'')"
| "tone_style pre Neutral = Style (pre @ ''Neutral'')"

definition StatusPill :: "string \<Rightarrow> element" where
  "StatusPill label =
    (let status = normalizeStatus label in
     View [Style ''pill'', tone_style ''pill'' (snd status)]
       [Text [Style ''pillText'', tone_style ''pillText'' (snd status)] None (fst status)])"

definition ScreenHeading :: "string \<Rightarrow> string \<Rightarrow> element" where
  "ScreenHeading subtitle title =
    View [Style ''screenHeading''] [Text [Style ''screenTitle''] None title, Text [Style ''screenSubtitle''] None subtitle]"

definition InfoBlock :: "string \<Rightarrow> nat \<Rightarrow> string \<Rightarrow> element" where
  "InfoBlock label lines val =
    View [Style ''infoBlock''] [Text [Style ''infoLabel''] None label, Text [Style ''infoValue''] (Some lines) val]"

definition ErrorBanner :: "string \<Rightarrow> element" where
  "ErrorBanner message =
    View [Style ''errorBanner''] [View [Style ''errorTextGroup'']
      [Text [Style ''errorTitle''] None ko_error_title, Text [Style ''errorDetail''] (Some 2) message]]"

definition ScrollableTextBox :: "string \<Rightarrow> bool \<Rightarrow> element" where
  "ScrollableTextBox val is_result =
    ScrollView [Style ''textScrollBox'', Style (if is_result then ''resultBox'' else ''compactTextBox'')]
      [Text [Style ''detailBodyText''] None val]"

definition DetailSection :: "element list \<Rightarrow> string option \<Rightarrow> string \<Rightarrow> element" where
  "DetailSection children subtitle title =
    View [Style ''detailSection'']
      (Text [Style ''detailSectionTitle''] None title #
       opt (\<not> blank subtitle) (Text [Style ''detailSectionSubtitle''] None (the subtitle)) @ children)"

record tab_item =
  tb_key :: Tab
  tb_label :: string
  tb_icon :: string

definition TABS :: "tab_item list" where
  "TABS = [\<lparr>tb_key = ServersTab, tb_label = ''Servers'', tb_icon = ''S''\<rparr>, \<lparr>tb_key = NewTaskTab, tb_label = ''New'', tb_icon = ''+''\<rparr>,
    \<lparr>tb_key = TasksTab, tb_label = ''Tasks'', tb_icon = ''T''\<rparr>, \<lparr>tb_key = ApprovalsTab, tb_label = ''Approvals'', tb_icon = ''A''\<rparr>]"

definition BottomNavigation :: "app \<Rightarrow> int \<Rightarrow> (Tab \<Rightarrow> app_event) \<Rightarrow> element" where
  "BottomNavigation s bottomInset onChange =
    View [Style ''bottomNav'', PaddingBottom (max bottomInset 34)]
      (map (\<lambda>item.
        let active = (ui_tab s = tb_key item) in
        Pressable (Style ''navItem'' # opt active (Style ''navItemActive'')) False (Fire (onChange (tb_key item)))
          [View [Style ''navIconWrap'']
             (Text (Style ''navIcon'' # opt active (Style ''navIconActive'')) None (tb_icon item) #
              opt (badge s (tb_key item) \<noteq> None)
                (View [Style ''navBadge''] [Text [Style ''navBadgeText''] None (the (badge s (tb_key item)))])),
           Text (Style ''navLabel'' # opt active (Style ''navLabelActive'')) None (tb_label item)]) TABS)"

section \<open>The new task\<close>

definition WORKER_TYPES :: "WorkerType list" where
  "WORKER_TYPES = [CODEX, CLAUDE, GEMINI]"

definition chosen :: "string option \<Rightarrow> json \<Rightarrow> bool" where
  "chosen selectedServerId server \<longleftrightarrow> selectedServerId \<noteq> None \<and> fld ''id'' server = selectedServerId"

definition serverOption :: "(string \<Rightarrow> app_event) \<Rightarrow> string option \<Rightarrow> json \<Rightarrow> element" where
  "serverOption onSelectedServerChange selectedServerId server =
    (let active = chosen selectedServerId server in
     Pressable (Style ''optionButton'' # opt active (Style ''optionButtonActive'')) False
       (Fire (onSelectedServerChange (txt_of ''id'' server)))
       [View [Style ''optionMain'']
          [Text (Style ''optionTitle'' # opt active (Style ''optionTitleActive'')) None (txt_of ''name'' server),
           Text (Style ''optionMeta'' # opt active (Style ''optionMetaActive'')) None
             (txt_of ''osType'' server @ '' / '' @ txt_of ''tailscaleIp'' server)],
        View [Style ''optionRight'']
          (opt active (Text [Style ''selectedMark''] None ''Selected'') @ [StatusPill (txt_of ''status'' server)])])"

definition workerOption :: "(WorkerType \<Rightarrow> app_event) \<Rightarrow> WorkerType \<Rightarrow> WorkerType \<Rightarrow> element" where
  "workerOption onWorkerTypeChange workerType item =
    Pressable (Style ''segmentButton'' # opt (workerType = item) (Style ''segmentButtonActive'')) False (Fire (onWorkerTypeChange item))
      [Text (Style ''segmentText'' # opt (workerType = item) (Style ''segmentTextActive'')) None (show_workerType item)]"

definition NewTaskScreen :: "screen \<Rightarrow> app \<Rightarrow> (string \<Rightarrow> app_event) \<Rightarrow> (string \<Rightarrow> app_event) \<Rightarrow> app_event \<Rightarrow> (WorkerType \<Rightarrow> app_event) \<Rightarrow> element" where
  "NewTaskScreen sc s onPromptChange onSelectedServerChange onSubmit onWorkerTypeChange =
    (let selectedServer = List.find (chosen (ui_selectedServerId s)) (ui_servers s) in
     KeyboardAvoidingView (Some (if sc_os sc = ''ios'' then ''padding'' else ''height'')) [Style ''flex'']
       [ScrollView [Style ''form'']
         ([ScreenHeading ko_new_task_hint ko_new_task,
           View [Style ''promptHeader'']
             [Text [Style ''sectionLabel''] None ko_goal,
              Text [Style ''counterText''] None (show_nat (length (ui_prompt s)) @ ko_chars)],
           TextInput [Style ''input'', Style ''promptInput''] ko_prompt_example False (ui_prompt s) onPromptChange,
           View [Style ''dispatchSummary'']
             [Text [Style ''dispatchSummaryTitle''] None ko_ready,
              Text [Style ''dispatchSummaryText''] (Some 2)
                (case selectedServer of
                   Some server \<Rightarrow> txt_of ''name'' server @ ko_on_server @ show_workerType (ui_workerType s) @ ko_will_run
                 | None \<Rightarrow> ko_choose_server)],
           Text [Style ''sectionLabel''] None ko_exec_server] @
          (if ui_servers s = [] then [EmptyState ko_load_servers]
           else map (serverOption onSelectedServerChange (ui_selectedServerId s)) (ui_servers s)) @
          [Text [Style ''sectionLabel''] None ''3. AI Worker'',
           View [Style ''segmentRow''] (map (workerOption onWorkerTypeChange (ui_workerType s)) WORKER_TYPES)] @
          (case selectedServer of
             Some server \<Rightarrow> [Text [Style ''helperText''] None
               (ko_selected @ txt_of ''name'' server @ '' / '' @ txt_of ''osType'' server)]
           | None \<Rightarrow> []) @
          [PrimaryButton (\<not> canSubmit s) (if ui_busy s then ko_sending else ko_run_task) (Fire onSubmit)])])"

section \<open>Servers and registration requests\<close>

definition registrationCard :: "screen \<Rightarrow> bool \<Rightarrow> (json \<Rightarrow> bool \<Rightarrow> app_event) \<Rightarrow> json \<Rightarrow> element" where
  "registrationCard sc busy onDecision item =
    View [Style ''registrationCard'']
      [View [Style ''row'']
         [View [Style ''cardTitleGroup'']
            [Text [Style ''cardTitle''] (Some 1) (txt_of ''name'' item),
             Text [Style ''meta''] None (txt_of ''osType'' item @ '' / '' @ txt_of ''tailscaleIp'' item)],
          View [Style ''verificationBadge''] [Text [Style ''verificationText''] None (txt_of ''verificationCode'' item)]],
       Text [Style ''footerMeta''] None
         (''Fingerprint '' @ compactId (fld ''fingerprint'' item) @ ko_expires @ formatDate (sc_dates sc) (fld ''expiresAt'' item)),
       View [Style ''actionRow'']
         [PrimaryButton busy ko_approve_server (Fire (onDecision item True)),
          DangerButton busy ko_reject (Confirm ko_reject_server_q (txt_of ''name'' item) (onDecision item False))]]"

definition RegistrationRequestsPanel :: "screen \<Rightarrow> bool \<Rightarrow> (json \<Rightarrow> bool \<Rightarrow> app_event) \<Rightarrow> json list \<Rightarrow> element list" where
  "RegistrationRequestsPanel sc busy onDecision requests =
    (if requests = [] then []
     else [View [Style ''registrationPanel'']
       (View [Style ''row'']
          [View [Style ''cardTitleGroup'']
             [Text [Style ''sectionLabel''] None ko_reg_requests, Text [Style ''helperText''] None ko_reg_hint],
           View [Style ''badge''] [Text [Style ''badgeText''] None (show_nat (length requests))]] #
        map (registrationCard sc busy onDecision) requests)])"

definition serverCard :: "screen \<Rightarrow> (string \<Rightarrow> app_event) \<Rightarrow> string option \<Rightarrow> json \<Rightarrow> element" where
  "serverCard sc onSelectedServerChange selectedServerId item =
    Pressable (Style ''card'' # opt (chosen selectedServerId item) (Style ''selectedCard'')) False
      (Fire (onSelectedServerChange (txt_of ''id'' item)))
      [View [Style ''row'']
         [View [Style ''cardTitleGroup'']
            [Text [Style ''cardTitle''] (Some 1) (txt_of ''name'' item),
             Text [Style ''meta''] None (txt_of ''osType'' item @ '' / '' @ txt_of ''tailscaleIp'' item)],
          StatusPill (txt_of ''status'' item)],
       Text [Style ''footerMeta''] None
         (ko_last_seen @ formatRelativeTime (sc_dates sc) (sc_now sc) (fld ''lastHeartbeatAt'' item) @
          (if chosen selectedServerId item then ko_default_target else []))]"

definition ServersList :: "screen \<Rightarrow> app \<Rightarrow> (json \<Rightarrow> bool \<Rightarrow> app_event) \<Rightarrow> (string \<Rightarrow> app_event) \<Rightarrow> element" where
  "ServersList sc s onRegistrationDecision onSelectedServerChange =
    FlatList [Style ''list'']
      (View [] (ScreenHeading ko_servers_hint ko_servers #
         RegistrationRequestsPanel sc (ui_busy s) onRegistrationDecision (ui_regs s)))
      (EmptyState ko_servers_none)
      (map (serverCard sc onSelectedServerChange (ui_selectedServerId s)) (ui_servers s))"

section \<open>Tasks\<close>

definition taskCard :: "screen \<Rightarrow> (string option \<Rightarrow> app_event) \<Rightarrow> json \<Rightarrow> element" where
  "taskCard sc onOpenTask item =
    Pressable [Style ''card''] False (Fire (onOpenTask (fld ''id'' item)))
      ([View [Style ''row''] [Text [Style ''cardTitle''] (Some 1) (txt_of ''workerType'' item), StatusPill (txt_of ''status'' item)],
        InfoBlock ko_prompt 2 (or_text (Some (extractPrompt (getProp ''input'' item))) ko_no_prompt)] @
       opt (\<not> blank (fld ''logs'' item)) (InfoBlock ko_recent_log 2 (txt_of ''logs'' item)) @
       [View [Style ''metaGrid'']
          [Text [Style ''footerMeta''] None (''Task '' @ compactId (fld ''id'' item)),
           Text [Style ''footerMeta''] None (''Server '' @ compactId (fld ''serverId'' item)),
           Text [Style ''footerMeta''] None (ko_requested @ formatDate (sc_dates sc) (fld ''createdAt'' item))],
        Text [Style ''openHint''] None ko_details])"

definition TasksList :: "screen \<Rightarrow> (string option \<Rightarrow> app_event) \<Rightarrow> json list \<Rightarrow> element" where
  "TasksList sc onOpenTask items =
    FlatList [Style ''list''] (ScreenHeading ko_tasks_hint ko_tasks) (EmptyState ko_tasks_none) (map (taskCard sc onOpenTask) items)"

text \<open>The buttons of an approval, on both screens that have them.\<close>

definition approval_actions :: "bool \<Rightarrow> (json \<Rightarrow> bool \<Rightarrow> app_event) \<Rightarrow> json \<Rightarrow> element" where
  "approval_actions disabled onDecision item =
    View [Style ''actionRow'']
      [PrimaryButton disabled ko_approve (Fire (onDecision item True)),
       DangerButton disabled ko_reject
         (Confirm ko_reject_q (or_text (fld ''reason'' item) (txt_of ''taskId'' item)) (onDecision item False))]"

definition detailHeader :: "app_event \<Rightarrow> json option \<Rightarrow> json \<Rightarrow> element" where
  "detailHeader onBack server task =
    View [Style ''detailHeader'']
      [Pressable [Style ''backButton''] False (Fire onBack) [Text [Style ''backButtonText''] None ''Back''],
       View [Style ''detailHeaderTitleGroup'']
         [Text [Style ''detailHeaderTitle''] None ''Task Detail'',
          Text [Style ''detailHeaderMeta''] (Some 1) (txt_of ''workerType'' task @ '' / '' @
            or_nullish (Option.bind server (fld ''name'')) (compactId (fld ''serverId'' task)))],
       StatusPill (txt_of ''status'' task)]"

definition detailHero :: "screen \<Rightarrow> json option \<Rightarrow> json \<Rightarrow> element" where
  "detailHero sc server task =
    View [Style ''detailHero'']
      [View [Style ''row'']
         [View [Style ''cardTitleGroup'']
            [Text [Style ''detailTitle''] None (txt_of ''workerType'' task),
             Text [Style ''detailMeta''] None (or_nullish (Option.bind server (fld ''name'')) ''Unknown server'' @ ko_slash_requested @
               formatDate (sc_dates sc) (fld ''createdAt'' task))],
          StatusPill (txt_of ''status'' task)],
       View [Style ''detailIdRow'']
         [Text [Style ''detailIdText''] None (''Task '' @ compactId (fld ''id'' task)),
          Text [Style ''detailIdText''] None (''Server '' @ compactId (fld ''serverId'' task))]]"

definition TaskDetailScreen ::
  "screen \<Rightarrow> json option \<Rightarrow> bool \<Rightarrow> app_event \<Rightarrow> (json \<Rightarrow> bool \<Rightarrow> app_event) \<Rightarrow> json option \<Rightarrow> json \<Rightarrow> element" where
  "TaskDetailScreen sc approval busy onBack onDecision server task =
    (let promptText = or_text (Some (extractPrompt (getProp ''input'' task))) ko_no_prompt;
         logs = or_text (map_option trim (fld ''logs'' task)) ko_no_logs;
         result = extractResult (getProp ''result'' task) in
     View [Style ''detailRoot'']
       [detailHeader onBack server task,
        ScrollView [Style ''detailContent'']
          ([detailHero sc server task] @
           (case approval of None \<Rightarrow> [] | Some a \<Rightarrow>
             [View [Style ''detailApprovalCard'']
               [Text [Style ''detailSectionTitle''] None ko_approval_request,
                Text [Style ''detailBodyText''] None (or_text (fld ''reason'' a) ko_no_reason),
                approval_actions busy onDecision a]]) @
           [DetailSection [ScrollableTextBox promptText False] None ko_prompt,
            DetailSection [ScrollableTextBox result True] None ko_result,
            DetailSection [AutoScrollView (isLive (txt_of ''status'' task)) [Style ''textScrollBox'', Style ''logBox''] [Text [Style ''logText''] None logs]]
              (if isLive (txt_of ''status'' task) then Some ko_live_hint else None) ko_log])])"

section \<open>Approvals\<close>

definition approvalCard :: "screen \<Rightarrow> (json \<Rightarrow> bool \<Rightarrow> app_event) \<Rightarrow> json \<Rightarrow> element" where
  "approvalCard sc onDecision item =
    View [Style ''card'']
      [View [Style ''row''] [Text [Style ''cardTitle''] (Some 1) ko_approval_request, StatusPill (txt_of ''status'' item)],
       View [Style ''approvalContext'']
         (Text [Style ''footerMeta''] None (''Task '' @ compactId (fld ''taskId'' item) @ ko_slash_requested @
            formatDate (sc_dates sc) (fld ''requestedAt'' item)) #
          opt (truthy (getProp ''task'' item))
            (let task = the (getProp ''task'' item) in
             Text [Style ''footerMeta''] None (txt_of ''workerType'' task @ '' / Server '' @ compactId (fld ''serverId'' task)))),
       InfoBlock ko_request_text 3 (or_text (fld ''reason'' item) ko_no_reason),
       approval_actions False onDecision item]"

definition ApprovalsList :: "screen \<Rightarrow> json list \<Rightarrow> (json \<Rightarrow> bool \<Rightarrow> app_event) \<Rightarrow> element" where
  "ApprovalsList sc items onDecision =
    FlatList [Style ''list''] (ScreenHeading ko_approvals_hint ko_approve) (EmptyState ko_approvals_none)
      (map (approvalCard sc onDecision) (filter is_pending items))"

section \<open>The app\<close>

definition onDecideApproval :: "json \<Rightarrow> bool \<Rightarrow> app_event" where
  "onDecideApproval approval approve = DecideApproval (field_text (getProp ''id'' approval)) approve"

definition onDecideRegistration :: "json \<Rightarrow> bool \<Rightarrow> app_event" where
  "onDecideRegistration item approve = DecideServerRegistration (field_text (getProp ''id'' item)) approve"

definition content :: "screen \<Rightarrow> app \<Rightarrow> element" where
  "content sc s =
    (case ui_tab s of
       ServersTab \<Rightarrow> ServersList sc s onDecideRegistration SetSelectedServerId
     | NewTaskTab \<Rightarrow> NewTaskScreen sc s SetPrompt SetSelectedServerId CreateTask SetWorkerType
     | TasksTab \<Rightarrow> TasksList sc SetSelectedTaskId (ui_tasks s)
     | ApprovalsTab \<Rightarrow> ApprovalsList sc (ui_approvals s) onDecideApproval)"

definition loginScreen :: "screen \<Rightarrow> app \<Rightarrow> element" where
  "loginScreen sc s =
    SafeAreaView [Style ''root'']
      [StatusBar ''dark-content'',
       KeyboardAvoidingView (if sc_os sc = ''ios'' then Some ''padding'' else None) [Style ''loginPane'']
         ([Text [Style ''loginTitle''] None ''Code Caller'',
           Text [Style ''loginSubtitle''] None (''Hub API: '' @ ui_activeApiBaseUrl s),
           TextInput [Style ''input''] ''Email'' False (ui_email s) SetEmail,
           TextInput [Style ''input''] ''Password'' True (ui_password s) SetPassword,
           PrimaryButton (ui_busy s \<or> ui_email s = [] \<or> ui_password s = []) ''Login'' (Fire Login)] @
          opt (ui_busy s) (ActivityIndicator [Style ''inlineSpinner'']) @
          opt (\<not> blank (ui_error s)) (ErrorBanner (the (ui_error s))))]"

definition headerBar :: "app \<Rightarrow> element" where
  "headerBar s =
    (let socket = normalizeStatus (ui_socketState s) in
     View [Style ''header'']
       [View [Style ''headerTitleGroup'']
          [Text [Style ''title''] None ''Code Caller'',
           View [Style ''connectionRow'']
             [View [Style ''statusDot'', Style (case snd socket of Success \<Rightarrow> ''statusDotSuccess'' | Danger \<Rightarrow> ''statusDotDanger''
                | _ \<Rightarrow> ''statusDotWarning'')] [],
              Text [Style ''connectionText''] None (fst socket)]],
        View [Style ''headerActions'']
          [Pressable [Style ''iconButton''] (ui_busy s) (Fire Reload)
             [Text [Style ''iconButtonText''] None (if ui_busy s then ''...'' else ''R'')],
           Pressable [Style ''logoutButton''] False (Fire Logout) [Text [Style ''logoutButtonText''] None ''Logout'']]])"

definition pushCard :: "app \<Rightarrow> element" where
  "pushCard s =
    (let push = pushSummary (ui_pushState s) in
     View [Style ''pushCard'']
       [View [Style ''pushTextGroup'']
          [Text [Style ''pushTitle''] None (fst push), Text [Style ''pushDetail''] (Some 1) (fst (snd push))],
        Pressable [Style ''smallButton''] False (WithToken RegisterPush) [Text [Style ''smallButtonText''] None ko_register]])"

definition render :: "screen \<Rightarrow> app \<Rightarrow> element" where
  "render sc s =
    (if ui_booting s
     then SafeAreaView [Style ''center''] [ActivityIndicator [], Text [Style ''muted''] None ko_restoring]
     else if ui_tokens s = None then loginScreen sc s
     else case selectedTask s of
       Some task \<Rightarrow>
         SafeAreaView [Style ''root'']
           [StatusBar ''dark-content'',
            TaskDetailScreen sc (selectedTaskApproval s) (ui_busy s) (SetSelectedTaskId None) onDecideApproval
              (selectedTaskServer s) task]
     | None \<Rightarrow>
         SafeAreaView [Style ''root'']
           ([StatusBar ''dark-content'', headerBar s, pushCard s] @
            opt (\<not> blank (ui_error s)) (ErrorBanner (the (ui_error s))) @
            opt (ui_busy s) (ActivityIndicator [Style ''inlineSpinner'']) @
            [View [Style ''content''] [content sc s], BottomNavigation s (sc_bottomInset sc) SetTab]))"

section \<open>What a screen offers\<close>

text \<open>The texts that stand on a screen and the controls, each with whether it is disabled. A list shows
  its empty component when it has no items.\<close>

fun controls :: "element \<Rightarrow> (bool \<times> app_action) list" where
  "controls (View st es) = concat (map controls es)"
| "controls (SafeAreaView st es) = concat (map controls es)"
| "controls (KeyboardAvoidingView b st es) = concat (map controls es)"
| "controls (ScrollView st es) = concat (map controls es)"
| "controls (AutoScrollView b st es) = concat (map controls es)"
| "controls (FlatList st header none es) = controls header @ (if es = [] then controls none else concat (map controls es))"
| "controls (Pressable st disabled a es) = (disabled, a) # concat (map controls es)"
| "controls e = []"

fun texts :: "element \<Rightarrow> string list" where
  "texts (View st es) = concat (map texts es)"
| "texts (SafeAreaView st es) = concat (map texts es)"
| "texts (KeyboardAvoidingView b st es) = concat (map texts es)"
| "texts (ScrollView st es) = concat (map texts es)"
| "texts (AutoScrollView b st es) = concat (map texts es)"
| "texts (FlatList st header none es) = texts header @ (if es = [] then texts none else concat (map texts es))"
| "texts (Pressable st disabled a es) = concat (map texts es)"
| "texts (Text st n v) = [v]"
| "texts e = []"

fun may_fire :: "app_action \<Rightarrow> app_event \<Rightarrow> bool" where
  "may_fire (Fire e) ev \<longleftrightarrow> ev = e"
| "may_fire (Confirm t m e) ev \<longleftrightarrow> ev = e"
| "may_fire (WithToken f) ev \<longleftrightarrow> (\<exists>v. ev = f v)"

text \<open>The user presses an enabled control of the screen that is shown.\<close>

inductive press :: "screen \<Rightarrow> net \<Rightarrow> app \<Rightarrow> app \<Rightarrow> bool" for sc net where
  "(False, a) \<in> set (controls (render sc s)) \<Longrightarrow> may_fire a ev \<Longrightarrow> press sc net s (app_step net ev s)"

section \<open>Lemmas\<close>

lemma concat_opt [simp]: "concat (map f (opt b e)) = (if b then f e else [])"
  by (simp add: opt_def)

lemma set_opt [simp]: "set (opt b e) = (if b then {e} else {})"
  by (simp add: opt_def)

lemma small_controls [simp]:
  "controls (PrimaryButton d l a) = [(d, a)]" "controls (DangerButton d l a) = [(d, a)]" "controls (EmptyState l) = []"
  "controls (StatusPill l) = []" "controls (ScreenHeading l t) = []" "controls (InfoBlock l n v) = []" "controls (ErrorBanner m) = []"
  "controls (ScrollableTextBox v b) = []" "controls (DetailSection es st t) = concat (map controls es)"
  by (simp_all add: PrimaryButton_def DangerButton_def EmptyState_def StatusPill_def ScreenHeading_def InfoBlock_def ErrorBanner_def
      ScrollableTextBox_def DetailSection_def Let_def)

lemma small_texts [simp]:
  "texts (PrimaryButton d l a) = [l]" "texts (DangerButton d l a) = [l]" "texts (EmptyState l) = [l, ko_empty_hint]"
  "texts (StatusPill l) = [fst (normalizeStatus l)]" "texts (ScreenHeading l t) = [t, l]" "texts (InfoBlock l n v) = [l, v]"
  "texts (ErrorBanner m) = [ko_error_title, m]" "texts (ScrollableTextBox v b) = [v]"
  "texts (DetailSection es st t) = t # (if blank st then [] else [the st]) @ concat (map texts es)"
  by (simp_all add: PrimaryButton_def DangerButton_def EmptyState_def StatusPill_def ScreenHeading_def InfoBlock_def ErrorBanner_def
      ScrollableTextBox_def DetailSection_def Let_def)

text \<open>The two buttons of an approval or of a registration request.\<close>

definition decision_controls :: "bool \<Rightarrow> app_event \<Rightarrow> string \<Rightarrow> string \<Rightarrow> app_event \<Rightarrow> (bool \<times> app_action) list" where
  "decision_controls disabled yes question message no = [(disabled, Fire yes), (disabled, Confirm question message no)]"

definition approval_controls :: "bool \<Rightarrow> json \<Rightarrow> (bool \<times> app_action) list" where
  "approval_controls disabled a = decision_controls disabled (onDecideApproval a True) ko_reject_q
     (or_text (fld ''reason'' a) (txt_of ''taskId'' a)) (onDecideApproval a False)"

lemma card_controls [simp]:
  "controls (approval_actions d onDecideApproval a) = approval_controls d a"
  "controls (approvalCard sc onDecideApproval a) = approval_controls False a"
  "controls (registrationCard sc d f r) = decision_controls d (f r True) ko_reject_server_q (txt_of ''name'' r) (f r False)"
  "controls (serverCard sc g sel j) = [(False, Fire (g (txt_of ''id'' j)))]"
  "controls (serverOption g sel j) = [(False, Fire (g (txt_of ''id'' j)))]"
  "controls (workerOption w t item) = [(False, Fire (w item))]"
  "controls (taskCard sc op j) = [(False, Fire (op (fld ''id'' j)))]"
  "controls (detailHeader bk sv j) = [(False, Fire bk)]" "controls (detailHero sc sv j) = []"
  "controls (headerBar s) = [(ui_busy s, Fire Reload), (False, Fire Logout)]" "controls (pushCard s) = [(False, WithToken RegisterPush)]"
  by (simp_all add: approval_actions_def approvalCard_def approval_controls_def decision_controls_def registrationCard_def serverCard_def
      serverOption_def workerOption_def taskCard_def detailHeader_def detailHero_def headerBar_def pushCard_def Let_def)

text \<open>The controls of each screen; a selected task is shown without the frame around the tabs.\<close>

definition nav_controls :: "(bool \<times> app_action) list" where
  "nav_controls = map (\<lambda>item. (False, Fire (SetTab (tb_key item)))) TABS"

lemma controls_tabs:
  assumes "\<not> ui_booting s" and "ui_tokens s \<noteq> None" and "selectedTask s = None"
  shows "controls (render sc s) = [(ui_busy s, Fire Reload), (False, Fire Logout), (False, WithToken RegisterPush)] @
    controls (content sc s) @ nav_controls"
  using assms by (auto simp: render_def BottomNavigation_def nav_controls_def TABS_def Let_def)

lemma controls_detail:
  assumes "\<not> ui_booting s" and "ui_tokens s \<noteq> None" and "selectedTask s = Some t"
  shows "controls (render sc s) = (False, Fire (SetSelectedTaskId None)) #
    (case selectedTaskApproval s of None \<Rightarrow> [] | Some a \<Rightarrow> approval_controls (ui_busy s) a)"
  using assms by (auto simp: render_def TaskDetailScreen_def Let_def split: option.split)

lemma controls_login:
  assumes "\<not> ui_booting s" and "ui_tokens s = None"
  shows "controls (render sc s) = [(ui_busy s \<or> ui_email s = [] \<or> ui_password s = [], Fire Login)]"
  using assms by (simp add: render_def loginScreen_def)

lemma controls_lists:
  "controls (ApprovalsList sc items onDecideApproval) = concat (map (approval_controls False) (filter is_pending items))"
  "controls (TasksList sc op js) = map (\<lambda>j. (False, Fire (op (fld ''id'' j)))) js"
  "controls (ServersList sc s f g) =
    concat (map (\<lambda>r. decision_controls (ui_busy s) (f r True) ko_reject_server_q (txt_of ''name'' r) (f r False)) (ui_regs s)) @
    map (\<lambda>j. (False, Fire (g (txt_of ''id'' j)))) (ui_servers s)"
  by (auto simp: ApprovalsList_def TasksList_def ServersList_def RegistrationRequestsPanel_def o_def)

lemma controls_new_task:
  "(b, Fire CreateTask) \<in> set (controls (NewTaskScreen sc s SetPrompt SetSelectedServerId CreateTask SetWorkerType)) \<longleftrightarrow> b = (\<not> canSubmit s)"
  by (auto simp: NewTaskScreen_def Let_def o_def split: option.splits)

lemma press_fire: "(False, Fire ev) \<in> set (controls (render sc s)) \<Longrightarrow> press sc net s (app_step net ev s)"
  by (rule press.intros [where a = "Fire ev"]) simp_all

lemma nav_any: "(False, Fire (SetTab tab)) \<in> set nav_controls"
  by (cases tab) (simp_all add: nav_controls_def TABS_def)

lemma fires_approval:
  "(\<exists>a. (False, a) \<in> set (approval_controls d p) \<and> may_fire a (DecideApproval i b)) \<longleftrightarrow> \<not> d \<and> field_text (getProp ''id'' p) = i"
  by (cases b; cases d) (auto simp: approval_controls_def decision_controls_def onDecideApproval_def)

lemma fires_approvals:
  "(\<exists>a. (False, a) \<in> set (concat (map (approval_controls False) ps)) \<and> may_fire a (DecideApproval i b)) \<longleftrightarrow>
    (\<exists>p \<in> set ps. field_text (getProp ''id'' p) = i)"
proof -
  have "(\<exists>a. (False, a) \<in> set (concat (map (approval_controls False) ps)) \<and> may_fire a (DecideApproval i b)) \<longleftrightarrow>
      (\<exists>p \<in> set ps. \<exists>a. (False, a) \<in> set (approval_controls False p) \<and> may_fire a (DecideApproval i b))" by auto
  then show ?thesis by (simp add: fires_approval)
qed

lemma logout_state: "\<exists>s'. app_logout net s = (Inr (), s') \<and> ui_tokens s' = None \<and> ui_booting s' = ui_booting s \<and> ui_error s' = ui_error s"
  by (rule app_logout_keeps) simp_all

text \<open>Calls are never taken back, and a request makes at least one.\<close>

lemma grows_mod: "(\<And>s. ui_calls (f s) = ui_calls s) \<Longrightarrow> keeps (\<lambda>s. n \<le> length (ui_calls s)) (modS f)"
  by (simp add: keeps_def modS_apply)

lemma grows_fetch: "keeps (\<lambda>s. n \<le> length (ui_calls s)) (fetchHub net cl call)"
  unfolding keeps_def fetchHub_def using fetch_loop_calls order_trans by blast

lemma grows_ops:
  shows "keeps (\<lambda>s. n \<le> length (ui_calls s)) (parseJson r)" "keeps (\<lambda>s. n \<le> length (ui_calls s)) (saveTokens t)"
  unfolding parseJson_def saveTokens_def by (intro keeps_rules grows_mod; simp)+

lemma grows_request: "keeps (\<lambda>s. n \<le> length (ui_calls s)) (request net cl call)"
  unfolding request_def run_as_def refreshSession_def by (intro keeps_rules grows_fetch grows_ops)

lemma grows_guarded: "keeps (\<lambda>s. n \<le> length (ui_calls s)) m \<Longrightarrow> keeps (\<lambda>s. n \<le> length (ui_calls s)) (guarded_work m)"
  unfolding guarded_work_def begin_work_def end_work_def by (intro keeps_rules grows_mod) simp_all

lemma grows_loadAll: "keeps (\<lambda>s. n \<le> length (ui_calls s)) (loadAll net cl)"
  unfolding loadAll_def
  by (intro keeps_rules grows_guarded keeps_promise_all) (auto intro!: grows_request grows_mod keeps_rules split: list.split)

lemma bind_after: "P (snd (m s)) \<Longrightarrow> (\<And>x. keeps P (f x)) \<Longrightarrow> P (snd (bindE m f s))"
  by (auto simp: bindE_apply keeps_def split: prod.splits sum.splits)

lemma guarded_after:
  assumes "P (snd (m (snd (begin_work s))))" and "\<And>s e. P (s\<lparr>ui_error := e\<rparr>) = P s" and "\<And>s b. P (s\<lparr>ui_busy := b\<rparr>) = P s"
  shows "P (snd (guarded_work m s))"
  using assms by (auto simp: guarded_work_def end_work_def begin_work_def prog_simps split: prod.splits sum.splits)

lemma fetch_calls: "length (ui_calls s) < length (ui_calls (snd (fetchHub net cl call s)))"
proof (cases "net (length (ui_calls s)) (cl_base cl) call")
  case (Inl e)
  let ?s = "s\<lparr>ui_calls := ui_calls s @ [(cl_base cl, call)]\<rparr>" and ?urls = "filter (\<lambda>url. url \<noteq> cl_base cl) API_BASE_URLS"
  have "fetchHub net cl call s = fetch_loop net (cl_base cl) call ?urls (Some e) ?s"
    using Inl by (simp add: fetchHub_def orderedUrls_def prog_simps)
  then show ?thesis using fetch_loop_calls [of ?s net "cl_base cl" call ?urls "Some e"] by simp
qed (simp add: fetchHub_def orderedUrls_def prog_simps)

lemma request_calls:
  assumes "cl_tokens cl \<noteq> None"
  shows "length (ui_calls s) < length (ui_calls (snd (request net cl call s)))"
proof -
  obtain t where "cl_tokens cl = Some t" using assms by auto
  then show ?thesis
    unfolding request_def run_as_def refreshSession_def Suc_le_eq [symmetric]
    by simp (rule bind_after, simp add: fetch_calls Suc_le_eq, intro keeps_rules grows_fetch grows_ops)
qed

lemma createTask_calls:
  assumes "ui_tokens s \<noteq> None" and "\<not> blank (ui_selectedServerId s)" and "trim (ui_prompt s) \<noteq> []"
  shows "length (ui_calls s) < length (ui_calls (snd (createTask net s)))"
proof -
  let ?P = "\<lambda>t. Suc (length (ui_calls s)) \<le> length (ui_calls t)"
  have tok: "cl_tokens (closure_of s) \<noteq> None" using assms(1) by (simp add: closure_of_def)
  have first: "?P (snd (request net (closure_of s) call (snd (begin_work s))))" for call
    using request_calls [OF tok, of "snd (begin_work s)" net call] by (simp add: begin_work_def modS_apply)
  have "?P (snd (createTask net s))"
    unfolding createTask_def bindE_apply [of "getS f" for f] getS_apply
    using assms(2,3) by simp (rule guarded_after, rule bind_after, rule first, (intro keeps_rules grows_mod grows_loadAll; simp)+, simp_all)
  then show ?thesis by simp
qed

section \<open>Properties\<close>

text \<open>C37. Decisions are offered for pending approvals only: on every screen of a session, an enabled control
  can send a decision on an approval exactly when the approvals tab is open and the list holds a
  pending approval with that identifier, or when the task on the detail screen has that pending
  approval and the app is idle. So nothing can be decided twice from the screen once the decision has
  arrived; but only the detail screen disables its buttons while a decision is under way.\<close>

theorem decisions_offered:
  assumes "\<not> ui_booting s" and "ui_tokens s \<noteq> None"
  shows "(\<exists>a. (False, a) \<in> set (controls (render sc s)) \<and> may_fire a (DecideApproval i b)) \<longleftrightarrow>
    (case selectedTask s of
       None \<Rightarrow> ui_tab s = ApprovalsTab \<and> (\<exists>p \<in> set (ui_approvals s). is_pending p \<and> field_text (getProp ''id'' p) = i)
     | Some t \<Rightarrow> \<not> ui_busy s \<and> (\<exists>p. selectedTaskApproval s = Some p \<and> field_text (getProp ''id'' p) = i))"
proof (cases "selectedTask s")
  case None
  show ?thesis
  proof (cases "ui_tab s = ApprovalsTab")
    case True
    then show ?thesis using fires_approvals [of "filter is_pending (ui_approvals s)" i b]
      by (auto simp: controls_tabs [OF assms None] None content_def controls_lists nav_controls_def)
  next
    case False
    then show ?thesis
      unfolding controls_tabs [OF assms None] None
      by (cases "ui_tab s") (auto simp: content_def controls_lists NewTaskScreen_def decision_controls_def
          onDecideRegistration_def nav_controls_def Let_def split: option.splits)
  qed
next
  case (Some t)
  show ?thesis
    using fires_approval [of "ui_busy s" _ i b]
    by (cases "selectedTaskApproval s") (auto simp: controls_detail [OF assms Some] Some)
qed

text \<open>The submit button is enabled exactly when pressing it reaches the hub: on the new-task screen of an
  idle app, an enabled button makes at least one call, and while it is disabled the handler behind it
  would change nothing.\<close>

theorem submit_enabled_iff:
  assumes "\<not> ui_booting s" and "ui_tokens s \<noteq> None" and "selectedTask s = None" and "ui_tab s = NewTaskTab" and "\<not> ui_busy s"
  shows "((False, Fire CreateTask) \<in> set (controls (render sc s)) \<longleftrightarrow> ui_calls (app_step net CreateTask s) \<noteq> ui_calls s) \<and>
    ((True, Fire CreateTask) \<in> set (controls (render sc s)) \<longleftrightarrow> app_step net CreateTask s = s)"
proof -
  have ctl: "(d, Fire CreateTask) \<in> set (controls (render sc s)) \<longleftrightarrow> d = (\<not> canSubmit s)" for d
    using controls_new_task [of d sc s] controls_tabs [OF assms(1-3), of sc] assms(4) by (auto simp: content_def nav_controls_def)
  show ?thesis
  proof (cases "canSubmit s")
    case True
    then have "length (ui_calls s) < length (ui_calls (snd (createTask net s)))"
      by (intro createTask_calls assms(2)) (simp_all add: canSubmit_def)
    then show ?thesis using True by (auto simp: ctl)
  next
    case False
    then have "createTask net s = (Inr (), s)" using assms(5) by (auto simp: canSubmit_def createTask_def prog_simps)
    then show ?thesis using False by (simp add: ctl)
  qed
qed

text \<open>C38. No dead end: from every screen of a session, at most two presses of enabled controls reach each of
  the four tabs, and at most two end the session, whatever the hub answers and also while the app is
  busy.\<close>

theorem screens_navigable:
  assumes "\<not> ui_booting s" and "ui_tokens s \<noteq> None"
  shows "\<exists>s1 \<in> {s, app_step net (SetSelectedTaskId None) s}. (s1 = s \<or> press sc net s s1) \<and>
    (\<forall>tab. \<exists>s'. press sc net s1 s' \<and> ui_tab s' = tab \<and> ui_tokens s' \<noteq> None \<and> selectedTask s' = None) \<and>
    (\<exists>s'. press sc net s1 s' \<and> ui_tokens s' = None)"
proof -
  let ?prev = "app_step net (SetSelectedTaskId None) s"
  define s1 where "s1 = (if selectedTask s = None then s else ?prev)"
  have s1: "\<not> ui_booting s1" "ui_tokens s1 \<noteq> None" "selectedTask s1 = None"
    using assms by (auto simp: s1_def selectedTask_def find_item_def blank_def)
  have "s1 = s \<or> press sc net s s1"
    using controls_detail [OF assms] press_fire [of "SetSelectedTaskId None" sc s net] by (auto simp: s1_def)
  moreover have "press sc net s1 (app_step net (SetTab tab) s1)" for tab
    using controls_tabs [OF s1] nav_any [of tab] by (intro press_fire) simp
  moreover have "ui_tab (app_step net (SetTab tab) s1) = tab \<and> ui_tokens (app_step net (SetTab tab) s1) \<noteq> None \<and>
      selectedTask (app_step net (SetTab tab) s1) = None" for tab
    using s1(2,3) by (simp add: selectedTask_def)
  moreover have "press sc net s1 (app_step net Logout s1)" using controls_tabs [OF s1] by (intro press_fire) simp
  moreover have "ui_tokens (app_step net Logout s1) = None" using logout_state [of net s1] by auto
  ultimately show ?thesis by (intro bexI [of _ s1]) (blast | simp add: s1_def)+
qed

text \<open>Nothing of a session is left on the screen after it: once the user has logged out, whatever the hub
  answers, the only control is the login button and the only texts are the app's name, the hub's
  address, the button's label and the error message that was shown last.\<close>

theorem logged_out_screen:
  assumes "\<not> ui_booting s" and "s' = app_step net Logout s"
  shows "(\<exists>d. controls (render sc s') = [(d, Fire Login)]) \<and>
    set (texts (render sc s')) \<subseteq> {''Code Caller'', ''Hub API: '' @ ui_activeApiBaseUrl s', ''Login'', ko_error_title, or_text (ui_error s) []}"
proof -
  have s': "ui_tokens s' = None" "\<not> ui_booting s'" "ui_error s' = ui_error s"
    using logout_state [of net s] assms by auto
  show ?thesis using controls_login [OF s'(2,1)] s' by (auto simp: render_def loginScreen_def or_text_def)
qed

text \<open>The detail screen shows the task's state, prompt, result and log.\<close>

lemma detail_texts:
  assumes "\<not> ui_booting s" and "ui_tokens s \<noteq> None" and "selectedTask s = Some t"
  shows "{fst (normalizeStatus (txt_of ''status'' t)), or_text (Some (extractPrompt (getProp ''input'' t))) ko_no_prompt,
      extractResult (getProp ''result'' t), or_text (map_option trim (fld ''logs'' t)) ko_no_logs} \<subseteq> set (texts (render sc s))"
  using assms by (auto simp: render_def TaskDetailScreen_def detailHeader_def Let_def)

section \<open>Witnesses\<close>

definition demo_screen :: screen where
  "demo_screen = \<lparr>sc_dates = \<lparr>dt_getTime = (\<lambda>_. None), dt_toLocaleString = (\<lambda>d. d)\<rparr>, sc_now = 0, sc_bottomInset = 0, sc_os = ''android''\<rparr>"

definition demo_approval_item :: json where
  "demo_approval_item = JObj [(''id'', JStr ''a''), (''taskId'', JStr ''t''), (''status'', JStr ''PENDING''), (''reason'', JStr ''ok?'')]"

definition demo_shown :: "Tab \<Rightarrow> app" where
  "demo_shown tab = (initial_app None)\<lparr>ui_booting := False, ui_tokens := Some demo_session, ui_tab := tab,
    ui_approvals := [demo_approval_item], ui_selectedServerId := Some ''s'', ui_prompt := ''p''\<rparr>"

lemma demo_shown_facts:
  "\<not> ui_booting (demo_shown tab)" "ui_tokens (demo_shown tab) \<noteq> None" "selectedTask (demo_shown tab) = None" "\<not> ui_busy (demo_shown tab)"
  "ui_tab (demo_shown tab) = tab" "ui_error (demo_shown tab) = None" "ui_approvals (demo_shown tab) = [demo_approval_item]"
  by (simp_all add: demo_shown_def initial_app_def selectedTask_def find_item_def blank_def)

theorem decisions_offered_witness:
  "\<exists>a. (False, a) \<in> set (controls (render demo_screen (demo_shown ApprovalsTab))) \<and> may_fire a (DecideApproval ''a'' False)"
  using decisions_offered [OF demo_shown_facts(1,2), of demo_screen ApprovalsTab "''a''" False]
  by (simp add: demo_shown_facts demo_approval_item_def is_pending_def field_text_def)

theorem submit_enabled_iff_witness:
  "(False, Fire CreateTask) \<in> set (controls (render demo_screen (demo_shown NewTaskTab))) \<longleftrightarrow>
    ui_calls (app_step demo_net CreateTask (demo_shown NewTaskTab)) \<noteq> ui_calls (demo_shown NewTaskTab)"
  using submit_enabled_iff [OF demo_shown_facts(1,2,3) demo_shown_facts(5,4), of demo_screen demo_net] by blast

theorem screens_navigable_witness:
  "\<exists>s1 \<in> {demo_shown TasksTab, app_step demo_net (SetSelectedTaskId None) (demo_shown TasksTab)}. \<exists>s'. press demo_screen demo_net s1 s' \<and> ui_tokens s' = None"
  using screens_navigable [OF demo_shown_facts(1,2), of TasksTab demo_net demo_screen] by blast

theorem logged_out_screen_witness:
  "\<exists>d. controls (render demo_screen (app_step demo_net Logout (demo_shown TasksTab))) = [(d, Fire Login)]"
  using logged_out_screen [OF demo_shown_facts(1) refl, of demo_screen demo_net TasksTab] by blast

end
