(* ===== verification/Deployment.thy ===== *)
theory Deployment
  imports Hub_System Daemon Mobile_Screens
begin

text \<open>
  A daemon, the hub it is connected to and the app: the hub receives the messages a daemon's socket was
  handed, in their order, and handles each as the gateway does; an exception that leaves a handler ends
  that handler only. The app receives a row of the hub as JSON.
\<close>

section \<open>Delivery\<close>

fun event_of :: "string \<Rightarrow> daemon_emit \<Rightarrow> daemon_event" where
  "event_of so EmitHeartbeat = Heartbeat so"
| "event_of so (EmitStatus p) = StatusUpdate p"
| "event_of so (EmitLog p) = LogChunk p"
| "event_of so (EmitResult p) = Result p"
| "event_of so (EmitApproval p) = ApprovalReq p"

definition deliver :: "ext \<Rightarrow> string \<Rightarrow> daemon_emit list \<Rightarrow> hub \<Rightarrow> hub" where
  "deliver x so ms h = fold (\<lambda>m h. snd (daemon_message x (event_of so m) h)) ms h"

text \<open>What a running child's output makes the daemon send about one task.\<close>

fun about_output :: "string \<Rightarrow> daemon_emit \<Rightarrow> bool" where
  "about_output i EmitHeartbeat \<longleftrightarrow> True"
| "about_output i (EmitLog p) \<longleftrightarrow> lp_taskId p = i"
| "about_output i (EmitApproval p) \<longleftrightarrow> pl_taskId p = i"
| "about_output i m \<longleftrightarrow> False"

fun chunk_of :: "daemon_emit \<Rightarrow> string" where
  "chunk_of (EmitLog p) = lp_chunk p"
| "chunk_of m = []"

text \<open>While a child writes, the connection may come and go and the heartbeat tick.\<close>

fun output_event :: "nat \<Rightarrow> daemon_input \<Rightarrow> bool" where
  "output_event ob (ChildData n c) \<longleftrightarrow> n = ob"
| "output_event ob SockConnect \<longleftrightarrow> True"
| "output_event ob (SockDisconnect reason) \<longleftrightarrow> reason \<noteq> ''io server disconnect''"
| "output_event ob HeartbeatTick \<longleftrightarrow> True"
| "output_event ob e \<longleftrightarrow> False"

fun written :: "daemon_input \<Rightarrow> string" where
  "written (ChildData n c) = c"
| "written e = []"

section \<open>The daemon's side\<close>

lemma output_step:
  assumes "hubLink.in_order d" and "dm_exit d = None" and "has_child d ob" and "rn_taskId (runner_of d ob) = i" and "output_event ob e"
    and "d' = daemon_step spawn config e d"
  shows "dm_exit d' = None \<and> has_child d' ob \<and> rn_taskId (runner_of d' ob) = i \<and>
    (\<exists>ms. hubLink.transcript d' = hubLink.transcript d @ ms \<and> (\<forall>m \<in> set ms. about_output i m) \<and> concat (map chunk_of ms) = written e)"
proof (cases e)
  case (ChildData n c)
  let ?r = "(runner_of d ob)\<lparr>rn_lastChunk := c, rn_tail := slice_last TAIL_LIMIT (rn_tail (runner_of d ob) @ c)\<rparr>"
  let ?log = "EmitLog \<lparr>lp_taskId = i, lp_chunk = c\<rparr>"
  define d1 where "d1 = emit ?log (set_runner ob ?r d)"
  have ok: "hubLink.in_order (set_runner ob r g)" if "hubLink.in_order g" for r g using that by (simp add: hubLink.in_order_def)
  have t1: "hubLink.transcript d1 = hubLink.transcript d @ [?log]" "hubLink.in_order d1"
    using hubLink.transcript_send [OF ok [OF assms(1)], of ?log] hubLink.in_order_send [OF ok [OF assms(1)]]
    by (simp_all add: d1_def hubLink.transcript_def)
  have lt: "ob < length (dm_objs d)" "rn_child (runner_of d ob) \<noteq> None" using assms(3) by (simp_all add: has_child_def)
  have d1: "dm_exit d1 = None" "dm_objs d1 = (dm_objs d)[ob := ?r]" using assms(2) by (simp_all add: d1_def emit_def set_runner_def)
  show ?thesis
  proof (cases "rn_awaitingApproval ?r \<or> detect (rn_tail ?r) = None")
    case True
    then have "d' = d1" using assms ChildData by (auto simp: daemon_step_def onData_def d1_def Let_def)
    then show ?thesis using t1 d1 lt assms(4) ChildData by (auto simp: has_child_def runner_of_def intro!: exI [of _ "[?log]"])
  next
    case False
    then obtain reason where det: "detect (rn_tail ?r) = Some reason" by auto
    let ?ask = "EmitApproval \<lparr>pl_taskId = i, pl_reason = reason\<rparr>"
    have d': "d' = emit ?ask (set_runner ob (?r\<lparr>rn_awaitingApproval := True\<rparr>) d1)"
      using False det assms ChildData by (simp add: daemon_step_def onData_def d1_def Let_def)
    have "hubLink.transcript d' = hubLink.transcript d @ [?log, ?ask]"
      unfolding d' using hubLink.transcript_send [OF ok [OF t1(2)], of ?ask] t1(1) by (simp add: hubLink.transcript_def)
    then show ?thesis using d1 lt assms(4) ChildData
      by (auto simp: d' emit_def set_runner_def has_child_def runner_of_def intro!: exI [of _ "[?log, ?ask]"])
  qed
next
  case HeartbeatTick
  then show ?thesis using assms hubLink.transcript_send [OF assms(1), of EmitHeartbeat]
    by (auto simp: daemon_step_def emit_def has_child_def runner_of_def intro!: exI [of _ "[EmitHeartbeat]"] exI [of _ "[]"])
next
  case SockConnect
  then show ?thesis using assms
    by (auto simp: daemon_step_def on_connect_def flushBuffer_def has_child_def runner_of_def hubLink.transcript_def)
next
  case (SockDisconnect r)
  then show ?thesis using assms by (auto simp: daemon_step_def on_disconnect_def has_child_def runner_of_def hubLink.transcript_def Let_def)
qed (use assms in simp_all)

lemma output_steps:
  assumes "hubLink.in_order d" and "dm_exit d = None" and "has_child d ob" and "rn_taskId (runner_of d ob) = i"
    and "\<forall>e \<in> set es. output_event ob e"
  shows "\<exists>ms. hubLink.transcript (fold (daemon_step spawn config) es d) = hubLink.transcript d @ ms \<and>
    (\<forall>m \<in> set ms. about_output i m) \<and> concat (map chunk_of ms) = concat (map written es)"
  using assms
proof (induction es arbitrary: d)
  case (Cons e es)
  let ?d = "daemon_step spawn config e d"
  have "output_event ob e" using Cons.prems(5) by simp
  from output_step [OF Cons.prems(1-4) this refl, of spawn config] obtain ms where
    d: "dm_exit ?d = None" "has_child ?d ob" "rn_taskId (runner_of ?d ob) = i" and
    ms: "hubLink.transcript ?d = hubLink.transcript d @ ms" "\<forall>m \<in> set ms. about_output i m" "concat (map chunk_of ms) = written e"
    by blast
  have "hubLink.in_order ?d" using sends_daemon_step [OF Cons.prems(1), of spawn config e] by (simp add: sends_def)
  from Cons.IH [OF this d] Cons.prems(5) obtain ms' where
    "hubLink.transcript (fold (daemon_step spawn config) es ?d) = hubLink.transcript ?d @ ms'"
    "\<forall>m \<in> set ms'. about_output i m" "concat (map chunk_of ms') = concat (map written es)"
    by auto
  with ms show ?case by (intro exI [of _ "ms @ ms'"]) auto
qed (simp add: exI [of _ "[]"])

section \<open>The hub's side\<close>

text \<open>The log the database holds for a task.\<close>

definition has_log :: "string \<Rightarrow> string \<Rightarrow> hub \<Rightarrow> bool" where
  "has_log i l h \<longleftrightarrow> map_option t_logs (find_row t_id i (tasks h)) = Some l"

lemma quiet_has_log: "quiet (has_log i l)"
  by (simp add: quiet_def has_log_def)

lemma keeps_has_log_update: "(\<And>t. t_logs (f t) = t_logs t) \<Longrightarrow> (\<And>t. t_id (f t) = t_id t) \<Longrightarrow> keeps (has_log i l) (task_update j f)"
  by (rule keepsI) (auto simp: has_log_def prog_simps find_row_update_row split: option.splits)

lemma keeps_has_log_approval: "keeps (has_log i l) (handleDaemonApprovalRequest x p)"
proof -
  have "keeps (has_log i l) (approval_create x a b)" for a b
    by (rule keepsI) (auto simp: has_log_def approval_create_def prog_simps Let_def)
  then show ?thesis unfolding handleDaemonApprovalRequest_def
    by (intro keeps_rules quiet_rules quiet_has_log keeps_has_log_update) simp_all
qed

lemma keeps_has_log_heartbeat: "keeps (has_log i l) (onHeartbeat so)"
  by (rule keepsI) (auto simp: onHeartbeat_def has_log_def prog_simps split: option.splits)

lemma log_chunk_appended:
  assumes "wf_hub x h" and "has_log i l h"
  shows "has_log i (l @ c) (snd (handleDaemonTaskLog \<lparr>lp_taskId = i, lp_chunk = c\<rparr> h))"
proof -
  obtain t where "find_row t_id i (tasks h) = Some t" "t_logs t = l" using assms(2) by (auto simp: has_log_def)
  with handleDaemonTaskLog_appends [OF assms(1), of i t "[c]"] show ?thesis
    by (auto simp: has_log_def prog_simps split: prod.splits sum.splits)
qed

lemma deliver_output:
  assumes "wf_hub x h" and "inj (x_uuid x)" and "has_log i l h" and "\<forall>m \<in> set ms. about_output i m"
  shows "has_log i (l @ concat (map chunk_of ms)) (deliver x so ms h)"
  using assms(1,3,4)
proof (induction ms arbitrary: h l)
  case (Cons m ms)
  let ?h = "snd (daemon_message x (event_of so m) h)"
  have m: "about_output i m" using Cons.prems(3) by simp
  have "keeps (wf_hub x) (daemon_message x (event_of so m))"
    using m by (cases m) (auto intro!: keeps_rules assms(2))
  then have wf: "wf_hub x ?h" by (rule keepsD) (rule Cons.prems(1))
  have "has_log i (l @ chunk_of m) ?h"
  proof (cases m)
    case (EmitLog p)
    then show ?thesis using m log_chunk_appended [OF Cons.prems(1,2), of "lp_chunk p"] by (cases p) simp
  qed (use m Cons.prems(2) keepsD [OF keeps_has_log_approval] keepsD [OF keeps_has_log_heartbeat] in simp_all)
  from Cons.IH [OF wf this] show ?case using Cons.prems(3) by (simp add: deliver_def)
qed (simp add: deliver_def)

section \<open>The app's side\<close>

fun show_taskStatus :: "TaskStatus \<Rightarrow> string" where
  "show_taskStatus QUEUED = ''QUEUED''"
| "show_taskStatus RUNNING = ''RUNNING''"
| "show_taskStatus AWAITING_APPROVAL = ''AWAITING_APPROVAL''"
| "show_taskStatus COMPLETED = ''COMPLETED''"
| "show_taskStatus FAILED = ''FAILED''"
| "show_taskStatus CANCELLED = ''CANCELLED''"

text \<open>The row of a task as the socket sends it, without the server it was read with; \<open>toISO\<close> writes a date.\<close>

definition publicTask :: "(int \<Rightarrow> string) \<Rightarrow> task \<Rightarrow> json" where
  "publicTask toISO t = JObj [(''id'', JStr (t_id t)), (''serverId'', JStr (t_serverId t)),
     (''workerType'', JStr (show_workerType (t_workerType t))), (''status'', JStr (show_taskStatus (t_status t))),
     (''input'', t_input t), (''result'', case t_result t of None \<Rightarrow> JNull | Some r \<Rightarrow> r), (''logs'', JStr (t_logs t)),
     (''createdAt'', JStr (toISO (t_createdAt t))), (''updatedAt'', JStr (toISO (t_updatedAt t)))]"

lemma completed_label: "fst (normalizeStatus ''COMPLETED'') = ko_done"
  by code_simp

text \<open>A row that arrives for the task whose details are open is what the screen shows.\<close>

lemma updated_task_shown:
  assumes "\<not> ui_booting s" and "ui_tokens s \<noteq> None" and "ui_selectedTaskId s = Some (t_id t)" and "t_id t \<noteq> []"
  shows "{fst (normalizeStatus (show_taskStatus (t_status t))), extractResult (t_result t), or_text (Some (trim (t_logs t))) ko_no_logs} \<subseteq>
    set (texts (render sc (app_step net (TaskUpdated (publicTask toISO t)) s)))"
proof -
  let ?s = "app_step net (TaskUpdated (publicTask toISO t)) s"
  have "selectedTask ?s = Some (publicTask toISO t)"
    using assms(3,4) by (simp add: onTaskUpdated_def upsert_item_def selectedTask_def find_item_def blank_def item_id_def publicTask_def)
  moreover have "\<not> ui_booting ?s" "ui_tokens ?s \<noteq> None" using assms(1,2) by (simp_all add: onTaskUpdated_def)
  moreover have "extractResult (getProp ''result'' (publicTask toISO t)) = extractResult (t_result t)"
    by (cases "t_result t") (simp_all add: publicTask_def extractResult_def truthy_def)
  ultimately show ?thesis using detail_texts [of ?s "publicTask toISO t" sc] by (simp add: txt_of_def fld_def publicTask_def)
qed

end
