(* ===== verification/Register.thy ===== *)
theory Register
  imports Detectors Spawn_Plan
begin

text \<open>
  The registration command of a worker machine, \<^verbatim>\<open>agent-daemon/src/register.js\<close>: its arguments, the
  request to the hub, polling for the owner's decision and writing the credentials into the
  \<^verbatim>\<open>.env\<close> file. The network, the clock and the hash are parameters. Shown: polling stops after a bounded
  number of polls whatever the hub answers, it returns the key when the owner approves in time, and
  the file is updated without touching its other lines.
\<close>

section \<open>Arguments\<close>

definition DEFAULT_HUB_URL :: string where
  "DEFAULT_HUB_URL = ''http://172.30.1.83:3000''"

definition DEFAULT_OWNER_EMAIL :: string where
  "DEFAULT_OWNER_EMAIL = ''admin@example.com''"

definition POLL_INTERVAL_MS :: int where
  "POLL_INTERVAL_MS = 2500"

record cli_args =
  ca_help :: bool
  ca_opts :: "string \<Rightarrow> string option"

fun parseArgs_loop :: "string list \<Rightarrow> cli_args \<Rightarrow> cli_args" where
  "parseArgs_loop [] args = args"
| "parseArgs_loop (item # rest) args =
    (if item = ''--help'' \<or> item = ''-h'' then parseArgs_loop rest (args\<lparr>ca_help := True\<rparr>)
     else if startsWith item ''--'' then
       (case rest of
          [] \<Rightarrow> args\<lparr>ca_opts := (ca_opts args)(slice_from 2 item \<mapsto> ''1'')\<rparr>
        | next # rest' \<Rightarrow>
            if next = [] \<or> startsWith next ''--''
            then parseArgs_loop rest (args\<lparr>ca_opts := (ca_opts args)(slice_from 2 item \<mapsto> ''1'')\<rparr>)
            else parseArgs_loop rest' (args\<lparr>ca_opts := (ca_opts args)(slice_from 2 item \<mapsto> next)\<rparr>))
     else parseArgs_loop rest args)"

definition parseArgs :: "string list \<Rightarrow> cli_args" where
  "parseArgs argv = parseArgs_loop argv \<lparr>ca_help = False, ca_opts = (\<lambda>_. None)\<rparr>"

section \<open>The machine\<close>

record net_address =
  na_family :: string
  na_internal :: bool
  na_address :: string

record machine =
  mc_platform :: string
  mc_arch :: string
  mc_hostname :: string
  mc_interfaces :: "net_address list list"
  mc_env :: env

definition detectOsType :: "machine \<Rightarrow> string" where
  "detectOsType m =
    (if mc_platform m = ''darwin'' then ''MACOS'' else if mc_platform m = ''win32'' then ''WINDOWS'' else ''UBUNTU'')"

definition detectIp :: "machine \<Rightarrow> string" where
  "detectIp m =
    (case List.find (\<lambda>i. na_family i = ''IPv4'' \<and> \<not> na_internal i) (concat (mc_interfaces m)) of
       None \<Rightarrow> ''127.0.0.1'' | Some i \<Rightarrow> na_address i)"

record reg_input =
  ri_hubUrl :: string
  ri_ownerEmail :: string
  ri_name :: string
  ri_osType :: string
  ri_tailscaleIp :: string
  ri_fingerprint :: string

definition fingerprintFor :: "(string \<Rightarrow> string) \<Rightarrow> machine \<Rightarrow> string \<Rightarrow> string \<Rightarrow> string \<Rightarrow> string" where
  "fingerprintFor sha256 m name osType ip = toHex (sha256 (join ''|'' [name, osType, ip, mc_arch m, mc_platform m]))"

section \<open>The hub's answers\<close>

definition readJson :: "http_resp \<Rightarrow> string + json" where
  "readJson response =
    (case (case hr_body response of None \<Rightarrow> Inr JNull | Some v \<Rightarrow> v) of
       Inl e \<Rightarrow> Inl e
     | Inr data \<Rightarrow>
         if \<not> hr_ok response then Inl (show_int (hr_status response) @ '' '' @ stringify data) else Inr data)"

text \<open>The outside: the answer to the request, by its address and body, and to each poll, by its number,
  address and query; the delay of each poll beyond the sleep; and the reading of a date. A hub that
  cannot be reached and an address that is none are errors; every call is answered in finite time.\<close>

record reg_world =
  rw_post :: "string \<Rightarrow> json \<Rightarrow> string + http_resp"
  rw_poll :: "nat \<Rightarrow> string \<Rightarrow> (string \<times> string) list \<Rightarrow> string + http_resp"
  rw_delay :: "nat \<Rightarrow> nat"
  rw_getTime :: "string \<Rightarrow> int option"

definition fetchJson :: "string + http_resp \<Rightarrow> string + json" where
  "fetchJson v = (case v of Inl e \<Rightarrow> Inl e | Inr r \<Rightarrow> readJson r)"

definition createRequest :: "reg_world \<Rightarrow> reg_input \<Rightarrow> string + json" where
  "createRequest w input =
    fetchJson (rw_post w (ri_hubUrl input @ ''/server-registration-requests'')
      (JObj [(''ownerEmail'', JStr (ri_ownerEmail input)), (''name'', JStr (ri_name input)), (''osType'', JStr (ri_osType input)),
        (''tailscaleIp'', JStr (ri_tailscaleIp input)), (''fingerprint'', JStr (ri_fingerprint input))]))"

text \<open>What one answer to a poll means: an error, the approved result, or going on.\<close>

definition TypeError :: string where
  "TypeError = ''Cannot read properties of null''"

definition poll_answer :: "string + json \<Rightarrow> (string + json) option" where
  "poll_answer v =
    (case v of
       Inl e \<Rightarrow> Some (Inl e)
     | Inr result \<Rightarrow>
         if result = JNull then Some (Inl TypeError)
         else if getProp ''status'' result = Some (JStr ''APPROVED'') \<and> truthy (getProp ''apiKey'' result) then Some (Inr result)
         else if getProp ''status'' result \<in> {Some (JStr ''REJECTED''), Some (JStr ''EXPIRED''), Some (JStr ''CREDENTIAL_DELIVERED'')}
         then Some (Inl (''registration ended with status '' @ js_String (the (getProp ''status'' result))))
         else None)"

text \<open>The call of one poll.\<close>

definition poll_call :: "reg_world \<Rightarrow> string \<Rightarrow> string \<Rightarrow> string \<Rightarrow> nat \<Rightarrow> string + json" where
  "poll_call w hubUrl requestId requestSecret k =
    fetchJson (rw_poll w k (hubUrl @ ''/server-registration-requests/'' @ requestId @ ''/result'') [(''secret'', requestSecret)])"

function pollResult :: "reg_world \<Rightarrow> string \<Rightarrow> string \<Rightarrow> string \<Rightarrow> int \<Rightarrow> nat \<Rightarrow> int \<Rightarrow> string + json" where
  "pollResult w hubUrl requestId requestSecret expiresAt k clk =
    (if clk < expiresAt then
       (case poll_answer (poll_call w hubUrl requestId requestSecret k) of
          Some r \<Rightarrow> r
        | None \<Rightarrow> pollResult w hubUrl requestId requestSecret expiresAt (Suc k) (clk + POLL_INTERVAL_MS + int (rw_delay w k)))
     else Inl ''registration timed out before mobile approval'')"
  by pat_completeness auto
termination by (relation "measure (\<lambda>(w, u, i, s, e, k, n). nat (e - n))") (auto simp: POLL_INTERVAL_MS_def)

declare pollResult.simps [simp del]

section \<open>The environment file\<close>

definition key_char :: "char \<Rightarrow> bool" where
  "key_char c \<longleftrightarrow> is_digit c \<or> 65 \<le> code_of c \<and> code_of c \<le> 90 \<or> c = CHR ''_''"

definition env_key :: "string \<Rightarrow> string option" where
  "env_key line =
    (let key = takeWhile key_char line
     in if key \<noteq> [] \<and> startsWith (drop (length key) line) ''='' then Some key else None)"

definition env_assign :: "string \<times> string \<Rightarrow> string" where
  "env_assign kv = fst kv @ ''='' @ snd kv"

definition assigned :: "(string \<times> string) list \<Rightarrow> string \<Rightarrow> string option" where
  "assigned updates line = (case env_key line of None \<Rightarrow> None | Some k \<Rightarrow> if k \<in> fst ` set updates then Some k else None)"

definition upsertEnv :: "string option \<Rightarrow> (string \<times> string) list \<Rightarrow> string" where
  "upsertEnv file updates =
    (let existing = (case file of None \<Rightarrow> [] | Some text \<Rightarrow> split_lines text);
         lines = map (\<lambda>line. case assigned updates line of None \<Rightarrow> line | Some k \<Rightarrow> env_assign (k, the (map_of updates k))) existing;
         seen = List.map_filter (assigned updates) existing;
         added = map env_assign (filter (\<lambda>kv. fst kv \<notin> set seen) updates)
     in join nl (filter (\<lambda>l. l \<noteq> []) (lines @ added)) @ nl)"

section \<open>The command\<close>

definition arg_or :: "cli_args \<Rightarrow> string \<Rightarrow> string \<Rightarrow> string" where
  "arg_or args key d = (case ca_opts args key of None \<Rightarrow> d | Some v \<Rightarrow> if v = [] then d else v)"

definition register_input :: "(string \<Rightarrow> string) \<Rightarrow> machine \<Rightarrow> cli_args \<Rightarrow> reg_input" where
  "register_input sha256 m args =
    (let hubUrl = arg_or args ''hub'' (env_or (mc_env m) ''HUB_URL'' DEFAULT_HUB_URL);
         ownerEmail = arg_or args ''owner-email'' (env_or (mc_env m) ''OWNER_EMAIL'' DEFAULT_OWNER_EMAIL);
         name = arg_or args ''name'' (env_or (mc_env m) ''SERVER_NAME'' (mc_hostname m));
         osType = arg_or args ''os-type'' (env_or (mc_env m) ''OS_TYPE'' (detectOsType m));
         ip = arg_or args ''tailscale-ip'' (env_or (mc_env m) ''TAILSCALE_IP'' (detectIp m))
     in \<lparr>ri_hubUrl = hubUrl, ri_ownerEmail = ownerEmail, ri_name = name, ri_osType = osType, ri_tailscaleIp = ip,
          ri_fingerprint = fingerprintFor sha256 m name osType ip\<rparr>)"

text \<open>The text of a template literal's value, an undefined one included.\<close>

definition js_text :: "json option \<Rightarrow> string" where
  "js_text v = (case v of None \<Rightarrow> ''undefined'' | Some j \<Rightarrow> js_String j)"

text \<open>The outcome: an error, or the file's new text; the help text changes nothing.\<close>

definition register_main :: "reg_world \<Rightarrow> (string \<Rightarrow> string) \<Rightarrow> machine \<Rightarrow> string list \<Rightarrow> int \<Rightarrow> string option \<Rightarrow> string + string option" where
  "register_main w sha256 m argv clk file =
    (let args = parseArgs argv in
     if ca_help args then Inr file
     else let input = register_input sha256 m args in
       case createRequest w input of
         Inl e \<Rightarrow> Inl e
       | Inr request \<Rightarrow>
           if request = JNull then Inl TypeError
           else (case pollResult w (ri_hubUrl input) (js_text (getProp ''id'' request)) (js_text (getProp ''requestSecret'' request))
                   (case getProp ''expiresAt'' request of
                     Some (JStr t) \<Rightarrow> (case rw_getTime w t of None \<Rightarrow> clk | Some e \<Rightarrow> e) | Some (JNum e) \<Rightarrow> e | _ \<Rightarrow> clk) 0 clk of
                   Inl e \<Rightarrow> Inl e
                 | Inr result \<Rightarrow> Inr (Some (upsertEnv file
                     [(''HUB_URL'', ri_hubUrl input), (''API_KEY'', js_text (getProp ''apiKey'' result)),
                      (''SERVER_ID'', js_text (getProp ''serverId'' result))]))))"

section \<open>Lemmas\<close>

lemma pollResult_late: "expiresAt \<le> clk \<Longrightarrow> pollResult w u i s expiresAt k clk = Inl ''registration timed out before mobile approval''"
  by (subst pollResult.simps) simp

lemma pollResult_step:
  assumes "clk < expiresAt"
  shows "poll_answer (poll_call w u i s k) = Some r \<Longrightarrow> pollResult w u i s expiresAt k clk = r"
    "poll_answer (poll_call w u i s k) = None \<Longrightarrow>
      pollResult w u i s expiresAt k clk = pollResult w u i s expiresAt (Suc k) (clk + POLL_INTERVAL_MS + int (rw_delay w k))"
  using assms by (subst pollResult.simps; simp)+

text \<open>The time at which the \<open>n\<close>th poll after \<open>k\<close> starts, when the polls before it all say to go on.\<close>

fun poll_time :: "reg_world \<Rightarrow> nat \<Rightarrow> int \<Rightarrow> nat \<Rightarrow> int" where
  "poll_time w k clk 0 = clk"
| "poll_time w k clk (Suc n) = poll_time w (Suc k) (clk + POLL_INTERVAL_MS + int (rw_delay w k)) n"

lemma poll_time_ge: "clk \<le> poll_time w k clk n"
  by (induction w k clk n rule: poll_time.induct) (auto simp: POLL_INTERVAL_MS_def)

subsection \<open>The lines of the file\<close>

definition line_ok :: "string \<Rightarrow> bool" where
  "line_ok l \<longleftrightarrow> char_of (10 :: nat) \<notin> set l \<and> char_of (13 :: nat) \<notin> set l"

lemma split_lines_line: "line_ok l \<Longrightarrow> split_lines (l @ nl @ s) = l # split_lines s"
  by (induction l) (auto simp: line_ok_def nl_def)

lemma split_lines_join:
  assumes "\<forall>l \<in> set ls. line_ok l" and "ls \<noteq> []"
  shows "split_lines (join nl ls @ nl) = ls @ [[]]"
  using assms
proof (induction ls)
  case (Cons l ls)
  then show ?case using split_lines_line [of l "[]"] split_lines_line [of l "join nl ls @ nl"] by (cases ls) auto
qed simp

lemma split_lines_ok: "char_of (13 :: nat) \<notin> set s \<Longrightarrow> l \<in> set (split_lines s) \<Longrightarrow> line_ok l"
  using split_lines_no_newline split_lines_subset unfolding line_ok_def by blast

definition updates_ok :: "(string \<times> string) list \<Rightarrow> bool" where
  "updates_ok us \<longleftrightarrow> us \<noteq> [] \<and> distinct (map fst us) \<and>
    (\<forall>(k, v) \<in> set us. k \<noteq> [] \<and> list_all key_char k \<and> line_ok v)"

lemma key_char_line: "list_all key_char k \<Longrightarrow> line_ok k"
proof -
  have "\<not> key_char (char_of (10 :: nat))" "\<not> key_char (char_of (13 :: nat))" by code_simp+
  then show "list_all key_char k \<Longrightarrow> line_ok k" by (auto simp: line_ok_def list_all_iff)
qed

lemma env_key_assign:
  assumes "k \<noteq> []" and "list_all key_char k"
  shows "env_key (env_assign (k, v)) = Some k"
proof -
  have "\<not> key_char (CHR ''='')" by code_simp
  then have "takeWhile key_char (k @ ''='' @ v) = k" using assms(2) by (simp add: list_all_iff takeWhile_append2)
  then show ?thesis using assms(1) by (simp add: env_key_def env_assign_def startsWith_def)
qed

lemma updates_okD:
  assumes "updates_ok us" and "kv \<in> set us"
  shows "map_of us (fst kv) = Some (snd kv)" "assigned us (env_assign kv) = Some (fst kv)" "line_ok (env_assign kv)" "env_assign kv \<noteq> []"
proof -
  obtain k v where kv: "kv = (k, v)" by (cases kv)
  have k: "k \<noteq> []" "list_all key_char k" "line_ok v" "distinct (map fst us)" using assms by (auto simp: updates_ok_def kv)
  then show "map_of us (fst kv) = Some (snd kv)" using assms(2) by (simp add: kv)
  show "assigned us (env_assign kv) = Some (fst kv)"
    using assms(2) env_key_assign [OF k(1,2), of v] by (force simp: assigned_def kv)
  have "line_ok ''=''" by code_simp
  then show "line_ok (env_assign kv)" "env_assign kv \<noteq> []"
    using k key_char_line [OF k(2)] by (auto simp: env_assign_def line_ok_def kv)
qed

lemma assigned_key: "assigned us l = Some k \<Longrightarrow> \<exists>v. (k, v) \<in> set us"
  by (auto simp: assigned_def split: option.splits if_splits)

definition rewrite :: "(string \<times> string) list \<Rightarrow> string \<Rightarrow> string" where
  "rewrite us line = (case assigned us line of None \<Rightarrow> line | Some k \<Rightarrow> env_assign (k, the (map_of us k)))"

lemma rewrite_cases:
  assumes "updates_ok us"
  shows "assigned us (rewrite us l) = assigned us l"
    "assigned us l = Some k \<Longrightarrow> rewrite us l = env_assign (k, the (map_of us k)) \<and> (k, the (map_of us k)) \<in> set us"
    "line_ok l \<Longrightarrow> line_ok (rewrite us l)" "rewrite us (rewrite us l) = rewrite us l"
proof -
  have key: "(k, the (map_of us k)) \<in> set us" if "assigned us l = Some k" for k
    using assigned_key [OF that] updates_okD(1) [OF assms] by fastforce
  show same: "assigned us (rewrite us l) = assigned us l"
    using updates_okD(2) [OF assms key] by (auto simp: rewrite_def split: option.split)
  show "rewrite us l = env_assign (k, the (map_of us k)) \<and> (k, the (map_of us k)) \<in> set us" if "assigned us l = Some k"
    using that key by (simp add: rewrite_def)
  show "line_ok (rewrite us l)" if "line_ok l"
    using that updates_okD(3) [OF assms key] by (auto simp: rewrite_def split: option.split)
  show "rewrite us (rewrite us l) = rewrite us l"
    using same by (simp add: rewrite_def split: option.split)
qed

definition file_lines :: "string option \<Rightarrow> string list" where
  "file_lines file = (case file of None \<Rightarrow> [] | Some text \<Rightarrow> split_lines text)"

definition new_lines :: "string option \<Rightarrow> (string \<times> string) list \<Rightarrow> string list" where
  "new_lines file us = filter (\<lambda>l. l \<noteq> []) (map (rewrite us) (file_lines file) @
     map env_assign (filter (\<lambda>kv. \<forall>l \<in> set (file_lines file). assigned us l \<noteq> Some (fst kv)) us))"

lemma upsertEnv_lines: "upsertEnv file us = join nl (new_lines file us) @ nl"
proof -
  have seen: "fst kv \<notin> set (List.map_filter (assigned us) ls) \<longleftrightarrow> (\<forall>l \<in> set ls. assigned us l \<noteq> Some (fst kv))" for kv ls
    by (force simp: map_filter_def)
  show ?thesis
    unfolding upsertEnv_def new_lines_def file_lines_def [symmetric] rewrite_def [symmetric] Let_def seen by (rule refl)
qed

lemma new_lines_facts:
  assumes "updates_ok us" and "\<forall>l \<in> set (file_lines file). line_ok l"
  shows "\<forall>l \<in> set (new_lines file us). line_ok l" "new_lines file us \<noteq> []"
    "\<And>kv. kv \<in> set us \<Longrightarrow> env_assign kv \<in> set (new_lines file us)"
    "\<And>l k. l \<in> set (new_lines file us) \<Longrightarrow> assigned us l = Some k \<Longrightarrow> l = env_assign (k, the (map_of us k))"
    "filter (\<lambda>l. l \<noteq> [] \<and> assigned us l = None) (new_lines file us) = filter (\<lambda>l. l \<noteq> [] \<and> assigned us l = None) (file_lines file)"
proof -
  show "\<forall>l \<in> set (new_lines file us). line_ok l"
    using assms(2) rewrite_cases(3) [OF assms(1)] updates_okD(3) [OF assms(1)] by (auto simp: new_lines_def)
  show all: "env_assign kv \<in> set (new_lines file us)" if "kv \<in> set us" for kv
  proof (cases "\<exists>l \<in> set (file_lines file). assigned us l = Some (fst kv)")
    case True
    then obtain l where l: "l \<in> set (file_lines file)" "rewrite us l = env_assign (fst kv, the (map_of us (fst kv)))"
      using rewrite_cases(2) [OF assms(1)] by blast
    then have "rewrite us l = env_assign kv" using updates_okD(1) [OF assms(1) that] by simp
    then have "env_assign kv \<in> rewrite us ` set (file_lines file)" using l(1) by (metis image_eqI)
    then show ?thesis using updates_okD(4) [OF assms(1) that] by (auto simp: new_lines_def)
  next
    case False
    then show ?thesis using that updates_okD(4) [OF assms(1) that] by (auto simp: new_lines_def)
  qed
  show "new_lines file us \<noteq> []" using assms(1) all by (fastforce simp: updates_ok_def neq_Nil_conv)
  show "l = env_assign (k, the (map_of us k))" if "l \<in> set (new_lines file us)" "assigned us l = Some k" for l k
    using that rewrite_cases(1,2) [OF assms(1)] updates_okD(1,2) [OF assms(1)] by (fastforce simp: new_lines_def)
  have "filter (\<lambda>l. l \<noteq> [] \<and> assigned us l = None) (map (rewrite us) ls) = filter (\<lambda>l. l \<noteq> [] \<and> assigned us l = None) ls" for ls
    by (induction ls) (auto simp: rewrite_cases(1) [OF assms(1)], auto simp: rewrite_def split: option.splits)
  moreover have "filter (\<lambda>l. l \<noteq> [] \<and> assigned us l = None) (map env_assign (filter P us)) = []" for P
    using updates_okD(2) [OF assms(1)] by (auto simp: filter_empty_conv)
  ultimately show "filter (\<lambda>l. l \<noteq> [] \<and> assigned us l = None) (new_lines file us) = filter (\<lambda>l. l \<noteq> [] \<and> assigned us l = None) (file_lines file)"
    by (simp add: new_lines_def conj_commute conj_left_commute)
qed

section \<open>Properties\<close>

text \<open>C34. Polling ends: it returns for every behaviour of the hub, and its outcome is settled by the
  first polls alone, as many as the interval fits into the time left, rounded up. A hub that answers
  the same up to then gives the same outcome.\<close>

theorem pollResult_bounded:
  assumes "\<And>n. k \<le> n \<Longrightarrow> n < k + nat ((expiresAt - clk + POLL_INTERVAL_MS - 1) div POLL_INTERVAL_MS) \<Longrightarrow> poll_call w u i s n = poll_call w' u i s n"
    and "rw_delay w' = rw_delay w"
  shows "pollResult w u i s expiresAt k clk = pollResult w' u i s expiresAt k clk"
  using assms
proof (induction w u i s expiresAt k clk rule: pollResult.induct)
  case (1 w u i s expiresAt k clk)
  show ?case
  proof (cases "clk < expiresAt")
    case True
    let ?clk = "clk + POLL_INTERVAL_MS + int (rw_delay w k)"
    have pos: "0 < nat ((expiresAt - clk + POLL_INTERVAL_MS - 1) div POLL_INTERVAL_MS)"
      using True by (simp add: POLL_INTERVAL_MS_def)
    then have here: "poll_call w u i s k = poll_call w' u i s k" by (intro "1.prems"(1)) simp_all
    show ?thesis
    proof (cases "poll_answer (poll_call w u i s k)")
      case None
      have fewer: "Suc k + nat ((expiresAt - ?clk + POLL_INTERVAL_MS - 1) div POLL_INTERVAL_MS) \<le>
          k + nat ((expiresAt - clk + POLL_INTERVAL_MS - 1) div POLL_INTERVAL_MS)"
        using True by (simp add: POLL_INTERVAL_MS_def)
      have "pollResult w u i s expiresAt (Suc k) ?clk = pollResult w' u i s expiresAt (Suc k) ?clk"
        by (rule "1.IH" [OF True None _ "1.prems"(2)]) (use "1.prems"(1) fewer in auto)
      then show ?thesis using pollResult_step(2) [OF True] None here "1.prems"(2) by simp
    next
      case (Some r)
      then show ?thesis using pollResult_step(1) [OF True] here by simp
    qed
  qed (simp add: pollResult_late)
qed

text \<open>Polling delivers: when the hub says to go on for the first polls and then reports the approval
  with its key, at a poll that starts before the request expires, the command obtains that result.\<close>

theorem pollResult_delivers:
  assumes "\<And>j. j < n \<Longrightarrow> poll_answer (poll_call w u i s (k + j)) = None" and "poll_call w u i s (k + n) = Inr result"
    and "getProp ''status'' result = Some (JStr ''APPROVED'')" and "truthy (getProp ''apiKey'' result)"
    and "poll_time w k clk n < expiresAt"
  shows "pollResult w u i s expiresAt k clk = Inr result"
  using assms(1,2,5)
proof (induction n arbitrary: k clk)
  case 0
  have "poll_answer (Inr result) = Some (Inr result)" using assms(3,4) by (auto simp: poll_answer_def)
  then show ?case using 0 pollResult_step(1) [of clk expiresAt w u i s k "Inr result"] by simp
next
  case (Suc n)
  let ?clk = "clk + POLL_INTERVAL_MS + int (rw_delay w k)"
  have "pollResult w u i s expiresAt (Suc k) ?clk = Inr result"
    using Suc.prems Suc.prems(1) [of "Suc j" for j] by (intro Suc.IH) simp_all
  moreover have "clk < expiresAt" using Suc.prems(3) poll_time_ge [of ?clk w "Suc k" n] by (simp add: POLL_INTERVAL_MS_def)
  ultimately show ?case using pollResult_step(2) [of clk expiresAt w u i s k] Suc.prems(1) [of 0] by simp
qed

definition demo_pending_resp :: http_resp where
  "demo_pending_resp = \<lparr>hr_status = 200, hr_ok = True, hr_body = Some (Inr (JObj [(''status'', JStr ''PENDING'')]))\<rparr>"

definition demo_approved :: json where
  "demo_approved = JObj [(''status'', JStr ''APPROVED''), (''apiKey'', JStr ''k''), (''serverId'', JStr ''s'')]"

definition demo_world :: "bool \<Rightarrow> reg_world" where
  "demo_world b = \<lparr>rw_post = (\<lambda>u j. Inl ''down''),
     rw_poll = (\<lambda>k _ _. Inr (if b \<and> k = 1 then \<lparr>hr_status = 200, hr_ok = True, hr_body = Some (Inr demo_approved)\<rparr> else demo_pending_resp)),
     rw_delay = (\<lambda>_. 0), rw_getTime = (\<lambda>_. None)\<rparr>"

theorem pollResult_bounded_witness:
  "pollResult (demo_world True) ''u'' ''i'' ''s'' 2000 0 0 = pollResult (demo_world False) ''u'' ''i'' ''s'' 2000 0 0 \<and>
   poll_call (demo_world True) ''u'' ''i'' ''s'' \<noteq> poll_call (demo_world False) ''u'' ''i'' ''s''"
proof
  show "pollResult (demo_world True) ''u'' ''i'' ''s'' 2000 0 0 = pollResult (demo_world False) ''u'' ''i'' ''s'' 2000 0 0"
    by (rule pollResult_bounded) (simp_all add: demo_world_def poll_call_def POLL_INTERVAL_MS_def)
  have "poll_call (demo_world True) ''u'' ''i'' ''s'' 1 \<noteq> poll_call (demo_world False) ''u'' ''i'' ''s'' 1"
    by (simp add: poll_call_def demo_world_def demo_pending_resp_def demo_approved_def fetchJson_def readJson_def)
  then show "poll_call (demo_world True) ''u'' ''i'' ''s'' \<noteq> poll_call (demo_world False) ''u'' ''i'' ''s''" by metis
qed

text \<open>The environment file after registration: every key of the update is assigned, and only to its
  new value; all other non-empty lines are kept in their order; and registering again with the same
  values leaves the file as it is. The old text may be missing but has no carriage returns; keys
  are upper-case names and values single lines.\<close>

theorem upsertEnv_updates:
  assumes "updates_ok us" and "case file of None \<Rightarrow> True | Some text \<Rightarrow> char_of (13 :: nat) \<notin> set text"
  shows "(\<forall>(k, v) \<in> set us. env_assign (k, v) \<in> set (split_lines (upsertEnv file us)) \<and>
      (\<forall>l \<in> set (split_lines (upsertEnv file us)). env_key l = Some k \<longrightarrow> l = env_assign (k, v))) \<and>
    filter (\<lambda>l. l \<noteq> [] \<and> assigned us l = None) (split_lines (upsertEnv file us)) =
      filter (\<lambda>l. l \<noteq> [] \<and> assigned us l = None) (file_lines file) \<and>
    upsertEnv (Some (upsertEnv file us)) us = upsertEnv file us"
proof -
  have "\<forall>l \<in> set (file_lines file). line_ok l"
    using assms(2) split_lines_ok by (auto simp: file_lines_def split: option.splits)
  note new = new_lines_facts [OF assms(1) this]
  have lines: "split_lines (upsertEnv file us) = new_lines file us @ [[]]"
    unfolding upsertEnv_lines by (rule split_lines_join [OF new(1,2)])
  have "map (rewrite us) (new_lines file us) = new_lines file us"
    using new(4) by (intro map_idI) (auto simp: rewrite_def split: option.split)
  moreover have "rewrite us [] = []" by (simp add: rewrite_def assigned_def env_key_def)
  moreover have "\<exists>l \<in> set (new_lines file us). assigned us l = Some (fst kv)" if "kv \<in> set us" for kv
    using new(3) [OF that] updates_okD(2) [OF assms(1) that] by blast
  then have "filter (\<lambda>kv. \<forall>l \<in> set (new_lines file us @ [[]]). assigned us l \<noteq> Some (fst kv)) us = []"
    by (fastforce simp: filter_empty_conv)
  moreover have "filter (\<lambda>l. l \<noteq> []) (new_lines file us) = new_lines file us" by (simp add: new_lines_def)
  ultimately have "new_lines (Some (upsertEnv file us)) us = new_lines file us"
    unfolding new_lines_def [of "Some (upsertEnv file us)"] file_lines_def [of "Some (upsertEnv file us)"] option.case lines by simp
  then have again: "upsertEnv (Some (upsertEnv file us)) us = upsertEnv file us" by (simp add: upsertEnv_lines)
  have "l = env_assign (k, v)" if "(k, v) \<in> set us" "l \<in> set (new_lines file us @ [[]])" "env_key l = Some k" for k v l
  proof -
    have "assigned us l = Some k" using that by (force simp: assigned_def)
    moreover have "l \<noteq> []" using that(3) by (auto simp: env_key_def)
    ultimately show ?thesis using new(4) [of l k] that(1,2) updates_okD(1) [OF assms(1) that(1)] by simp
  qed
  then show ?thesis using again new(3,5) unfolding lines by auto
qed

theorem upsertEnv_updates_witness:
  "upsertEnv (Some (''A=1'' @ nl @ ''# x'')) [(''A'', ''2'')] = ''A=2'' @ nl @ ''# x'' @ nl \<and>
   upsertEnv (Some (upsertEnv (Some (''A=1'' @ nl @ ''# x'')) [(''A'', ''2'')])) [(''A'', ''2'')] =
     upsertEnv (Some (''A=1'' @ nl @ ''# x'')) [(''A'', ''2'')]"
proof
  show "upsertEnv (Some (''A=1'' @ nl @ ''# x'')) [(''A'', ''2'')] = ''A=2'' @ nl @ ''# x'' @ nl" by code_simp
  have "updates_ok [(''A'', ''2'')]" "char_of (13 :: nat) \<notin> set (''A=1'' @ nl @ ''# x'')" by code_simp+
  then show "upsertEnv (Some (upsertEnv (Some (''A=1'' @ nl @ ''# x'')) [(''A'', ''2'')])) [(''A'', ''2'')] =
     upsertEnv (Some (''A=1'' @ nl @ ''# x'')) [(''A'', ''2'')]"
    using upsertEnv_updates [of "[(''A'', ''2'')]" "Some (''A=1'' @ nl @ ''# x'')"] by simp
qed

end
