(* ===== verification/Dev_Scripts.thy ===== *)
theory Dev_Scripts
  imports Deployment Register
begin

text \<open>
  The development scripts of the daemon, \<^verbatim>\<open>agent-daemon/dev-scripts\<close>: \<^verbatim>\<open>fake-codex.js\<close>, a command that stands in
  for Codex, and \<^verbatim>\<open>mock-hub.js\<close>, a hub of counters and lists that drives a daemon through four scenarios
  and checks what it reports. Shown: the verdict of the harness, and that the daemon passes the
  scenarios of a success, a cancellation and an exhausted capacity for prompts of its own choosing.
\<close>

section \<open>The stand-in for Codex (fake-codex.js)\<close>

datatype fake_write = Stdout string | Stderr string

record fake =
  fk_out :: "fake_write list"
  fk_timer :: bool
  fk_exit :: "int option"

definition fake_print :: "fake_write \<Rightarrow> fake \<Rightarrow> fake" where
  "fake_print w f = f\<lparr>fk_out := fk_out f @ [w]\<rparr>"

definition capacity_message :: string where
  "capacity_message = ''Codex is temporarily unavailable: model capacity reached. Please try again later.''"

definition fake_main :: "string list \<Rightarrow> fake" where
  "fake_main argv =
    (let promptArg = (if length argv > 2 then argv ! 2 else []);
         f = fake_print (Stdout (''--- fake-codex: analyzing prompt '' @ stringify (JStr promptArg) @ nl))
           \<lparr>fk_out = [], fk_timer = False, fk_exit = None\<rparr>
     in if rx_test (lit_i ''capacity'') promptArg
        then (fake_print (Stderr (capacity_message @ nl)) f)\<lparr>fk_exit := Some 1\<rparr>
        else if rx_test (lit_i ''slow'') promptArg
        then (fake_print (Stdout (''Starting long-running task...'' @ nl)) f)\<lparr>fk_timer := True\<rparr>
        else (fold fake_print
          [Stdout (''Searching repository...'' @ nl), Stdout (''Found 2 relevant files. processing.'' @ nl),
           Stdout (''Plan: apply the suggested diff, then run the test suite.'' @ nl), Stdout (''Command complete; output written.'' @ nl)] f)
          \<lparr>fk_exit := Some 0\<rparr>)"

text \<open>The callbacks of the timer and of the signals; they exist only while the timer runs.\<close>

definition fake_tick :: "fake \<Rightarrow> fake" where
  "fake_tick f = (if fk_timer f then fake_print (Stdout (''Still working...'' @ nl)) f else f)"

definition fake_sigterm :: "fake \<Rightarrow> fake" where
  "fake_sigterm f =
    (if fk_timer f
     then (fake_print (Stdout (''fake-codex: received SIGTERM, shutting down...'' @ nl)) (f\<lparr>fk_timer := False\<rparr>))\<lparr>fk_exit := Some 143\<rparr>
     else f)"

definition fake_sigint :: "fake \<Rightarrow> fake" where
  "fake_sigint f =
    (if fk_timer f
     then (fake_print (Stdout (''fake-codex: received SIGINT, shutting down...'' @ nl)) (f\<lparr>fk_timer := False\<rparr>))\<lparr>fk_exit := Some 130\<rparr>
     else f)"

section \<open>The mock hub (mock-hub.js)\<close>

definition VALID_API_KEY :: string where
  "VALID_API_KEY = ''test-api-key-123''"

record mock_hub =
  mh_port :: int
  mh_portStarted :: bool
  mh_daemonSocket :: "string option"
  mh_heartbeats :: nat
  mh_statuses :: "status_payload list"
  mh_logs :: "log_payload list"
  mh_approvalRequests :: "approval_payload list"
  mh_results :: "result_payload list"
  mh_connectedCount :: nat

definition mock_start :: "mock_hub \<Rightarrow> mock_hub" where
  "mock_start m = (if mh_portStarted m then m else m\<lparr>mh_portStarted := True\<rparr>)"

definition MockHub :: "int \<Rightarrow> bool \<Rightarrow> mock_hub" where
  "MockHub port autoStart =
    (let m = \<lparr>mh_port = port, mh_portStarted = False, mh_daemonSocket = None, mh_heartbeats = 0, mh_statuses = [], mh_logs = [],
           mh_approvalRequests = [], mh_results = [], mh_connectedCount = 0\<rparr>
     in if autoStart then mock_start m else m)"

text \<open>A connection with another key is disconnected: the first component says whether it is kept.\<close>

definition mock_connection :: "string \<Rightarrow> string option \<Rightarrow> mock_hub \<Rightarrow> bool \<times> mock_hub" where
  "mock_connection socket apiKey m =
    (if apiKey \<noteq> Some VALID_API_KEY then (False, m)
     else (True, m\<lparr>mh_daemonSocket := Some socket, mh_connectedCount := mh_connectedCount m + 1\<rparr>))"

fun mock_receive :: "daemon_emit \<Rightarrow> mock_hub \<Rightarrow> mock_hub" where
  "mock_receive EmitHeartbeat m = m\<lparr>mh_heartbeats := mh_heartbeats m + 1\<rparr>"
| "mock_receive (EmitStatus p) m = m\<lparr>mh_statuses := mh_statuses m @ [p]\<rparr>"
| "mock_receive (EmitLog p) m = m\<lparr>mh_logs := mh_logs m @ [p]\<rparr>"
| "mock_receive (EmitResult p) m = m\<lparr>mh_results := mh_results m @ [p]\<rparr>"
| "mock_receive (EmitApproval p) m = m\<lparr>mh_approvalRequests := mh_approvalRequests m @ [p]\<rparr>"

definition logsFor :: "string \<Rightarrow> mock_hub \<Rightarrow> log_payload list" where
  "logsFor taskId m = filter (\<lambda>l. lp_taskId l = taskId) (mh_logs m)"

section \<open>The harness (mock-hub.js)\<close>

text \<open>The processes under test: the mock hub, the daemon's process and what was sent to it and has not
  arrived. The harness has its clock, its exit code and the checks it has printed.\<close>

record sys =
  sy_hub :: mock_hub
  sy_daemon :: "daemon option"
  sy_inbox :: "daemon_input list"

record harness =
  hn_sys :: sys
  hn_clock :: int
  hn_exitCode :: "int option"
  hn_checks :: "(string \<times> bool) list"

type_synonym 'a script = "(harness, string, 'a) prog"

text \<open>What the other processes do while the harness waits is a parameter: during a sleep of some
  milliseconds, until the daemon exits or some milliseconds have passed, and until a hub is closed. Each
  also tells how late a timer is, or how long the wait was.\<close>

record scheduler =
  sd_sleep :: "int \<Rightarrow> sys \<Rightarrow> sys \<times> nat"
  sd_exit_or :: "int \<Rightarrow> sys \<Rightarrow> sys \<times> nat"
  sd_close :: "sys \<Rightarrow> sys \<times> nat"

definition on_hub :: "(mock_hub \<Rightarrow> mock_hub) \<Rightarrow> harness \<Rightarrow> harness" where
  "on_hub f w = w\<lparr>hn_sys := (hn_sys w)\<lparr>sy_hub := f (sy_hub (hn_sys w))\<rparr>\<rparr>"

definition send_daemon :: "daemon_input \<Rightarrow> harness \<Rightarrow> harness" where
  "send_daemon e w = w\<lparr>hn_sys := (hn_sys w)\<lparr>sy_inbox := sy_inbox (hn_sys w) @ [e]\<rparr>\<rparr>"

definition to_socket :: "daemon_input \<Rightarrow> unit script" where
  "to_socket e = modS (\<lambda>w. if mh_daemonSocket (sy_hub (hn_sys w)) = None then w else send_daemon e w)"

definition emitSubmit :: "string \<Rightarrow> json \<Rightarrow> unit script" where
  "emitSubmit taskId input = to_socket (HubSubmit (Some taskId) (Some input))"

definition emitDecision :: "string \<Rightarrow> bool \<Rightarrow> unit script" where
  "emitDecision taskId approved = to_socket (HubDecision (Some taskId) approved)"

definition emitCancel :: "string \<Rightarrow> unit script" where
  "emitCancel taskId = to_socket (HubCancel (Some taskId))"

text \<open>A timer of less than a millisecond is one of a millisecond.\<close>

definition sleep :: "scheduler \<Rightarrow> int \<Rightarrow> harness \<Rightarrow> harness" where
  "sleep sd ms w = (case sd_sleep sd ms (hn_sys w) of (s, late) \<Rightarrow> w\<lparr>hn_sys := s, hn_clock := hn_clock w + max 1 ms + int late\<rparr>)"

function wait_until :: "scheduler \<Rightarrow> string \<Rightarrow> (harness \<Rightarrow> bool) \<Rightarrow> int \<Rightarrow> int \<Rightarrow> unit script" where
  "wait_until sd label fn deadline interval w =
    (if hn_clock w < deadline
     then (if fn w then (Inr (), w) else wait_until sd label fn deadline interval (sleep sd interval w))
     else (Inl (''Timed out waiting for '' @ label), w))"
  by pat_completeness auto
termination
  by (relation "measure (\<lambda>(sd, label, fn, deadline, interval, w). nat (deadline - hn_clock w))")
    (auto simp: sleep_def split: prod.split)

declare wait_until.simps [simp del]

definition waitFor_within :: "scheduler \<Rightarrow> string \<Rightarrow> (harness \<Rightarrow> bool) \<Rightarrow> int \<Rightarrow> unit script" where
  "waitFor_within sd label fn timeoutMs = (\<lambda>w. wait_until sd label fn (hn_clock w + timeoutMs) 100 w)"

definition waitFor :: "scheduler \<Rightarrow> string \<Rightarrow> (harness \<Rightarrow> bool) \<Rightarrow> unit script" where
  "waitFor sd label fn = waitFor_within sd label fn 10000"

definition check_named :: "string \<Rightarrow> bool \<Rightarrow> unit script" where
  "check_named name cond =
    modS (\<lambda>w. w\<lparr>hn_checks := hn_checks w @ [(name, cond)], hn_exitCode := (if cond then hn_exitCode w else Some 1)\<rparr>)"

definition check :: "string \<Rightarrow> (harness \<Rightarrow> bool) \<Rightarrow> unit script" where
  "check name cond = bindE (getS cond) (check_named name)"

text \<open>The places on disk, which depend on where the script lies, and the environment of the harness. The
  daemon's environment is that one with these settings and then the overrides.\<close>

record paths =
  pa_daemonDir :: string
  pa_fakeCodex :: string
  pa_env :: env

definition harness_template :: "string \<Rightarrow> string" where
  "harness_template fake = ''node '' @ [dquote] @ fake @ [dquote] @ '' '' @ [dquote] @ ''{{prompt}}'' @ [dquote]"

definition daemon_env :: "paths \<Rightarrow> (string \<times> string) list \<Rightarrow> env" where
  "daemon_env pa overrides =
    pa_env pa ++ map_of [(''HUB_URL'', ''http://127.0.0.1:9999''), (''API_KEY'', VALID_API_KEY), (''SERVER_ID'', ''e2e-harness''),
      (''CODEX_COMMAND_TEMPLATE'', harness_template (pa_fakeCodex pa)), (''CODEX_EXEC_CWD'', pa_daemonDir pa),
      (''HEARTBEAT_INTERVAL_MS'', ''250'')] ++ map_of overrides"

definition spawnDaemon :: "paths \<Rightarrow> (string \<times> string) list \<Rightarrow> unit script" where
  "spawnDaemon pa overrides =
    modS (\<lambda>w. w\<lparr>hn_sys := (hn_sys w)\<lparr>sy_daemon := Some (boot (load_config (daemon_env pa overrides) (pa_daemonDir pa))), sy_inbox := []\<rparr>\<rparr>)"

definition daemon_alive :: "harness \<Rightarrow> bool" where
  "daemon_alive w \<longleftrightarrow> (case sy_daemon (hn_sys w) of None \<Rightarrow> False | Some d \<Rightarrow> dm_exit d = None)"

definition stopDaemon :: "scheduler \<Rightarrow> unit script" where
  "stopDaemon sd =
    modS (\<lambda>w. if daemon_alive w
      then let w1 = send_daemon OsSignal w
           in case sd_exit_or sd 2000 (hn_sys w1) of (s, t) \<Rightarrow> w1\<lparr>hn_sys := s, hn_clock := hn_clock w1 + int t\<rparr>
      else w)"

definition closeHub :: "scheduler \<Rightarrow> unit script" where
  "closeHub sd = modS (\<lambda>w. case sd_close sd (hn_sys w) of (s, t) \<Rightarrow> w\<lparr>hn_sys := s, hn_clock := hn_clock w + int t\<rparr>)"

section \<open>The scenarios\<close>

abbreviation hub_of :: "harness \<Rightarrow> mock_hub" where
  "hub_of w \<equiv> sy_hub (hn_sys w)"

definition result_of :: "string \<Rightarrow> harness \<Rightarrow> result_payload option" where
  "result_of i w = List.find (\<lambda>r. rp_taskId r = i) (mh_results (hub_of w))"

definition has_result :: "string \<Rightarrow> result_status \<Rightarrow> harness \<Rightarrow> bool" where
  "has_result i st w \<longleftrightarrow> list_ex (\<lambda>r. rp_taskId r = i \<and> rp_status r = st) (mh_results (hub_of w))"

text \<open>\<open>completed?.result?.lastChunk\<close> is a string that is not empty.\<close>

definition carries_chunk :: "result_payload option \<Rightarrow> bool" where
  "carries_chunk v \<longleftrightarrow>
    (case v of None \<Rightarrow> False | Some r \<Rightarrow>
      (case rp_result r of None \<Rightarrow> False | Some j \<Rightarrow>
        (case getProp ''lastChunk'' j of Some (JStr s) \<Rightarrow> s \<noteq> [] | _ \<Rightarrow> False)))"

definition capacity_result :: "result_payload option \<Rightarrow> bool" where
  "capacity_result v \<longleftrightarrow>
    (case v of None \<Rightarrow> False | Some r \<Rightarrow>
      (case rp_failure r of None \<Rightarrow> False | Some f \<Rightarrow> fp_category f = CAPACITY_EXHAUSTED \<and> fp_retryable f = Some True) \<and>
      (case rp_result r of None \<Rightarrow> False | Some j \<Rightarrow>
        (case getProp ''failure'' j of None \<Rightarrow> False | Some f \<Rightarrow> getProp ''category'' f = Some (JStr ''CAPACITY_EXHAUSTED''))))"

definition scenarioA :: "scheduler \<Rightarrow> unit script" where
  "scenarioA sd =
    forE id
     [waitFor sd ''daemon connect'' (\<lambda>w. mh_connectedCount (hub_of w) \<ge> 1),
      waitFor sd ''first heartbeat'' (\<lambda>w. mh_heartbeats (hub_of w) \<ge> 1),
      check ''A1 daemon connected with valid apiKey'' (\<lambda>w. mh_connectedCount (hub_of w) \<ge> 1),
      check ''A2 daemon emits heartbeat'' (\<lambda>w. mh_heartbeats (hub_of w) \<ge> 1),
      emitSubmit ''t-success'' (JObj [(''prompt'', JStr ''refactor the utils'')]),
      waitFor sd ''RUNNING status''
        (\<lambda>w. list_ex (\<lambda>s. sp_taskId s = ''t-success'' \<and> sp_status s = DS_RUNNING) (mh_statuses (hub_of w))),
      check ''A3 emits task:statusUpdate RUNNING on start'' (\<lambda>_. True),
      waitFor sd ''task logs'' (\<lambda>w. length (logsFor ''t-success'' (hub_of w)) \<ge> 1),
      check ''A4 streams task:log chunks'' (\<lambda>w. length (logsFor ''t-success'' (hub_of w)) \<ge> 1),
      waitFor sd ''COMPLETED result'' (has_result ''t-success'' RS_COMPLETED),
      check ''A5 emits task:result COMPLETED'' (\<lambda>w. map_option rp_status (result_of ''t-success'' w) = Some RS_COMPLETED),
      check ''A5b result carries last chunk'' (\<lambda>w. carries_chunk (result_of ''t-success'' w))]"

definition scenarioB :: "scheduler \<Rightarrow> unit script" where
  "scenarioB sd =
    forE id
     [emitSubmit ''t-cancel'' (JObj [(''prompt'', JStr ''slow cancellable task'')]),
      waitFor sd ''B task logs'' (\<lambda>w. length (logsFor ''t-cancel'' (hub_of w)) \<ge> 1),
      emitCancel ''t-cancel'',
      modS (sleep sd 1500),
      check ''B1 cancelled task emits NO task:result'' (\<lambda>w. result_of ''t-cancel'' w = None)]"

definition scenarioCapacity :: "scheduler \<Rightarrow> unit script" where
  "scenarioCapacity sd =
    forE id
     [emitSubmit ''t-capacity'' (JObj [(''prompt'', JStr ''trigger capacity exhaustion'')]),
      waitFor sd ''capacity FAILED result'' (has_result ''t-capacity'' RS_FAILED),
      check ''C1 emits task:result FAILED'' (\<lambda>w. map_option rp_status (result_of ''t-capacity'' w) = Some RS_FAILED),
      check ''C2 result carries retryable CAPACITY_EXHAUSTED failure'' (\<lambda>w. capacity_result (result_of ''t-capacity'' w))]"

text \<open>The scenario has a hub of its own.\<close>

definition scenarioD :: "scheduler \<Rightarrow> paths \<Rightarrow> unit script" where
  "scenarioD sd pa =
    forE id
     [modS (on_hub (\<lambda>_. MockHub 4122 False)),
      spawnDaemon pa [(''HUB_URL'', ''http://127.0.0.1:4122'')],
      modS (sleep sd 800),
      check ''D1 daemon stays alive while Hub is offline'' daemon_alive,
      modS (on_hub mock_start),
      waitFor_within sd ''reconnect to Hub'' (\<lambda>w. mh_connectedCount (hub_of w) \<ge> 1) 15000,
      modS (sleep sd 100),
      check ''D2 buffered events flushed in order upon reconnect (>=3 heartbeats)'' (\<lambda>w. mh_heartbeats (hub_of w) \<ge> 3),
      closeHub sd,
      stopDaemon sd]"

definition harness_run :: "scheduler \<Rightarrow> paths \<Rightarrow> unit script" where
  "harness_run sd pa =
    forE id
     [modS (on_hub (\<lambda>_. MockHub 4121 True)),
      modS (on_hub mock_start),
      spawnDaemon pa [(''HUB_URL'', ''http://127.0.0.1:4121'')],
      scenarioA sd, scenarioB sd, scenarioCapacity sd,
      stopDaemon sd,
      closeHub sd,
      scenarioD sd pa]"

text \<open>The exit code of the harness, and what it was when it ended.\<close>

definition harness_main :: "scheduler \<Rightarrow> paths \<Rightarrow> harness \<Rightarrow> int \<times> harness" where
  "harness_main sd pa w =
    (case harness_run sd pa w of
       (Inl err, w') \<Rightarrow> (1, w')
     | (Inr _, w') \<Rightarrow> (case hn_exitCode w' of None \<Rightarrow> 0 | Some n \<Rightarrow> n, w'))"

section \<open>The verdict\<close>

text \<open>What a script prints: on a normal end exactly the named checks, on an exception the first of them;
  the exit code is set exactly when one of them failed.\<close>

definition makes :: "string list \<Rightarrow> unit script \<Rightarrow> bool" where
  "makes ns m \<longleftrightarrow> (\<forall>w. \<exists>cs. hn_checks (snd (m w)) = hn_checks w @ cs \<and>
     hn_exitCode (snd (m w)) = (if list_all snd cs then hn_exitCode w else Some 1) \<and>
     (fst (m w) = Inr () \<longrightarrow> map fst cs = ns))"

lemma makes_quiet:
  assumes "\<And>w. hn_checks (snd (m w)) = hn_checks w \<and> hn_exitCode (snd (m w)) = hn_exitCode w"
  shows "makes [] m"
  unfolding makes_def using assms by (auto intro!: exI [of _ "[]"])

lemma makes_check: "makes [n] (check n c)"
  by (auto simp: makes_def check_def check_named_def prog_simps)

lemma makes_then:
  assumes "makes ns m" and "makes ns' n"
  shows "makes (ns @ ns') (thenE m n)"
  unfolding makes_def
proof
  fix w
  from assms(1) obtain cs where cs: "hn_checks (snd (m w)) = hn_checks w @ cs"
    "hn_exitCode (snd (m w)) = (if list_all snd cs then hn_exitCode w else Some 1)" "fst (m w) = Inr () \<longrightarrow> map fst cs = ns"
    by (auto simp: makes_def)
  from assms(2) obtain ds where ds: "hn_checks (snd (n (snd (m w)))) = hn_checks (snd (m w)) @ ds"
    "hn_exitCode (snd (n (snd (m w)))) = (if list_all snd ds then hn_exitCode (snd (m w)) else Some 1)"
    "fst (n (snd (m w))) = Inr () \<longrightarrow> map fst ds = ns'"
    unfolding makes_def by blast
  show "\<exists>cs. hn_checks (snd (thenE m n w)) = hn_checks w @ cs \<and>
      hn_exitCode (snd (thenE m n w)) = (if list_all snd cs then hn_exitCode w else Some 1) \<and>
      (fst (thenE m n w) = Inr () \<longrightarrow> map fst cs = ns @ ns')"
  proof (cases "m w")
    case (Pair r w')
    show ?thesis
    proof (cases r)
      case (Inl e)
      then show ?thesis using cs Pair by (intro exI [of _ cs]) (simp add: prog_simps)
    next
      case (Inr u)
      then show ?thesis using cs ds Pair by (intro exI [of _ "cs @ ds"]) (simp add: prog_simps)
    qed
  qed
qed

lemma makes_for: "list_all2 makes nss ms \<Longrightarrow> makes (concat nss) (forE id ms)"
proof (induction rule: list_all2_induct)
  case Nil
  show ?case by (simp add: makes_quiet prog_simps)
next
  case (Cons ns nss m ms)
  then show ?case using makes_then by simp
qed

lemma makes_forI: "list_all2 makes nss ms \<Longrightarrow> concat nss = ns \<Longrightarrow> makes ns (forE id ms)"
  using makes_for by blast

lemma wait_until_quiet:
  "hn_checks (snd (wait_until sd l fn t i w)) = hn_checks w \<and> hn_exitCode (snd (wait_until sd l fn t i w)) = hn_exitCode w"
proof (induction sd l fn t i w rule: wait_until.induct)
  case (1 sd l fn t i w)
  then show ?case by (subst (1 2) wait_until.simps) (auto simp: sleep_def split: prod.splits)
qed

lemma makes_rules:
  "makes [] (waitFor_within sd l fn t)" "makes [] (waitFor sd l fn)" "makes [] (to_socket e)" "makes [] (modS (on_hub f))"
  "makes [] (modS (sleep sd ms))" "makes [] (spawnDaemon pa ov)" "makes [] (stopDaemon sd)" "makes [] (closeHub sd)"
  by (rule makes_quiet; simp add: waitFor_def waitFor_within_def wait_until_quiet to_socket_def on_hub_def sleep_def spawnDaemon_def
      stopDaemon_def closeHub_def send_daemon_def Let_def prog_simps split: prod.split)+

lemmas makes_simps = makes_check makes_rules emitSubmit_def emitCancel_def

definition harness_checks :: "string list" where
  "harness_checks =
    [''A1 daemon connected with valid apiKey'', ''A2 daemon emits heartbeat'', ''A3 emits task:statusUpdate RUNNING on start'',
     ''A4 streams task:log chunks'', ''A5 emits task:result COMPLETED'', ''A5b result carries last chunk'',
     ''B1 cancelled task emits NO task:result'', ''C1 emits task:result FAILED'',
     ''C2 result carries retryable CAPACITY_EXHAUSTED failure'', ''D1 daemon stays alive while Hub is offline'',
     ''D2 buffered events flushed in order upon reconnect (>=3 heartbeats)'']"

lemma makes_scenarios:
  "makes (take 6 harness_checks) (scenarioA sd)" "makes [harness_checks ! 6] (scenarioB sd)"
  "makes (take 2 (drop 7 harness_checks)) (scenarioCapacity sd)" "makes (drop 9 harness_checks) (scenarioD sd pa)"
  unfolding scenarioA_def scenarioB_def scenarioCapacity_def scenarioD_def harness_checks_def
     apply (rule makes_forI [of "[[], [], [harness_checks ! 0], [harness_checks ! 1], [], [], [harness_checks ! 2], [],
       [harness_checks ! 3], [], [harness_checks ! 4], [harness_checks ! 5]]"]; simp add: makes_simps harness_checks_def)
    apply (rule makes_forI [of "[[], [], [], [], [harness_checks ! 6]]"]; simp add: makes_simps harness_checks_def)
   apply (rule makes_forI [of "[[], [], [harness_checks ! 7], [harness_checks ! 8]]"]; simp add: makes_simps harness_checks_def)
  apply (rule makes_forI [of "[[], [], [], [harness_checks ! 9], [], [], [], [harness_checks ! 10], [], []]"];
      simp add: makes_simps harness_checks_def)
  done

lemma makes_harness: "makes harness_checks (harness_run sd pa)"
  unfolding harness_run_def
  by (rule makes_forI [of "[[], [], [], take 6 harness_checks, [harness_checks ! 6], take 2 (drop 7 harness_checks), [], [], drop 9 harness_checks]"])
    (simp_all add: makes_rules makes_scenarios, simp add: harness_checks_def)

text \<open>The verdict of the harness, whatever the processes do: it ends with 0 or 1, and with 0 exactly when
  no wait timed out and the eleven checks were made and passed.\<close>

theorem harness_verdict:
  assumes "hn_checks w = []" and "hn_exitCode w = None" and "harness_main sd pa w = (code, w')"
  shows "code \<in> {0, 1} \<and>
    (code = 0 \<longleftrightarrow> fst (harness_run sd pa w) = Inr () \<and> hn_checks w' = map (\<lambda>n. (n, True)) harness_checks)"
proof -
  obtain cs where cs: "hn_checks (snd (harness_run sd pa w)) = cs"
    "hn_exitCode (snd (harness_run sd pa w)) = (if list_all snd cs then None else Some 1)"
    "fst (harness_run sd pa w) = Inr () \<longrightarrow> map fst cs = harness_checks"
    using spec [OF makes_harness [of sd pa, unfolded makes_def], of w] unfolding assms(1,2) append_Nil by blast
  have all: "list_all snd cs \<longleftrightarrow> cs = map (\<lambda>n. (n, True)) (map fst cs)" by (induction cs) auto
  show ?thesis
  proof (cases "harness_run sd pa w")
    case (Pair r w1)
    then have w1: "w' = w1" "hn_checks w1 = cs" "hn_exitCode w1 = (if list_all snd cs then None else Some 1)"
      using cs(1,2) assms(3) by (auto simp: harness_main_def split: sum.splits)
    show ?thesis
    proof (cases r)
      case (Inl e)
      then show ?thesis using Pair assms(3) by (auto simp: harness_main_def)
    next
      case (Inr u)
      then have names: "map fst cs = harness_checks" using cs(3) Pair by simp
      have "code = (if list_all snd cs then 0 else 1)" using Inr Pair assms(3) w1(3) by (auto simp: harness_main_def)
      moreover have "list_all snd cs \<longleftrightarrow> cs = map (\<lambda>n. (n, True)) harness_checks" using all unfolding names .
      ultimately show ?thesis using Inr Pair w1(1,2) by simp
    qed
  qed
qed

section \<open>The stand-in under the daemon\<close>

fun write_text :: "fake_write \<Rightarrow> string" where
  "write_text (Stdout t) = t"
| "write_text (Stderr t) = t"

fun is_stdout :: "fake_write \<Rightarrow> bool" where
  "is_stdout (Stdout t) = True"
| "is_stdout (Stderr t) = False"

text \<open>The orders in which the writes may arrive: each of the two pipes keeps its order.\<close>

definition arrivals :: "fake \<Rightarrow> fake_write list set" where
  "arrivals f = shuffles (filter is_stdout (fk_out f)) (filter (\<lambda>w. \<not> is_stdout w) (fk_out f))"

text \<open>The events a daemon has of its child: chunks of its output, then its end.\<close>

definition fake_events :: "nat \<Rightarrow> string list \<Rightarrow> fake \<Rightarrow> daemon_input list" where
  "fake_events ob cs f = map (ChildData ob) cs @
     (case fk_exit f of None \<Rightarrow> [] | Some n \<Rightarrow> [ChildExit ob n, ChildClose ob (Some n) None])"

text \<open>The command line of the harness passes the prompt as the argument that the stand-in reads.\<close>

lemma harness_plan:
  assumes "\<not> cfg_useShell config" and "cfg_commandTemplate config = harness_template fake"
    and "set fake \<inter> {dquote, backslash, CHR ''{''} = {}"
    and "map_of kvs ''prompt'' = Some (JStr p)" and "\<not> str_includes p ''{{input}}''" and "\<not> str_includes p ''{{cwd}}''"
  shows "buildSpawnPlan (Some (JObj kvs)) config = Inr \<lparr>pl_shell = False, pl_command = ''node'', pl_args = [fake, p]\<rparr>"
proof -
  let ?ps = "placeholders (Some (JObj kvs)) config" and ?q = "[dquote] @ placeholder ''prompt'' @ [dquote]"
  have "token_scan fake True = Some True"
    using assms(3) by (induction fake) (auto simp: dquote_def backslash_def)
  then have "token_scan ([dquote] @ fake @ [dquote]) False = Some False"
    using assms(3) by (induction fake) (auto simp: dquote_def backslash_def)
  then have "well_formed_token ([dquote] @ fake @ [dquote])" by (simp add: well_formed_token_def)
  moreover have "well_formed_token ''node''" "well_formed_token ?q" unfolding placeholder_def by code_simp+
  ultimately have tokens: "tokenize (harness_template fake) = [''node'', [dquote] @ fake @ [dquote], ?q]"
    using tokenize_join [of "[''node'', [dquote] @ fake @ [dquote], ?q]"] by (simp add: harness_template_def placeholder_def)
  have keys: "substitute s ?ps = s" if "CHR ''{'' \<notin> set s" for s
    by (rule substitute_absent) (use that in \<open>auto simp: placeholders_def placeholder_def includes_iff\<close>)
  have "?ps = placeholders (Some (JObj kvs)) (config\<lparr>cfg_useShell := False, cfg_commandTemplate := DEFAULT_COMMAND_TEMPLATE\<rparr>)"
    by (simp add: placeholders_def)
  then have "stripOuterQuotes (substitute ?q ?ps) = p"
    using default_plan(2) [of "config\<lparr>cfg_useShell := False, cfg_commandTemplate := DEFAULT_COMMAND_TEMPLATE\<rparr>", OF _ _ assms(4) refl assms(5,6)]
    by simp
  moreover have "stripOuterQuotes (substitute ([dquote] @ fake @ [dquote]) ?ps) = fake" "stripOuterQuotes (substitute ''node'' ?ps) = ''node''"
    using assms(3) stripOuterQuotes_quoted [of fake] by (auto simp: keys dquote_def stripOuterQuotes_plain)
  ultimately show ?thesis using assms(1,2) by (simp add: buildSpawnPlan_def Let_def tokens)
qed

text \<open>What the output of a child leaves in its runner.\<close>

lemma slice_last_again: "slice_last n (slice_last n a @ b) = slice_last n (a @ b)"
proof (cases "length a \<le> n")
  case False
  then show ?thesis by (simp add: slice_last_def) (simp add: algebra_simps)
qed (simp add: slice_last_def)

lemma slice_last_keep: "length b \<le> n \<Longrightarrow> slice_last n (a @ b) = slice_last (n - length b) a @ b"
  by (simp add: slice_last_def)

lemma data_step:
  assumes "dm_exit d = None" and "has_child d ob" and "d' = daemon_step spawn config (ChildData ob c) d"
  shows "dm_exit d' = None \<and> has_child d' ob \<and> dm_runners d' = dm_runners d \<and>
    (\<exists>b. runner_of d' ob = (runner_of d ob)\<lparr>rn_lastChunk := c, rn_tail := slice_last TAIL_LIMIT (rn_tail (runner_of d ob) @ c),
      rn_awaitingApproval := b\<rparr>)"
  using assms by (auto simp: daemon_step_def onData_def has_child_def Let_def emit_def runner_of_def set_runner_def split: option.split
      intro: exI [of _ "rn_awaitingApproval (dm_objs d ! ob)"])

lemma data_steps:
  assumes "dm_exit d = None" and "has_child d ob" and "d' = fold (daemon_step spawn config) (map (ChildData ob) cs) d"
  shows "dm_exit d' = None \<and> has_child d' ob \<and> dm_runners d' = dm_runners d \<and>
    (\<exists>b. runner_of d' ob = (runner_of d ob)\<lparr>rn_lastChunk := last (rn_lastChunk (runner_of d ob) # cs),
      rn_tail := (if cs = [] then rn_tail (runner_of d ob) else slice_last TAIL_LIMIT (rn_tail (runner_of d ob) @ concat cs)),
      rn_awaitingApproval := b\<rparr>)"
  using assms
proof (induction cs arbitrary: d' rule: rev_induct)
  case Nil
  then show ?case by (auto intro: exI [of _ "rn_awaitingApproval (runner_of d ob)"])
next
  case (snoc c cs)
  let ?e = "fold (daemon_step spawn config) (map (ChildData ob) cs) d"
  from snoc.IH [OF snoc.prems(1,2) refl] obtain b where e: "dm_exit ?e = None" "has_child ?e ob" "dm_runners ?e = dm_runners d"
    "runner_of ?e ob = (runner_of d ob)\<lparr>rn_lastChunk := last (rn_lastChunk (runner_of d ob) # cs),
      rn_tail := (if cs = [] then rn_tail (runner_of d ob) else slice_last TAIL_LIMIT (rn_tail (runner_of d ob) @ concat cs)),
      rn_awaitingApproval := b\<rparr>" by blast
  have "d' = daemon_step spawn config (ChildData ob c) ?e" using snoc.prems(3) by simp
  from data_step [OF e(1,2) this] e(3,4) show ?case by (auto simp: slice_last_again)
qed

text \<open>The detector finds the stand-in's message behind any output.\<close>

lemma split_lines_behind: "\<exists>l ls. split_lines (a @ nl @ s) = l # ls @ split_lines s"
proof (induction a rule: split_lines.induct)
  case 1
  show ?case by (simp add: nl_def)
next
  case (2 c cs)
  consider (lf) "c = char_of (10 :: nat)" | (crlf) "c = char_of (13 :: nat)" "cs = []"
    | (pair) "c = char_of (13 :: nat)" "cs \<noteq> []" "hd cs = char_of (10 :: nat)"
    | (other) "c \<noteq> char_of (10 :: nat)" "\<not> (c = char_of (13 :: nat) \<and> cs @ nl @ s \<noteq> [] \<and> hd (cs @ nl @ s) = char_of (10 :: nat))"
    by (cases cs) (auto simp: nl_def)
  then show ?case
  proof cases
    case lf
    then obtain l ls where "split_lines (cs @ nl @ s) = l # ls @ split_lines s" using 2(1) by auto
    then show ?thesis using lf by (intro exI [of _ "[]"] exI [of _ "l # ls"]) simp
  next
    case crlf
    then show ?thesis by (simp add: nl_def)
  next
    case pair
    then obtain l ls where "split_lines (tl cs @ nl @ s) = l # ls @ split_lines s" using 2(2) by auto
    then show ?thesis using pair by (intro exI [of _ "[]"] exI [of _ "l # ls"]) simp
  next
    case other
    moreover have "\<not> (c = char_of (13 :: nat) \<and> cs \<noteq> [] \<and> hd cs = char_of (10 :: nat))" using other(2) by (cases cs) auto
    then obtain l ls where "split_lines (cs @ nl @ s) = l # ls @ split_lines s" using 2(3) other(1) by blast
    ultimately show ?thesis by (intro exI [of _ "c # l"] exI [of _ ls]) simp
  qed
qed

lemma shuffles_two: "shuffles [a] [b] = {[a, b], [b, a]}"
  by auto

lemma capacity_message_found: "has_word ''capacity'' (q @ capacity_message @ z)"
  unfolding has_word_def capacity_message_def
  by (rule exI [of _ "q @ ''Codex is temporarily unavailable: model ''"], rule exI [of _ "''capacity''"],
      rule exI [of _ "'' reached. Please try again later.'' @ z"]) (simp, code_simp)

lemma json_quote_line: "line_ok (json_quote s)"
proof -
  have "32 \<le> code_of d" if "d \<in> set (json_char c)" for c d
    using that by (auto simp: json_char_def Let_def hex_digit_def code_of_def split: if_splits)
  then have "char_of (10 :: nat) \<notin> set (json_char c)" "char_of (13 :: nat) \<notin> set (json_char c)" for c
    by (fastforce simp: code_of_def)+
  moreover have "CHR 0x22 \<noteq> char_of (10 :: nat)" "CHR 0x22 \<noteq> char_of (13 :: nat)" by code_simp+
  ultimately show ?thesis by (auto simp: json_quote_def line_ok_def)
qed

text \<open>The line with the prompt, when it comes behind the message.\<close>

lemma capacity_detected_before:
  assumes "length (stringify (JStr p)) \<le> 1000"
  shows "has_word ''capacity'' (fail_excerpt (slice_last TAIL_LIMIT (capacity_message @ nl @ (''--- fake-codex: analyzing prompt '' @ stringify (JStr p)) @ nl)))"
proof -
  let ?m = capacity_message and ?h = "''--- fake-codex: analyzing prompt ''" and ?q = "json_quote p"
  have m: "line_ok ?m" "trim ?m = ?m" "?m \<noteq> []" "length ?m \<le> 100" "line_ok ?h" "length ?h \<le> 50" "length nl = 1" "trim [] = []" by code_simp+
  have line: "line_ok (?h @ ?q)" using m(5) json_quote_line [of p] by (auto simp: line_ok_def)
  have "\<not> ws (CHR ''-'')" "\<not> ws (CHR 0x22)" by code_simp+
  then have trim: "trim (?h @ ?q) = ?h @ ?q" by (intro trim_id) (simp_all add: json_quote_def)
  have "length (?m @ nl @ (?h @ ?q) @ nl) \<le> 1200" using assms m by simp
  then have tail: "slice_last TAIL_LIMIT (?m @ nl @ (?h @ ?q) @ nl) = ?m @ nl @ (?h @ ?q) @ nl" by (simp add: slice_last_def TAIL_LIMIT_def)
  have "split_lines (?m @ nl @ (?h @ ?q) @ nl) = [?m, ?h @ ?q, []]"
    using split_lines_join [of "[?m, ?h @ ?q]"] m(1) line by simp
  then have "fail_excerpt (?m @ nl @ (?h @ ?q) @ nl) = slice_last 1200 (?m @ nl @ (?h @ ?q))"
    using m(2,3,8) trim by (simp add: fail_excerpt_def Let_def)
  also have "\<dots> = ?m @ nl @ (?h @ ?q)" using assms m by (simp add: slice_last_def)
  finally show ?thesis using capacity_message_found [of "[]"] tail by simp
qed

lemma capacity_detected: "has_word ''capacity'' (fail_excerpt (slice_last TAIL_LIMIT (a @ nl @ capacity_message @ nl)))"
proof -
  let ?m = capacity_message
  have m: "split_lines (?m @ nl) = [?m, []]" "trim ?m = ?m" "trim [] = []" "?m \<noteq> []" "length (nl @ ?m @ nl) \<le> TAIL_LIMIT" "length ?m \<le> 1200"
    by code_simp+
  define a' where "a' = slice_last (TAIL_LIMIT - length (nl @ ?m @ nl)) a"
  obtain ls where ls: "split_lines (a' @ nl @ ?m @ nl) = ls @ [?m, []]"
    using split_lines_behind [of a' "?m @ nl"] unfolding m(1) by (metis append_Cons)
  define ys where "ys = filter (\<lambda>l. l \<noteq> []) (map trim ls)"
  have "drop (length (ys @ [?m]) - 5) (ys @ [?m]) = drop (length (ys @ [?m]) - 5) ys @ [?m]" by simp
  moreover have "\<exists>q. join nl (zs @ [?m]) = q @ ?m" for zs by (induction zs rule: induct_list012) auto
  ultimately obtain q where q: "join nl (drop (length (ys @ [?m]) - 5) (ys @ [?m])) = q @ ?m" by metis
  have "fail_excerpt (a' @ nl @ ?m @ nl) = slice_last 1200 (q @ ?m)"
    using q m(2-4) by (simp add: fail_excerpt_def ls Let_def ys_def)
  then show ?thesis unfolding slice_last_keep [OF m(5)] a'_def using capacity_message_found [of _ "[]"] slice_last_keep [OF m(6)] by simp
qed

text \<open>The end of the child: its code is seen, then its pipes are closed.\<close>

lemma child_end:
  assumes "hubLink.in_order d" and "dm_exit d = None" and "has_child d ob" and "\<not> rn_exitHandled (runner_of d ob)"
    and "r = runner_of d ob" and "d' = fold (daemon_step spawn config) [ChildExit ob n, ChildClose ob (Some n) None] d"
    and "failure = detectStructuredFailure (Some n) None (if rn_tail r = [] then rn_lastChunk r else rn_tail r)"
  shows "hubLink.transcript d' = hubLink.transcript d @ (if rn_killedByHub r then [] else [EmitResult \<lparr>rp_taskId = rn_taskId r,
       rp_status = (if n = 0 then RS_COMPLETED else RS_FAILED), rp_failure = failure,
       rp_result = Some (JObj ([(''exitCode'', JNum n), (''signal'', JNull), (''lastChunk'', JStr (rn_lastChunk r))] @ with_failure failure))\<rparr>])"
    and "map_of (dm_runners d') (rn_taskId r) = None"
proof -
  define e where "e = child_seen ob (\<lambda>c. c\<lparr>ch_exitCode := Some n\<rparr>) d"
  have r: "runner_of e ob = r\<lparr>rn_child := map_option (\<lambda>c. c\<lparr>ch_exitCode := Some n\<rparr>) (rn_child r)\<rparr>"
    using assms(3,5) by (simp add: e_def child_seen_def set_runner_def runner_of_def has_child_def)
  have e: "dm_exit e = None" "has_child e ob" "hubLink.in_order (set_runner ob x e)" "hubLink.transcript (set_runner ob x e) = hubLink.transcript d" for x
    using assms(1-3) r by (auto simp: e_def child_seen_def has_child_def hubLink.in_order_def hubLink.transcript_def assms(5))
  have d': "d' = onClose ob (Some n) None e" using assms(2,3,6) e(1,2) by (simp add: daemon_step_def e_def)
  show "map_of (dm_runners d') (rn_taskId r) = None"
    using assms(4,5) by (auto simp: d' onClose_def Let_def dropTask_def map_of_eq_None_iff r)
  show "hubLink.transcript d' = hubLink.transcript d @ (if rn_killedByHub r then [] else [EmitResult \<lparr>rp_taskId = rn_taskId r,
       rp_status = (if n = 0 then RS_COMPLETED else RS_FAILED), rp_failure = failure,
       rp_result = Some (JObj ([(''exitCode'', JNum n), (''signal'', JNull), (''lastChunk'', JStr (rn_lastChunk r))] @ with_failure failure))\<rparr>])"
    using assms(4,5) e(4) hubLink.transcript_send [OF e(3)]
    by (simp add: d' onClose_def Let_def r assms(7) hubLink.transcript_def)
qed

text \<open>The runs of the stand-in, by the words of its prompt.\<close>

lemma fake_ticks:
  "fk_timer ((fake_tick ^^ k) f) = fk_timer f" "fk_exit ((fake_tick ^^ k) f) = fk_exit f" "\<not> fk_timer f \<Longrightarrow> (fake_tick ^^ k) f = f"
  by (induction k) (auto simp: fake_tick_def fake_print_def)

lemma fake_runs:
  assumes "f = (fake_tick ^^ k) (fake_main [node, fake, p])"
  shows "rx_test (lit_i ''capacity'') p \<Longrightarrow> 
      fk_out f = [Stdout (''--- fake-codex: analyzing prompt '' @ stringify (JStr p) @ nl), Stderr (capacity_message @ nl)] \<and>
      fk_exit f = Some 1 \<and> \<not> fk_timer f"
    and "\<not> rx_test (lit_i ''capacity'') p \<Longrightarrow> \<not> rx_test (lit_i ''slow'') p \<Longrightarrow>
      fk_exit f = Some 0 \<and> \<not> fk_timer f \<and> (\<exists>ws t. fk_out f = ws @ [Stdout (t @ nl)])"
    and "\<not> rx_test (lit_i ''capacity'') p \<Longrightarrow> rx_test (lit_i ''slow'') p \<Longrightarrow> fk_timer f \<and> fk_exit f = None"
  unfolding assms by (simp_all add: fake_main_def fake_print_def fake_ticks Let_def)

text \<open>The daemon behind a submission, and behind the stand-in's output.\<close>

lemma submit_fresh:
  assumes "dm_exit d = None" and "map_of (dm_runners d) i = None" and "i \<noteq> []" and "buildSpawnPlan v config = Inr plan"
    and "spawn plan (cfg_cwd config) = None"
  shows "\<exists>c. runner_of (daemon_step spawn config (HubSubmit (Some i) v) d) (length (dm_objs d)) = (newRunner i v)\<lparr>rn_child := Some c\<rparr>"
  using assms by (simp add: daemon_step_def onTaskSubmit_def start_def runner_of_def set_runner_def newRunner_def emit_def Let_def)

lemma fake_output:
  assumes "daemon_reachable spawn config d" and "dm_exit d = None" and "map_of (dm_runners d) i = None" and "i \<noteq> []"
    and "buildSpawnPlan v config = Inr plan" and "spawn plan (cfg_cwd config) = None" and "ob = length (dm_objs d)"
    and "d' = fold (daemon_step spawn config) (HubSubmit (Some i) v # map (ChildData ob) cs) d"
  shows "hubLink.in_order d'" and "dm_exit d' = None" and "has_child d' ob" and "map_of (dm_runners d') i = Some ob"
    and "\<exists>ms. hubLink.transcript d' = hubLink.transcript d @ EmitStatus \<lparr>sp_taskId = i, sp_status = DS_RUNNING\<rparr> # ms \<and>
      (\<forall>m \<in> set ms. about_output i m) \<and> concat (map chunk_of ms) = concat cs"
    and "rn_taskId (runner_of d' ob) = i" and "\<not> rn_exitHandled (runner_of d' ob)" and "\<not> rn_killedByHub (runner_of d' ob)"
    and "cs \<noteq> [] \<Longrightarrow> rn_lastChunk (runner_of d' ob) = last cs" and "rn_tail (runner_of d' ob) = slice_last TAIL_LIMIT (concat cs)"
proof -
  let ?e = "daemon_step spawn config (HubSubmit (Some i) v) d"
  note sub = submit_starts_child [OF assms(1-6) refl, folded assms(7)]
  obtain c where c: "runner_of ?e ob = (newRunner i v)\<lparr>rn_child := Some c\<rparr>" using submit_fresh [where spawn = spawn, OF assms(2-6)] assms(7) by blast
  have reach: "daemon_reachable spawn config ?e" by (rule daemon_reachable.stepped [OF assms(1)])
  have exit: "dm_exit ?e = None"
    using assms(2-6) by (simp add: daemon_step_def onTaskSubmit_def start_def runner_of_def set_runner_def newRunner_def emit_def Let_def)
  have "daemon_reachable spawn config (fold (daemon_step spawn config) es x)" if "daemon_reachable spawn config x" for es x
    using that by (induction es arbitrary: x) (auto intro: daemon_reachable.stepped)
  from this [OF reach, of "map (ChildData ob) cs"] show ord: "hubLink.in_order d'"
    using daemon_reachable_ok assms(8) by simp
  have ordE: "hubLink.in_order ?e" using daemon_reachable_ok [OF reach] by simp
  have "\<forall>e \<in> set (map (ChildData ob) cs). output_event ob e" by simp
  from output_steps [OF ordE exit sub(1,2) this, of spawn config] obtain ms where
    "hubLink.transcript d' = hubLink.transcript ?e @ ms" "\<forall>m \<in> set ms. about_output i m"
    "concat (map chunk_of ms) = concat (map written (map (ChildData ob) cs))" using assms(8) by auto
  moreover have "map written (map (ChildData ob) cs) = cs" by (induction cs) simp_all
  ultimately show "\<exists>ms. hubLink.transcript d' = hubLink.transcript d @ EmitStatus \<lparr>sp_taskId = i, sp_status = DS_RUNNING\<rparr> # ms \<and>
      (\<forall>m \<in> set ms. about_output i m) \<and> concat (map chunk_of ms) = concat cs"
    using sub(4) by (auto simp: hubLink.transcript_def)
  from data_steps [OF exit sub(1), of d' spawn config cs] assms(8) obtain b where
    d': "dm_exit d' = None" "has_child d' ob" "dm_runners d' = dm_runners ?e" and
    r: "runner_of d' ob = (runner_of ?e ob)\<lparr>rn_lastChunk := last (rn_lastChunk (runner_of ?e ob) # cs),
      rn_tail := (if cs = [] then rn_tail (runner_of ?e ob) else slice_last TAIL_LIMIT (rn_tail (runner_of ?e ob) @ concat cs)),
      rn_awaitingApproval := b\<rparr>" by auto
  show "dm_exit d' = None" "has_child d' ob" "map_of (dm_runners d') i = Some ob" using d' sub(3) by simp_all
  show "rn_taskId (runner_of d' ob) = i" "\<not> rn_exitHandled (runner_of d' ob)" "\<not> rn_killedByHub (runner_of d' ob)"
    "cs \<noteq> [] \<Longrightarrow> rn_lastChunk (runner_of d' ob) = last cs" "rn_tail (runner_of d' ob) = slice_last TAIL_LIMIT (concat cs)"
    by (simp_all add: r c newRunner_def slice_last_def)
qed

text \<open>A slow stand-in whose task is cancelled: the daemon asks it to end and reports only its last words.\<close>

lemma fake_cancelled:
  assumes "hubLink.in_order d" and "dm_exit d = None" and "has_child d ob" and "map_of (dm_runners d) i = Some ob"
    and "rn_taskId (runner_of d ob) = i" and "\<not> rn_exitHandled (runner_of d ob)"
    and "d' = fold (daemon_step spawn config) [HubCancel (Some i), ChildData ob t, ChildExit ob n, ChildClose ob (Some n) None] d"
  shows "map_of (dm_runners d') i = None" and "\<exists>ms. hubLink.transcript d' = hubLink.transcript d @ ms \<and> (\<forall>m \<in> set ms. about_output i m) \<and>
    concat (map chunk_of ms) = t"
proof -
  define g where "g = kill_runner ob d"
  have kill: "daemon_step spawn config (HubCancel (Some i)) d = g"
    using assms(2,4) by (simp add: daemon_step_def onTaskCancel_def g_def)
  have g: "hubLink.in_order g" "dm_exit g = None" "has_child g ob" "rn_taskId (runner_of g ob) = i" "hubLink.transcript g = hubLink.transcript d"
    "\<not> rn_exitHandled (runner_of g ob)" "rn_killedByHub (runner_of g ob)"
    using assms(1-6) by (auto simp: g_def kill_runner_def has_child_def runner_of_def set_runner_def hubLink.in_order_def hubLink.transcript_def Let_def
        split: option.splits)
  let ?h = "daemon_step spawn config (ChildData ob t) g"
  from output_step [OF g(1-4) _ refl, of "ChildData ob t" spawn config] obtain ms where
    h: "dm_exit ?h = None" "has_child ?h ob" "rn_taskId (runner_of ?h ob) = i" and
    ms: "hubLink.transcript ?h = hubLink.transcript g @ ms" "\<forall>m \<in> set ms. about_output i m" "concat (map chunk_of ms) = t" by auto
  have hr: "\<not> rn_exitHandled (runner_of ?h ob)" "rn_killedByHub (runner_of ?h ob)"
    using data_step [OF g(2,3) refl, of spawn config t] g(6,7) by auto
  have "hubLink.in_order ?h" using sends_daemon_step [OF g(1), of spawn config] by (simp add: sends_def)
  from child_end [OF this h(1,2) hr(1) refl _ refl, of d' spawn config n] hr(2) h(3) assms(7)
  show "map_of (dm_runners d') i = None" "\<exists>ms. hubLink.transcript d' = hubLink.transcript d @ ms \<and> (\<forall>m \<in> set ms. about_output i m) \<and>
    concat (map chunk_of ms) = t"
    using ms g(5) by (simp_all add: kill)
qed

section \<open>Properties\<close>

text \<open>C30. The daemon passes the scenarios of its harness for every prompt that names neither of the
  placeholders \<open>{{input}}\<close> and \<open>{{cwd}}\<close>, not only for those of the harness: its command line hands such a
  prompt to the stand-in unchanged. The stand-in's writes come through two pipes and arrive in any
  order that keeps that of each pipe, cut into any chunks. For a prompt that mentions capacity the one
  result of the task is FAILED with the failure that scenario C looks for, and the hub takes it for a
  capacity failure, where the prompt in quotes has at most 1000 characters or the message on standard
  error comes last, so that the detector's excerpt holds the message; for any other prompt that does
  not mention slow it is COMPLETED with a last chunk that is not empty, as in scenario A; for a slow
  one, cancelled after any number of ticks, no result is sent and the task may be submitted again, as
  in scenario B. In each case what the daemon sends between is the task's log, which is exactly the
  stand-in's output as it arrived, and questions to the owner.\<close>

theorem fake_codex_scenarios:
  assumes "daemon_reachable spawn config d" and "dm_exit d = None" and "map_of (dm_runners d) i = None" and "i \<noteq> []"
    and "\<not> cfg_useShell config" and "cfg_commandTemplate config = harness_template fake"
    and "set fake \<inter> {dquote, backslash, CHR ''{''} = {}"
    and "map_of kvs ''prompt'' = Some (JStr p)" and "\<not> str_includes p ''{{input}}''" and "\<not> str_includes p ''{{cwd}}''"
    and "spawn \<lparr>pl_shell = False, pl_command = ''node'', pl_args = [fake, p]\<rparr> (cfg_cwd config) = None"
    and "f = (fake_tick ^^ k) (fake_main [''node'', fake, p])" and "ob = length (dm_objs d)"
    and "outs \<in> arrivals f" and "concat cs = concat (map write_text outs)" and "[] \<notin> set cs"
    and "length (stringify (JStr p)) \<le> 1000 \<or> outs = fk_out f"
    and "d1 = fold (daemon_step spawn config) (HubSubmit (Some i) (Some (JObj kvs)) # fake_events ob cs f) d"
    and "last_words = map write_text (drop (length (fk_out f)) (fk_out (fake_sigterm f)))"
    and "d2 = fold (daemon_step spawn config) (HubCancel (Some i) # fake_events ob last_words (fake_sigterm f)) d1"
  shows "\<exists>ms. (\<forall>m \<in> set ms. about_output i m) \<and> concat (map chunk_of ms) = concat (map write_text outs) @ concat last_words \<and>
    (if rx_test (lit_i ''slow'') p \<and> \<not> rx_test (lit_i ''capacity'') p
     then dm_sent d2 @ dm_buffer d2 = dm_sent d @ dm_buffer d @ EmitStatus \<lparr>sp_taskId = i, sp_status = DS_RUNNING\<rparr> # ms \<and>
       map_of (dm_runners d2) i = None
     else \<exists>r. dm_sent d1 @ dm_buffer d1 =
         dm_sent d @ dm_buffer d @ EmitStatus \<lparr>sp_taskId = i, sp_status = DS_RUNNING\<rparr> # ms @ [EmitResult r] \<and> rp_taskId r = i \<and>
       (if rx_test (lit_i ''capacity'') p then rp_status r = RS_FAILED \<and> capacity_result (Some r) \<and> isRetryableCapacityFailure r
        else rp_status r = RS_COMPLETED \<and> carries_chunk (Some r)))"
proof -
  define e where "e = fold (daemon_step spawn config) (HubSubmit (Some i) (Some (JObj kvs)) # map (ChildData ob) cs) d"
  note out = fake_output [OF assms(1-4) harness_plan [OF assms(5-10)] assms(11,13) e_def]
  let ?r = "runner_of e ob"
  obtain ms where ms: "hubLink.transcript e = hubLink.transcript d @ EmitStatus \<lparr>sp_taskId = i, sp_status = DS_RUNNING\<rparr> # ms"
    "\<forall>m \<in> set ms. about_output i m" "concat (map chunk_of ms) = concat (map write_text outs)" using out(5) assms(15) by auto
  have ev: "d1 = fold (daemon_step spawn config) (case fk_exit f of None \<Rightarrow> [] | Some n \<Rightarrow> [ChildExit ob n, ChildClose ob (Some n) None]) e"
    by (simp add: assms(18) fake_events_def e_def)
  note ended = child_end [OF out(1-3) out(7) refl _ refl, of d1 spawn config, unfolded out(6)]
  consider (cap) "rx_test (lit_i ''capacity'') p" | (fast) "\<not> rx_test (lit_i ''capacity'') p" "\<not> rx_test (lit_i ''slow'') p"
    | (slow) "\<not> rx_test (lit_i ''capacity'') p" "rx_test (lit_i ''slow'') p" by blast
  then show ?thesis
  proof cases
    case cap
    let ?a = "''--- fake-codex: analyzing prompt '' @ stringify (JStr p)"
    have f: "fk_out f = [Stdout (?a @ nl), Stderr (capacity_message @ nl)]" "fk_exit f = Some 1" "\<not> fk_timer f"
      using fake_runs(1) [OF assms(12) cap] by simp_all
    let ?x = "if rn_tail ?r = [] then rn_lastChunk ?r else rn_tail ?r"
    have "outs = [Stdout (?a @ nl), Stderr (capacity_message @ nl)] \<or> outs = [Stderr (capacity_message @ nl), Stdout (?a @ nl)]"
      using assms(14) unfolding arrivals_def f(1) by (simp only: filter.simps is_stdout.simps simp_thms if_True if_False shuffles_two insert_iff empty_iff)
    then have tail: "rn_tail ?r = slice_last TAIL_LIMIT (?a @ nl @ capacity_message @ nl) \<or>
        rn_tail ?r = slice_last TAIL_LIMIT (capacity_message @ nl @ ?a @ nl) \<and> length (stringify (JStr p)) \<le> 1000"
      using out(10) assms(15,17) f(1) by auto
    moreover have "slice_last TAIL_LIMIT (q @ nl) \<noteq> []" for q by (simp add: slice_last_def TAIL_LIMIT_def nl_def)
    from this [of "?a @ nl @ capacity_message"] this [of "capacity_message @ nl @ ?a"]
    have "slice_last TAIL_LIMIT (?a @ nl @ capacity_message @ nl) \<noteq> []" "slice_last TAIL_LIMIT (capacity_message @ nl @ ?a @ nl) \<noteq> []"
      by (simp_all only: append_assoc not_False_eq_True)
    ultimately have "rn_tail ?r \<noteq> []" by metis
    then have "has_word ''capacity'' (fail_excerpt ?x)" using capacity_detected [of ?a] capacity_detected_before [of p] tail by auto
    then have F: "detectStructuredFailure (Some 1) None ?x = Some \<lparr>fp_category = CAPACITY_EXHAUSTED, fp_retryable = Some True,
      fp_message = Some ''Worker capacity, quota, or rate-limit signal detected.'', fp_detail = Some (fail_excerpt ?x)\<rparr>"
      by (auto simp: detectStructuredFailure_cases capacity_phrases_def)
    show ?thesis
      using ended(1) [of 1] ev f ms cap out(8) unfolding F
      by (intro exI [of _ ms]) (auto simp: hubLink.transcript_def fake_sigterm_def assms(19) capacity_result_def isRetryableCapacityFailure_def
          with_failure_def failure_json_def)
  next
    case fast
    then obtain vs t where f: "fk_exit f = Some 0" "\<not> fk_timer f" "fk_out f = vs @ [Stdout (t @ nl)]"
      using fake_runs(2) [OF assms(12)] by blast
    have "set outs = set (fk_out f)" using assms(14) set_shuffles unfolding arrivals_def by fastforce
    then have "concat cs \<noteq> []" using f(3) assms(15) by (force simp: nl_def)
    then have "cs \<noteq> []" by auto
    then have "rn_lastChunk ?r = last cs" "last cs \<noteq> []" using out(9) assms(16) last_in_set by (blast, metis)
    then show ?thesis
      using ended(1) [of 0] ev f(1,2) ms fast out(8)
      by (intro exI [of _ ms]) (auto simp: hubLink.transcript_def fake_sigterm_def carries_chunk_def assms(19))
  next
    case slow
    then have f: "fk_timer f" "fk_exit f = None" using fake_runs(3) [OF assms(12)] by simp_all
    let ?t = "''fake-codex: received SIGTERM, shutting down...'' @ nl"
    have "d1 = e" using ev f(2) by simp
    moreover have words: "last_words = [?t]" using f by (simp add: assms(19) fake_sigterm_def fake_print_def)
    moreover have "fake_events ob last_words (fake_sigterm f) = [ChildData ob ?t, ChildExit ob 143, ChildClose ob (Some 143) None]"
      using f by (simp add: words fake_sigterm_def fake_events_def fake_print_def)
    ultimately have "d2 = fold (daemon_step spawn config) [HubCancel (Some i), ChildData ob ?t, ChildExit ob 143, ChildClose ob (Some 143) None] e"
      by (simp add: assms(20))
    note cancelled = fake_cancelled [OF out(1-4) out(6,7) this]
    then obtain ms' where "hubLink.transcript d2 = hubLink.transcript e @ ms'" "\<forall>m \<in> set ms'. about_output i m" "concat (map chunk_of ms') = ?t"
      by blast
    then show ?thesis using ms slow f cancelled(1)
      by (intro exI [of _ "ms @ ms'"]) (auto simp: hubLink.transcript_def words)
  qed
qed

text \<open>A configuration with the harness's command line, for the witness.\<close>

definition demo_harness_config :: daemon_config where
  "demo_harness_config = demo_config\<lparr>cfg_commandTemplate := harness_template ''/f.js''\<rparr>"

text \<open>The message on standard error arrives first.\<close>

theorem fake_codex_scenarios_witness:
  "\<exists>cs d1 ms r. d1 = fold (daemon_step demo_spawn demo_harness_config)
      (HubSubmit (Some ''t'') (Some (JObj [(''prompt'', JStr ''capacity'')])) # fake_events 0 cs (fake_main [''node'', ''/f.js'', ''capacity'']))
      (boot (Inr demo_harness_config)) \<and> hd cs = capacity_message @ nl \<and>
    dm_sent d1 @ dm_buffer d1 = EmitStatus \<lparr>sp_taskId = ''t'', sp_status = DS_RUNNING\<rparr> # ms @ [EmitResult r] \<and>
    rp_status r = RS_FAILED \<and> capacity_result (Some r)"
proof -
  let ?d = "boot (Inr demo_harness_config)" and ?f = "fake_main [''node'', ''/f.js'', ''capacity'']"
  have d: "dm_exit ?d = None" "map_of (dm_runners ?d) ''t'' = None" "dm_sent ?d = []" "dm_buffer ?d = []" "0 = length (dm_objs ?d)"
    by (simp_all add: boot_def client_connect_def newDaemon_def)
  have c: "\<not> cfg_useShell demo_harness_config" "cfg_commandTemplate demo_harness_config = harness_template ''/f.js''"
    by (simp_all add: demo_harness_config_def demo_config_def)
  have p: "\<not> str_includes ''capacity'' ''{{input}}''" "\<not> str_includes ''capacity'' ''{{cwd}}''" "rx_test (lit_i ''capacity'') ''capacity''"
    "length (stringify (JStr ''capacity'')) \<le> 1000"
    by code_simp+
  have fake: "set ''/f.js'' \<inter> {dquote, backslash, CHR ''{''} = {}" by (simp add: dquote_def backslash_def)
  have kv: "map_of [(''prompt'', JStr ''capacity'')] ''prompt'' = Some (JStr ''capacity'')" by simp
  have sp: "demo_spawn \<lparr>pl_shell = False, pl_command = ''node'', pl_args = [''/f.js'', ''capacity'']\<rparr> (cfg_cwd demo_harness_config) = None"
    by (simp add: demo_spawn_def)
  have f: "?f = (fake_tick ^^ 0) ?f" by simp
  let ?ws = "[Stderr (capacity_message @ nl), Stdout (''--- fake-codex: analyzing prompt '' @ stringify (JStr ''capacity'') @ nl)]"
  have ws: "?ws \<in> arrivals ?f" using p(3) by (simp add: arrivals_def fake_main_def fake_print_def)
  have cs: "concat (map write_text ?ws) = concat (map write_text ?ws)" "[] \<notin> set (map write_text ?ws)"
    "length (stringify (JStr ''capacity'')) \<le> 1000 \<or> ?ws = fk_out ?f" using p(4) by (simp_all add: nl_def)
  from fake_codex_scenarios [where spawn = demo_spawn and i = "''t''", OF daemon_reachable.booted d(1,2) _ c fake kv p(1,2) sp f d(5) ws cs refl refl refl]
    p(3) d(3,4)
  show ?thesis by (intro exI [of _ "map write_text ?ws"]) fastforce
qed

end
