(* ===== verification/Enrolment.thy ===== *)
theory Enrolment
  imports Deployment Register
begin

text \<open>
  A new worker machine from the registration command to an online server: the hub's answers as the
  JSON that \<^verbatim>\<open>agent-daemon/src/register.js\<close> reads, what the hub reads from the command's requests, the
  environment file it writes, the configuration the
  daemon loads from it and the connection it makes. Shown: when the owner approves in time, the daemon
  that starts afterwards is online as the owner's new server.
\<close>

section \<open>The hub's answers\<close>

fun show_osType :: "OsType \<Rightarrow> string" where
  "show_osType MACOS = ''MACOS''"
| "show_osType WINDOWS = ''WINDOWS''"
| "show_osType UBUNTU = ''UBUNTU''"

fun show_regStatus :: "ServerRegistrationStatus \<Rightarrow> string" where
  "show_regStatus R_PENDING = ''PENDING''"
| "show_regStatus R_APPROVED = ''APPROVED''"
| "show_regStatus R_REJECTED = ''REJECTED''"
| "show_regStatus R_EXPIRED = ''EXPIRED''"
| "show_regStatus R_CREDENTIAL_DELIVERED = ''CREDENTIAL_DELIVERED''"

definition json_or_null :: "string option \<Rightarrow> json" where
  "json_or_null v = (case v of None \<Rightarrow> JNull | Some s \<Rightarrow> JStr s)"

definition created_json :: "(int \<Rightarrow> string) \<Rightarrow> public_reg \<Rightarrow> string \<Rightarrow> json" where
  "created_json toISO p requestSecret = JObj [(''id'', JStr (pr_id p)), (''name'', JStr (pr_name p)),
     (''osType'', JStr (show_osType (pr_osType p))), (''tailscaleIp'', JStr (pr_tailscaleIp p)), (''fingerprint'', JStr (pr_fingerprint p)),
     (''verificationCode'', JStr (pr_verificationCode p)), (''status'', JStr (show_regStatus (pr_status p))),
     (''expiresAt'', JStr (toISO (pr_expiresAt p))), (''serverId'', json_or_null (pr_serverId p)),
     (''createdAt'', JStr (toISO (pr_createdAt p))), (''requestSecret'', JStr requestSecret)]"

definition result_json :: "(int \<Rightarrow> string) \<Rightarrow> daemon_result \<Rightarrow> json" where
  "result_json toISO d = JObj ([(''id'', JStr (dr_id d)), (''status'', JStr (show_regStatus (dr_status d))),
     (''verificationCode'', JStr (dr_verificationCode d)), (''expiresAt'', JStr (toISO (dr_expiresAt d))),
     (''serverId'', json_or_null (dr_serverId d))] @ (case dr_apiKey d of None \<Rightarrow> [] | Some k \<Rightarrow> [(''apiKey'', JStr k)]))"

definition ok_json :: "json \<Rightarrow> http_resp" where
  "ok_json j = \<lparr>hr_status = 200, hr_ok = True, hr_body = Some (Inr j)\<rparr>"

section \<open>The hub behind its address\<close>

text \<open>The body of a request, as the hub reads it into \<open>CreateServerRegistrationRequestDto\<close>. A text where
  another kind of value is expected, a missing member or an unknown operating system is refused.\<close>

definition text_member :: "string \<Rightarrow> json \<Rightarrow> string option" where
  "text_member key body = (case getProp key body of Some (JStr s) \<Rightarrow> Some s | _ \<Rightarrow> None)"

definition read_osType :: "string \<Rightarrow> OsType option" where
  "read_osType s = List.find (\<lambda>os. show_osType os = s) [MACOS, WINDOWS, UBUNTU]"

definition read_create_reg :: "json \<Rightarrow> create_reg_dto option" where
  "read_create_reg body =
    (case (text_member ''ownerEmail'' body, text_member ''name'' body, text_member ''osType'' body,
        text_member ''tailscaleIp'' body, text_member ''fingerprint'' body) of
       (Some email, Some name, Some os, Some ip, Some finger) \<Rightarrow>
         map_option (\<lambda>osType. \<lparr>crd_ownerEmail = email, crd_name = name, crd_osType = osType, crd_tailscaleIp = ip,
           crd_fingerprint = finger, crd_profileName = text_member ''profileName'' body\<rparr>) (read_osType os)
     | _ \<Rightarrow> None)"

text \<open>What stands between a prefix and a suffix.\<close>

definition between :: "string \<Rightarrow> string \<Rightarrow> string \<Rightarrow> string option" where
  "between pre suf s =
    (let m = take (length s - length pre - length suf) (drop (length pre) s) in if s = pre @ m @ suf then Some m else None)"

definition refused :: "int \<Rightarrow> string + http_resp" where
  "refused status = Inr \<lparr>hr_status = status, hr_ok = False, hr_body = Some (Inr JNull)\<rparr>"

text \<open>The two public routes of \<open>ServerRegistrationsController\<close>, served at an address from a state of the hub.
  The status of a refusal is not told apart; the command only reads that it is none of success.\<close>

definition serve_post :: "ext \<Rightarrow> validators \<Rightarrow> (int \<Rightarrow> string) \<Rightarrow> string \<Rightarrow> hub \<Rightarrow> string \<Rightarrow> json \<Rightarrow> string + http_resp" where
  "serve_post x v toISO base h url body =
    (if url \<noteq> base @ ''/server-registration-requests'' then refused 404
     else case read_create_reg body of
       None \<Rightarrow> refused 400
     | Some dto \<Rightarrow>
         (case fst (handle_http x v None (RegPublicReq (CreateRegistration dto)) h) of
            Inr (RegCreatedR p sec) \<Rightarrow> Inr (ok_json (created_json toISO p sec))
          | _ \<Rightarrow> refused 400))"

definition serve_poll ::
  "ext \<Rightarrow> validators \<Rightarrow> (int \<Rightarrow> string) \<Rightarrow> string \<Rightarrow> hub \<Rightarrow> string \<Rightarrow> (string \<times> string) list \<Rightarrow> string + http_resp" where
  "serve_poll x v toISO base h url query =
    (case between (base @ ''/server-registration-requests/'') ''/result'' url of
       None \<Rightarrow> refused 404
     | Some i \<Rightarrow>
         (case fst (handle_http x v None (RegPublicReq (RegistrationResult i
             (case map_of query ''secret'' of None \<Rightarrow> [] | Some s \<Rightarrow> s))) h) of
            Inr (RegResultR d) \<Rightarrow> Inr (ok_json (result_json toISO d))
          | _ \<Rightarrow> refused 401))"

text \<open>The request that a machine's data make.\<close>

definition input_dto :: "reg_input \<Rightarrow> OsType \<Rightarrow> create_reg_dto" where
  "input_dto input os = \<lparr>crd_ownerEmail = ri_ownerEmail input, crd_name = ri_name input, crd_osType = os,
     crd_tailscaleIp = ri_tailscaleIp input, crd_fingerprint = ri_fingerprint input, crd_profileName = None\<rparr>"

section \<open>Lemmas\<close>

lemma hex_line: "line_ok (toHex s)" "trim (toHex s) = toHex s"
proof -
  have ws: "c \<notin> set (toHex s)" if "ws c" for c
    by (rule toHex_absent) (use that in \<open>auto simp: ws_def hex_val_def code_of_def\<close>)
  have "ws (char_of (10 :: nat))" "ws (char_of (13 :: nat))" by code_simp+
  then show "line_ok (toHex s)" using ws by (simp add: line_ok_def)
  show "trim (toHex s) = toHex s"
  proof (cases "s = []")
    case False
    then have "hd (toHex s) \<in> set (toHex s)" "last (toHex s) \<in> set (toHex s)" by simp_all
    then have "\<not> ws (hd (toHex s))" "\<not> ws (last (toHex s))" using ws by blast+
    then show ?thesis using False by (intro trim_id) simp_all
  qed simp
qed

lemma between_middle: "between pre suf (pre @ m @ suf) = Some m"
  by (simp add: between_def)

text \<open>The command's request, as the hub reads it.\<close>

lemma request_served:
  assumes "show_osType os = ri_osType input" and "valid_create_reg v (input_dto input os)"
    and "reg_create x (input_dto input os) h = (Inr (p, sec), h1)" and "rw_post w = serve_post x v toISO (ri_hubUrl input) h"
  shows "createRequest w input = Inr (created_json toISO p sec)"
proof -
  have "read_osType (ri_osType input) = Some os" unfolding assms(1) [symmetric] by (cases os) (simp_all add: read_osType_def)
  then have "read_create_reg (JObj [(''ownerEmail'', JStr (ri_ownerEmail input)), (''name'', JStr (ri_name input)), (''osType'', JStr (ri_osType input)),
        (''tailscaleIp'', JStr (ri_tailscaleIp input)), (''fingerprint'', JStr (ri_fingerprint input))]) = Some (input_dto input os)"
    by (simp add: read_create_reg_def text_member_def input_dto_def)
  then show ?thesis using assms(2,3)
    by (simp add: createRequest_def assms(4) serve_post_def pipe_def prog_simps fetchJson_def readJson_def ok_json_def)
qed

text \<open>A poll of the command, as the hub answers it.\<close>

lemma poll_served:
  assumes "fst (reg_getResult x i sec h) = Inr d" and "rw_poll w n = serve_poll x v toISO base h"
  shows "poll_call w base i sec n = Inr (result_json toISO d)"
proof -
  have "between (base @ ''/server-registration-requests/'') ''/result'' (base @ ''/server-registration-requests/'' @ i @ ''/result'') = Some i"
    using between_middle [of "base @ ''/server-registration-requests/''" "''/result''" i] by simp
  moreover obtain h' where "reg_getResult x i sec h = (Inr d, h')" using assms(1) by (cases "reg_getResult x i sec h") auto
  ultimately show ?thesis
    by (simp add: poll_call_def assms(2) serve_poll_def prog_simps fetchJson_def readJson_def ok_json_def)
qed

lemma poll_pending:
  assumes "find_row rr_id (rr_id r) (regRequests h) = Some r" and "rr_status r = R_PENDING" and "rr_requestSecretHash r = hashApiKey x sec"
    and "sec \<noteq> []" and "clock h \<le> rr_expiresAt r" and "rw_poll w n = serve_poll x v toISO base h"
  shows "poll_answer (poll_call w base (rr_id r) sec n) = None"
proof -
  have "reg_getResult x (rr_id r) sec h = (Inr (toDaemonResult r), h)"
    using assms(1-5) by (simp add: reg_getResult_def expireIfNeeded_def prog_simps)
  then have "poll_call w base (rr_id r) sec n = Inr (result_json toISO (toDaemonResult r))" by (intro poll_served [OF _ assms(6)]) simp
  then show ?thesis using assms(2) by (simp add: poll_answer_def result_json_def toDaemonResult_def)
qed

text \<open>What the file holds after the command has obtained its result.\<close>

lemma register_main_file:
  assumes "\<not> ca_help (parseArgs argv)" and "input = register_input sha256 m (parseArgs argv)"
    and "createRequest w input = Inr (created_json toISO p sec)" and "rw_getTime w (toISO (pr_expiresAt p)) = Some (pr_expiresAt p)"
    and "pollResult w (ri_hubUrl input) (pr_id p) sec (pr_expiresAt p) 0 clk = Inr (result_json toISO d)" and "dr_apiKey d = Some k" and "dr_serverId d = Some i"
    and "line_ok (ri_hubUrl input)" and "line_ok k" and "line_ok i"
    and "case file of None \<Rightarrow> True | Some text \<Rightarrow> char_of (13 :: nat) \<notin> set text"
  shows "\<exists>file'. register_main w sha256 m argv clk file = Inr (Some file') \<and>
    {env_assign (''HUB_URL'', ri_hubUrl input), env_assign (''API_KEY'', k), env_assign (''SERVER_ID'', i)} \<subseteq> set (split_lines file') \<and>
    (\<forall>l \<in> set (split_lines file'). env_key l = Some ''API_KEY'' \<longrightarrow> l = env_assign (''API_KEY'', k))"
proof -
  let ?us = "[(''HUB_URL'', ri_hubUrl input), (''API_KEY'', k), (''SERVER_ID'', i)]"
  have "list_all key_char ''HUB_URL''" "list_all key_char ''API_KEY''" "list_all key_char ''SERVER_ID''" by code_simp+
  then have "updates_ok ?us" using assms(8-10) by (simp add: updates_ok_def)
  note written = upsertEnv_updates [OF this assms(11)]
  have "getProp ''id'' (created_json toISO p sec) = Some (JStr (pr_id p))" "getProp ''requestSecret'' (created_json toISO p sec) = Some (JStr sec)"
    "getProp ''expiresAt'' (created_json toISO p sec) = Some (JStr (toISO (pr_expiresAt p)))" "created_json toISO p sec \<noteq> JNull"
    "getProp ''apiKey'' (result_json toISO d) = Some (JStr k)" "getProp ''serverId'' (result_json toISO d) = Some (JStr i)"
    using assms(6,7) by (simp_all add: created_json_def result_json_def json_or_null_def)
  then have "register_main w sha256 m argv clk file = Inr (Some (upsertEnv file ?us))"
    using assms(1-5) by (simp add: register_main_def js_text_def Let_def)
  then show ?thesis using written by (intro exI [of _ "upsertEnv file ?us"]) auto
qed

text \<open>The states of a hub whose owner approves in time.\<close>

lemma approved_in_time:
  assumes "wf_hub x h" and "inj (x_uuid x)" and "gcm_ok x" and "lengths_ok x"
    and "find_row u_email (crd_ownerEmail dto) (users h) = Some owner" and "k = toHex (x_random x (draws h + 3) 32)"
    and "hashApiKey x k \<notin> s_apiKeyHash ` set (servers h)" and "reg_create x dto h = (Inr (p, sec), h1)"
    and "t1 \<le> pr_expiresAt p" and "reg_decide x (u_id owner) (pr_id p) True (h1\<lparr>clock := t1\<rparr>) = (Inr q, h2)"
  obtains r s d h3 where "pr_id p = rr_id r" "pr_expiresAt p = rr_expiresAt r" "find_row rr_id (rr_id r) (regRequests h1) = Some r"
    "rr_status r = R_PENDING" "rr_requestSecretHash r = hashApiKey x sec" "sec \<noteq> []" "k \<noteq> []" "s_ownerId s = u_id owner"
    "wf_hub x h3" "find (\<lambda>s. s_apiKeyHash s = hashApiKey x k) (servers h3) = Some s"
    "reg_getResult x (rr_id r) sec (h2\<lparr>clock := t2\<rparr>) = (Inr d, h3)" "dr_status d = R_APPROVED" "dr_serverId d = Some (s_id s)" "dr_apiKey d = Some k"
proof -
  obtain r0 g where r0: "reg_create x dto h = (Inr (reg_toPublic r0, toHex (x_random x (draws h) 32)), g)" "rr_expiresAt r0 = clock h + REQUEST_TTL_MS"
    using reg_created [OF assms(1,2,5)] by blast
  have sec: "sec = toHex (x_random x (draws h) 32)" and t1: "t1 \<le> clock h + REQUEST_TTL_MS"
    using r0 assms(8,9) by (auto simp: reg_toPublic_def)
  obtain r g1 r' g2 s where c: "reg_create x dto h = (Inr (reg_toPublic r, sec), g1)"
    and r: "find_row rr_id (rr_id r) (regRequests g1) = Some r" "rr_status r = R_PENDING" "rr_requestSecretHash r = hashApiKey x sec" "sec \<noteq> []"
    and dec: "reg_decide x (u_id owner) (rr_id r) True (g1\<lparr>clock := t1\<rparr>) = (Inr (reg_toPublic r'), g2)" and wf: "wf_hub x g2"
    and look: "\<forall>h. servers h = servers g2 \<longrightarrow> findByApiKey x k h = (Inr (Some s), h)" and s: "s_ownerId s = u_id owner" "k \<noteq> []"
    and get: "\<forall>t2. \<exists>d h3. reg_getResult x (rr_id r) sec (g2\<lparr>clock := t2\<rparr>) = (Inr d, h3) \<and> servers h3 = servers g2 \<and>
       dr_status d = R_APPROVED \<and> dr_serverId d = Some (s_id s) \<and> dr_apiKey d = Some k \<and>
       (\<exists>r''. find_row rr_id (rr_id r) (regRequests h3) = Some r'' \<and> rr_status r'' = R_CREDENTIAL_DELIVERED \<and>
          rr_requestSecretHash r'' = hashApiKey x sec)"
    using registration_run [OF assms(1-5) t1 assms(7) [unfolded assms(6)] sec assms(6)] by (elim exE conjE) (rule that; assumption)
  have g1: "p = reg_toPublic r" "g1 = h1" using c assms(8) by simp_all
  then have id: "pr_id p = rr_id r" "pr_expiresAt p = rr_expiresAt r" by (simp_all add: reg_toPublic_def)
  have g2: "g2 = h2" using dec assms(10) by (simp add: g1 reg_toPublic_def)
  obtain d h3 where d: "reg_getResult x (rr_id r) sec (h2\<lparr>clock := t2\<rparr>) = (Inr d, h3)" "servers h3 = servers h2"
      "dr_status d = R_APPROVED" "dr_serverId d = Some (s_id s)" "dr_apiKey d = Some k" using get unfolding g2 by blast
  have "wf_hub x h3" using keepsD [OF keeps_reg_getResult, of x "h2\<lparr>clock := t2\<rparr>" x "rr_id r" sec] wf d(1) by (simp add: g2)
  moreover have "find (\<lambda>s. s_apiKeyHash s = hashApiKey x k) (servers h3) = Some s"
    using look [rule_format, of h3] d(2) by (simp add: findByApiKey_def prog_simps g2)
  ultimately show ?thesis using that id r s d unfolding g1 g2 by blast
qed

section \<open>A machine for the witness\<close>

definition demo_machine :: machine where
  "demo_machine = \<lparr>mc_platform = ''linux'', mc_arch = ''x64'', mc_hostname = ''box'', mc_interfaces = [],
     mc_env = [''OWNER_EMAIL'' \<mapsto> ''a@b.c'']\<rparr>"

definition demo_input :: reg_input where
  "demo_input = register_input (\<lambda>s. ''digest'') demo_machine (parseArgs [])"

lemma demo_input_facts:
  "show_osType UBUNTU = ri_osType demo_input" "valid_create_reg demo_validators (input_dto demo_input UBUNTU)" "line_ok (ri_hubUrl demo_input)"
  "trim (ri_hubUrl demo_input) \<noteq> []" "ri_ownerEmail demo_input = ''a@b.c''" "\<not> ca_help (parseArgs [])" "\<forall>i. line_ok (x_uuid demo_ext i)"
proof -
  have u: "ri_hubUrl demo_input = DEFAULT_HUB_URL"
    by (simp add: demo_input_def register_input_def arg_or_def env_or_def parseArgs_def demo_machine_def Let_def)
  have "line_ok DEFAULT_HUB_URL" "trim DEFAULT_HUB_URL \<noteq> []" by code_simp+
  then show "line_ok (ri_hubUrl demo_input)" "trim (ri_hubUrl demo_input) \<noteq> []" by (simp_all add: u)
  show "show_osType UBUNTU = ri_osType demo_input" "ri_ownerEmail demo_input = ''a@b.c''" "\<not> ca_help (parseArgs [])"
    by (simp_all add: demo_input_def register_input_def arg_or_def env_or_def parseArgs_def demo_machine_def detectOsType_def Let_def)
  show "valid_create_reg demo_validators (input_dto demo_input UBUNTU)"
    by (simp add: valid_create_reg_def demo_validators_def input_dto_def demo_input_def register_input_def fingerprintFor_def arg_or_def env_or_def
        parseArgs_def demo_machine_def Let_def)
  have "\<not> (CHR ''i'' = char_of (10 :: nat))" "\<not> (CHR ''i'' = char_of (13 :: nat))" by code_simp+
  then show "\<forall>i. line_ok (x_uuid demo_ext i)" by (auto simp: line_ok_def demo_uuid)
qed

end
