(* ===== verification/Mobile_Awaits.thy ===== *)
theory Mobile_Awaits
  imports Threads Mobile_Screens
begin

text \<open>
  The handlers of \<^verbatim>\<open>mobile-app/App.tsx\<close> cut at their awaits: a call to the hub, the device's storage and
  messaging service each give way to other handlers, whose events change the same state. A call is
  sent and its answer fixed in one step; what the handler does with the answer comes later. The four
  requests of a load are made one after the other here and together in \<open>Mobile_Parallel\<close>. Shown: alone the threads are the handlers of the
  sequential model, every interleaving keeps the app at one of the hub's addresses, and logging out
  can be undone by a request that was under way.
\<close>

section \<open>Calling the hub\<close>

type_synonym 'a app_thread = "(app, string, 'a) thread"

definition saveTokens_await :: "auth_tokens option \<Rightarrow> unit app_thread" where
  "saveTokens_await nextTokens =
    thenT (atomic (modS (\<lambda>s. s\<lparr>ui_tokens := nextTokens\<rparr>)))
      (atomic (modS (\<lambda>s. s\<lparr>ui_stored := map_option tk_refreshToken nextTokens\<rparr>)))"

fun fetch_loop_await :: "net \<Rightarrow> string \<Rightarrow> http_call \<Rightarrow> string list \<Rightarrow> string option \<Rightarrow> http_resp app_thread" where
  "fetch_loop_await net active call [] lastError =
    throwT (case lastError of Some e \<Rightarrow> e | None \<Rightarrow> hc_path call @ '' failed: Hub API is unreachable'')"
| "fetch_loop_await net active call (baseUrl # urls) lastError =
    bindT (atomic (bindE (getS (\<lambda>s. net (length (ui_calls s)) baseUrl call)) (\<lambda>answer.
        thenE (modS (\<lambda>s. s\<lparr>ui_calls := ui_calls s @ [(baseUrl, call)]\<rparr>)) (ret answer)))) (\<lambda>answer.
      case answer of
        Inr response \<Rightarrow>
          thenT (atomic (modS (\<lambda>s. if baseUrl \<noteq> active then s\<lparr>ui_activeApiBaseUrl := baseUrl\<rparr> else s))) (retT response)
      | Inl err \<Rightarrow> fetch_loop_await net active call urls (Some err))"

definition fetchHub_await :: "net \<Rightarrow> closure \<Rightarrow> http_call \<Rightarrow> http_resp app_thread" where
  "fetchHub_await net cl call = fetch_loop_await net (cl_base cl) call (orderedUrls (cl_base cl)) None"

definition refreshSession_await :: "net \<Rightarrow> closure \<Rightarrow> string \<Rightarrow> auth_tokens option app_thread" where
  "refreshSession_await net cl refreshToken =
    bindT (fetchHub_await net cl (post ''/auth/refresh'' (JObj [(''refreshToken'', JStr refreshToken)]))) (\<lambda>response.
      if \<not> hr_ok response then throwT (''refresh failed ('' @ show_int (hr_status response) @ '')'')
      else bindT (atomic (parseJson response)) (\<lambda>j. thenT (saveTokens_await (as_tokens j)) (retT (as_tokens j))))"

definition run_as_await :: "net \<Rightarrow> closure \<Rightarrow> http_call \<Rightarrow> string \<Rightarrow> http_resp app_thread" where
  "run_as_await net cl call accessToken = fetchHub_await net cl (call\<lparr>hc_bearer := Some (''Bearer '' @ accessToken)\<rparr>)"

definition request_await :: "net \<Rightarrow> closure \<Rightarrow> http_call \<Rightarrow> json app_thread" where
  "request_await net cl call =
    (case cl_tokens cl of
       None \<Rightarrow> throwT ''not authenticated''
     | Some tokens \<Rightarrow>
         bindT (run_as_await net cl call (tk_accessToken tokens)) (\<lambda>first.
         bindT (if hr_status first = 401
                then bindT (refreshSession_await net cl (tk_refreshToken tokens)) (\<lambda>refreshed.
                  case refreshed of
                    None \<Rightarrow> throwT ''Cannot read properties of null''
                  | Some t \<Rightarrow> run_as_await net cl call (tk_accessToken t))
                else retT first) (\<lambda>response.
           if \<not> hr_ok response
           then bindT (catchT (atomic (parseJson response)) (\<lambda>_. retT JNull)) (\<lambda>body.
             throwT (trim (hc_path call @ '' failed ('' @ show_int (hr_status response) @ '') '' @ summarize (Some body))))
           else atomic (parseJson response))))"

section \<open>Handlers\<close>

definition attempt_await :: "'a app_thread \<Rightarrow> (string + 'a) app_thread" where
  "attempt_await t = catchT (bindT t (\<lambda>v. retT (Inr v))) (\<lambda>e. retT (Inl e))"

fun run_all_await :: "json app_thread list \<Rightarrow> (string + json) list app_thread" where
  "run_all_await [] = retT []"
| "run_all_await (t # ts) = bindT (attempt_await t) (\<lambda>r. bindT (run_all_await ts) (\<lambda>rs. retT (r # rs)))"

definition promise_all_await :: "json app_thread list \<Rightarrow> json list app_thread" where
  "promise_all_await ts =
    bindT (run_all_await ts) (\<lambda>rs. case List.find isl rs of Some (Inl e) \<Rightarrow> throwT e | _ \<Rightarrow> retT (map projr rs))"

definition guarded_work_await :: "unit app_thread \<Rightarrow> unit app_thread" where
  "guarded_work_await t =
    thenT (atomic begin_work) (thenT (catchT t (\<lambda>e. atomic (modS (\<lambda>s. s\<lparr>ui_error := Some e\<rparr>)))) (atomic end_work))"

definition loadAll_await :: "net \<Rightarrow> closure \<Rightarrow> unit app_thread" where
  "loadAll_await net cl =
    (if cl_tokens cl = None then retT ()
     else guarded_work_await
       (bindT (promise_all_await [request_await net cl (get ''/servers''), request_await net cl (get ''/server-registration-requests''),
           request_await net cl (get ''/tasks''), request_await net cl (get ''/approvals?status=PENDING'')]) (\<lambda>data.
         case map json_items data of
           [serverData, regData, taskData, approvalData] \<Rightarrow>
             atomic (modS (\<lambda>s. s\<lparr>ui_servers := serverData, ui_regs := regData,
               ui_selectedServerId := pickServer serverData (ui_selectedServerId s), ui_tasks := taskData, ui_approvals := approvalData\<rparr>))
         | _ \<Rightarrow> retT ())))"

definition login_await :: "net \<Rightarrow> unit app_thread" where
  "login_await net =
    bindT (atomic (getS (\<lambda>s. (closure_of s, ui_email s, ui_password s)))) (\<lambda>(cl, email, password).
      guarded_work_await
        (bindT (fetchHub_await net cl (post ''/auth/login'' (JObj [(''email'', JStr (trim email)), (''password'', JStr password)]))) (\<lambda>response.
          if \<not> hr_ok response then throwT (''login failed ('' @ show_int (hr_status response) @ '')'')
          else bindT (atomic (parseJson response)) (\<lambda>j.
            thenT (saveTokens_await (as_tokens j)) (atomic (modS (\<lambda>s. s\<lparr>ui_password := []\<rparr>)))))))"

definition logout_await :: "net \<Rightarrow> unit app_thread" where
  "logout_await net =
    bindT (atomic (getS closure_of)) (\<lambda>cl.
    thenT (saveTokens_await None)
    (thenT (atomic (modS (\<lambda>s. s\<lparr>ui_servers := [], ui_regs := [], ui_tasks := [], ui_approvals := [], ui_selectedServerId := None,
        ui_selectedTaskId := None, ui_prompt := []\<rparr>)))
     (case cl_tokens cl of
        None \<Rightarrow> retT ()
      | Some t \<Rightarrow>
          if tk_refreshToken t = [] then retT ()
          else catchT (thenT (fetchHub_await net cl (post ''/auth/logout'' (JObj [(''refreshToken'', JStr (tk_refreshToken t))]))) (retT ()))
            (\<lambda>_. retT ()))))"

definition decideApproval_await :: "net \<Rightarrow> string \<Rightarrow> bool \<Rightarrow> unit app_thread" where
  "decideApproval_await net approvalId approve =
    bindT (atomic (getS closure_of)) (\<lambda>cl.
      guarded_work_await (thenT (request_await net cl (post (''/approvals/'' @ approvalId @ ''/decision'') (decision_body approve)))
        (loadAll_await net cl)))"

definition decideServerRegistration_await :: "net \<Rightarrow> string \<Rightarrow> bool \<Rightarrow> unit app_thread" where
  "decideServerRegistration_await net requestId approve =
    bindT (atomic (getS closure_of)) (\<lambda>cl.
      guarded_work_await (thenT (request_await net cl
          (post (''/server-registration-requests/'' @ requestId @ ''/decision'') (decision_body approve)))
        (loadAll_await net cl)))"

definition createTask_await :: "net \<Rightarrow> unit app_thread" where
  "createTask_await net =
    bindT (atomic (getS (\<lambda>s. (closure_of s, ui_selectedServerId s, trim (ui_prompt s), ui_workerType s))))
      (\<lambda>(cl, serverId, trimmedPrompt, workerType).
      if blank serverId \<or> trimmedPrompt = [] then retT ()
      else guarded_work_await
        (bindT (request_await net cl (post ''/tasks'' (JObj [(''serverId'', JStr (the serverId)), (''workerType'', JStr (show_workerType workerType)),
            (''input'', JObj [(''prompt'', JStr trimmedPrompt)])]))) (\<lambda>task.
          thenT (atomic (modS (\<lambda>s. s\<lparr>ui_tasks := (if task = JNull then ui_tasks s else upsert_item task (ui_tasks s)), ui_prompt := [],
              ui_workerType := CODEX, ui_tab := TasksTab\<rparr>)))
            (if task = JNull then throwT ''Cannot read properties of null''
             else thenT (atomic (modS (\<lambda>s. s\<lparr>ui_selectedTaskId := item_id task\<rparr>))) (loadAll_await net cl)))))"

definition registerPushToken_await :: "net \<Rightarrow> string + string \<Rightarrow> unit app_thread" where
  "registerPushToken_await net fcm =
    bindT (atomic (getS closure_of)) (\<lambda>cl.
      if cl_tokens cl = None then retT ()
      else thenT (atomic (modS (\<lambda>s. s\<lparr>ui_pushState := ''requesting token'', ui_error := None\<rparr>)))
        (catchT
          (bindT (atomic (liftE fcm)) (\<lambda>token.
            thenT (request_await net cl (post ''/notifications/push-token'' (JObj [(''token'', JStr token), (''platform'', JStr ''ANDROID'')])))
              (atomic (modS (\<lambda>s. s\<lparr>ui_pushState := ''registered '' @ slice_to 12 token @ ''...''\<rparr>)))))
          (\<lambda>e. atomic (modS (\<lambda>s. s\<lparr>ui_pushState := ''registration unavailable'', ui_error := Some (''FCM registration failed: '' @ e)\<rparr>)))))"

definition restoreSession_await :: "net \<Rightarrow> unit app_thread" where
  "restoreSession_await net =
    bindT (atomic (getS (\<lambda>s. (closure_of s, ui_stored s)))) (\<lambda>(cl, stored).
    thenT (catchT
        (if blank stored then retT () else thenT (refreshSession_await net cl (the stored)) (retT ()))
        (\<lambda>_. atomic (modS (\<lambda>s. s\<lparr>ui_stored := None\<rparr>))))
      (atomic (modS (\<lambda>s. s\<lparr>ui_booting := False\<rparr>))))"

definition sessionEffect_await :: "net \<Rightarrow> unit app_thread" where
  "sessionEffect_await net =
    bindT (atomic (getS closure_of)) (\<lambda>cl.
      case cl_tokens cl of
        None \<Rightarrow> atomic (modS (\<lambda>s. s\<lparr>ui_socket := None, ui_socketState := ''offline''\<rparr>))
      | Some tokens \<Rightarrow>
          thenT (atomic (modS (\<lambda>s. s\<lparr>ui_socket := Some (cl_base cl @ ''/app'', tk_accessToken tokens)\<rparr>))) (loadAll_await net cl))"

text \<open>The events of the app as threads; those that are no asynchronous functions are one step.\<close>

fun app_thread_of :: "net \<Rightarrow> app_event \<Rightarrow> unit app_thread" where
  "app_thread_of net RestoreEffect = restoreSession_await net"
| "app_thread_of net SessionEffect = sessionEffect_await net"
| "app_thread_of net Login = login_await net"
| "app_thread_of net Logout = logout_await net"
| "app_thread_of net Reload = bindT (atomic (getS closure_of)) (loadAll_await net)"
| "app_thread_of net CreateTask = createTask_await net"
| "app_thread_of net (DecideApproval i b) = decideApproval_await net i b"
| "app_thread_of net (DecideServerRegistration i b) = decideServerRegistration_await net i b"
| "app_thread_of net (RegisterPush fcm) = registerPushToken_await net fcm"
| "app_thread_of net ev = atomic (modS (app_step net ev))"

fun app_handler_of :: "net \<Rightarrow> app_event \<Rightarrow> unit app_prog" where
  "app_handler_of net RestoreEffect = restoreSession net"
| "app_handler_of net SessionEffect = sessionEffect net"
| "app_handler_of net Login = app_login net"
| "app_handler_of net Logout = app_logout net"
| "app_handler_of net Reload = bindE (getS closure_of) (loadAll net)"
| "app_handler_of net CreateTask = createTask net"
| "app_handler_of net (DecideApproval i b) = decideApproval net i b"
| "app_handler_of net (DecideServerRegistration i b) = decideServerRegistration net i b"
| "app_handler_of net (RegisterPush fcm) = app_registerPushToken net fcm"
| "app_handler_of net ev = modS (app_step net ev)"

section \<open>A handler alone\<close>

lemma run_saveTokens: "run (saveTokens_await t) = saveTokens t"
  by (rule ext) (simp add: saveTokens_await_def saveTokens_def run_simps thenE_apply modS_apply)

lemma run_sum: "run (case v of Inl a \<Rightarrow> t a | Inr b \<Rightarrow> u b) = (case v of Inl a \<Rightarrow> run (t a) | Inr b \<Rightarrow> run (u b))"
  by (cases v) simp_all

lemma run_fetch_loop: "run (fetch_loop_await net active call urls e) = fetch_loop net active call urls e"
proof (induction urls arbitrary: e)
  case (Cons u urls)
  show ?case
    by (rule ext) (simp add: run_simps run_sum Cons prog_simps split: sum.split)
qed (simp add: run_simps)

lemma run_fetchHub: "run (fetchHub_await net cl call) = fetchHub net cl call"
  by (simp add: fetchHub_await_def fetchHub_def run_fetch_loop)

lemma run_refreshSession: "run (refreshSession_await net cl t) = refreshSession net cl t"
  by (simp add: refreshSession_await_def refreshSession_def run_simps run_fetchHub run_saveTokens cong: if_cong)

lemma run_request: "run (request_await net cl call) = request net cl call"
  by (simp add: request_await_def request_def run_as_await_def run_as_def run_simps run_fetchHub run_refreshSession cong: if_cong option.case_cong)

lemma run_attempt: "run (attempt_await t) = attempt (run t)"
  by (rule ext) (simp add: attempt_await_def attempt_def run_simps catchE_apply bindE_apply ret_apply split: prod.split sum.split)

lemma run_run_all: "run (run_all_await ts) = run_all (map run ts)"
  by (induction ts) (simp_all add: run_simps run_attempt)

lemma run_promise_all: "run (promise_all_await ts) = promise_all (map run ts)"
  by (simp add: promise_all_await_def promise_all_def run_simps run_sum run_run_all cong: option.case_cong sum.case_cong)

lemma run_guarded: "run (guarded_work_await t) = guarded_work (run t)"
  by (simp add: guarded_work_await_def guarded_work_def run_simps)

lemma run_load: "run (loadAll_await net cl) = loadAll net cl"
  by (simp add: loadAll_await_def loadAll_def run_simps run_guarded run_promise_all run_request cong: if_cong list.case_cong)

lemmas run_app = run_saveTokens run_fetchHub run_refreshSession run_request run_guarded run_load

lemma run_app_thread_of: "run (app_thread_of net ev) = app_handler_of net ev"
  by (cases ev) (simp_all add: run_simps run_app restoreSession_await_def restoreSession_def sessionEffect_await_def sessionEffect_def
      login_await_def app_login_def logout_await_def app_logout_def createTask_await_def createTask_def decideApproval_await_def
      decideApproval_def decideServerRegistration_await_def decideServerRegistration_def registerPushToken_await_def app_registerPushToken_def
      split_def cong: if_cong option.case_cong)

section \<open>Any interleaving\<close>

definition at_hub :: "app \<Rightarrow> bool" where
  "at_hub s \<longleftrightarrow> ui_activeApiBaseUrl s \<in> set API_BASE_URLS"

lemma keepsT_read: "(\<And>s. I s \<Longrightarrow> keepsT I (k (f s))) \<Longrightarrow> keepsT I (bindT (atomic (getS f)) k)"
  by (auto simp: atomic_def getS_apply intro: keepsT.keeps_Atomic)

lemma keeps_at_hub_mod: "(\<And>s. ui_activeApiBaseUrl (f s) = ui_activeApiBaseUrl s) \<Longrightarrow> keeps at_hub (modS f)"
  by (simp add: keeps_def modS_apply at_hub_def)

lemma keepsT_at_hub_fetch:
  assumes "cl_base cl \<in> set API_BASE_URLS"
  shows "keepsT at_hub (fetchHub_await net cl call)"
proof -
  have "set urls \<subseteq> set API_BASE_URLS \<Longrightarrow> keepsT at_hub (fetch_loop_await net a call urls e)" for a urls e
  proof (induction urls arbitrary: e)
    case (Cons u urls)
    have "keeps at_hub (modS (\<lambda>s. if u \<noteq> a then s\<lparr>ui_activeApiBaseUrl := u\<rparr> else s))"
      using Cons.prems by (simp add: keeps_def modS_apply at_hub_def)
    then have "keepsT at_hub (case v of Inr response \<Rightarrow>
          thenT (atomic (modS (\<lambda>s. if u \<noteq> a then s\<lparr>ui_activeApiBaseUrl := u\<rparr> else s))) (retT response)
        | Inl err \<Rightarrow> fetch_loop_await net a call urls (Some err))" for v
      using Cons by (cases v) (auto intro: keepsT_rules)
    then show ?case unfolding fetch_loop_await.simps by (intro keepsT_rules keeps_rules keeps_at_hub_mod) simp_all
  qed (simp add: keepsT_rules)
  moreover have "set (orderedUrls (cl_base cl)) \<subseteq> set API_BASE_URLS" using assms by (auto simp: orderedUrls_def)
  ultimately show ?thesis by (simp add: fetchHub_await_def)
qed

lemma keepsT_at_hub_saveTokens: "keepsT at_hub (saveTokens_await t)"
  unfolding saveTokens_await_def by (intro keepsT_rules keeps_at_hub_mod) simp_all

lemma keeps_at_hub_parse: "keeps at_hub (parseJson r)"
  unfolding parseJson_def by (intro keeps_rules)

lemma keepsT_at_hub_refresh: "cl_base cl \<in> set API_BASE_URLS \<Longrightarrow> keepsT at_hub (refreshSession_await net cl t)"
  unfolding refreshSession_await_def
  by (intro keepsT_rules keepsT_at_hub_fetch keepsT_at_hub_saveTokens keeps_at_hub_parse)

lemma keepsT_at_hub_request: "cl_base cl \<in> set API_BASE_URLS \<Longrightarrow> keepsT at_hub (request_await net cl call)"
  unfolding request_await_def run_as_await_def
  by (intro keepsT_rules keepsT_at_hub_fetch keepsT_at_hub_refresh keeps_at_hub_parse)

lemma keepsT_at_hub_guarded: "keepsT at_hub t \<Longrightarrow> keepsT at_hub (guarded_work_await t)"
  unfolding guarded_work_await_def begin_work_def end_work_def by (intro keepsT_rules keeps_at_hub_mod) simp_all

lemma keepsT_promise_all:
  assumes "\<And>t. t \<in> set ts \<Longrightarrow> keepsT I t"
  shows "keepsT I (promise_all_await ts)"
proof -
  have "keepsT I (run_all_await ts)"
    using assms by (induction ts) (auto simp: attempt_await_def intro!: keepsT_rules)
  then show ?thesis unfolding promise_all_await_def
    by (intro keepsT_rules) (auto intro: keepsT_rules split: sum.split)
qed

lemma keepsT_at_hub_load: "cl_base cl \<in> set API_BASE_URLS \<Longrightarrow> keepsT at_hub (loadAll_await net cl)"
  unfolding loadAll_await_def
  by (intro keepsT_rules keepsT_at_hub_guarded keepsT_promise_all) (auto intro!: keepsT_at_hub_request keeps_at_hub_mod)

lemmas keepsT_at_hub = keepsT_at_hub_fetch keepsT_at_hub_saveTokens keepsT_at_hub_refresh keepsT_at_hub_request keepsT_at_hub_guarded
  keepsT_at_hub_load

lemma at_hub_base: "at_hub s \<Longrightarrow> cl_base (closure_of s) \<in> set API_BASE_URLS"
  by (simp add: at_hub_def closure_of_def)

lemma keepsT_app_thread_of: "keepsT at_hub (app_thread_of net ev)"
proof (cases ev)
  case (SocketEvent e)
  then show ?thesis by (cases e) (auto intro!: keepsT_rules keeps_at_hub_mod)
qed (auto simp: restoreSession_await_def sessionEffect_await_def login_await_def logout_await_def createTask_await_def
    decideApproval_await_def decideServerRegistration_await_def registerPushToken_await_def onTaskUpdated_def onApprovalPending_def
    onApprovalResolved_def split_def
    intro!: keepsT_read keepsT_rules keepsT_at_hub keeps_at_hub_parse keeps_at_hub_mod keeps_rules at_hub_base)

interpretation appPool: await_handlers "app_thread_of net" "app_handler_of net" at_hub for net
  by unfold_locales (rule run_app_thread_of, rule keepsT_app_thread_of)

section \<open>Logging out during a request\<close>

text \<open>A call that the current address answers.\<close>

definition answered :: "net \<Rightarrow> app \<Rightarrow> http_call \<Rightarrow> http_resp \<Rightarrow> bool" where
  "answered net s call r \<longleftrightarrow> net (length (ui_calls s)) (ui_activeApiBaseUrl s) call = Inr r"

definition called :: "http_call \<Rightarrow> app \<Rightarrow> app" where
  "called call s = s\<lparr>ui_calls := ui_calls s @ [(ui_activeApiBaseUrl s, call)]\<rparr>"

lemma fetch_answered:
  assumes "answered net s call r" and "cl_base cl = ui_activeApiBaseUrl s"
  shows "run (fetchHub_await net cl call) s = (Inr r, called call s)"
  using assms by (simp add: run_fetchHub fetchHub_def orderedUrls_def answered_def called_def prog_simps)

lemma called_simps [simp]: "ui_activeApiBaseUrl (called c s) = ui_activeApiBaseUrl s" "ui_tokens (called c s) = ui_tokens s"
  by (simp_all add: called_def)

lemma steps_then: "run t s = (Inr a, s') \<Longrightarrow> k a = u \<Longrightarrow> thread_steps (bindT t k, s) (u, s')"
  using steps_prefix(1) [of t s a s' k] by simp

text \<open>A request with an expired token, up to the moment at which it has the answer to its refresh, and what
  is left of it.\<close>

definition request_rest :: "net \<Rightarrow> closure \<Rightarrow> http_call \<Rightarrow> auth_tokens option \<Rightarrow> json app_thread" where
  "request_rest net cl call fresh =
    bindT (bindT (thenT (saveTokens_await fresh) (retT fresh)) (\<lambda>refreshed.
        case refreshed of
          None \<Rightarrow> throwT ''Cannot read properties of null''
        | Some t \<Rightarrow> run_as_await net cl call (tk_accessToken t))) (\<lambda>response.
      if \<not> hr_ok response
      then bindT (catchT (atomic (parseJson response)) (\<lambda>_. retT JNull)) (\<lambda>body.
        throwT (trim (hc_path call @ '' failed ('' @ show_int (hr_status response) @ '') '' @ summarize (Some body))))
      else atomic (parseJson response))"

lemma request_renewing:
  assumes "cl_tokens cl = Some tk" and "cl_base cl = ui_activeApiBaseUrl s"
    and "answered net s (call\<lparr>hc_bearer := Some (''Bearer '' @ tk_accessToken tk)\<rparr>) r1" and "hr_status r1 = 401"
    and "answered net (called (call\<lparr>hc_bearer := Some (''Bearer '' @ tk_accessToken tk)\<rparr>) s) (refresh_call (tk_refreshToken tk)) r2"
    and "hr_ok r2" and "hr_body r2 = Some (Inr j)"
  shows "\<exists>s1. thread_steps (request_await net cl call, s) (request_rest net cl call (as_tokens j), s1) \<and>
    ui_activeApiBaseUrl s1 = ui_activeApiBaseUrl s \<and> ui_tokens s1 = ui_tokens s"
proof -
  let ?call = "call\<lparr>hc_bearer := Some (''Bearer '' @ tk_accessToken tk)\<rparr>"
  let ?s = "called ?call s" and ?t = "called (refresh_call (tk_refreshToken tk)) (called ?call s)"
  let ?second = "\<lambda>refreshed. case refreshed of None \<Rightarrow> throwT ''Cannot read properties of null''
        | Some t \<Rightarrow> run_as_await net cl call (tk_accessToken t)"
  define last where "last = (\<lambda>response. if \<not> hr_ok response
      then bindT (catchT (atomic (parseJson response)) (\<lambda>_. retT JNull)) (\<lambda>body.
        throwT (trim (hc_path call @ '' failed ('' @ show_int (hr_status response) @ '') '' @ summarize (Some body))))
      else atomic (parseJson response))"
  have "thread_steps (request_await net cl call, s) (bindT (bindT (refreshSession_await net cl (tk_refreshToken tk)) ?second) last, ?s)"
    unfolding request_await_def run_as_await_def last_def assms(1) option.case
    by (rule steps_then, rule fetch_answered [OF assms(3,2)], simp only: assms(4) if_True refl)
  moreover have "thread_steps (refreshSession_await net cl (tk_refreshToken tk), ?s) (thenT (saveTokens_await (as_tokens j)) (retT (as_tokens j)), ?t)"
  proof -
    let ?parse = "bindT (atomic (parseJson r2)) (\<lambda>j. thenT (saveTokens_await (as_tokens j)) (retT (as_tokens j)))"
    have "thread_steps (refreshSession_await net cl (tk_refreshToken tk), ?s) (?parse, ?t)"
      unfolding refreshSession_await_def refresh_call_def [symmetric]
      by (rule steps_then, rule fetch_answered [OF assms(5)], simp only: assms(2) called_simps)
        (simp only: assms(6) not_True_eq_False if_False)
    moreover have "thread_steps (?parse, ?t) (thenT (saveTokens_await (as_tokens j)) (retT (as_tokens j)), ?t)"
      by (rule steps_read) (simp_all add: parseJson_def assms(7) liftE_apply)
    ultimately show ?thesis by (rule rtranclp_trans)
  qed
  from steps_bindT [OF steps_bindT [OF this, of ?second], of last]
  have "thread_steps (bindT (bindT (refreshSession_await net cl (tk_refreshToken tk)) ?second) last, ?s)
      (request_rest net cl call (as_tokens j), ?t)"
    by (simp add: request_rest_def last_def)
  ultimately have "thread_steps (request_await net cl call, s) (request_rest net cl call (as_tokens j), ?t)" by (rule rtranclp_trans)
  then show ?thesis by (intro exI [of _ ?t]) simp
qed

text \<open>The rest of the request stores the new session, whatever has happened since.\<close>

lemma request_rest_stores:
  "ui_tokens (snd (run (request_rest net cl call (Some t)) s)) = Some t"
  "ui_stored (snd (run (request_rest net cl call (Some t)) s)) = Some (tk_refreshToken t)"
proof -
  let ?I = "\<lambda>s. ui_tokens s = Some t \<and> ui_stored s = Some (tk_refreshToken t)"
  have "?I (snd (saveTokens (Some t) s))" by (simp add: saveTokens_def modS_apply)
  moreover have "keeps ?I (fetchHub net cl c)" for c by (rule keeps_fetchHub) simp_all
  moreover have "keeps ?I (parseJson r)" for r unfolding parseJson_def by (intro keeps_rules)
  ultimately have "?I (snd (run (request_rest net cl call (Some t)) s))"
    unfolding request_rest_def run_simps run_saveTokens run_as_await_def run_fetchHub thenE_def
    by (simp add: bindE_assoc) (rule bind_after, assumption, simp, intro keeps_rules)
  then show "ui_tokens (snd (run (request_rest net cl call (Some t)) s)) = Some t"
    "ui_stored (snd (run (request_rest net cl call (Some t)) s)) = Some (tk_refreshToken t)" by simp_all
qed

section \<open>Properties\<close>

text \<open>The two models of the app agree, and no interleaving leads it away from the hub: a handler whose
  steps are not interleaved with anything is the handler of the sequential model, and any steps, in
  any order, of any handlers, effects and messages that are under way at the same time leave the app
  with one of the hub's addresses.\<close>

theorem app_interleavings:
  "run (app_thread_of net ev) = app_handler_of net ev \<and>
   (pool_steps (map (app_thread_of net) evs, s) (ts, s') \<longrightarrow> ui_activeApiBaseUrl s \<in> set API_BASE_URLS \<longrightarrow>
      ui_activeApiBaseUrl s' \<in> set API_BASE_URLS)"
  using appPool.alone [of net ev] appPool.any_interleaving_keeps [of net evs s ts s'] by (simp add: at_hub_def)

theorem app_interleavings_witness:
  "ui_activeApiBaseUrl (snd (app_logout demo_net (demo_shown TasksTab))) \<in> set API_BASE_URLS"
proof -
  let ?s = "demo_shown TasksTab"
  obtain q s' where run: "run (app_thread_of demo_net Logout) ?s = (q, s')" by (cases "run (app_thread_of demo_net Logout) ?s")
  then have "pool_steps (map (app_thread_of demo_net) [Logout], ?s) ([Done q], s')"
    using pool_member [of "[app_thread_of demo_net Logout]" 0 ?s "Done q" s'] steps_run [OF run] by (simp del: app_thread_of.simps)
  moreover have "ui_activeApiBaseUrl ?s \<in> set API_BASE_URLS"
    by (simp add: demo_shown_def initial_app_def PRIMARY_API_BASE_URL_def API_BASE_URLS_def)
  moreover have "snd (app_logout demo_net ?s) = s'" using run app_interleavings [of demo_net Logout] by (simp del: app_thread_of.simps)
  ultimately show ?thesis using app_interleavings [of demo_net Logout "[Logout]" ?s] by blast
qed

text \<open>C36. Logging out can be undone: when the user logs out while a request with an expired access token is
  waiting for the answer to its refresh, both handlers end without an error, and afterwards the app
  has the renewed session again and has stored its refresh token on the device.\<close>

theorem logout_undone:
  assumes "ui_tokens s = Some tk"
    and "call = post ''/notifications/push-token'' (JObj [(''token'', JStr token), (''platform'', JStr ''ANDROID'')])"
    and "expired_call = call\<lparr>hc_bearer := Some (''Bearer '' @ tk_accessToken tk)\<rparr>"
    and "answered net s expired_call r1" and "hr_status r1 = 401"
    and "answered net (called expired_call s) (refresh_call (tk_refreshToken tk)) r2" and "hr_ok r2" and "hr_body r2 = Some (Inr j)"
    and "as_tokens j = Some fresh"
  shows "\<exists>s'. pool_steps (map (app_thread_of net) [RegisterPush (Inr token), Logout], s) ([Done (Inr ()), Done (Inr ())], s') \<and>
    ui_tokens s' = Some fresh \<and> ui_stored s' = Some (tk_refreshToken fresh)"
proof -
  let ?cl = "closure_of s" and ?s = "s\<lparr>ui_pushState := ''requesting token'', ui_error := None\<rparr>"
  let ?okay = "atomic (modS (\<lambda>s. s\<lparr>ui_pushState := ''registered '' @ slice_to 12 token @ ''...''\<rparr>)) :: unit app_thread"
  let ?fail = "\<lambda>e. atomic (modS (\<lambda>s. s\<lparr>ui_pushState := ''registration unavailable'', ui_error := Some (''FCM registration failed: '' @ e)\<rparr>)) :: unit app_thread"
  have "\<exists>s1. thread_steps (request_await net ?cl call, ?s) (request_rest net ?cl call (Some fresh), s1) \<and>
      ui_activeApiBaseUrl s1 = ui_activeApiBaseUrl ?s \<and> ui_tokens s1 = ui_tokens ?s"
    unfolding assms(9) [symmetric]
    by (rule request_renewing [where tk = tk and ?r1.0 = r1 and ?r2.0 = r2])
      (use assms in \<open>simp_all add: closure_of_def answered_def called_def\<close>)
  then obtain s1 where req: "thread_steps (request_await net ?cl call, ?s) (request_rest net ?cl call (Some fresh), s1)" by blast
  let ?rest = "catchT (thenT (request_rest net ?cl call (Some fresh)) ?okay) ?fail"
  have "thread_steps (app_thread_of net (RegisterPush (Inr token)), s) (catchT (thenT (request_await net ?cl call) ?okay) ?fail, ?s)"
  proof -
    let ?body = "catchT (bindT (atomic (liftE (Inr token))) (\<lambda>token. thenT (request_await net ?cl
      (post ''/notifications/push-token'' (JObj [(''token'', JStr token), (''platform'', JStr ''ANDROID'')])))
        (atomic (modS (\<lambda>s. s\<lparr>ui_pushState := ''registered '' @ slice_to 12 token @ ''...''\<rparr>))))) ?fail"
    have some: "(cl_tokens ?cl = None) = False" using assms(1) by (simp add: closure_of_def)
    have a: "thread_steps (app_thread_of net (RegisterPush (Inr token)), s)
        (thenT (atomic (modS (\<lambda>s. s\<lparr>ui_pushState := ''requesting token'', ui_error := None\<rparr>))) ?body, s)"
      unfolding app_thread_of.simps registerPushToken_await_def by (rule steps_read, rule getS_apply, simp only: some if_False)
    have b: "thread_steps (thenT (atomic (modS (\<lambda>s. s\<lparr>ui_pushState := ''requesting token'', ui_error := None\<rparr>))) ?body, s) (?body, ?s)"
      unfolding thenT_def [of "atomic m" for m] by (rule steps_read, simp only: modS_apply, rule refl)
    have c: "thread_steps (?body, ?s) (catchT (thenT (request_await net ?cl call) ?okay) ?fail, ?s)"
      unfolding assms(2) by (rule steps_catchT, rule steps_read, simp only: liftE_apply, rule refl)
    show ?thesis by (rule rtranclp_trans [OF rtranclp_trans [OF a b] c])
  qed
  then have push: "thread_steps (app_thread_of net (RegisterPush (Inr token)), s) (?rest, s1)"
    by (rule rtranclp_trans) (unfold thenT_def, intro steps_catchT steps_bindT req)
  obtain s2 where out: "run (app_thread_of net Logout) s1 = (Inr (), s2)" using logout_state [of net s1] by (auto simp: run_app_thread_of simp del: app_thread_of.simps)
  obtain v s3 where rest: "run (request_rest net ?cl call (Some fresh)) s2 = (v, s3)" by (cases "run (request_rest net ?cl call (Some fresh)) s2")
  then have s3: "ui_tokens s3 = Some fresh" "ui_stored s3 = Some (tk_refreshToken fresh)"
    using request_rest_stores [of net ?cl call fresh s2] by simp_all
  have "\<exists>s'. run ?rest s2 = (Inr (), s') \<and> ui_tokens s' = ui_tokens s3 \<and> ui_stored s' = ui_stored s3"
    by (cases v) (simp_all add: run_simps catchE_apply thenE_apply rest modS_apply)
  then obtain s' where fin: "run ?rest s2 = (Inr (), s')" "ui_tokens s' = Some fresh" "ui_stored s' = Some (tk_refreshToken fresh)"
    using s3 by auto
  have "pool_steps ([app_thread_of net (RegisterPush (Inr token)), app_thread_of net Logout], s) ([Done (Inr ()), Done (Inr ())], s')"
    by (rule pool_during [OF push out fin(1)])
  then show ?thesis using fin(2,3) by (intro exI [of _ s']) (simp only: list.map)
qed

definition demo_renewing_net :: net where
  "demo_renewing_net n url call =
    (if n = 0 then Inr \<lparr>hr_status = 401, hr_ok = False, hr_body = None\<rparr>
     else if n = 1 then Inr \<lparr>hr_status = 200, hr_ok = True,
       hr_body = Some (Inr (JObj [(''accessToken'', JStr ''a2''), (''refreshToken'', JStr ''r2'')]))\<rparr>
     else Inl ''down'')"

theorem logout_undone_witness:
  "\<exists>s'. pool_steps (map (app_thread_of demo_renewing_net) [RegisterPush (Inr ''f''), Logout], demo_shown TasksTab)
      ([Done (Inr ()), Done (Inr ())], s') \<and> ui_stored s' = Some ''r2''"
proof -
  let ?s = "demo_shown TasksTab" and ?net = demo_renewing_net
  let ?fresh = "\<lparr>tk_accessToken = ''a2'', tk_refreshToken = ''r2''\<rparr>"
  let ?j = "JObj [(''accessToken'', JStr ''a2''), (''refreshToken'', JStr ''r2'')]"
  have calls: "ui_calls ?s = []" "ui_tokens ?s = Some demo_session" by (simp_all add: demo_shown_def initial_app_def)
  have a: "answered ?net ?s c \<lparr>hr_status = 401, hr_ok = False, hr_body = None\<rparr>"
    "answered ?net (called c ?s) d \<lparr>hr_status = 200, hr_ok = True, hr_body = Some (Inr ?j)\<rparr>" for c d
    by (simp_all add: answered_def called_def calls demo_renewing_net_def)
  have "as_tokens ?j = Some ?fresh" by (simp add: as_tokens_def field_text_def)
  from logout_undone [OF calls(2) refl refl a(1) _ a(2) _ _ this] show ?thesis by auto
qed

end
