(* ===== verification/Mobile_Parallel.thy ===== *)
theory Mobile_Parallel
  imports Mobile_Awaits
begin

text \<open>
  The four requests of a load in \<^verbatim>\<open>mobile-app/App.tsx\<close> are given to \<open>Promise.all\<close>: they run together, and the
  load goes on when all have succeeded. Here they are members of a pool, beside any other handlers of the
  app. Shown, whatever the order of the steps: with an expired access token no more of them succeed than
  refreshes with the same token are accepted, and the app is never left busy when its handlers have
  ended.
\<close>

section \<open>What a thread returns and what it has called\<close>

text \<open>Every value that a thread can return has a property.\<close>

inductive returns :: "('a \<Rightarrow> bool) \<Rightarrow> ('s, 'e, 'a) thread \<Rightarrow> bool" for Q where
  returns_Done: "(\<And>a. r = Inr a \<Longrightarrow> Q a) \<Longrightarrow> returns Q (Done r)"
| returns_Atomic: "(\<And>s. returns Q (fst (f s))) \<Longrightarrow> returns Q (Atomic f)"

text \<open>No step of a thread takes a call back: it adds calls behind those made before.\<close>

definition calls_added :: "app \<Rightarrow> app \<Rightarrow> bool" where
  "calls_added s s' \<longleftrightarrow> (\<exists>cs. ui_calls s' = ui_calls s @ cs)"

lemma calls_added_same [simp]: "ui_calls s' = ui_calls s \<Longrightarrow> calls_added s s'"
  by (simp add: calls_added_def)

inductive grows :: "(app, string, 'a) thread \<Rightarrow> bool" where
  grows_Done: "grows (Done r)"
| grows_Atomic: "(\<And>s. calls_added s (snd (f s))) \<Longrightarrow> (\<And>s. grows (fst (f s))) \<Longrightarrow> grows (Atomic f)"

inductive_cases grows_AtomicE: "grows (Atomic f)"

text \<open>A thread that returns a value only behind a step of its own that makes a call of a kind; the kind is
  told by the number of the call, the address and the call.\<close>

inductive pays :: "(nat \<Rightarrow> string \<times> http_call \<Rightarrow> bool) \<Rightarrow> (app, string, 'a) thread \<Rightarrow> bool" for P where
  pays_fail: "pays P (Done (Inl e))"
| pays_Atomic: "(\<And>s. (\<exists>c. ui_calls (snd (f s)) = ui_calls s @ [c] \<and> P (length (ui_calls s)) c) \<or> pays P (fst (f s))) \<Longrightarrow> pays P (Atomic f)"

inductive_cases pays_DoneE: "pays P (Done r)"
inductive_cases pays_AtomicE: "pays P (Atomic f)"

lemma pays_not_done: "\<not> pays P (Done (Inr a))"
  by (auto elim: pays_DoneE)

lemma pays_bindT: "pays P t \<Longrightarrow> pays P (bindT t g)"
proof (induction rule: pays.induct)
  case (pays_Atomic f)
  show ?case unfolding bindT.simps by (rule pays.pays_Atomic) (use pays_Atomic in auto)
qed (simp add: pays.pays_fail)

lemma pays_after:
  assumes "returns Q t" and "\<And>a. Q a \<Longrightarrow> pays P (g a)"
  shows "pays P (bindT t g)"
  using assms(1)
proof (induction rule: returns.induct)
  case (returns_Done r)
  then show ?case using assms(2) by (cases r) (simp_all add: pays.pays_fail)
next
  case (returns_Atomic f)
  then show ?case by (auto intro!: pays.pays_Atomic)
qed

section \<open>Pools\<close>

text \<open>The calls of a kind among those from a number on.\<close>

definition calls_of :: "(nat \<Rightarrow> string \<times> http_call \<Rightarrow> bool) \<Rightarrow> nat \<Rightarrow> app \<Rightarrow> nat list" where
  "calls_of P from s = filter (\<lambda>n. P n (ui_calls s ! n)) [from..<length (ui_calls s)]"

lemma calls_of_added:
  assumes "calls_added s s'"
  shows "length (calls_of P from s) \<le> length (calls_of P from s')"
proof -
  obtain cs where cs: "ui_calls s' = ui_calls s @ cs" using assms by (auto simp: calls_added_def)
  have "filter (\<lambda>n. P n (ui_calls s ! n)) [from..<length (ui_calls s)] = filter (\<lambda>n. P n (ui_calls s' ! n)) [from..<length (ui_calls s)]"
    by (rule filter_cong) (auto simp: cs nth_append)
  moreover have "[from..<length (ui_calls s')] = [from..<length (ui_calls s)] @ [length (ui_calls s)..<length (ui_calls s')]"
    if "from \<le> length (ui_calls s)" using upt_add_eq_append [OF that, of "length cs"] by (simp add: cs)
  ultimately show ?thesis by (cases "from \<le> length (ui_calls s)") (auto simp: calls_of_def)
qed

lemma calls_of_paid:
  assumes "ui_calls s' = ui_calls s @ [c]" and "P (length (ui_calls s)) c" and "from \<le> length (ui_calls s)"
  shows "length (calls_of P from s') = Suc (length (calls_of P from s))"
proof -
  have "filter (\<lambda>n. P n (ui_calls s' ! n)) [from..<length (ui_calls s)] = filter (\<lambda>n. P n (ui_calls s ! n)) [from..<length (ui_calls s)]"
    by (rule filter_cong) (auto simp: assms(1) nth_append)
  then show ?thesis using assms(2,3) by (simp add: calls_of_def assms(1))
qed

text \<open>Of some threads of a pool that need a call of a kind, no more come past it than such calls are made.\<close>

definition paid :: "(nat \<Rightarrow> string \<times> http_call \<Rightarrow> bool) \<Rightarrow> nat \<Rightarrow> (app, string, 'a) thread list \<Rightarrow> nat set" where
  "paid P m ts = {i. i < m \<and> \<not> pays P (ts ! i)}"

lemma finite_paid [simp]: "finite (paid P m ts)"
  by (simp add: paid_def)

lemma pool_pays:
  assumes "pool_steps (ts, s) (ts', s')" and "\<forall>t \<in> set ts. grows t" and "paid P m ts = {}"
  shows "length ts' = length ts \<and> (\<forall>t \<in> set ts'. grows t) \<and> length (ui_calls s) \<le> length (ui_calls s') \<and>
    card (paid P m ts') \<le> length (calls_of P (length (ui_calls s)) s')"
  using assms(1)
proof (induction rule: rtranclp_induct2)
  case refl
  show ?case using assms(2,3) by simp
next
  case (step us u vs v)
  let ?n = "length (ui_calls s)"
  from step(2) obtain i t where i: "i < length us" "thread_step (us ! i, u) (t, v)" "vs = us[i := t]" by (auto elim: pool_stepE)
  then obtain f where f: "us ! i = Atomic f" "f u = (t, v)" by (auto simp: thread_step_iff)
  have "grows (Atomic f)" using step(3) i(1) f(1) by (metis nth_mem)
  then have added: "calls_added u v" and t: "grows t"
    using f(2) by (metis grows_AtomicE snd_conv, metis grows_AtomicE fst_conv)
  have at: "vs ! j = (if j = i then t else us ! j)" for j using i(1,3) by (simp add: nth_list_update)
  have "card (paid P m vs) \<le> length (calls_of P ?n v)"
  proof (cases "pays P (us ! i) \<and> \<not> pays P t")
    case True
    then obtain c where "ui_calls v = ui_calls u @ [c]" "P (length (ui_calls u)) c"
      using f by (auto elim!: pays_AtomicE) (metis fst_conv snd_conv)
    then have "length (calls_of P ?n v) = Suc (length (calls_of P ?n u))" using step(3) by (intro calls_of_paid) auto
    moreover have "paid P m vs \<subseteq> insert i (paid P m us)" by (auto simp: paid_def at split: if_splits)
    then have "card (paid P m vs) \<le> card (insert i (paid P m us))" by (intro card_mono) simp_all
    then have "card (paid P m vs) \<le> Suc (card (paid P m us))" by (simp add: card_insert_if split: if_splits)
    ultimately show ?thesis using step(3) by linarith
  next
    case False
    then have "paid P m vs \<subseteq> paid P m us" by (auto simp: paid_def at split: if_splits)
    then have "card (paid P m vs) \<le> card (paid P m us)" by (simp add: card_mono)
    then show ?thesis using step(3) calls_of_added [OF added, of P ?n] by linarith
  qed
  moreover have "\<forall>t \<in> set vs. grows t" using step(3) t i(3) set_update_subset_insert [of us i t] by auto
  moreover have "length (ui_calls u) \<le> length (ui_calls v)" using added by (auto simp: calls_added_def)
  ultimately show ?case using step(3) i(3) by auto
qed

section \<open>The app's threads\<close>

named_theorems grows_rules \<comment> \<open>threads that take no call back\<close>

lemma grows_basic [grows_rules]: "grows (retT a)" "grows (throwT e)"
  by (simp_all add: retT_def throwT_def grows_Done)

lemma grows_atomic [grows_rules]: "(\<And>s. calls_added s (snd (m s))) \<Longrightarrow> grows (atomic m)"
  unfolding atomic_def by (rule grows_Atomic) (auto simp: grows_Done split: prod.split, metis snd_conv)

lemma grows_bindT [grows_rules]:
  assumes "grows t" and "\<And>a. grows (g a)"
  shows "grows (bindT t g)"
  using assms(1)
proof (induction rule: grows.induct)
  case (grows_Done r)
  then show ?case using assms(2) by (cases r) (simp_all add: grows.grows_Done)
qed (auto intro: grows.grows_Atomic)

lemma grows_catchT [grows_rules]:
  assumes "grows t" and "\<And>e. grows (g e)"
  shows "grows (catchT t g)"
  using assms(1)
proof (induction rule: grows.induct)
  case (grows_Done r)
  then show ?case using assms(2) by (cases r) (simp_all add: grows.grows_Done)
qed (auto intro: grows.grows_Atomic)

lemma grows_thenT [grows_rules]: "grows t \<Longrightarrow> grows u \<Longrightarrow> grows (thenT t u)"
  unfolding thenT_def by (rule grows_bindT)

lemma grows_if [grows_rules]: "grows t \<Longrightarrow> grows u \<Longrightarrow> grows (if b then t else u)"
  by simp

lemma grows_option [grows_rules]: "grows t \<Longrightarrow> (\<And>a. grows (u a)) \<Longrightarrow> grows (case v of None \<Rightarrow> t | Some a \<Rightarrow> u a)"
  by (cases v) simp_all

lemma grows_prod [grows_rules]: "(\<And>a b. grows (t a b)) \<Longrightarrow> grows (case p of (a, b) \<Rightarrow> t a b)"
  by (cases p) simp

lemma grows_list [grows_rules]: "grows t \<Longrightarrow> (\<And>a r. grows (u a r)) \<Longrightarrow> grows (case l of [] \<Rightarrow> t | a # r \<Rightarrow> u a r)"
  by (cases l) simp_all

lemma grows_sum [grows_rules]: "(\<And>a. grows (t a)) \<Longrightarrow> (\<And>b. grows (u b)) \<Longrightarrow> grows (case v of Inl a \<Rightarrow> t a | Inr b \<Rightarrow> u b)"
  by (cases v) simp_all

lemma parseJson_calls: "calls_added s (snd (parseJson r s))"
  by (auto simp: parseJson_def prog_simps split: option.split)

lemma grows_app [grows_rules]:
  "grows (saveTokens_await t)" "grows (fetchHub_await net cl call)" "grows (atomic (parseJson r))"
proof -
  show "grows (saveTokens_await t)" unfolding saveTokens_await_def by (intro grows_rules) (simp_all add: modS_apply)
  have "grows (fetch_loop_await net a call urls e)" for a urls e
    by (induction urls arbitrary: e) (auto intro!: grows_rules simp: prog_simps calls_added_def)
  then show "grows (fetchHub_await net cl call)" by (simp add: fetchHub_await_def)
  show "grows (atomic (parseJson r))" by (rule grows_atomic) (rule parseJson_calls)
qed

lemma grows_app2 [grows_rules]:
  "grows (refreshSession_await net cl t)" "grows (run_as_await net cl call t)" "grows (request_await net cl call)"
  "grows w \<Longrightarrow> grows (guarded_work_await w)"
proof -
  show *: "grows (refreshSession_await net cl t)" "grows (run_as_await net cl call t)" for cl t call
    unfolding refreshSession_await_def run_as_await_def by (intro grows_rules)+
  show "grows (request_await net cl call)" unfolding request_await_def by (intro grows_rules *)
  show "grows w \<Longrightarrow> grows (guarded_work_await w)"
    unfolding guarded_work_await_def by (intro grows_rules) (simp_all add: modS_apply begin_work_def end_work_def)
qed

lemma grows_promise_all:
  assumes "\<And>t. t \<in> set ts \<Longrightarrow> grows t"
  shows "grows (promise_all_await ts)"
proof -
  have "grows (run_all_await ts)" using assms by (induction ts) (auto simp: attempt_await_def intro!: grows_rules)
  then show ?thesis unfolding promise_all_await_def by (intro grows_rules)
qed

lemma grows_load [grows_rules]: "grows (loadAll_await net cl)"
  unfolding loadAll_await_def by (intro grows_rules grows_promise_all) (auto simp: modS_apply intro: grows_rules)

lemma grows_app_thread_of: "grows (app_thread_of net ev)"
proof (cases ev)
  case (SocketEvent e)
  then show ?thesis by (cases e) (auto intro!: grows_rules simp: modS_apply)
qed (auto simp: restoreSession_await_def sessionEffect_await_def login_await_def logout_await_def createTask_await_def
    decideApproval_await_def decideServerRegistration_await_def registerPushToken_await_def onTaskUpdated_def onApprovalPending_def
    onApprovalResolved_def prog_simps intro!: grows_rules)

section \<open>A request with an expired token\<close>

text \<open>A call that refreshes with a token and that the hub accepts.\<close>

definition renewal :: "net \<Rightarrow> string \<Rightarrow> nat \<Rightarrow> string \<times> http_call \<Rightarrow> bool" where
  "renewal net refreshToken n = (\<lambda>(u, c). c = refresh_call refreshToken \<and>
     (case net n u c of Inr r \<Rightarrow> hr_ok r | Inl _ \<Rightarrow> False))"

lemma returns_fetch:
  assumes "\<And>n u r. net n u call = Inr r \<Longrightarrow> Q r"
  shows "returns Q (fetchHub_await net cl call)"
proof -
  have "returns Q (fetch_loop_await net a call urls e)" for a urls e
  proof (induction urls arbitrary: e)
    case Nil
    show ?case by (auto simp: throwT_def intro: returns_Done)
  next
    case (Cons u urls)
    show ?case
      unfolding fetch_loop_await.simps atomic_def bindT.simps
      using Cons assms by (auto simp: prog_simps thenT_def retT_def atomic_def intro!: returns_Atomic returns_Done split: sum.split)
  qed
  then show ?thesis by (simp add: fetchHub_await_def)
qed

lemma pays_call:
  assumes "\<And>s a s'. m s = (Inr a, s') \<Longrightarrow> (\<exists>c. ui_calls s' = ui_calls s @ [c] \<and> P (length (ui_calls s)) c) \<or> pays P (bindT (h a) g)"
  shows "pays P (bindT (bindT (atomic m) h) g)"
  unfolding atomic_def bindT.simps
proof (rule pays_Atomic)
  fix s
  obtain r s' where m: "m s = (r, s')" by (cases "m s")
  show "(\<exists>c. ui_calls (snd (map_prod (\<lambda>t. bindT t g) id
      (map_prod (\<lambda>t. bindT t h) id (case m s of (r, s') \<Rightarrow> (Done r, s'))))) = ui_calls s @ [c] \<and> P (length (ui_calls s)) c) \<or>
    pays P (fst (map_prod (\<lambda>t. bindT t g) id (map_prod (\<lambda>t. bindT t h) id (case m s of (r, s') \<Rightarrow> (Done r, s')))))"
    using assms m by (cases r) (auto simp: pays_fail)
qed

lemma pays_refresh:
  assumes "P = renewal net t"
  shows "pays P (refreshSession_await net cl t)"
proof -
  let ?c = "refresh_call t"
  let ?G = "\<lambda>response. if \<not> hr_ok response then throwT (''refresh failed ('' @ show_int (hr_status response) @ '')'')
      else bindT (atomic (parseJson response)) (\<lambda>j. thenT (saveTokens_await (as_tokens j)) (retT (as_tokens j)))"
  have "pays P (bindT (fetch_loop_await net a ?c urls e) ?G)" for a urls e
  proof (induction urls arbitrary: e)
    case Nil
    show ?case by (simp add: throwT_def pays_fail)
  next
    case (Cons u urls)
    have refused: "pays P (bindT (thenT (atomic (modS h)) (retT r)) ?G)" if "\<not> hr_ok r" for h r
      using that by (auto simp: thenT_def retT_def throwT_def atomic_def prog_simps intro!: pays_Atomic pays_fail)
    have paid: "P n (u, ?c)" if "net n u ?c = Inr r" "hr_ok r" for n r using assms that by (simp add: renewal_def)
    show ?case unfolding fetch_loop_await.simps
    proof (rule pays_call)
      fix s answer s'
      assume "bindE (getS (\<lambda>s. net (length (ui_calls s)) u ?c)) (\<lambda>answer. thenE (modS (\<lambda>s. s\<lparr>ui_calls := ui_calls s @ [(u, ?c)]\<rparr>)) (ret answer)) s =
        (Inr answer, s')"
      then have call: "answer = net (length (ui_calls s)) u ?c" "s' = s\<lparr>ui_calls := ui_calls s @ [(u, ?c)]\<rparr>" by (auto simp: prog_simps)
      show "(\<exists>c. ui_calls s' = ui_calls s @ [c] \<and> P (length (ui_calls s)) c) \<or>
        pays P (bindT (case answer of Inl err \<Rightarrow> fetch_loop_await net a ?c urls (Some err)
          | Inr response \<Rightarrow> thenT (atomic (modS (\<lambda>s. if u \<noteq> a then s\<lparr>ui_activeApiBaseUrl := u\<rparr> else s))) (retT response)) ?G)"
      proof (cases answer)
        case (Inl e)
        then show ?thesis using Cons by simp
      next
        case (Inr r)
        then show ?thesis using call refused [of r] paid [of "length (ui_calls s)" r] by (cases "hr_ok r") auto
      qed
    qed
  qed
  then show ?thesis by (simp add: refreshSession_await_def fetchHub_await_def refresh_call_def)
qed

lemma pays_request:
  assumes "cl_tokens cl = Some tokens" and "expired net tokens" and "P = renewal net (tk_refreshToken tokens)"
  shows "pays P (request_await net cl call)"
proof -
  have "returns (\<lambda>r. hr_status r = 401) (run_as_await net cl call (tk_accessToken tokens))"
    unfolding run_as_await_def by (rule returns_fetch, rule assms(2) [unfolded expired_def, rule_format]) simp_all
  then show ?thesis unfolding request_await_def assms(1) option.case
    by (rule pays_after) (simp, intro pays_bindT pays_refresh assms(3))
qed

section \<open>Being busy\<close>

text \<open>A thread that owes the app its rest: whatever the others do meanwhile, a step of it will leave the app
  not busy. A clean thread owes that from the step on with which it makes the app busy.\<close>

inductive owes :: "(app, string, 'a) thread \<Rightarrow> bool" where
  owes_Atomic: "(\<And>s. \<not> ui_busy (snd (f s)) \<or> owes (fst (f s))) \<Longrightarrow> owes (Atomic f)"

inductive clean :: "(app, string, 'a) thread \<Rightarrow> bool" where
  clean_Done: "clean (Done r)"
| clean_Atomic: "(\<And>s. \<not> ui_busy s \<Longrightarrow> ui_busy (snd (f s)) \<Longrightarrow> owes (fst (f s))) \<Longrightarrow> (\<And>s. clean (fst (f s))) \<Longrightarrow> clean (Atomic f)"

inductive_cases owes_DoneE: "owes (Done r)"
inductive_cases owes_AtomicE: "owes (Atomic f)"
inductive_cases clean_AtomicE: "clean (Atomic f)"

lemma pool_settles:
  assumes "pool_steps (ts, s) (ts', s')" and "\<forall>t \<in> set ts. clean t" and "\<not> ui_busy s"
  shows "(\<forall>t \<in> set ts'. clean t) \<and> (ui_busy s' \<longrightarrow> (\<exists>t \<in> set ts'. owes t))"
  using assms(1)
proof (induction rule: rtranclp_induct2)
  case refl
  show ?case using assms(2,3) by simp
next
  case (step us u vs v)
  from step(2) obtain i t where i: "i < length us" "thread_step (us ! i, u) (t, v)" "vs = us[i := t]" by (auto elim: pool_stepE)
  then obtain f where f: "us ! i = Atomic f" "f u = (t, v)" by (auto simp: thread_step_iff)
  have "clean (Atomic f)" using step(3) i(1) f(1) by (metis nth_mem)
  then have starts: "owes t" if "\<not> ui_busy u" "ui_busy v" using f(2) that by (metis clean_AtomicE fst_conv snd_conv)
  have "clean t" using \<open>clean (Atomic f)\<close> f(2) by (metis clean_AtomicE fst_conv)
  moreover have "\<exists>w \<in> set vs. owes w" if busy: "ui_busy v"
  proof (cases "ui_busy u")
    case True
    then obtain j where j: "j < length us" "owes (us ! j)" using step(3) by (metis in_set_conv_nth)
    show ?thesis
    proof (cases "j = i")
      case True
      then have "owes (Atomic f)" using j(2) f(1) by simp
      then have "owes t" using f(2) busy by (metis owes_AtomicE fst_conv snd_conv)
      then show ?thesis using i(1,3) by (metis set_update_memI)
    next
      case False
      then have "vs ! j = us ! j" "j < length vs" using j(1) i(3) by simp_all
      then show ?thesis using j(2) by (metis nth_mem)
    qed
  next
    case False
    then show ?thesis using starts busy i(1,3) by (metis set_update_memI)
  qed
  ultimately show ?case using step(3) i(3) set_update_subset_insert [of us i t] by auto
qed

text \<open>A pool can always run to its end.\<close>

definition ended :: "('s, 'e, 'a) thread \<Rightarrow> bool" where
  "ended t \<longleftrightarrow> (case t of Done _ \<Rightarrow> True | Atomic _ \<Rightarrow> False)"

lemma pool_can_end: "\<exists>ts' s'. pool_steps (ts, s) (ts', s') \<and> length ts' = length ts \<and> (\<forall>t \<in> set ts'. ended t)"
proof -
  have "\<exists>ts' s'. pool_steps (ts, s) (ts', s') \<and> length ts' = length ts \<and> (\<forall>t \<in> set (take n ts'). ended t)" if "n \<le> length ts" for n
    using that
  proof (induction n)
    case 0
    show ?case by auto
  next
    case (Suc n)
    then obtain us u where us: "pool_steps (ts, s) (us, u)" "length us = length ts" "\<forall>t \<in> set (take n us). ended t" by auto
    obtain r v where "run (us ! n) u = (r, v)" by (cases "run (us ! n) u")
    then have "pool_steps (us, u) (us[n := Done r], v)" using Suc.prems us(2) by (intro pool_member steps_run) auto
    moreover have "take (Suc n) (us[n := Done r]) = take n us @ [Done r]" using Suc.prems us(2) by (simp add: take_Suc_conv_app_nth)
    ultimately show ?case using us by (intro exI [of _ "us[n := Done r]"] exI [of _ v]) (auto simp: ended_def)
  qed
  from this [of "length ts"] show ?thesis by (auto simp: take_all)
qed

named_theorems clean_rules \<comment> \<open>threads that clear what they make busy\<close>

lemma owes_bindT: "owes t \<Longrightarrow> owes (bindT t g)"
proof (induction rule: owes.induct)
  case (owes_Atomic f)
  show ?case unfolding bindT.simps by (rule owes.owes_Atomic) (use owes_Atomic in auto)
qed

lemma owes_catchT: "owes t \<Longrightarrow> owes (catchT t g)"
proof (induction rule: owes.induct)
  case (owes_Atomic f)
  show ?case unfolding catchT.simps by (rule owes.owes_Atomic) (use owes_Atomic in auto)
qed

lemma clean_basic [clean_rules]: "clean (retT a)" "clean (throwT e)"
  by (simp_all add: retT_def throwT_def clean_Done)

lemma clean_atomic [clean_rules]: "(\<And>s. ui_busy (snd (m s)) \<Longrightarrow> ui_busy s) \<Longrightarrow> clean (atomic m)"
  unfolding atomic_def by (rule clean_Atomic) (auto simp: clean_Done split_def)

lemma clean_bindT [clean_rules]:
  assumes "clean t" and "\<And>a. clean (g a)"
  shows "clean (bindT t g)"
  using assms(1)
proof (induction rule: clean.induct)
  case (clean_Done r)
  then show ?case using assms(2) by (cases r) (simp_all add: clean.clean_Done)
qed (auto intro!: clean.clean_Atomic owes_bindT)

lemma clean_catchT [clean_rules]:
  assumes "clean t" and "\<And>e. clean (g e)"
  shows "clean (catchT t g)"
  using assms(1)
proof (induction rule: clean.induct)
  case (clean_Done r)
  then show ?case using assms(2) by (cases r) (simp_all add: clean.clean_Done)
qed (auto intro!: clean.clean_Atomic owes_catchT)

lemma clean_thenT [clean_rules]: "clean t \<Longrightarrow> clean u \<Longrightarrow> clean (thenT t u)"
  unfolding thenT_def by (rule clean_bindT)

lemma clean_cases [clean_rules]:
  "clean t \<Longrightarrow> clean u \<Longrightarrow> clean (if b then t else u)"
  "clean t \<Longrightarrow> (\<And>a. clean (w a)) \<Longrightarrow> clean (case v of None \<Rightarrow> t | Some a \<Rightarrow> w a)"
  "(\<And>a b. clean (x a b)) \<Longrightarrow> clean (case p of (a, b) \<Rightarrow> x a b)"
  "clean t \<Longrightarrow> (\<And>a r. clean (y a r)) \<Longrightarrow> clean (case l of [] \<Rightarrow> t | a # r \<Rightarrow> y a r)"
  "(\<And>a. clean (c a)) \<Longrightarrow> (\<And>b. clean (d b)) \<Longrightarrow> clean (case z of Inl a \<Rightarrow> c a | Inr b \<Rightarrow> d b)"
  by (cases v; cases p; cases l; cases z; simp)+

text \<open>Guarded work clears the flag on every way out of the work.\<close>

lemma bindT_modS: "bindT (atomic (modS f)) g = Atomic (\<lambda>s. (g (), f s))"
  by (simp add: atomic_def modS_apply)

lemma owes_end_work: "owes (thenT (catchT t (\<lambda>e. atomic (modS (\<lambda>s. s\<lparr>ui_error := Some e\<rparr>)))) (atomic end_work))"
proof (induction t rule: thread_induct)
  case (Done r)
  have last: "owes (atomic end_work)" unfolding atomic_def by (rule owes_Atomic) (simp add: end_work_def modS_apply)
  show ?case
  proof (cases r)
    case (Inl e)
    then show ?thesis using last by (auto simp: thenT_def bindT_modS intro!: owes_Atomic)
  qed (use last in \<open>simp add: thenT_def\<close>)
qed (auto simp: thenT_def intro!: owes_Atomic)

lemma guarded_first: "guarded_work_await t = Atomic (\<lambda>s.
    (thenT (catchT t (\<lambda>e. atomic (modS (\<lambda>s. s\<lparr>ui_error := Some e\<rparr>)))) (atomic end_work), s\<lparr>ui_busy := True, ui_error := None\<rparr>))"
  unfolding guarded_work_await_def begin_work_def by (subst thenT_def) (rule bindT_modS)

lemma clean_guarded [clean_rules]:
  assumes "clean t"
  shows "clean (guarded_work_await t)"
proof -
  have "clean (thenT (catchT t (\<lambda>e. atomic (modS (\<lambda>s. s\<lparr>ui_error := Some e\<rparr>)))) (atomic end_work))"
    by (intro clean_rules assms) (simp_all add: modS_apply end_work_def)
  then show ?thesis using owes_end_work [of t] by (auto simp: guarded_first intro!: clean_Atomic)
qed

lemma parseJson_busy: "ui_busy (snd (parseJson r s)) = ui_busy s"
  by (auto simp: parseJson_def prog_simps split: option.split)

lemma clean_app [clean_rules]: "clean (saveTokens_await t)" "clean (fetchHub_await net cl call)" "clean (atomic (parseJson r))"
proof -
  show "clean (saveTokens_await t)" unfolding saveTokens_await_def by (intro clean_rules) (simp_all add: modS_apply)
  have "clean (fetch_loop_await net a call urls e)" for a urls e
    by (induction urls arbitrary: e) (auto intro!: clean_rules simp: prog_simps split: if_splits)
  then show "clean (fetchHub_await net cl call)" by (simp add: fetchHub_await_def)
  show "clean (atomic (parseJson r))" by (rule clean_atomic) (simp add: parseJson_busy)
qed

lemma clean_request [clean_rules]: "clean (refreshSession_await net cl t)" "clean (run_as_await net cl call a)" "clean (request_await net cl call)"
proof -
  show *: "clean (refreshSession_await net cl t)" "clean (run_as_await net cl call a)" for cl t call a
    unfolding refreshSession_await_def run_as_await_def by (intro clean_rules)+
  show "clean (request_await net cl call)" unfolding request_await_def by (intro clean_rules *)
qed

lemma clean_load [clean_rules]: "clean (loadAll_await net cl)"
proof -
  have "clean (run_all_await ts)" if "\<And>t. t \<in> set ts \<Longrightarrow> clean t" for ts
    using that by (induction ts) (auto simp: attempt_await_def intro!: clean_rules)
  then have all: "clean (promise_all_await ts)" if "\<And>t. t \<in> set ts \<Longrightarrow> clean t" for ts
    unfolding promise_all_await_def using that by (intro clean_rules) auto
  show ?thesis unfolding loadAll_await_def by (intro clean_rules all) (auto simp: modS_apply intro: clean_rules)
qed

lemma clean_app_thread_of: "clean (app_thread_of net ev)"
proof (cases ev)
  case (SocketEvent e)
  then show ?thesis by (cases e) (auto intro!: clean_rules simp: modS_apply)
qed (auto simp: restoreSession_await_def sessionEffect_await_def login_await_def logout_await_def createTask_await_def
    decideApproval_await_def decideServerRegistration_await_def registerPushToken_await_def onTaskUpdated_def onApprovalPending_def
    onApprovalResolved_def prog_simps intro!: clean_rules)

section \<open>Properties\<close>

text \<open>C35. The app settles, whatever the hub answers or fails to answer and in whatever order the steps of any
  handlers, effects, messages and inputs are taken after it has started: as long as it is busy, some
  handler has not ended; at every moment the handlers can run to their end; and when they have ended
  the app is not busy, so no failure leaves its buttons disabled, and it is at one of the hub's
  addresses. A handler is a thread cut at its awaits, in which the requests of a load follow each
  other.\<close>

theorem app_settles:
  assumes "pool_steps (map (app_thread_of net) evs, initial_app stored) (ts, s)"
  shows "(\<exists>ts' s'. pool_steps (ts, s) (ts', s') \<and> (\<forall>t \<in> set ts'. ended t)) \<and>
    ((\<forall>t \<in> set ts. ended t) \<longrightarrow> \<not> ui_busy s) \<and> ui_activeApiBaseUrl s \<in> set API_BASE_URLS"
proof -
  have "\<forall>t \<in> set (map (app_thread_of net) evs). clean t" by (simp add: clean_app_thread_of)
  from pool_settles [OF assms this] have "ui_busy s \<longrightarrow> (\<exists>t \<in> set ts. owes t)" by (simp add: initial_app_def)
  moreover have "\<not> owes t" if "ended t" for t :: "unit app_thread" using that by (auto simp: ended_def elim: owes_DoneE split: thread.splits)
  moreover have "at_hub s"
    using appPool.any_interleaving_keeps [OF assms] by (simp add: at_hub_def initial_app_def PRIMARY_API_BASE_URL_def API_BASE_URLS_def)
  ultimately show ?thesis using pool_can_end [of ts s] by (auto simp: at_hub_def)
qed

text \<open>A hub that cannot be reached: the tab is changed while a login waits, and the login then fails.\<close>

theorem app_settles_witness:
  "\<exists>t s s'. pool_steps (map (app_thread_of (\<lambda>_ _ _. Inl ''down'')) [Login, SetTab TasksTab], initial_app None) ([t, Done (Inr ())], s) \<and>
    ui_busy s \<and> pool_steps ([t, Done (Inr ())], s) ([Done (Inr ()), Done (Inr ())], s') \<and>
    ui_error s' = Some ''down'' \<and> \<not> ui_busy s'"
proof -
  let ?net = "\<lambda>_ _ _. Inl ''down''" and ?s = "initial_app None"
  let ?work = "\<lambda>cl email password. bindT (fetchHub_await ?net cl (post ''/auth/login''
      (JObj [(''email'', JStr (trim email)), (''password'', JStr password)]))) (\<lambda>response.
        if \<not> hr_ok response then throwT (''login failed ('' @ show_int (hr_status response) @ '')'')
        else bindT (atomic (parseJson response)) (\<lambda>j.
          thenT (saveTokens_await (as_tokens j)) (atomic (modS (\<lambda>s. s\<lparr>ui_password := []\<rparr>)))))"
  let ?rest = "thenT (catchT (?work (closure_of ?s) (ui_email ?s) (ui_password ?s)) (\<lambda>e. atomic (modS (\<lambda>s. s\<lparr>ui_error := Some e\<rparr>))))
    (atomic end_work)"
  let ?busy = "?s\<lparr>ui_busy := True, ui_error := None\<rparr>"
  have "thread_steps (login_await ?net, ?s) (guarded_work_await (?work (closure_of ?s) (ui_email ?s) (ui_password ?s)), ?s)"
    unfolding login_await_def by (rule steps_read, rule getS_apply, simp)
  also have "thread_step (guarded_work_await (?work (closure_of ?s) (ui_email ?s) (ui_password ?s)), ?s) (?rest, ?busy)"
    by (simp add: thread_step_iff guarded_first)
  finally have first: "thread_steps (login_await ?net, ?s) (?rest, ?busy)" .
  let ?tab = "?busy\<lparr>ui_tab := TasksTab\<rparr>"
  have one: "pool_steps ([login_await ?net, atomic (modS (app_step ?net (SetTab TasksTab)))], ?s) ([?rest, atomic (modS (app_step ?net (SetTab TasksTab)))], ?busy)"
    by (rule pool_first [OF first])
  have two: "pool_steps ([?rest, atomic (modS (app_step ?net (SetTab TasksTab)))], ?busy) ([?rest, Done (Inr ())], ?tab)"
    by (intro pool_second steps_run) (simp add: run_simps modS_apply)
  have mid: "pool_steps (map (app_thread_of ?net) [Login, SetTab TasksTab], ?s) ([?rest, Done (Inr ())], ?tab)"
    using rtranclp_trans [OF one two] by simp
  obtain s' where end': "run ?rest ?tab = (Inr (), s')" "ui_error s' = Some ''down''"
    by (simp add: run_simps run_app fetchHub_def orderedUrls_def API_BASE_URLS_def PRIMARY_API_BASE_URL_def closure_of_def initial_app_def
        prog_simps end_work_def)
  have last: "pool_steps ([?rest, Done (Inr ())], ?tab) ([Done (Inr ()), Done (Inr ())], s')"
    by (rule pool_first [OF steps_run [OF end'(1)]])
  have "pool_steps (map (app_thread_of ?net) [Login, SetTab TasksTab], ?s) ([Done (Inr ()), Done (Inr ())], s')" using mid last by (rule rtranclp_trans)
  then have "\<not> ui_busy s'" using app_settles [of ?net "[Login, SetTab TasksTab]" None "[Done (Inr ()), Done (Inr ())]" s'] by (simp add: ended_def)
  moreover have "ui_busy ?tab" by simp
  ultimately show ?thesis using mid last end'(2) by blast
qed

text \<open>The requests of a load.\<close>

definition load_requests :: "net \<Rightarrow> closure \<Rightarrow> json app_thread list" where
  "load_requests net cl = map (\<lambda>path. request_await net cl (get path))
     [''/servers'', ''/server-registration-requests'', ''/tasks'', ''/approvals?status=PENDING'']"

text \<open>\<open>Promise.all\<close> is fulfilled, with the values, once every member has returned.\<close>

fun returned :: "('s, 'e, 'a) thread \<Rightarrow> 'a option" where
  "returned (Done (Inr a)) = Some a"
| "returned t = None"

definition promise_fulfilled :: "('s, 'e, 'a) thread list \<Rightarrow> 'a list option" where
  "promise_fulfilled ts = those (map returned ts)"

lemma those_members: "those xs = Some ys \<Longrightarrow> x \<in> set xs \<Longrightarrow> x \<noteq> None"
  by (induction xs arbitrary: ys) (auto split: option.splits)

text \<open>C39. When the access token has expired, each of the four requests of a load refreshes the session with
  the same refresh token, whatever the order in which they and any other handlers of the app take
  their steps: no more of them succeed than refreshes with that token were accepted by the hub in the
  meantime, and the promise of all four is fulfilled only if the hub accepted the one token four times.
  A hub that handles the refreshes one after the other accepts it once.\<close>

theorem parallel_load_refreshes:
  assumes "cl_tokens cl = Some tokens" and "expired net tokens"
    and "pool_steps (load_requests net cl @ map (\<lambda>ev. thenT (app_thread_of net ev) (retT JNull)) evs, s) (ts, s')"
  defines "accepted \<equiv> length (calls_of (renewal net (tk_refreshToken tokens)) (length (ui_calls s)) s')"
  shows "length (filter (\<lambda>t. returned t \<noteq> None) (take 4 ts)) \<le> accepted \<and>
    (promise_fulfilled (take 4 ts) \<noteq> None \<longrightarrow> 4 \<le> accepted)"
proof -
  let ?P = "renewal net (tk_refreshToken tokens)"
  let ?ts = "load_requests net cl @ map (\<lambda>ev. thenT (app_thread_of net ev) (retT JNull)) evs"
  have "\<forall>t \<in> set ?ts. grows t" by (auto simp: load_requests_def intro!: grows_rules grows_app_thread_of)
  moreover have "paid ?P 4 ?ts = {}"
    using pays_request [OF assms(1,2) refl]
    by (auto simp: paid_def load_requests_def nth_append nth_Cons numeral_eq_Suc split: nat.split)
  ultimately have len: "length ts = length ?ts" and bound: "card (paid ?P 4 ts) \<le> accepted"
    using pool_pays [OF assms(3), of ?P 4] by (auto simp: accepted_def)
  have "\<not> pays ?P t" if "returned t \<noteq> None" for t :: "json app_thread"
    using that by (cases t rule: returned.cases) (simp_all add: pays_not_done)
  then have "{i. i < length (take 4 ts) \<and> returned (take 4 ts ! i) \<noteq> None} \<subseteq> paid ?P 4 ts" by (auto simp: paid_def)
  then have "card {i. i < length (take 4 ts) \<and> returned (take 4 ts ! i) \<noteq> None} \<le> card (paid ?P 4 ts)" by (simp add: card_mono)
  then have some: "length (filter (\<lambda>t. returned t \<noteq> None) (take 4 ts)) \<le> accepted"
    using bound by (simp only: length_filter_conv_card)
  have "4 \<le> length ts" using len by (simp add: load_requests_def)
  moreover have "filter (\<lambda>t. returned t \<noteq> None) (take 4 ts) = take 4 ts" if "promise_fulfilled (take 4 ts) \<noteq> None"
    using that those_members by (fastforce simp: promise_fulfilled_def filter_id_conv)
  ultimately show ?thesis using some by auto
qed

text \<open>The first request of a load succeeds with the one refresh that the hub accepts, and with it the promise
  is not fulfilled.\<close>

theorem parallel_load_refreshes_witness:
  "\<exists>s'. pool_steps (load_requests demo_net demo_closure, initial_app None)
      ((load_requests demo_net demo_closure)[0 := Done (Inr (JArr []))], s') \<and>
    1 \<le> length (calls_of (renewal demo_net (tk_refreshToken demo_session)) 0 s')"
proof -
  let ?ts = "load_requests demo_net demo_closure"
  obtain s' where "request demo_net demo_closure (get ''/servers'') (initial_app None) = (Inr (JArr []), s')"
    by (auto simp: request_def demo_closure_def demo_session_def run_as_def fetchHub_def orderedUrls_def API_BASE_URLS_def PRIMARY_API_BASE_URL_def
        demo_net_def get_def initial_app_def refreshSession_def parseJson_def saveTokens_def post_def as_tokens_def field_text_def prog_simps)
  then have "thread_steps (?ts ! 0, initial_app None) (Done (Inr (JArr [])), s')"
    by (simp add: load_requests_def run_request steps_run)
  then have run: "pool_steps (?ts, initial_app None) (?ts[0 := Done (Inr (JArr []))], s')"
    by (rule pool_member) (simp add: load_requests_def)
  have "cl_tokens demo_closure = Some demo_session" by (simp add: demo_closure_def)
  from parallel_load_refreshes [OF this demo_expired, of "[]" "initial_app None"] run
  have "length (filter (\<lambda>t. returned t \<noteq> None) (take 4 (?ts[0 := Done (Inr (JArr []))]))) \<le>
    length (calls_of (renewal demo_net (tk_refreshToken demo_session)) (length (ui_calls (initial_app None))) s')" by simp
  then have "1 \<le> length (calls_of (renewal demo_net (tk_refreshToken demo_session)) 0 s')"
    by (simp add: load_requests_def initial_app_def)
  with run show ?thesis by blast
qed

end
