(* ===== verification/Mobile_Styles.thy ===== *)
theory Mobile_Styles
  imports Mobile_Screens
begin

text \<open>
  The style sheet of \<^verbatim>\<open>mobile-app/App.tsx\<close> and what the screens look like with it: every style a screen
  names is defined, and every text stands out from the ground it is written on, in every state of the
  app.
\<close>

section \<open>The style sheet\<close>

datatype style_value = Num int | Hundredths int | Word string | Offset int int

type_synonym sheet = "(string \<times> (string \<times> style_value) list) list"

definition palette :: "(string \<times> string) list" where
  "palette =
    [(''bg'', ''#f3f6fa''), (''surface'', ''#ffffff''), (''surfaceAlt'', ''#eef3f8''), (''border'', ''#d9e1ea''),
     (''text'', ''#111827''), (''textSoft'', ''#4b5563''), (''muted'', ''#6b7280''), (''mutedLight'', ''#9ca3af''),
     (''primary'', ''#1d4ed8''), (''primarySoft'', ''#dbeafe''), (''success'', ''#15803d''), (''successSoft'', ''#dcfce7''),
     (''warning'', ''#b45309''), (''warningSoft'', ''#fef3c7''), (''danger'', ''#b91c1c''), (''dangerSoft'', ''#fee2e2''),
     (''offline'', ''#64748b''), (''offlineSoft'', ''#e2e8f0''), (''dark'', ''#111827'')]"

definition colors :: "string \<Rightarrow> style_value" where
  "colors name = Word (case map_of palette name of None \<Rightarrow> [] | Some c \<Rightarrow> c)"

definition frame_styles :: "sheet" where
  "frame_styles =
    [(''root'', [(''backgroundColor'', colors ''bg''), (''flex'', Num 1)]),
     (''flex'', [(''flex'', Num 1)]),
     (''center'', [(''alignItems'', Word ''center''), (''backgroundColor'', colors ''bg''), (''flex'', Num 1),
       (''justifyContent'', Word ''center'')]),
     (''loginPane'', [(''flex'', Num 1), (''justifyContent'', Word ''center''), (''padding'', Num 24)]),
     (''loginTitle'', [(''color'', colors ''text''), (''fontFamily'', Word ''sans-serif''), (''fontSize'', Num 30),
       (''fontWeight'', Word ''800''), (''letterSpacing'', Num 0)]),
     (''loginSubtitle'', [(''color'', colors ''muted''), (''fontFamily'', Word ''sans-serif''), (''fontSize'', Num 13),
       (''marginBottom'', Num 18), (''marginTop'', Num 6)]),
     (''header'', [(''alignItems'', Word ''center''), (''flexDirection'', Word ''row''), (''justifyContent'', Word ''space-between''),
       (''paddingHorizontal'', Num 16), (''paddingTop'', Num 10), (''paddingBottom'', Num 8)]),
     (''headerTitleGroup'', [(''flex'', Num 1), (''minWidth'', Num 0)]),
     (''headerActions'', [(''alignItems'', Word ''center''), (''flexDirection'', Word ''row''), (''gap'', Num 8)]),
     (''title'', [(''color'', colors ''text''), (''fontFamily'', Word ''sans-serif''), (''fontSize'', Num 22),
       (''fontWeight'', Word ''800''), (''letterSpacing'', Num 0)]),
     (''connectionRow'', [(''alignItems'', Word ''center''), (''flexDirection'', Word ''row''), (''gap'', Num 6), (''marginTop'', Num 4)]),
     (''statusDot'', [(''borderRadius'', Num 999), (''height'', Num 8), (''width'', Num 8)]),
     (''statusDotSuccess'', [(''backgroundColor'', colors ''success'')]),
     (''statusDotWarning'', [(''backgroundColor'', colors ''warning'')]),
     (''statusDotDanger'', [(''backgroundColor'', colors ''danger'')]),
     (''connectionText'', [(''color'', colors ''textSoft''), (''fontFamily'', Word ''sans-serif''), (''fontSize'', Num 12),
       (''fontWeight'', Word ''700'')]),
     (''iconButton'', [(''alignItems'', Word ''center''), (''backgroundColor'', colors ''surface''), (''borderColor'', colors ''border''),
       (''borderRadius'', Num 999), (''borderWidth'', Num 1), (''height'', Num 40), (''justifyContent'', Word ''center''),
       (''width'', Num 40)]),
     (''iconButtonText'', [(''color'', colors ''primary''), (''fontFamily'', Word ''sans-serif''), (''fontSize'', Num 13),
       (''fontWeight'', Word ''900'')]),
     (''logoutButton'', [(''alignItems'', Word ''center''), (''backgroundColor'', colors ''surface''),
       (''borderColor'', colors ''border''), (''borderRadius'', Num 999), (''borderWidth'', Num 1), (''minHeight'', Num 40),
       (''justifyContent'', Word ''center''), (''paddingHorizontal'', Num 14)]),
     (''logoutButtonText'', [(''color'', colors ''textSoft''), (''fontFamily'', Word ''sans-serif''), (''fontSize'', Num 13),
       (''fontWeight'', Word ''800'')])]"

definition control_styles :: "sheet" where
  "control_styles =
    [(''pushCard'', [(''alignItems'', Word ''center''), (''backgroundColor'', colors ''surface''), (''borderColor'', colors ''border''),
       (''borderRadius'', Num 8), (''borderWidth'', Num 1), (''flexDirection'', Word ''row''), (''gap'', Num 12),
       (''marginHorizontal'', Num 16), (''marginTop'', Num 6), (''paddingHorizontal'', Num 12), (''paddingVertical'', Num 10)]),
     (''pushTextGroup'', [(''flex'', Num 1), (''minWidth'', Num 0)]),
     (''pushTitle'', [(''color'', colors ''text''), (''fontFamily'', Word ''sans-serif''), (''fontSize'', Num 13),
       (''fontWeight'', Word ''800'')]),
     (''pushDetail'', [(''color'', colors ''muted''), (''fontFamily'', Word ''sans-serif''), (''fontSize'', Num 12),
       (''marginTop'', Num 2)]),
     (''smallButton'', [(''alignItems'', Word ''center''), (''backgroundColor'', colors ''primarySoft''), (''borderRadius'', Num 999),
       (''minHeight'', Num 36), (''justifyContent'', Word ''center''), (''paddingHorizontal'', Num 12)]),
     (''smallButtonText'', [(''color'', colors ''primary''), (''fontFamily'', Word ''sans-serif''), (''fontSize'', Num 12),
       (''fontWeight'', Word ''900'')]),
     (''content'', [(''flex'', Num 1)]),
     (''input'', [(''backgroundColor'', colors ''surface''), (''borderColor'', colors ''border''), (''borderRadius'', Num 8),
       (''borderWidth'', Num 1), (''color'', colors ''text''), (''fontFamily'', Word ''sans-serif''), (''fontSize'', Num 15),
       (''marginTop'', Num 10), (''minHeight'', Num 48), (''paddingHorizontal'', Num 14), (''paddingVertical'', Num 11)]),
     (''primaryButton'', [(''alignItems'', Word ''center''), (''backgroundColor'', colors ''primary''), (''borderRadius'', Num 8),
       (''minHeight'', Num 48), (''justifyContent'', Word ''center''), (''marginTop'', Num 14), (''paddingHorizontal'', Num 16)]),
     (''primaryButtonText'', [(''color'', colors ''surface''), (''fontFamily'', Word ''sans-serif''), (''fontSize'', Num 15),
       (''fontWeight'', Word ''800'')]),
     (''dangerButton'', [(''alignItems'', Word ''center''), (''backgroundColor'', colors ''danger''), (''borderRadius'', Num 8),
       (''minHeight'', Num 48), (''justifyContent'', Word ''center''), (''marginTop'', Num 14), (''paddingHorizontal'', Num 16)]),
     (''dangerButtonDisabled'', [(''backgroundColor'', Word ''#fca5a5'')]),
     (''dangerButtonText'', [(''color'', colors ''surface''), (''fontFamily'', Word ''sans-serif''), (''fontSize'', Num 15),
       (''fontWeight'', Word ''800'')]),
     (''disabled'', [(''backgroundColor'', Word ''#93c5fd''), (''opacity'', Num 1)]),
     (''inlineSpinner'', [(''marginTop'', Num 8)]),
     (''errorBanner'', [(''backgroundColor'', colors ''dangerSoft''), (''borderColor'', Word ''#fecaca''), (''borderRadius'', Num 8),
       (''borderWidth'', Num 1), (''marginHorizontal'', Num 16), (''marginTop'', Num 10), (''padding'', Num 12)]),
     (''errorTextGroup'', [(''gap'', Num 2)]),
     (''errorTitle'', [(''color'', colors ''danger''), (''fontFamily'', Word ''sans-serif''), (''fontSize'', Num 13),
       (''fontWeight'', Word ''900'')]),
     (''errorDetail'', [(''color'', colors ''danger''), (''fontFamily'', Word ''sans-serif''), (''fontSize'', Num 12),
       (''lineHeight'', Num 17)])]"

definition list_styles :: "sheet" where
  "list_styles =
    [(''list'', [(''gap'', Num 12), (''padding'', Num 16), (''paddingBottom'', Num 148)]),
     (''form'', [(''gap'', Num 12), (''padding'', Num 16), (''paddingBottom'', Num 260)]),
     (''screenHeading'', [(''marginBottom'', Num 2)]),
     (''screenTitle'', [(''color'', colors ''text''), (''fontFamily'', Word ''sans-serif''), (''fontSize'', Num 20),
       (''fontWeight'', Word ''900'')]),
     (''screenSubtitle'', [(''color'', colors ''muted''), (''fontFamily'', Word ''sans-serif''), (''fontSize'', Num 13),
       (''lineHeight'', Num 18), (''marginTop'', Num 4)]),
     (''sectionLabel'', [(''color'', colors ''text''), (''fontFamily'', Word ''sans-serif''), (''fontSize'', Num 13),
       (''fontWeight'', Word ''900''), (''marginTop'', Num 6)]),
     (''registrationPanel'', [(''backgroundColor'', colors ''surface''), (''borderColor'', colors ''border''), (''borderRadius'', Num 8),
       (''borderWidth'', Num 1), (''gap'', Num 12), (''marginBottom'', Num 2), (''padding'', Num 14)]),
     (''registrationCard'', [(''backgroundColor'', Word ''#f8fbff''), (''borderColor'', colors ''primarySoft''), (''borderRadius'', Num 8),
       (''borderWidth'', Num 1), (''padding'', Num 12)]),
     (''badge'', [(''alignItems'', Word ''center''), (''backgroundColor'', colors ''danger''), (''borderRadius'', Num 999),
       (''minWidth'', Num 24), (''paddingHorizontal'', Num 8), (''paddingVertical'', Num 4)]),
     (''badgeText'', [(''color'', colors ''surface''), (''fontFamily'', Word ''sans-serif''), (''fontSize'', Num 12),
       (''fontWeight'', Word ''900'')]),
     (''verificationBadge'', [(''alignItems'', Word ''center''), (''backgroundColor'', colors ''primary''), (''borderRadius'', Num 8),
       (''minWidth'', Num 74), (''paddingHorizontal'', Num 10), (''paddingVertical'', Num 8)]),
     (''verificationText'', [(''color'', colors ''surface''), (''fontFamily'', Word ''sans-serif''), (''fontSize'', Num 16),
       (''fontWeight'', Word ''900'')])]"

definition card_styles :: "sheet" where
  "card_styles =
    [(''card'', [(''backgroundColor'', colors ''surface''), (''borderColor'', colors ''border''), (''borderRadius'', Num 8),
       (''borderWidth'', Num 1), (''padding'', Num 14), (''shadowColor'', colors ''dark''), (''shadowOffset'', Offset 0 1),
       (''shadowOpacity'', Hundredths 4), (''shadowRadius'', Num 4), (''elevation'', Num 1)]),
     (''selectedCard'', [(''backgroundColor'', Word ''#f8fbff''), (''borderColor'', colors ''primary''), (''borderWidth'', Num 2)]),
     (''row'', [(''alignItems'', Word ''flex-start''), (''flexDirection'', Word ''row''), (''gap'', Num 10),
       (''justifyContent'', Word ''space-between'')]),
     (''cardTitleGroup'', [(''flex'', Num 1), (''minWidth'', Num 0)]),
     (''cardTitle'', [(''color'', colors ''text''), (''flex'', Num 1), (''fontFamily'', Word ''sans-serif''), (''fontSize'', Num 17),
       (''fontWeight'', Word ''900''), (''letterSpacing'', Num 0)]),
     (''meta'', [(''color'', colors ''textSoft''), (''fontFamily'', Word ''sans-serif''), (''fontSize'', Num 13), (''lineHeight'', Num 18),
       (''marginTop'', Num 4)]),
     (''footerMeta'', [(''color'', colors ''muted''), (''fontFamily'', Word ''sans-serif''), (''fontSize'', Num 12),
       (''lineHeight'', Num 17), (''marginTop'', Num 8)]),
     (''metaGrid'', [(''borderTopColor'', colors ''border''), (''borderTopWidth'', Num 1), (''marginTop'', Num 12),
       (''paddingTop'', Num 2)]),
     (''openHint'', [(''color'', colors ''primary''), (''fontFamily'', Word ''sans-serif''), (''fontSize'', Num 12),
       (''fontWeight'', Word ''900''), (''marginTop'', Num 10)]),
     (''infoBlock'', [(''backgroundColor'', colors ''surfaceAlt''), (''borderRadius'', Num 8), (''marginTop'', Num 12),
       (''padding'', Num 12)]),
     (''infoLabel'', [(''color'', colors ''muted''), (''fontFamily'', Word ''sans-serif''), (''fontSize'', Num 11),
       (''fontWeight'', Word ''900''), (''marginBottom'', Num 4)]),
     (''infoValue'', [(''color'', colors ''text''), (''fontFamily'', Word ''sans-serif''), (''fontSize'', Num 14),
       (''lineHeight'', Num 20)])]"

definition option_styles :: "sheet" where
  "option_styles =
    [(''optionButton'', [(''alignItems'', Word ''center''), (''backgroundColor'', colors ''surface''),
       (''borderColor'', colors ''border''), (''borderRadius'', Num 8), (''borderWidth'', Num 1), (''flexDirection'', Word ''row''),
       (''gap'', Num 10), (''justifyContent'', Word ''space-between''), (''minHeight'', Num 64), (''padding'', Num 12)]),
     (''optionButtonActive'', [(''backgroundColor'', Word ''#f8fbff''), (''borderColor'', colors ''primary''), (''borderWidth'', Num 2)]),
     (''optionMain'', [(''flex'', Num 1), (''minWidth'', Num 0)]),
     (''optionRight'', [(''alignItems'', Word ''flex-end''), (''gap'', Num 6)]),
     (''selectedMark'', [(''color'', colors ''primary''), (''fontFamily'', Word ''sans-serif''), (''fontSize'', Num 11),
       (''fontWeight'', Word ''900'')]),
     (''optionTitle'', [(''color'', colors ''text''), (''fontFamily'', Word ''sans-serif''), (''fontSize'', Num 15),
       (''fontWeight'', Word ''900'')]),
     (''optionTitleActive'', [(''color'', colors ''text'')]),
     (''optionMeta'', [(''color'', colors ''textSoft''), (''fontFamily'', Word ''sans-serif''), (''fontSize'', Num 12),
       (''marginTop'', Num 4)]),
     (''optionMetaActive'', [(''color'', colors ''textSoft'')]),
     (''segmentRow'', [(''flexDirection'', Word ''row''), (''gap'', Num 8)]),
     (''segmentButton'', [(''alignItems'', Word ''center''), (''backgroundColor'', colors ''surface''),
       (''borderColor'', colors ''border''), (''borderRadius'', Num 8), (''borderWidth'', Num 1), (''flex'', Num 1),
       (''minHeight'', Num 44), (''justifyContent'', Word ''center'')]),
     (''segmentButtonActive'', [(''backgroundColor'', colors ''primary''), (''borderColor'', colors ''primary'')]),
     (''segmentText'', [(''color'', colors ''textSoft''), (''fontFamily'', Word ''sans-serif''), (''fontSize'', Num 13),
       (''fontWeight'', Word ''900'')]),
     (''segmentTextActive'', [(''color'', colors ''surface'')]),
     (''promptHeader'', [(''alignItems'', Word ''center''), (''flexDirection'', Word ''row''),
       (''justifyContent'', Word ''space-between'')]),
     (''counterText'', [(''color'', colors ''muted''), (''fontFamily'', Word ''sans-serif''), (''fontSize'', Num 12),
       (''fontWeight'', Word ''700'')]),
     (''helperText'', [(''color'', colors ''muted''), (''fontFamily'', Word ''sans-serif''), (''fontSize'', Num 12),
       (''marginTop'', Num (- 4))]),
     (''dispatchSummary'', [(''backgroundColor'', colors ''primarySoft''), (''borderRadius'', Num 8), (''padding'', Num 12)]),
     (''dispatchSummaryTitle'', [(''color'', colors ''primary''), (''fontFamily'', Word ''sans-serif''), (''fontSize'', Num 12),
       (''fontWeight'', Word ''900'')]),
     (''dispatchSummaryText'', [(''color'', colors ''text''), (''fontFamily'', Word ''sans-serif''), (''fontSize'', Num 14),
       (''fontWeight'', Word ''700''), (''lineHeight'', Num 20), (''marginTop'', Num 4)]),
     (''promptInput'', [(''height'', Num 156)])]"

definition pill_styles :: "sheet" where
  "pill_styles =
    [(''pill'', [(''borderRadius'', Num 999), (''flexShrink'', Num 0), (''paddingHorizontal'', Num 10), (''paddingVertical'', Num 5)]),
     (''pillSuccess'', [(''backgroundColor'', colors ''successSoft'')]),
     (''pillWarning'', [(''backgroundColor'', colors ''warningSoft'')]),
     (''pillDanger'', [(''backgroundColor'', colors ''dangerSoft'')]),
     (''pillInfo'', [(''backgroundColor'', colors ''primarySoft'')]),
     (''pillNeutral'', [(''backgroundColor'', colors ''offlineSoft'')]),
     (''pillText'', [(''fontFamily'', Word ''sans-serif''), (''fontSize'', Num 11), (''fontWeight'', Word ''900'')]),
     (''pillTextSuccess'', [(''color'', colors ''success'')]),
     (''pillTextWarning'', [(''color'', colors ''warning'')]),
     (''pillTextDanger'', [(''color'', colors ''danger'')]),
     (''pillTextInfo'', [(''color'', colors ''primary'')]),
     (''pillTextNeutral'', [(''color'', colors ''offline'')]),
     (''approvalContext'', [(''marginTop'', Num 2)]),
     (''actionRow'', [(''flexDirection'', Word ''row''), (''gap'', Num 10)]),
     (''emptyCard'', [(''alignItems'', Word ''center''), (''backgroundColor'', colors ''surface''), (''borderColor'', colors ''border''),
       (''borderRadius'', Num 8), (''borderWidth'', Num 1), (''padding'', Num 20)]),
     (''emptyTitle'', [(''color'', colors ''text''), (''fontFamily'', Word ''sans-serif''), (''fontSize'', Num 15),
       (''fontWeight'', Word ''900''), (''textAlign'', Word ''center'')]),
     (''emptyText'', [(''color'', colors ''muted''), (''fontFamily'', Word ''sans-serif''), (''fontSize'', Num 13),
       (''lineHeight'', Num 18), (''marginTop'', Num 6), (''textAlign'', Word ''center'')])]"

definition nav_styles :: "sheet" where
  "nav_styles =
    [(''bottomNav'', [(''alignItems'', Word ''center''), (''backgroundColor'', colors ''surface''),
       (''borderTopColor'', colors ''border''), (''borderTopWidth'', Num 1), (''bottom'', Num 0), (''flexDirection'', Word ''row''),
       (''justifyContent'', Word ''space-around''), (''left'', Num 0), (''paddingBottom'', Num 10), (''paddingHorizontal'', Num 8),
       (''paddingTop'', Num 8), (''position'', Word ''absolute''), (''right'', Num 0)]),
     (''navItem'', [(''alignItems'', Word ''center''), (''borderRadius'', Num 8), (''flex'', Num 1), (''gap'', Num 3),
       (''minHeight'', Num 52), (''justifyContent'', Word ''center'')]),
     (''navItemActive'', [(''backgroundColor'', colors ''primarySoft'')]),
     (''navIconWrap'', [(''minHeight'', Num 22), (''minWidth'', Num 28)]),
     (''navIcon'', [(''color'', colors ''muted''), (''fontFamily'', Word ''sans-serif''), (''fontSize'', Num 15),
       (''fontWeight'', Word ''900''), (''textAlign'', Word ''center'')]),
     (''navIconActive'', [(''color'', colors ''primary'')]),
     (''navLabel'', [(''color'', colors ''muted''), (''fontFamily'', Word ''sans-serif''), (''fontSize'', Num 11),
       (''fontWeight'', Word ''800'')]),
     (''navLabelActive'', [(''color'', colors ''primary'')]),
     (''navBadge'', [(''alignItems'', Word ''center''), (''backgroundColor'', colors ''danger''), (''borderRadius'', Num 999),
       (''minWidth'', Num 17), (''paddingHorizontal'', Num 4), (''position'', Word ''absolute''), (''right'', Num (- 6)),
       (''top'', Num (- 4))]),
     (''navBadgeText'', [(''color'', colors ''surface''), (''fontFamily'', Word ''sans-serif''), (''fontSize'', Num 10),
       (''fontWeight'', Word ''900'')]),
     (''muted'', [(''color'', colors ''muted''), (''fontFamily'', Word ''sans-serif''), (''marginTop'', Num 12)])]"

definition detail_styles :: "string \<Rightarrow> sheet" where
  "detail_styles os =
    [(''detailRoot'', [(''backgroundColor'', colors ''bg''), (''flex'', Num 1)]),
     (''detailHeader'', [(''alignItems'', Word ''center''), (''backgroundColor'', colors ''bg''),
       (''borderBottomColor'', colors ''border''), (''borderBottomWidth'', Num 1), (''flexDirection'', Word ''row''),
       (''gap'', Num 10), (''paddingHorizontal'', Num 16), (''paddingBottom'', Num 12), (''paddingTop'', Num 10)]),
     (''backButton'', [(''alignItems'', Word ''center''), (''backgroundColor'', colors ''surface''), (''borderColor'', colors ''border''),
       (''borderRadius'', Num 999), (''borderWidth'', Num 1), (''minHeight'', Num 40), (''justifyContent'', Word ''center''),
       (''paddingHorizontal'', Num 14)]),
     (''backButtonText'', [(''color'', colors ''primary''), (''fontFamily'', Word ''sans-serif''), (''fontSize'', Num 13),
       (''fontWeight'', Word ''900'')]),
     (''detailHeaderTitleGroup'', [(''flex'', Num 1), (''minWidth'', Num 0)]),
     (''detailHeaderTitle'', [(''color'', colors ''text''), (''fontFamily'', Word ''sans-serif''), (''fontSize'', Num 18),
       (''fontWeight'', Word ''900'')]),
     (''detailHeaderMeta'', [(''color'', colors ''muted''), (''fontFamily'', Word ''sans-serif''), (''fontSize'', Num 12),
       (''marginTop'', Num 2)]),
     (''detailContent'', [(''gap'', Num 12), (''padding'', Num 16), (''paddingBottom'', Num 40)]),
     (''detailHero'', [(''backgroundColor'', colors ''surface''), (''borderColor'', colors ''border''), (''borderRadius'', Num 8),
       (''borderWidth'', Num 1), (''padding'', Num 14)]),
     (''detailTitle'', [(''color'', colors ''text''), (''fontFamily'', Word ''sans-serif''), (''fontSize'', Num 20),
       (''fontWeight'', Word ''900'')]),
     (''detailMeta'', [(''color'', colors ''textSoft''), (''fontFamily'', Word ''sans-serif''), (''fontSize'', Num 13),
       (''lineHeight'', Num 18), (''marginTop'', Num 4)]),
     (''detailIdRow'', [(''borderTopColor'', colors ''border''), (''borderTopWidth'', Num 1), (''flexDirection'', Word ''row''),
       (''flexWrap'', Word ''wrap''), (''gap'', Num 10), (''marginTop'', Num 12), (''paddingTop'', Num 10)]),
     (''detailIdText'', [(''color'', colors ''muted''), (''fontFamily'', Word ''sans-serif''), (''fontSize'', Num 12),
       (''fontWeight'', Word ''700'')]),
     (''detailApprovalCard'', [(''backgroundColor'', colors ''warningSoft''), (''borderColor'', Word ''#fde68a''),
       (''borderRadius'', Num 8), (''borderWidth'', Num 1), (''padding'', Num 14)]),
     (''detailSection'', [(''backgroundColor'', colors ''surface''), (''borderColor'', colors ''border''), (''borderRadius'', Num 8),
       (''borderWidth'', Num 1), (''padding'', Num 14)]),
     (''detailSectionTitle'', [(''color'', colors ''text''), (''fontFamily'', Word ''sans-serif''), (''fontSize'', Num 15),
       (''fontWeight'', Word ''900''), (''marginBottom'', Num 8)]),
     (''detailSectionSubtitle'', [(''color'', colors ''muted''), (''fontFamily'', Word ''sans-serif''), (''fontSize'', Num 12),
       (''lineHeight'', Num 17), (''marginBottom'', Num 10), (''marginTop'', Num (- 4))]),
     (''detailBodyText'', [(''color'', colors ''text''), (''fontFamily'', Word ''sans-serif''), (''fontSize'', Num 15),
       (''lineHeight'', Num 22)]),
     (''textScrollBox'', [(''borderRadius'', Num 8), (''padding'', Num 12)]),
     (''compactTextBox'', [(''backgroundColor'', colors ''surfaceAlt''), (''maxHeight'', Num 180), (''minHeight'', Num 140)]),
     (''resultBox'', [(''backgroundColor'', colors ''surfaceAlt''), (''maxHeight'', Num 360), (''minHeight'', Num 260)]),
     (''logBox'', [(''backgroundColor'', Word ''#0f172a''), (''maxHeight'', Num 180), (''minHeight'', Num 140)]),
     (''logText'', [(''color'', Word ''#e5e7eb''), (''fontFamily'', Word (if os = ''android'' then ''monospace'' else ''Menlo'')),
       (''fontSize'', Num 13), (''lineHeight'', Num 19)])]"

definition styles :: "string \<Rightarrow> sheet" where
  "styles os = frame_styles @ control_styles @ list_styles @ card_styles @ option_styles @ pill_styles @ nav_styles @ detail_styles os"

section \<open>What an element looks like\<close>

text \<open>A list of styles is flattened: a later style wins.\<close>

fun style_prop :: "string \<Rightarrow> style \<Rightarrow> string \<Rightarrow> style_value option" where
  "style_prop os (Style name) key = Option.bind (map_of (styles os) name) (\<lambda>ps. map_of ps key)"
| "style_prop os (PaddingBottom n) key = (if key = ''paddingBottom'' then Some (Num n) else None)"

definition look :: "string \<Rightarrow> style list \<Rightarrow> string \<Rightarrow> style_value option" where
  "look os sts key = foldl (\<lambda>v st. case style_prop os st key of None \<Rightarrow> v | Some x \<Rightarrow> Some x) None sts"

fun known :: "string \<Rightarrow> style \<Rightarrow> bool" where
  "known os (Style name) \<longleftrightarrow> map_of (styles os) name \<noteq> None"
| "known os (PaddingBottom n) \<longleftrightarrow> True"

text \<open>Text is black when no style says otherwise, and an element without a ground shows the one around it.\<close>

definition ink :: "string \<Rightarrow> style list \<Rightarrow> string" where
  "ink os sts = (case look os sts ''color'' of Some (Word c) \<Rightarrow> c | _ \<Rightarrow> ''#000000'')"

definition ground :: "string \<Rightarrow> string \<Rightarrow> style list \<Rightarrow> string" where
  "ground os bg sts = (case look os sts ''backgroundColor'' of Some (Word c) \<Rightarrow> c | _ \<Rightarrow> bg)"

text \<open>The brightness of a colour \<open>#rrggbb\<close>, from 0 to 255.\<close>

definition byte_at :: "string \<Rightarrow> nat \<Rightarrow> int" where
  "byte_at c i = (case (hex_val (c ! i), hex_val (c ! Suc i)) of (Some a, Some b) \<Rightarrow> int (16 * a + b) | _ \<Rightarrow> 0)"

definition brightness :: "string \<Rightarrow> int" where
  "brightness c = (if length c = 7 then (299 * byte_at c 1 + 587 * byte_at c 3 + 114 * byte_at c 5) div 1000 else 0)"

text \<open>A text stands out when its brightness and that of its ground are at least 100 apart; on a disabled
  control 60 are enough.\<close>

definition stands_out :: "bool \<Rightarrow> string \<Rightarrow> string \<Rightarrow> bool" where
  "stands_out dim fg bg \<longleftrightarrow> (if dim then 60 else 100) \<le> \<bar>brightness fg - brightness bg\<bar>"

definition legible :: "string \<Rightarrow> bool \<Rightarrow> string \<Rightarrow> style list \<Rightarrow> bool" where
  "legible os dim bg sts \<longleftrightarrow> list_all (known os) sts \<and> stands_out dim (ink os sts) (ground os bg sts)"

text \<open>An element on a ground: its styles are defined and its texts stand out; of a list, also those of the
  component it shows when it is empty.\<close>

fun well_drawn :: "string \<Rightarrow> bool \<Rightarrow> string \<Rightarrow> element \<Rightarrow> bool" where
  "well_drawn os dim bg (View st es) \<longleftrightarrow> list_all (known os) st \<and> list_all (well_drawn os dim (ground os bg st)) es"
| "well_drawn os dim bg (SafeAreaView st es) \<longleftrightarrow> list_all (known os) st \<and> list_all (well_drawn os dim (ground os bg st)) es"
| "well_drawn os dim bg (KeyboardAvoidingView b st es) \<longleftrightarrow> list_all (known os) st \<and> list_all (well_drawn os dim (ground os bg st)) es"
| "well_drawn os dim bg (ScrollView st es) \<longleftrightarrow> list_all (known os) st \<and> list_all (well_drawn os dim (ground os bg st)) es"
| "well_drawn os dim bg (AutoScrollView b st es) \<longleftrightarrow> list_all (known os) st \<and> list_all (well_drawn os dim (ground os bg st)) es"
| "well_drawn os dim bg (FlatList st header none es) \<longleftrightarrow> list_all (known os) st \<and> well_drawn os dim (ground os bg st) header \<and>
    well_drawn os dim (ground os bg st) none \<and> list_all (well_drawn os dim (ground os bg st)) es"
| "well_drawn os dim bg (Pressable st disabled a es) \<longleftrightarrow>
    list_all (known os) st \<and> list_all (well_drawn os (dim \<or> disabled) (ground os bg st)) es"
| "well_drawn os dim bg (Text st n v) \<longleftrightarrow> legible os dim bg st"
| "well_drawn os dim bg (TextInput st hint secure v f) \<longleftrightarrow> legible os dim bg st"
| "well_drawn os dim bg (ActivityIndicator st) \<longleftrightarrow> list_all (known os) st"
| "well_drawn os dim bg (StatusBar b) \<longleftrightarrow> True"

section \<open>Lemmas\<close>

text \<open>The colour and the ground of every style.\<close>

definition sheet_colours :: "(string \<times> string option \<times> string option) list" where
  "sheet_colours =
    [(''root'', None, Some ''#f3f6fa''), (''flex'', None, None), (''center'', None, Some ''#f3f6fa''), (''loginPane'', None, None),
     (''loginTitle'', Some ''#111827'', None), (''loginSubtitle'', Some ''#6b7280'', None), (''header'', None, None),
     (''headerTitleGroup'', None, None), (''headerActions'', None, None), (''title'', Some ''#111827'', None),
     (''connectionRow'', None, None), (''statusDot'', None, None), (''statusDotSuccess'', None, Some ''#15803d''),
     (''statusDotWarning'', None, Some ''#b45309''), (''statusDotDanger'', None, Some ''#b91c1c''),
     (''connectionText'', Some ''#4b5563'', None), (''iconButton'', None, Some ''#ffffff''),
     (''iconButtonText'', Some ''#1d4ed8'', None), (''logoutButton'', None, Some ''#ffffff''),
     (''logoutButtonText'', Some ''#4b5563'', None), (''pushCard'', None, Some ''#ffffff''), (''pushTextGroup'', None, None),
     (''pushTitle'', Some ''#111827'', None), (''pushDetail'', Some ''#6b7280'', None), (''smallButton'', None, Some ''#dbeafe''),
     (''smallButtonText'', Some ''#1d4ed8'', None), (''content'', None, None), (''input'', Some ''#111827'', Some ''#ffffff''),
     (''primaryButton'', None, Some ''#1d4ed8''), (''primaryButtonText'', Some ''#ffffff'', None),
     (''dangerButton'', None, Some ''#b91c1c''), (''dangerButtonDisabled'', None, Some ''#fca5a5''),
     (''dangerButtonText'', Some ''#ffffff'', None), (''disabled'', None, Some ''#93c5fd''), (''inlineSpinner'', None, None),
     (''errorBanner'', None, Some ''#fee2e2''), (''errorTextGroup'', None, None), (''errorTitle'', Some ''#b91c1c'', None),
     (''errorDetail'', Some ''#b91c1c'', None), (''list'', None, None), (''form'', None, None), (''screenHeading'', None, None),
     (''screenTitle'', Some ''#111827'', None), (''screenSubtitle'', Some ''#6b7280'', None),
     (''sectionLabel'', Some ''#111827'', None), (''registrationPanel'', None, Some ''#ffffff''),
     (''registrationCard'', None, Some ''#f8fbff''), (''badge'', None, Some ''#b91c1c''), (''badgeText'', Some ''#ffffff'', None),
     (''verificationBadge'', None, Some ''#1d4ed8''), (''verificationText'', Some ''#ffffff'', None),
     (''card'', None, Some ''#ffffff''), (''selectedCard'', None, Some ''#f8fbff''), (''row'', None, None),
     (''cardTitleGroup'', None, None), (''cardTitle'', Some ''#111827'', None), (''meta'', Some ''#4b5563'', None),
     (''footerMeta'', Some ''#6b7280'', None), (''metaGrid'', None, None), (''openHint'', Some ''#1d4ed8'', None),
     (''infoBlock'', None, Some ''#eef3f8''), (''infoLabel'', Some ''#6b7280'', None), (''infoValue'', Some ''#111827'', None),
     (''optionButton'', None, Some ''#ffffff''), (''optionButtonActive'', None, Some ''#f8fbff''), (''optionMain'', None, None),
     (''optionRight'', None, None), (''selectedMark'', Some ''#1d4ed8'', None), (''optionTitle'', Some ''#111827'', None),
     (''optionTitleActive'', Some ''#111827'', None), (''optionMeta'', Some ''#4b5563'', None),
     (''optionMetaActive'', Some ''#4b5563'', None), (''segmentRow'', None, None), (''segmentButton'', None, Some ''#ffffff''),
     (''segmentButtonActive'', None, Some ''#1d4ed8''), (''segmentText'', Some ''#4b5563'', None),
     (''segmentTextActive'', Some ''#ffffff'', None), (''promptHeader'', None, None), (''counterText'', Some ''#6b7280'', None),
     (''helperText'', Some ''#6b7280'', None), (''dispatchSummary'', None, Some ''#dbeafe''),
     (''dispatchSummaryTitle'', Some ''#1d4ed8'', None), (''dispatchSummaryText'', Some ''#111827'', None),
     (''promptInput'', None, None), (''pill'', None, None), (''pillSuccess'', None, Some ''#dcfce7''),
     (''pillWarning'', None, Some ''#fef3c7''), (''pillDanger'', None, Some ''#fee2e2''), (''pillInfo'', None, Some ''#dbeafe''),
     (''pillNeutral'', None, Some ''#e2e8f0''), (''pillText'', None, None), (''pillTextSuccess'', Some ''#15803d'', None),
     (''pillTextWarning'', Some ''#b45309'', None), (''pillTextDanger'', Some ''#b91c1c'', None),
     (''pillTextInfo'', Some ''#1d4ed8'', None), (''pillTextNeutral'', Some ''#64748b'', None), (''approvalContext'', None, None),
     (''actionRow'', None, None), (''emptyCard'', None, Some ''#ffffff''), (''emptyTitle'', Some ''#111827'', None),
     (''emptyText'', Some ''#6b7280'', None), (''bottomNav'', None, Some ''#ffffff''), (''navItem'', None, None),
     (''navItemActive'', None, Some ''#dbeafe''), (''navIconWrap'', None, None), (''navIcon'', Some ''#6b7280'', None),
     (''navIconActive'', Some ''#1d4ed8'', None), (''navLabel'', Some ''#6b7280'', None),
     (''navLabelActive'', Some ''#1d4ed8'', None), (''navBadge'', None, Some ''#b91c1c''), (''navBadgeText'', Some ''#ffffff'', None),
     (''muted'', Some ''#6b7280'', None), (''detailRoot'', None, Some ''#f3f6fa''), (''detailHeader'', None, Some ''#f3f6fa''),
     (''backButton'', None, Some ''#ffffff''), (''backButtonText'', Some ''#1d4ed8'', None), (''detailHeaderTitleGroup'', None, None),
     (''detailHeaderTitle'', Some ''#111827'', None), (''detailHeaderMeta'', Some ''#6b7280'', None), (''detailContent'', None, None),
     (''detailHero'', None, Some ''#ffffff''), (''detailTitle'', Some ''#111827'', None), (''detailMeta'', Some ''#4b5563'', None),
     (''detailIdRow'', None, None), (''detailIdText'', Some ''#6b7280'', None), (''detailApprovalCard'', None, Some ''#fef3c7''),
     (''detailSection'', None, Some ''#ffffff''), (''detailSectionTitle'', Some ''#111827'', None),
     (''detailSectionSubtitle'', Some ''#6b7280'', None), (''detailBodyText'', Some ''#111827'', None),
     (''textScrollBox'', None, None), (''compactTextBox'', None, Some ''#eef3f8''), (''resultBox'', None, Some ''#eef3f8''),
     (''logBox'', None, Some ''#0f172a''), (''logText'', Some ''#e5e7eb'', None)]"

lemma colors_simps:
  "colors ''bg'' = Word ''#f3f6fa''"
  "colors ''surface'' = Word ''#ffffff''"
  "colors ''surfaceAlt'' = Word ''#eef3f8''"
  "colors ''border'' = Word ''#d9e1ea''"
  "colors ''text'' = Word ''#111827''"
  "colors ''textSoft'' = Word ''#4b5563''"
  "colors ''muted'' = Word ''#6b7280''"
  "colors ''mutedLight'' = Word ''#9ca3af''"
  "colors ''primary'' = Word ''#1d4ed8''"
  "colors ''primarySoft'' = Word ''#dbeafe''"
  "colors ''success'' = Word ''#15803d''"
  "colors ''successSoft'' = Word ''#dcfce7''"
  "colors ''warning'' = Word ''#b45309''"
  "colors ''warningSoft'' = Word ''#fef3c7''"
  "colors ''danger'' = Word ''#b91c1c''"
  "colors ''dangerSoft'' = Word ''#fee2e2''"
  "colors ''offline'' = Word ''#64748b''"
  "colors ''offlineSoft'' = Word ''#e2e8f0''"
  "colors ''dark'' = Word ''#111827''"
  by (simp_all add: colors_def palette_def)

lemmas sheet_defs = frame_styles_def control_styles_def list_styles_def card_styles_def option_styles_def pill_styles_def
  nav_styles_def detail_styles_def

lemma map_of_first: "map_of ((l, v) # ps) k = (if l = k then Some v else map_of ps k)"
  by simp

lemma styles_distinct: "distinct (map fst sheet_colours)"
  by (simp add: sheet_colours_def)

definition has_colours :: "string \<times> (string \<times> style_value) list \<Rightarrow> string \<times> string option \<times> string option \<Rightarrow> bool" where
  "has_colours e c \<longleftrightarrow> fst e = fst c \<and> map_of (snd e) ''color'' = map_option Word (fst (snd c)) \<and>
     map_of (snd e) ''backgroundColor'' = map_option Word (snd (snd c))"

lemma sheet_has_colours: "list_all2 has_colours (styles os) sheet_colours"
  by (simp add: styles_def sheet_defs sheet_colours_def has_colours_def colors_simps map_of_first del: map_of.simps(2))

declare known.simps(1) [simp del] style_prop.simps(1) [simp del]

lemma lookup_colours:
  assumes "list_all2 has_colours sheet cs" and "distinct (map fst cs)" and "(n, c, g) \<in> set cs"
  shows "\<exists>ps. map_of sheet n = Some ps \<and> map_of ps ''color'' = map_option Word c \<and> map_of ps ''backgroundColor'' = map_option Word g"
  using assms
proof (induction rule: list_all2_induct)
  case (Cons e es d ds)
  show ?case
  proof (cases "(n, c, g) = d")
    case True
    then show ?thesis using Cons.hyps(1) by (cases e) (auto simp: has_colours_def)
  next
    case False
    then have "(n, c, g) \<in> set ds" "n \<noteq> fst d" using Cons.prems by (auto simp: rev_image_eqI)
    then show ?thesis using Cons.IH Cons.prems(1) Cons.hyps(1) by (cases e) (auto simp: has_colours_def)
  qed
qed simp

lemma sheet_lookup:
  "list_all (\<lambda>(n, c, g). known os (Style n) \<and> style_prop os (Style n) ''color'' = map_option Word c \<and>
     style_prop os (Style n) ''backgroundColor'' = map_option Word g) sheet_colours"
  using lookup_colours [OF sheet_has_colours styles_distinct, of _ _ _ os] by (fastforce simp: list_all_iff known.simps style_prop.simps)

lemmas sheet_simps [simp] = sheet_lookup [unfolded sheet_colours_def, simplified]

lemma brightness_simps [simp]:
  "brightness ''#0f172a'' = 22" "brightness ''#111827'' = 23" "brightness ''#15803d'' = 88" "brightness ''#1d4ed8'' = 79"
  "brightness ''#4b5563'' = 83" "brightness ''#64748b'' = 113" "brightness ''#6b7280'' = 113"
  "brightness ''#93c5fd'' = 188" "brightness ''#b45309'' = 103" "brightness ''#b91c1c'' = 74"
  "brightness ''#dbeafe'' = 231" "brightness ''#dcfce7'' = 240" "brightness ''#e2e8f0'' = 231"
  "brightness ''#e5e7eb'' = 230" "brightness ''#eef3f8'' = 242" "brightness ''#f3f6fa'' = 245"
  "brightness ''#f8fbff'' = 250" "brightness ''#fca5a5'' = 191" "brightness ''#fee2e2'' = 234"
  "brightness ''#fef3c7'' = 241" "brightness ''#ffffff'' = 255"
  by code_simp+

lemmas drawn_defs = ground_def ink_def look_def legible_def stands_out_def opt_def

section \<open>The components\<close>

text \<open>The ground of the screens, which containers without a ground of their own show.\<close>

abbreviation page :: string where
  "page \<equiv> ''#f3f6fa''"

lemma drawn_small [simp]:
  "well_drawn os False bg (PrimaryButton d l a)" "well_drawn os False bg (DangerButton d l a)"
  "well_drawn os False bg (EmptyState l)" "well_drawn os False bg (ErrorBanner m)" "well_drawn os False bg (ScrollableTextBox v b)"
  "well_drawn os False page (ScreenHeading l v)" "well_drawn os False ''#ffffff'' (InfoBlock l n v)"
  by (simp_all add: PrimaryButton_def DangerButton_def EmptyState_def ErrorBanner_def ScrollableTextBox_def ScreenHeading_def
      InfoBlock_def drawn_defs)

lemma drawn_pill [simp]: "well_drawn os False bg (StatusPill v)"
  unfolding StatusPill_def Let_def by (cases "snd (normalizeStatus v)") (simp_all add: drawn_defs)

lemma drawn_section [simp]:
  "list_all (well_drawn os False ''#ffffff'') es \<Longrightarrow> well_drawn os False bg (DetailSection es st v)"
  by (simp add: DetailSection_def drawn_defs)

lemma drawn_cards [simp]:
  "well_drawn os False bg (approval_actions d f j)" "well_drawn os False bg (approvalCard sc f j)"
  "well_drawn os False bg (registrationCard sc d f j)" "well_drawn os False bg (serverCard sc g sel j)"
  "well_drawn os False bg (serverOption g sel j)" "well_drawn os False bg (workerOption w wt item)"
  "well_drawn os False bg (taskCard sc op j)" "well_drawn os False bg (detailHeader bk sv j)" "well_drawn os False bg (detailHero sc sv j)"
  "well_drawn os False page (headerBar s)" "well_drawn os False bg (pushCard s)"
  by (simp_all add: approval_actions_def approvalCard_def registrationCard_def serverCard_def serverOption_def workerOption_def taskCard_def
      detailHeader_def detailHero_def headerBar_def pushCard_def Let_def drawn_defs split: tone.split)

lemma drawn_all [simp]: "(\<And>x. x \<in> set xs \<Longrightarrow> well_drawn os dim bg (f x)) \<Longrightarrow> list_all (well_drawn os dim bg) (map f xs)"
  by (simp add: list_all_iff)

lemma drawn_screens [simp]:
  "well_drawn os False page (NewTaskScreen sc s f1 f2 f3 f4)" "well_drawn os False page (ServersList sc s f g)"
  "well_drawn os False page (TasksList sc op js)" "well_drawn os False page (ApprovalsList sc js f)"
  "well_drawn os False bg (TaskDetailScreen sc ap busy bk f sv j)" "well_drawn os False bg (BottomNavigation s n h)"
  by (simp_all add: NewTaskScreen_def ServersList_def RegistrationRequestsPanel_def TasksList_def ApprovalsList_def TaskDetailScreen_def
      BottomNavigation_def Let_def drawn_defs split: option.split)

lemma drawn_content: "well_drawn os False page (content sc s)"
  by (cases "ui_tab s") (simp_all add: content_def)

section \<open>Properties\<close>

text \<open>Every screen can be read: in every state of the app and on every system, each style that a screen
  names is defined in the style sheet, and every text differs from the ground it is written on by a
  brightness of at least 100 of 255, on a disabled control by at least 60.\<close>

theorem screens_legible: "well_drawn os False bg (render sc s)"
  using drawn_content [of os sc s]
  by (simp add: render_def loginScreen_def drawn_defs split: option.split)

text \<open>What is selected, disabled or reported can be seen: the style that marks it changes the colour or the
  ground of what it marks, and no two tones of a status have the same ground. Only the marks of the two
  texts of a chosen server repeat the colours these have anyway.\<close>

definition marks :: "(string \<times> string) list" where
  "marks = [(''primaryButton'', ''disabled''), (''dangerButton'', ''dangerButtonDisabled''), (''navItem'', ''navItemActive''),
     (''navIcon'', ''navIconActive''), (''navLabel'', ''navLabelActive''), (''optionButton'', ''optionButtonActive''),
     (''segmentButton'', ''segmentButtonActive''), (''segmentText'', ''segmentTextActive''), (''card'', ''selectedCard'')]"

theorem marks_visible:
  "list_all (\<lambda>(base, mark). \<exists>key \<in> {''color'', ''backgroundColor''}.
     look os [Style base, Style mark] key \<noteq> look os [Style base] key) marks \<and>
   inj (\<lambda>t. ground os bg [Style ''pill'', tone_style ''pill'' t]) \<and>
   (\<forall>base \<in> {''optionTitle'', ''optionMeta''}. ink os [Style base, Style (base @ ''Active'')] = ink os [Style base])"
proof (intro conjI)
  show "inj (\<lambda>t. ground os bg [Style ''pill'', tone_style ''pill'' t])"
  proof (rule injI)
    fix t u assume "ground os bg [Style ''pill'', tone_style ''pill'' t] = ground os bg [Style ''pill'', tone_style ''pill'' u]"
    then show "t = u" by (cases t; cases u) (simp_all add: drawn_defs)
  qed
qed (simp_all add: marks_def drawn_defs)

end
