(* ===== verification/Spec2Isabelle.thy ===== *)
theory Spec2Isabelle
  imports Approval_Answer Awaits Delivery Dev_Scripts Enrolment Mobile_Parallel Mobile_Styles
begin

text \<open>
  \<^bold>\<open>Code Caller.\<close> The repository holds a system that lets its user run coding agents on their own
  machines from a phone. It has three programs.
  \<^item> The \<^emph>\<open>hub\<close> (\<^verbatim>\<open>hub-api\<close>, TypeScript): HTTP routes, a database, a job queue and two socket namespaces.
    It keeps users, servers, tasks, dispatch attempts, approvals and registration requests.
  \<^item> The \<^emph>\<open>agent daemon\<close> (\<^verbatim>\<open>agent-daemon\<close>, JavaScript) on each worker machine: it holds a socket to the
    hub, runs one child process per task and reports output, approval questions and results.
  \<^item> The \<^emph>\<open>mobile app\<close> (\<^verbatim>\<open>mobile-app\<close>, TypeScript): it logs in, shows servers, tasks and approvals,
    submits tasks and decides approvals.
  A task goes from the app to the hub's routes, through the queue to the dispatcher, over the socket
  of a candidate server's daemon to a child process, and its output and result back the same way.

  \<^bold>\<open>How the code is modelled.\<close> An asynchronous function is a program \<open>'s \<Rightarrow> ('e + 'a) \<times> 's\<close> (theory
  \<open>Prelude\<close>): it returns or throws and keeps the writes made before an exception; a database
  transaction restores the state when it throws. Rows and messages are records, enums are datatypes,
  tables are lists in insertion order, queries are filters and sorts. Numbers are unbounded integers:
  the sources only count, compare times and add intervals far below two to the fifty-third. Strings
  are lists of characters; literals that are not ASCII are the bytes of the source (\<open>Messages\<close>), and
  no function looks inside them. Functions that are callbacks in the source are handlers of events.

  \<^bold>\<open>Theories.\<close>
  \<^item> \<open>Prelude\<close>: programs, the collections \<open>keeps_rules\<close> and \<open>prog_simps\<close>, sorting with a comparator
    (locale \<open>js_comparator\<close>), tables with a key (locale \<open>row_store\<close>). \<open>Js_Text\<close>, \<open>Js_Json\<close>, \<open>Js_Regex\<close>:
    the string, JSON and regular-expression functions of JavaScript that the sources call.
  \<^item> \<open>Schema\<close>, \<open>Integrity\<close>: \<^verbatim>\<open>prisma/schema.prisma\<close>, its writes and cascades, and the invariant \<open>wf_hub\<close>
    (unique keys, no dangling reference), with \<open>row_store\<close> interpreted on each table.
  \<^item> \<open>Common\<close>, \<open>Realtime\<close>, \<open>Gateway\<close>, \<open>Ownership\<close>, \<open>Servers\<close>, \<open>Workers\<close>, \<open>Auth\<close>, \<open>Notifications\<close>, \<open>Tasks\<close>,
    \<open>Task_Processor\<close>, \<open>Approvals\<close>, \<open>Registrations\<close>, \<open>Routes\<close>: the directories of \<^verbatim>\<open>hub-api/src\<close>, one
    definition per method. Locales \<open>owned_resource\<close> (the ownership checks of servers and tasks) and
    \<open>ai_worker_adapter\<close> (the adapter interface, interpreted by the Codex adapter) are the interfaces.
  \<^item> \<open>Frames\<close>, \<open>Isolation\<close>: which handlers leave which tables alone, and tenant isolation.
    \<open>Hub_System\<close>: the hub as a transition system over all its events. \<open>Delivery\<close>: that a delivered
    credential stays delivered.
  \<^item> \<open>Threads\<close>, \<open>Awaits\<close>: programs cut at their \<open>await\<close>s and pools that interleave them (locale
    \<open>await_handlers\<close>, interpreted on the hub's handlers), and the hub's handlers written with their
    awaits.
  \<^item> \<open>Detectors\<close>, \<open>Spawn_Plan\<close>, \<open>Daemon\<close>, \<open>Register\<close>: the files of \<^verbatim>\<open>agent-daemon/src\<close>. The daemon is a
    transition system; its buffered connection is an instance of the locale \<open>fifo_channel\<close>.
  \<^item> \<open>Mobile_Format\<close>, \<open>Mobile_App\<close>, \<open>Mobile_System\<close>: \<^verbatim>\<open>mobile-app/App.tsx\<close>, its formatting functions, its
    state hooks with the handlers and effects that change them, and the app as a transition system.
    \<open>Mobile_Labels\<close>, \<open>Mobile_Screens\<close>: its screens, one definition per component, as trees of elements
    whose controls fire the app's events. \<open>Mobile_Styles\<close>: its style sheet. \<open>Mobile_Awaits\<close>: its handlers
    cut at their awaits. \<open>Mobile_Parallel\<close>: the requests that a load makes together.
  \<^item> \<open>Approval_Answer\<close>: an approval decision from the hub to the child. \<open>Deployment\<close>: a daemon connected to
    the hub and the hub to the app. \<open>Enrolment\<close>: the registration command against the hub's routes.
    \<open>Dev_Scripts\<close>: the harness of \<^verbatim>\<open>agent-daemon/dev-scripts\<close> with its mock hub
    and its stand-in for Codex. This theory: the properties across the three programs.

  \<^bold>\<open>What is shown.\<close>
  \<^item> Of the hub, for every sequence of events whose handlers do not overlap: the database stays intact
    (the operations of \<open>Schema\<close> refuse what would break a key or a reference, as the database does), a
    task never has two active attempts nor a queued task one, and a delivered key is not delivered
    again. For each operation its effect on every branch: dispatch with failover between candidates,
    the watchdog, capacity failures, submitting, cancelling, approvals, the daemon's events,
    registration from the request to the delivery of the key, token rotation. A request behind the
    guard does not change another user's servers, the tasks on them or the approvals of those.
  \<^item> Of the hub's handlers of the daemon's messages, of dispatch jobs, of decisions, cancellations,
    refreshes and polls, interleaved at their awaits: operations that read, wait and write are not
    atomic. Two log chunks may leave one, one refresh token may be used twice, one approval decided
    both ways, one API key handed out twice, a result that is faster than the dispatcher is
    overwritten, and a capacity failure that is faster leaves a queued task with an active attempt.
  \<^item> Of the daemon, for every sequence of events: messages leave in order, none lost and none twice,
    and a task has one runner and one result at a time. The failure detector's expressions are equal
    to a list of phrases. The default command passes the prompt as one argument, unless it names
    another placeholder. Polling for a registration ends, and obtains the key when the owner approves
    in time. The daemon passes the scenarios of its harness for every such prompt.
  \<^item> Of the app: failover between addresses, at most one renewal and one retry per request, an idle
    state after every handler that runs alone, a logout that leaves nothing.
    Of its screens: which decisions they offer, when the submit button is enabled, that no screen is a
    dead end, what is shown after logging out, that every text can be read. Interleaved, its handlers
    stay at the hub's addresses and leave the app idle when they have ended, but a request under way
    can undo a logout, and of the requests that a load makes together with an expired token no more
    succeed than renewals with the one refresh token are accepted.
  \<^item> Across the programs: a prompt reaches the child process as one argument, the child's output reaches
    the task's log, and its result the row, the owner's sockets and the screen of the phone; a machine
    whose registration is approved comes online.
  \<^item> Where the code does not do what it means to, the property states what it does: a stale socket's
    disconnection marks a server offline, a second approval question of a task fails, a late status
    event undoes a cancellation, a device registered twice is notified twice, a request's row
    reveals its key, shell mode lets a prompt leave its quotes, and an approval's answer never reaches
    the child, whose input was ended at its start.

  \<^bold>\<open>Parameters.\<close> Code outside the repository is an argument of the definitions: the record \<open>ext\<close>
  (environment, random bytes, identifiers, hashes, ciphers, password check, token signatures,
  collation), \<open>validators\<close> (the validation library), \<open>spawn\<close> (whether a child starts), \<open>reg_world\<close>
  (network, clock and host of the registration command), \<open>net\<close> (the hub as the app meets it, answering
  the \<open>n\<close>th call), \<open>dates\<close> (the phone's calendar), \<open>scheduler\<close> (the processes
  under the daemon's harness). Hypotheses about them say only what their documentation does: identifiers are fresh (\<open>inj (x_uuid x)\<close>), decryption undoes encryption
  (\<open>gcm_ok\<close>), digests and nonces have their lengths (\<open>lengths_ok\<close>). The witnesses use a concrete
  \<open>demo_ext\<close>, \<open>demo_config\<close> and \<open>demo_net\<close>.

  \<^bold>\<open>Termination.\<close> Every definition is total. Loops over candidates, stuck tasks, addresses, tokens and
  characters are structural recursions. The regular expressions star only single characters, so the
  matcher ends by recursion on the expression. Polling ends because the clock advances by at least
  the interval at each turn; that is its termination measure, so no fuel is needed.

  \<^bold>\<open>Interleaving.\<close> In the transition systems a handler runs to its end before the next event is taken.
  \<open>Awaits\<close> and \<open>Mobile_Awaits\<close> add the interleavings of the hub's and the app's handlers: the code
  between two awaits runs without interruption, and each query is one step, as the database executes
  it. \<open>Awaits\<close> has the handlers named above; the others (submitting, the watchdog, logging in,
  connecting, creating and deciding registrations, removing servers) are only in the sequential model.
  The clock stands still while a handler of the sequential model runs. Writes to the phone's storage
  succeed. The daemon's handlers have no awaits. The four requests that a load makes together are made one
  after the other in \<open>Mobile_App\<close> and \<open>Mobile_Awaits\<close>, and in any order of their steps in \<open>Mobile_Parallel\<close>.

  \<^bold>\<open>Not modelled.\<close> The modules that wire the hub together, the listening port and the database
  connection; log output (\<^verbatim>\<open>agent-daemon/src/log.js\<close>) and the registration command's help text; the
  app's props that only concern the keyboard; build files, tests, deployment units.
\<close>

section \<open>Properties that span components\<close>

text \<open>C1. A result from the child process to the phone: when the child of a runner that the hub has not
  cancelled ends with code 0, the daemon emits exactly one message; once the hub has handled it, the
  task is COMPLETED and its owner's sockets have been sent the new row; and an app that has the task
  open shows, once the row has arrived, the label of a finished task and the child's last output, made
  readable.\<close>

theorem result_reaches_owner:
  assumes "daemon_reachable spawn config d" and "dm_exit d = None" and "has_child d ob"
    and "\<not> rn_exitHandled (runner_of d ob)" and "\<not> rn_killedByHub (runner_of d ob)"
    and "daemon_step spawn config (ChildClose ob (Some 0) None) d = d'"
    and "task_with_owner h (rn_taskId (runner_of d ob)) = Some (t, u)" and "t_id t \<noteq> []"
    and "\<not> ui_booting s" and "ui_tokens s \<noteq> None" and "ui_selectedTaskId s = Some (t_id t)"
  shows "\<exists>p t'. dm_sent d' @ dm_buffer d' = dm_sent d @ dm_buffer d @ [EmitResult p] \<and>
    find_row t_id (t_id t) (tasks (snd (handleDaemonTaskResult x p h))) = Some t' \<and> t_status t' = COMPLETED \<and>
    appOut (snd (handleDaemonTaskResult x p h)) = appOut h @ app_notice h u t' \<and>
    {ko_done, readableText (rn_lastChunk (runner_of d ob))} \<subseteq>
      set (texts (render sc (app_step net (TaskUpdated (publicTask toISO t')) s)))"
proof -
  have "d' = onClose ob (Some 0) None d" using assms(2,3,6) by (simp add: daemon_step_def)
  with close_payload [OF conjunct2 [OF daemon_reachable_ok [OF assms(1)]] assms(4,5) refl, of "Some 0" None]
  obtain p :: result_payload and rest where
    sent: "dm_sent d' @ dm_buffer d' = dm_sent d @ dm_buffer d @ [EmitResult p]"
    and p: "rp_taskId p = rn_taskId (runner_of d ob)" "rp_status p = RS_COMPLETED"
    and r: "rp_result p = Some (JObj ((''exitCode'', JNum 0) # (''signal'', JNull) #
      (''lastChunk'', JStr (rn_lastChunk (runner_of d ob))) # rest))"
    by auto
  have i: "task_with_owner h (rp_taskId p) = Some (t, u)" using assms(7) p by simp
  then have id: "t_id t = rp_taskId p" by (rule task_with_owner_id)
  let ?t = "t\<lparr>t_status := COMPLETED, t_result := rp_result p, t_updatedAt := clock h\<rparr>"
  have "\<not> isRetryableCapacityFailure p" using p by (simp add: isRetryableCapacityFailure_def)
  note final = result_final [OF i this refl, of x]
  have "extractResult (rp_result p) = readableText (rn_lastChunk (runner_of d ob))"
    by (simp add: r extractResult_def coalesce_def truthy_def nullish_def)
  then have "{ko_done, readableText (rn_lastChunk (runner_of d ob))} \<subseteq> set (texts (render sc (app_step net (TaskUpdated (publicTask toISO ?t)) s)))"
    using updated_task_shown [of s ?t sc net toISO] assms(8-11) completed_label by simp
  then show ?thesis using sent final p r by (intro exI [of _ p] exI [of _ ?t]) (simp add: id)
qed

theorem result_reaches_owner_witness:
  "\<exists>p t'. dm_sent (daemon_step demo_spawn demo_config (ChildClose 0 (Some 0) None) (demo_running ''iiiiiii'')) @
      dm_buffer (daemon_step demo_spawn demo_config (ChildClose 0 (Some 0) None) (demo_running ''iiiiiii'')) =
      [EmitStatus \<lparr>sp_taskId = ''iiiiiii'', sp_status = DS_RUNNING\<rparr>, EmitResult p] \<and>
    find_row t_id ''iiiiiii'' (tasks (snd (handleDaemonTaskResult demo_ext p demo_task_hub))) = Some t' \<and> t_status t' = COMPLETED \<and>
    ko_done \<in> set (texts (render demo_screen (app_step demo_net (TaskUpdated (publicTask show_int t'))
      ((demo_shown TasksTab)\<lparr>ui_selectedTaskId := Some ''iiiiiii''\<rparr>))))"
proof -
  let ?d = "demo_running ''iiiiiii''" and ?s = "(demo_shown TasksTab)\<lparr>ui_selectedTaskId := Some ''iiiiiii''\<rparr>"
  have d: "dm_exit ?d = None" "has_child ?d 0" "\<not> rn_exitHandled (runner_of ?d 0)" "\<not> rn_killedByHub (runner_of ?d 0)"
    by (simp_all add: demo_running_eq has_child_def runner_of_def newRunner_def)
  have t: "task_with_owner demo_task_hub (rn_taskId (runner_of ?d 0)) = Some (demo_task, ''i'')" "t_id demo_task = ''iiiiiii''"
    by (simp_all add: demo_running_eq runner_of_def newRunner_def demo_task_find) (simp add: demo_task_def)
  have s: "\<not> ui_booting ?s" "ui_tokens ?s \<noteq> None" "ui_selectedTaskId ?s = Some (t_id demo_task)" "t_id demo_task \<noteq> []"
    using demo_shown_facts t(2) by simp_all
  from result_reaches_owner [OF demo_running_reachable d refl t(1) s(4,1,2,3), of demo_ext demo_screen demo_net show_int] t(2)
  show ?thesis by (auto simp: demo_running_eq)
qed

text \<open>A submitted task whose command cannot be started: its one result, and its place is free again.\<close>

lemma submit_spawn_fails:
  assumes "daemon_reachable spawn config d" and "dm_exit d = None" and "map_of (dm_runners d) i = None" and "i \<noteq> []"
    and "buildSpawnPlan v config = Inr plan" and "spawn plan (cfg_cwd config) = Some msg"
    and "d' = daemon_step spawn config (HubSubmit (Some i) v) d"
  shows "map_of (dm_runners d') i = None \<and> (\<exists>r. dm_sent d' @ dm_buffer d' = dm_sent d @ dm_buffer d @ [EmitResult r] \<and>
    rp_taskId r = i \<and> rp_status r = RS_FAILED \<and> (\<exists>j. rp_result r = Some j \<and> getProp ''error'' j = Some (JStr (''spawn failed: '' @ msg))))"
proof -
  let ?n = "length (dm_objs d)" and ?reason = "''spawn failed: '' @ msg"
  let ?f = "detectStructuredFailure None None ?reason"
  let ?r = "\<lparr>rp_taskId = i, rp_status = RS_FAILED, rp_failure = ?f, rp_result = Some (JObj ([(''error'', JStr ?reason)] @ with_failure ?f))\<rparr>"
  define d1 where "d1 = d\<lparr>dm_runners := dm_runners d @ [(i, ?n)], dm_objs := dm_objs d @ [(newRunner i v)\<lparr>rn_exitHandled := True\<rparr>]\<rparr>"
  have d': "d' = dropTask i (emit (EmitResult ?r) d1)"
    using assms(2-6) by (simp add: assms(7) d1_def daemon_step_def onTaskSubmit_def start_def finishFailed_def runner_of_def set_runner_def newRunner_def Let_def)
  have "hubLink.in_order d1" using daemon_reachable_ok [OF assms(1)] by (simp add: d1_def hubLink.in_order_def)
  then have "dm_sent d' @ dm_buffer d' = dm_sent d @ dm_buffer d @ [EmitResult ?r]"
    using hubLink.transcript_send [of d1 "EmitResult ?r"] by (simp add: d' dropTask_def hubLink.transcript_def d1_def)
  moreover have "map_of (dm_runners d') i = None" by (auto simp: d' dropTask_def map_of_eq_None_iff)
  ultimately show ?thesis by (intro conjI exI [of _ ?r]) simp_all
qed

text \<open>C2. A prompt from the queue to the child process: the dispatch job of a queued task whose first
  candidate has a connected daemon sends that daemon the task's input, and a daemon with the default
  command that is not yet running the task plans, on that message, exactly \<open>codex exec\<close> with the prompt
  as one unchanged argument. When the system can start this command, the task has a child and is
  reported as running; when it cannot, the task's one result is FAILED with the reason. This is shown
  for prompts that name neither of the placeholders \<open>{{input}}\<close> and \<open>{{cwd}}\<close>, which the daemon would replace
  inside the prompt.\<close>

theorem prompt_reaches_child:
  assumes "wf_hub x h" and "inj (x_uuid x)" and "i \<noteq> []" and "find_row t_id i (tasks h) = Some t" and "t_status t = QUEUED"
    and "fst (retryExcludedServerIds i h) = Inr ex"
    and "getDispatchCandidates x (t_workerType t) (t_serverId t) ex h = (Inr (c # others), h)" and "daemon_room h c \<noteq> []"
    and "t_input t = JObj kvs" and "map_of kvs ''prompt'' = Some (JStr p)"
    and "\<not> str_includes p ''{{input}}''" and "\<not> str_includes p ''{{cwd}}''"
    and "\<not> cfg_useShell config" and "cfg_commandTemplate config = DEFAULT_COMMAND_TEMPLATE"
    and "daemon_reachable spawn config d" and "dm_exit d = None" and "map_of (dm_runners d) i = None"
    and "plan = \<lparr>pl_shell = False, pl_command = ''codex'', pl_args = [''exec'', p]\<rparr>"
    and "daemon_step spawn config (HubSubmit (Some i) (Some (t_input t))) d = d'"
  shows "\<exists>h'. process x (dispatch_job i) h = (Inr (), h') \<and>
      daemonOut h' = daemonOut h @ map (\<lambda>s. (so_id s, TASK_SUBMIT i (t_input t))) (daemon_room h c) \<and>
    buildSpawnPlan (Some (t_input t)) config = Inr plan \<and>
    (case spawn plan (cfg_cwd config) of
       None \<Rightarrow> (\<exists>ob. has_child d' ob \<and> rn_taskId (runner_of d' ob) = i \<and> map_of (dm_runners d') i = Some ob) \<and>
         dm_sent d' @ dm_buffer d' = dm_sent d @ dm_buffer d @ [EmitStatus \<lparr>sp_taskId = i, sp_status = DS_RUNNING\<rparr>]
     | Some msg \<Rightarrow> map_of (dm_runners d') i = None \<and> (\<exists>r. dm_sent d' @ dm_buffer d' = dm_sent d @ dm_buffer d @ [EmitResult r] \<and>
         rp_taskId r = i \<and> rp_status r = RS_FAILED \<and> (\<exists>j. rp_result r = Some j \<and> getProp ''error'' j = Some (JStr (''spawn failed: '' @ msg)))))"
proof -
  have id: "t_id t = i" using find_row_SomeD [OF assms(4)] by simp
  have "t_workerType t = CODEX" "wc_serverId c \<in> s_id ` set (servers h)" using candidates_known [OF assms(7)] by simp_all
  note one = dispatch_one_online [OF assms(1,2) _ this assms(8), of t, unfolded id, OF assms(4)]
  have "dispatch_task x t h = (Inr (), snd (dispatch_one x t c h))"
    using dispatch_task_loop [OF id assms(6,7)] one by (simp add: bindE_apply ret_apply)
  then have "process x (dispatch_job i) h = (Inr (), snd (dispatch_one x t c h))"
    using process_dispatch_job [OF assms(3,4), of x] assms(5) by simp
  moreover have "daemonOut (snd (dispatch_one x t c h)) = daemonOut h @ map (\<lambda>s. (so_id s, TASK_SUBMIT i (t_input t))) (daemon_room h c)"
    using one by simp
  moreover have plan: "buildSpawnPlan (Some (t_input t)) config = Inr plan"
    using default_plan [OF assms(13,14,10) refl] assms(9,11,12,18) by simp
  moreover note submit_starts_child [OF assms(15,16,17,3) plan _ assms(19) [symmetric]] submit_spawn_fails [OF assms(15,16,17,3) plan _ assms(19) [symmetric]]
  ultimately show ?thesis by (cases "spawn plan (cfg_cwd config)") auto
qed

theorem prompt_reaches_child_witness:
  "\<exists>h'. process demo_ext (dispatch_job ''iiiiiii'') (demo_queued_hub\<lparr>daemonSockets := [Tasks.demo_daemon ''d1'' ''iii'']\<rparr>) = (Inr (), h') \<and>
      daemonOut h' = [(''d1'', TASK_SUBMIT ''iiiiiii'' (JObj [(''prompt'', JStr ''p'')]))] \<and>
    (\<exists>ob. has_child (daemon_step demo_spawn demo_config (HubSubmit (Some ''iiiiiii'') (Some (JObj [(''prompt'', JStr ''p'')])))
       (daemon_step demo_spawn demo_config SockConnect (boot (Inr demo_config)))) ob)"
proof -
  let ?h = "demo_queued_hub\<lparr>daemonSockets := [Tasks.demo_daemon ''d1'' ''iii'']\<rparr>" and ?t = "demo_task\<lparr>t_status := QUEUED\<rparr>"
  let ?d = "daemon_step demo_spawn demo_config SockConnect (boot (Inr demo_config))"
  have room: "daemon_room ?h demo_c1 = [Tasks.demo_daemon ''d1'' ''iii'']" "daemonOut ?h = []" "so_id (Tasks.demo_daemon ''d1'' ''iii'') = ''d1''"
    by (simp_all add: daemon_room_def in_room_def demo_c1_def demo_queued_hub_def demo_task_defs)
  have d: "daemon_reachable demo_spawn demo_config ?d" by (intro daemon_reachable.intros)
  have e: "dm_exit ?d = None" "map_of (dm_runners ?d) ''iiiiiii'' = None"
    by (simp_all add: daemon_step_def boot_def client_connect_def newDaemon_def on_connect_def flushBuffer_def)
  have input: "t_input ?t = JObj [(''prompt'', JStr ''p'')]" by (simp add: demo_task_def)
  have p: "\<not> str_includes ''p'' ''{{input}}''" "\<not> str_includes ''p'' ''{{cwd}}''" by code_simp+
  have "daemon_room ?h demo_c1 \<noteq> []" "''iiiiiii'' \<noteq> []" "map_of [(''prompt'', JStr ''p'')] ''prompt'' = Some (JStr ''p'')"
    "\<not> cfg_useShell demo_config" "cfg_commandTemplate demo_config = DEFAULT_COMMAND_TEMPLATE"
    using room(1) by (simp_all add: demo_config_def)
  from prompt_reaches_child [OF wf_demo_queued_hub demo_inj this(2) demo_queued_facts(1,2,3) demo_queued_facts(4) this(1) input this(3) p this(4,5)
      d e refl refl] room input
  show ?thesis by (auto simp: demo_spawn_def)
qed

text \<open>C3. A child's output from its pipe to the database: whatever chunks the running child of a task
  writes, and however often the daemon's connection is lost and made again between them or the
  heartbeat ticks, the messages the daemon emits for them, handled by the hub one after the other, extend
  the task's log by exactly the text written: nothing is lost, repeated or reordered, even where a
  chunk made the daemon ask for an approval.\<close>

theorem output_reaches_log:
  assumes "daemon_reachable spawn config d" and "dm_exit d = None" and "has_child d ob" and "rn_taskId (runner_of d ob) = i"
    and "\<forall>e \<in> set es. output_event ob e" and "fold (daemon_step spawn config) es d = d'"
    and "wf_hub x h" and "inj (x_uuid x)" and "find_row t_id i (tasks h) = Some t"
  shows "\<exists>ms t'. dm_sent d' @ dm_buffer d' = dm_sent d @ dm_buffer d @ ms \<and>
    find_row t_id i (tasks (deliver x so ms h)) = Some t' \<and> t_logs t' = t_logs t @ concat (map written es)"
proof -
  from output_steps [OF conjunct2 [OF daemon_reachable_ok [OF assms(1)]] assms(2-5)] assms(6) obtain ms where
    ms: "hubLink.transcript d' = hubLink.transcript d @ ms" "\<forall>m \<in> set ms. about_output i m"
      "concat (map chunk_of ms) = concat (map written es)" by blast
  have "has_log i (t_logs t) h" using assms(9) by (simp add: has_log_def)
  from deliver_output [OF assms(7,8) this ms(2), of so] ms show ?thesis
    by (intro exI [of _ ms]) (auto simp: has_log_def hubLink.transcript_def)
qed

theorem output_reaches_log_witness:
  "\<exists>ms t'. find_row t_id ''iiiiiii'' (tasks (deliver demo_ext ''d1'' ms demo_task_hub)) = Some t' \<and>
    t_logs t' = t_logs demo_task @ ''ab''"
proof -
  let ?d = "demo_running ''iiiiiii''" and ?es = "[ChildData 0 ''a'', SockDisconnect ''transport close'', ChildData 0 ''b'', SockConnect]"
  have d: "dm_exit ?d = None" "has_child ?d 0" "rn_taskId (runner_of ?d 0) = ''iiiiiii''"
    by (simp_all add: demo_running_eq has_child_def runner_of_def newRunner_def)
  have t: "find_row t_id ''iiiiiii'' (tasks demo_task_hub) = Some demo_task" by (rule demo_task_find(1))
  have "\<forall>e \<in> set ?es. output_event 0 e" by simp
  from output_reaches_log [OF demo_running_reachable d this refl wf_demo_task_hub demo_inj t, of "''d1''"] show ?thesis
    by auto
qed

text \<open>C4. A machine from the registration command to an online server. The hub serves its public routes at the
  address the command uses: it reads the request from the body the command sends, validates and stores
  it, and answers every poll by the identifier in the address and the secret in the query, from the
  state it is in, which has the request pending for the first polls and approved by its owner before
  it expires for a poll that starts in time. Then the command ends by writing the environment file;
  the key in it is the only one there, a daemon that starts with that file's values loads its
  configuration, and connecting with it puts a server of the approving owner online.\<close>

theorem machine_enrolled:
  assumes "wf_hub x h" and "inj (x_uuid x)" and "gcm_ok x" and "lengths_ok x" and "\<forall>i. line_ok (x_uuid x i)"
    and "\<not> ca_help (parseArgs argv)" and "input = register_input sha256 m (parseArgs argv)"
    and "show_osType os = ri_osType input" and "valid_create_reg v (input_dto input os)"
    and "line_ok (ri_hubUrl input)" and "trim (ri_hubUrl input) \<noteq> []"
    and "find_row u_email (ri_ownerEmail input) (users h) = Some owner"
    and "hashApiKey x (toHex (x_random x (draws h + 3) 32)) \<notin> s_apiKeyHash ` set (servers h)"
    and "reg_create x (input_dto input os) h = (Inr (p, sec), h1)" and "rw_post w = serve_post x v toISO (ri_hubUrl input) h"
    and "rw_getTime w (toISO (pr_expiresAt p)) = Some (pr_expiresAt p)"
    and "\<forall>i < n. c i \<le> pr_expiresAt p \<and> rw_poll w i = serve_poll x v toISO (ri_hubUrl input) (h1\<lparr>clock := c i\<rparr>)"
    and "t1 \<le> pr_expiresAt p" and "reg_decide x (u_id owner) (pr_id p) True (h1\<lparr>clock := t1\<rparr>) = (Inr q, h2)"
    and "rw_poll w n = serve_poll x v toISO (ri_hubUrl input) (h2\<lparr>clock := t2\<rparr>)" and "poll_time w 0 clk n < pr_expiresAt p"
    and "case file of None \<Rightarrow> True | Some text \<Rightarrow> char_of (13 :: nat) \<notin> set text"
  shows "\<exists>file' k (s :: server). register_main w sha256 m argv clk file = Inr (Some file') \<and>
    {env_assign (''HUB_URL'', ri_hubUrl input), env_assign (''API_KEY'', k), env_assign (''SERVER_ID'', s_id s)} \<subseteq> set (split_lines file') \<and>
    (\<forall>l \<in> set (split_lines file'). env_key l = Some ''API_KEY'' \<longrightarrow> l = env_assign (''API_KEY'', k)) \<and> s_ownerId s = u_id owner \<and>
    (\<forall>env. env ''HUB_URL'' = Some (ri_hubUrl input) \<and> env ''API_KEY'' = Some k \<longrightarrow>
      (\<exists>cfg h4 s'. load_config env cwd = Inr cfg \<and>
        daemon_connect x so (Some (cfg_apiKey cfg)) (snd (reg_getResult x (pr_id p) sec (h2\<lparr>clock := t2\<rparr>))) = (Inr (), h4) \<and>
        find_row s_id (s_id s) (servers h4) = Some s' \<and> s_status s' = ONLINE))"
proof -
  let ?url = "ri_hubUrl input"
  have email: "find_row u_email (crd_ownerEmail (input_dto input os)) (users h) = Some owner" using assms(12) by (simp add: input_dto_def)
  define k where "k = toHex (x_random x (draws h + 3) 32)"
  obtain r s d h3 where id: "pr_id p = rr_id r" "pr_expiresAt p = rr_expiresAt r"
    and r: "find_row rr_id (rr_id r) (regRequests h1) = Some r" "rr_status r = R_PENDING" "rr_requestSecretHash r = hashApiKey x sec" "sec \<noteq> []"
    and s: "k \<noteq> []" "s_ownerId s = u_id owner" and wf3: "wf_hub x h3" and key: "find (\<lambda>s. s_apiKeyHash s = hashApiKey x k) (servers h3) = Some s"
    and d: "reg_getResult x (rr_id r) sec (h2\<lparr>clock := t2\<rparr>) = (Inr d, h3)" "dr_status d = R_APPROVED" "dr_serverId d = Some (s_id s)" "dr_apiKey d = Some k"
    by (rule approved_in_time [OF assms(1-4) email k_def assms(13) [folded k_def] assms(14,18,19)])
  have "poll_answer (poll_call w ?url (pr_id p) sec (0 + i)) = None" if "i < n" for i
    using poll_pending [of r "h1\<lparr>clock := c i\<rparr>" x sec w i v toISO ?url] r assms(17) that by (simp add: id)
  moreover have "poll_call w ?url (pr_id p) sec (0 + n) = Inr (result_json toISO d)"
    using poll_served [OF _ assms(20), of "pr_id p" sec d] d(1) by (simp add: id)
  ultimately have poll: "pollResult w ?url (pr_id p) sec (pr_expiresAt p) 0 clk = Inr (result_json toISO d)"
    using assms(21) d(2,4) s(1) by (intro pollResult_delivers [where n = n]) (simp_all add: result_json_def truthy_def)
  have req: "createRequest w input = Inr (created_json toISO p sec)" by (rule request_served [OF assms(8,9,14,15)])
  have "s \<in> set (servers h3)" using key by (auto simp: find_Some_iff)
  then have line: "line_ok (s_id s)" using wf3 assms(5) by (fastforce simp: wf_defs ids_ok_def)
  obtain file' where file': "register_main w sha256 m argv clk file = Inr (Some file')"
    "{env_assign (''HUB_URL'', ri_hubUrl input), env_assign (''API_KEY'', k), env_assign (''SERVER_ID'', s_id s)} \<subseteq> set (split_lines file')"
    "\<forall>l \<in> set (split_lines file'). env_key l = Some ''API_KEY'' \<longrightarrow> l = env_assign (''API_KEY'', k)"
    using register_main_file [OF assms(6,7) req assms(16) poll d(4,3) assms(10) _ line assms(22)] hex_line(1) unfolding k_def by blast
  obtain h4 s' where on: "daemon_connect x so (Some k) h3 = (Inr (), h4)" "find_row s_id (s_id s) (servers h4) = Some s'" "s_status s' = ONLINE"
    using daemon_connect_online [OF wf3 s(1), of so] by (auto simp: key)
  have "\<exists>cfg h4 s'. load_config env cwd = Inr cfg \<and> daemon_connect x so (Some (cfg_apiKey cfg)) h3 = (Inr (), h4) \<and>
      find_row s_id (s_id s) (servers h4) = Some s' \<and> s_status s' = ONLINE"
    if env: "env ''HUB_URL'' = Some (ri_hubUrl input)" "env ''API_KEY'' = Some k" for env
  proof -
    obtain cfg where "load_config env cwd = Inr cfg" "cfg_apiKey cfg = k"
      using env assms(11) s(1) by (simp add: load_config_def required_def k_def hex_line(2))
    then show ?thesis using on by (intro exI [of _ cfg] exI [of _ h4] exI [of _ s']) simp
  qed
  note online = this
  show ?thesis unfolding id d(1) snd_conv
    by (rule exI [of _ file'], rule exI [of _ k], rule exI [of _ s], intro conjI allI impI)
      (rule file'(1), rule file'(2), rule file'(3), rule s(2), erule conjE, rule online)
qed

text \<open>A hub that is asked, approves at once and is polled.\<close>

theorem machine_enrolled_witness:
  "\<exists>w file' k. register_main w (\<lambda>s. ''digest'') demo_machine [] 1000 (Some ''A=1'') = Inr (Some file') \<and>
    env_assign (''API_KEY'', k) \<in> set (split_lines file')"
proof -
  let ?h = demo_user_hub and ?dto = "input_dto demo_input UBUNTU" and ?url = "ri_hubUrl demo_input"
  obtain owner where o: "find_row u_email (ri_ownerEmail demo_input) (users ?h) = Some owner"
    by (simp add: find_row_def demo_user_hub_def demo_input_facts)
  then have e: "find_row u_email (crd_ownerEmail ?dto) (users ?h) = Some owner" by (simp add: input_dto_def)
  have fresh: "hashApiKey demo_ext (toHex (x_random demo_ext (draws ?h + 3) 32)) \<notin> s_apiKeyHash ` set (servers ?h)"
    by (simp add: demo_user_hub_def demo_hub_def)
  have "1000 \<le> clock ?h + REQUEST_TTL_MS" by (simp add: demo_user_hub_def demo_hub_def REQUEST_TTL_MS_def)
  from registration_run [OF wf_demo_user_hub demo_inj demo_gcm_ok demo_lengths_ok e this fresh refl refl]
  obtain r sec h1 r' h2 where c: "reg_create demo_ext ?dto ?h = (Inr (reg_toPublic r, sec), h1)" "rr_expiresAt r = clock ?h + REQUEST_TTL_MS"
    and dec: "reg_decide demo_ext (u_id owner) (rr_id r) True (h1\<lparr>clock := 1000\<rparr>) = (Inr (reg_toPublic r'), h2)"
    by (elim exE conjE) (rule that; assumption)
  have ex: "1000 < rr_expiresAt r" "1000 + POLL_INTERVAL_MS < rr_expiresAt r"
    using c(2) by (simp_all add: demo_user_hub_def demo_hub_def REQUEST_TTL_MS_def POLL_INTERVAL_MS_def)
  define w where "w = \<lparr>rw_post = serve_post demo_ext demo_validators show_int ?url ?h,
    rw_poll = (\<lambda>n. serve_poll demo_ext demo_validators show_int ?url (if n = 0 then h1\<lparr>clock := 1000\<rparr> else h2\<lparr>clock := 2000\<rparr>)),
    rw_delay = (\<lambda>_. 0), rw_getTime = (\<lambda>_. Some (rr_expiresAt r))\<rparr>"
  have pub: "pr_id (reg_toPublic r) = rr_id r" "pr_expiresAt (reg_toPublic r) = rr_expiresAt r" by (simp_all add: reg_toPublic_def)
  have w: "rw_post w = serve_post demo_ext demo_validators show_int ?url ?h"
    "rw_getTime w (show_int (pr_expiresAt (reg_toPublic r))) = Some (pr_expiresAt (reg_toPublic r))"
    "\<forall>i < 1. 1000 \<le> pr_expiresAt (reg_toPublic r) \<and> rw_poll w i = serve_poll demo_ext demo_validators show_int ?url (h1\<lparr>clock := 1000\<rparr>)"
    "rw_poll w 1 = serve_poll demo_ext demo_validators show_int ?url (h2\<lparr>clock := 2000\<rparr>)"
    "poll_time w 0 1000 1 < pr_expiresAt (reg_toPublic r)" "1000 \<le> pr_expiresAt (reg_toPublic r)"
    using ex by (simp_all add: w_def pub)
  have f: "case Some ''A=1'' of None \<Rightarrow> True | Some text \<Rightarrow> char_of (13 :: nat) \<notin> set text" by code_simp
  from machine_enrolled [OF wf_demo_user_hub demo_inj demo_gcm_ok demo_lengths_ok demo_input_facts(7,6) demo_input_def demo_input_facts(1-4)
      o fresh c(1) w(1,2,3) w(6) dec [folded pub(1)] w(4,5) f] show ?thesis by blast
qed

end
